(* ===== verification/Prelude.thy ===== *)
theory Prelude
  imports Complex_Main "HOL-Library.Word"
begin

text \<open>
  What every component theory shares: the names of the C integer types, the undefined
  behaviours of C as error values and the sequencing of computations that may reach
  one, checked array accesses and checked signed arithmetic, C strings, and the
  little-endian layout of integers in memory.
\<close>

unbundle bit_operations_syntax

named_theorems cres_simps \<open>evaluation of computations that may reach undefined behaviour\<close>
named_theorems bytes_simps \<open>lengths and round trips of byte layouts\<close>

section \<open>C integer types\<close>

type_synonym u8 = "8 word"
type_synonym u16 = "16 word"
type_synonym u32 = "32 word"
type_synonym u64 = "64 word"

text \<open>A C \<open>int\<close> is a 32-bit word read through \<^const>\<open>sint\<close>.\<close>

type_synonym c_int = "32 word"

type_synonym bytes = "u8 list"

lemma unat_u8_less: "unat (x :: 8 word) < 2 ^ 8"
  by (rule order_less_le_trans [OF unsigned_less]) simp

lemma unat_u16_less: "unat (x :: 16 word) < 2 ^ 16"
  by (rule order_less_le_trans [OF unsigned_less]) simp

lemma unat_u32_less: "unat (x :: 32 word) < 2 ^ 32"
  by (rule order_less_le_trans [OF unsigned_less]) simp

lemma unat_u32_u64: "unat (ucast (x :: 32 word) :: 64 word) = unat x"
  using unat_u32_less [of x] by (simp add: unsigned_ucast_eq take_bit_nat_eq_self_iff)

section \<open>Undefined behaviour as an error value\<close>

datatype ub =
    SignedOverflow
  | OutOfBounds
  | UninitRead
  | NullDeref
  | InvalidFree

type_synonym 'a cres = "ub + 'a"

definition bindE :: "'e + 'a \<Rightarrow> ('a \<Rightarrow> 'e + 'b) \<Rightarrow> 'e + 'b" where
  "bindE m f = (case m of Inl e \<Rightarrow> Inl e | Inr x \<Rightarrow> f x)"

lemma bindE_Inl [simp, cres_simps]: "bindE (Inl e) f = Inl e"
  by (simp add: bindE_def)

lemma bindE_Inr [simp, cres_simps]: "bindE (Inr x) f = f x"
  by (simp add: bindE_def)

lemma bindE_eq_Inr: "bindE m f = Inr y \<longleftrightarrow> (\<exists>x. m = Inr x \<and> f x = Inr y)"
  by (cases m) auto

lemma bindE_eq_Inl: "bindE m f = Inl e \<longleftrightarrow> m = Inl e \<or> (\<exists>x. m = Inr x \<and> f x = Inl e)"
  by (cases m) auto

lemma bindE_assoc: "bindE (bindE m f) g = bindE m (\<lambda>x. bindE (f x) g)"
  by (cases m) auto

section \<open>Signed arithmetic\<close>

text \<open>\<open>x + y\<close> on \<open>int\<close>: undefined when the exact sum does not fit.\<close>

definition int_add :: "c_int \<Rightarrow> c_int \<Rightarrow> c_int cres" where
  "int_add x y =
     (if - (2 ^ 31) \<le> sint x + sint y \<and> sint x + sint y < 2 ^ 31 then Inr (x + y)
      else Inl SignedOverflow)"

definition int_max :: c_int where
  "int_max = 0x7FFFFFFF"

lemma sint_int_max: "sint int_max = 2 ^ 31 - 1"
  by (simp add: int_max_def)

lemma sint_word32_lower: "- (2 ^ 31) \<le> sint (x :: 32 word)"
  using sint_range_size [of x] by (simp add: word_size)

lemma sint_word32_upper: "sint (x :: 32 word) < 2 ^ 31"
  using sint_range_size [of x] by (simp add: word_size)

lemma sint_add32:
  fixes x y :: "32 word"
  assumes "- (2 ^ 31) \<le> sint x + sint y" and "sint x + sint y < 2 ^ 31"
  shows "sint (x + y) = sint x + sint y"
proof -
  have "sint (x + y) = signed_take_bit 31 (sint x + sint y)"
    by (simp add: signed_take_bit_eq_iff_take_bit_eq sint_word_ariths)
  also have "\<dots> = sint x + sint y"
    using assms by (simp add: signed_take_bit_int_eq_self_iff)
  finally show ?thesis .
qed

lemma int_add_Inr:
  "int_add x y = Inr z \<longleftrightarrow> z = x + y \<and> sint z = sint x + sint y"
proof
  assume "int_add x y = Inr z"
  then show "z = x + y \<and> sint z = sint x + sint y"
    by (auto simp: int_add_def sint_add32 split: if_splits)
next
  assume "z = x + y \<and> sint z = sint x + sint y"
  then show "int_add x y = Inr z"
    using sint_word32_lower [of z] sint_word32_upper [of z] by (auto simp: int_add_def)
qed

lemma int_inc_max: "int_add x 1 = Inl SignedOverflow \<longleftrightarrow> sint x = 2 ^ 31 - 1"
  using sint_word32_lower [of x] sint_word32_upper [of x] by (auto simp: int_add_def)

lemma int_inc_ok: "sint x < 2 ^ 31 - 1 \<Longrightarrow> int_add x 1 = Inr (x + 1)"
  using sint_word32_lower [of x] by (auto simp: int_add_def)

lemma int_inc_cases: "int_add x 1 = (if x = int_max then Inl SignedOverflow else Inr (x + 1))"
proof (cases "x = int_max")
  case True
  then show ?thesis by (simp add: int_add_def sint_int_max)
next
  case False
  then have "sint x \<noteq> sint int_max"
    by (auto dest: signed_word_eqI)
  then show ?thesis
    using False sint_word32_upper [of x] by (simp add: sint_int_max int_inc_ok)
qed

lemma sint_of_int32:
  "- (2 ^ 31) \<le> a \<Longrightarrow> a < 2 ^ 31 \<Longrightarrow> sint (word_of_int a :: 32 word) = a"
  by (simp add: signed_of_int signed_take_bit_int_eq_self)

text \<open>\<open>- x\<close> on \<open>int\<close>: undefined for the smallest value.\<close>

definition int_neg :: "c_int \<Rightarrow> c_int cres" where
  "int_neg x = (if sint x = - (2 ^ 31) then Inl SignedOverflow else Inr (- x))"

text \<open>On values in range, \<^const>\<open>int_add\<close> is addition of integers.\<close>

lemma int_add_of_int:
  assumes "- (2 ^ 31) \<le> a" "a < 2 ^ 31" "- (2 ^ 31) \<le> b" "b < 2 ^ 31"
    and "- (2 ^ 31) \<le> a + b" "a + b < 2 ^ 31"
  shows "int_add (word_of_int a) (word_of_int b) = Inr (word_of_int (a + b))"
  using assms by (simp add: int_add_def sint_of_int32)

section \<open>Checked arrays and C strings\<close>

definition arr_get :: "'a list \<Rightarrow> nat \<Rightarrow> 'a cres" where
  "arr_get xs i = (if i < length xs then Inr (xs ! i) else Inl OutOfBounds)"

definition arr_set :: "'a list \<Rightarrow> nat \<Rightarrow> 'a \<Rightarrow> 'a list cres" where
  "arr_set xs i v = (if i < length xs then Inr (xs[i := v]) else Inl OutOfBounds)"

lemma arr_get_ok [simp]: "i < length xs \<Longrightarrow> arr_get xs i = Inr (xs ! i)"
  by (simp add: arr_get_def)

lemma arr_get_Inl: "arr_get xs i = Inl e \<longleftrightarrow> e = OutOfBounds \<and> length xs \<le> i"
  by (auto simp: arr_get_def)

lemma arr_set_ok [simp]: "i < length xs \<Longrightarrow> arr_set xs i v = Inr (xs[i := v])"
  by (simp add: arr_set_def)

text \<open>Memory as a partial map from addresses to bytes; an access outside it is an error.\<close>

type_synonym memory = "u64 \<rightharpoonup> u8"

definition load_u8 :: "memory \<Rightarrow> u64 \<Rightarrow> u8 cres" where
  "load_u8 mem a = (case mem a of Some b \<Rightarrow> Inr b | None \<Rightarrow> Inl OutOfBounds)"

definition load_u16 :: "memory \<Rightarrow> u64 \<Rightarrow> u16 cres" where
  "load_u16 mem a =
     bindE (load_u8 mem a) (\<lambda>lo. bindE (load_u8 mem (a + 1)) (\<lambda>hi.
       Inr (ucast lo OR push_bit 8 (ucast hi))))"

lemma load_u8_Some [simp]: "mem a = Some b \<Longrightarrow> load_u8 mem a = Inr b"
  by (simp add: load_u8_def)

text \<open>
  The characters a \<open>%s\<close> conversion reads: everything up to the first NUL. Running off
  the end of the object is an out-of-bounds read.
\<close>

fun c_string :: "bytes \<Rightarrow> bytes cres" where
  "c_string [] = Inl OutOfBounds"
| "c_string (b # bs) = (if b = 0 then Inr [] else bindE (c_string bs) (\<lambda>s. Inr (b # s)))"

lemma c_string_nul: "0 \<in> set bs \<Longrightarrow> c_string bs = Inr (takeWhile (\<lambda>b. b \<noteq> 0) bs)"
  by (induction bs) auto

lemma c_string_no_nul: "0 \<notin> set bs \<Longrightarrow> c_string bs = Inl OutOfBounds"
  by (induction bs) auto

lemma c_string_Inr: "c_string bs = Inr s \<longleftrightarrow> 0 \<in> set bs \<and> s = takeWhile (\<lambda>b. b \<noteq> 0) bs"
  by (cases "0 \<in> set bs") (auto simp: c_string_nul c_string_no_nul)

definition str_bytes :: "string \<Rightarrow> bytes" where
  "str_bytes s = map of_char s"

lemma length_str_bytes [simp, bytes_simps]: "length (str_bytes s) = length s"
  by (simp add: str_bytes_def)

section \<open>Little-endian integers in memory\<close>

fun le_bytes :: "nat \<Rightarrow> 'a::len word \<Rightarrow> bytes" where
  "le_bytes 0 w = []"
| "le_bytes (Suc n) w = ucast w # le_bytes n (drop_bit 8 w)"

fun of_le :: "bytes \<Rightarrow> 'a::len word" where
  "of_le [] = 0"
| "of_le (b # bs) = ucast b OR push_bit 8 (of_le bs)"

lemma length_le_bytes [simp, bytes_simps]: "length (le_bytes n w) = n"
  by (induction n arbitrary: w) simp_all

lemma take_le_bytes: "take m (le_bytes n w) = le_bytes (min m n) w"
proof (induction n arbitrary: m w)
  case 0
  then show ?case by simp
next
  case (Suc n)
  then show ?case by (cases m) simp_all
qed

lemma ucast_byte_step:
  fixes w :: "'a::len word"
  shows "(ucast (ucast w :: 8 word) OR push_bit 8 (ucast (take_bit n (drop_bit 8 w))) :: 'b::len word)
    = ucast (take_bit (n + 8) w)"
  by (rule bit_word_eqI) (auto simp: bit_simps)

text \<open>Reading \<open>n\<close> bytes back gives the low \<open>8 * n\<close> bits, at whatever width they are read.\<close>

lemma of_le_le_bytes [bytes_simps]:
  fixes w :: "'a::len word"
  shows "(of_le (le_bytes n w) :: 'b::len word) = ucast (take_bit (8 * n) w)"
proof (induction n arbitrary: w)
  case 0
  then show ?case by simp
next
  case (Suc n)
  have "(of_le (le_bytes (Suc n) w) :: 'b word) =
      ucast (ucast w :: 8 word) OR push_bit 8 (ucast (take_bit (8 * n) (drop_bit 8 w)))"
    by (simp add: Suc.IH)
  also have "\<dots> = ucast (take_bit (8 * Suc n) w)"
    by (simp add: ucast_byte_step add.commute)
  finally show ?case .
qed

lemma of_le_u32 [simp, bytes_simps]: "of_le (le_bytes 4 (w :: 32 word)) = w"
  by (simp add: of_le_le_bytes take_bit_word_eq_self)

lemma of_le_u64 [simp, bytes_simps]: "of_le (le_bytes 8 (w :: 64 word)) = w"
  by (simp add: of_le_le_bytes take_bit_word_eq_self)

lemma le_bytes_low: "le_bytes 4 (w :: 64 word) = le_bytes 4 (ucast w :: 32 word)"
  by (simp add: numeral_eq_Suc, intro conjI; rule bit_word_eqI) (auto simp: bit_simps)

lemma of_le_low_u64: "of_le (le_bytes 4 (w :: 64 word)) = (ucast w :: 32 word)"
  by (rule bit_word_eqI) (auto simp: of_le_le_bytes bit_simps)

end
