(* ===== verification/Packet_Count.thy ===== *)
theory Packet_Count
  imports Prelude
begin

text \<open>
  The XDP packet counters: \<open>packet_count/packet_count.bpf.c\<close>,
  \<open>packet_count_float/packet_count.bpf.c\<close> and
  \<open>error_packet_count/error_packet_count.bpf.c\<close>, and the empty program of
  \<open>simple/simple.bpf.c\<close>. The three counters have one global \<open>counter\<close>, print it and
  increment it, and differ in what they return; the locale \<open>packet_program\<close> holds what
  they share.
\<close>

section \<open>XDP actions\<close>

datatype xdp_action = XDP_ABORTED | XDP_DROP | XDP_PASS | XDP_TX | XDP_REDIRECT

fun xdp_value :: "xdp_action \<Rightarrow> c_int" where
  "xdp_value XDP_ABORTED = 0"
| "xdp_value XDP_DROP = 1"
| "xdp_value XDP_PASS = 2"
| "xdp_value XDP_TX = 3"
| "xdp_value XDP_REDIRECT = 4"

lemma xdp_value_inj: "xdp_value a = xdp_value b \<Longrightarrow> a = b"
  by (cases a; cases b) simp_all

section \<open>State: the global counter and the trace pipe\<close>

text \<open>A \<open>bpf_printk\<close> call appends its format and its converted arguments to the trace pipe.\<close>

type_synonym trace = "(string \<times> int list) list"

record pkt_state =
  counter :: c_int
  trace_pipe :: trace

definition pkt_init :: pkt_state where
  "pkt_init = \<lparr>counter = 0, trace_pipe = []\<rparr>"

definition bpf_printk :: "string \<Rightarrow> int list \<Rightarrow> trace \<Rightarrow> trace" where
  "bpf_printk fmt args t = t @ [(fmt, args)]"

section \<open>The programs\<close>

definition packet_count :: "pkt_state \<Rightarrow> (c_int \<times> pkt_state) cres" where
  "packet_count s =
     (let s = s\<lparr>trace_pipe := bpf_printk ''%d'' [sint (counter s)] (trace_pipe s)\<rparr>
      in bindE (int_add (counter s) 1) (\<lambda>c.
         Inr (xdp_value XDP_PASS, s\<lparr>counter := c\<rparr>)))"

text \<open>The float version declares the result type \<open>float\<close> and returns the value \<open>2.0\<close>.\<close>

definition packet_count_float :: "pkt_state \<Rightarrow> (rat \<times> pkt_state) cres" where
  "packet_count_float s =
     (let s = s\<lparr>trace_pipe := bpf_printk ''%d'' [sint (counter s)] (trace_pipe s)\<rparr>
      in bindE (int_add (counter s) 1) (\<lambda>c.
         Inr (2, s\<lparr>counter := c\<rparr>)))"

text \<open>The erroneous version returns no value (\<open>void\<close>).\<close>

definition error_packet_count :: "pkt_state \<Rightarrow> (unit \<times> pkt_state) cres" where
  "error_packet_count s =
     (let s = s\<lparr>trace_pipe := bpf_printk ''%d'' [sint (counter s)] (trace_pipe s)\<rparr>
      in bindE (int_add (counter s) 1) (\<lambda>c.
         Inr ((), s\<lparr>counter := c\<rparr>)))"

definition simple :: c_int where
  "simple = 0"

text \<open>The hook calls its program once per packet.\<close>

fun run_packets :: "('s \<Rightarrow> ('r \<times> 's) cres) \<Rightarrow> nat \<Rightarrow> 's \<Rightarrow> ('r list \<times> 's) cres" where
  "run_packets prog 0 s = Inr ([], s)"
| "run_packets prog (Suc n) s =
     bindE (prog s) (\<lambda>(r, s'). bindE (run_packets prog n s') (\<lambda>(rs, s''). Inr (r # rs, s'')))"

section \<open>What the three programs share\<close>

definition after_packet :: "pkt_state \<Rightarrow> pkt_state" where
  "after_packet s = s\<lparr>counter := counter s + 1,
     trace_pipe := trace_pipe s @ [(''%d'', [sint (counter s)])]\<rparr>"

locale packet_program =
  fixes prog :: "pkt_state \<Rightarrow> ('r \<times> pkt_state) cres"
    and ret :: "'r"
  assumes overflow: "counter s = int_max \<Longrightarrow> prog s = Inl SignedOverflow"
    and step: "counter s \<noteq> int_max \<Longrightarrow> prog s = Inr (ret, after_packet s)"
begin

lemma step_sint:
  assumes "sint (counter s) < 2 ^ 31 - 1"
  shows "prog s = Inr (ret, after_packet s)"
    and "sint (counter (after_packet s)) = sint (counter s) + 1"
proof -
  from assms have "counter s \<noteq> int_max" by (auto simp: sint_int_max)
  then show "prog s = Inr (ret, after_packet s)" by (rule step)
  from int_inc_ok [OF assms] show "sint (counter (after_packet s)) = sint (counter s) + 1"
    by (simp add: int_add_Inr after_packet_def)
qed

lemma run:
  "sint (counter s) + int n \<le> 2 ^ 31 - 1 \<Longrightarrow>
   run_packets prog n s = Inr (replicate n ret,
     s\<lparr>counter := counter s + of_nat n,
       trace_pipe := trace_pipe s @ map (\<lambda>i. (''%d'', [sint (counter s) + int i])) [0..<n]\<rparr>)"
proof (induction n arbitrary: s)
  case 0
  then show ?case by simp
next
  case (Suc n)
  have lt: "sint (counter s) < 2 ^ 31 - 1" using Suc.prems by simp
  note st = step_sint [OF lt]
  have "sint (counter (after_packet s)) + int n \<le> 2 ^ 31 - 1"
    using Suc.prems st(2) by simp
  note ih = Suc.IH [OF this]
  have shift: "map (\<lambda>i. (''%d'', [sint (counter s) + int i])) [0..<Suc n] =
      (''%d'', [sint (counter s)]) # map (\<lambda>i. (''%d'', [sint (counter s) + 1 + int i])) [0..<n]"
    by (subst upt_conv_Cons, simp, subst map_Suc_upt [symmetric], simp add: comp_def)
  show ?case
    unfolding shift using st ih by (simp add: after_packet_def add_ac)
qed

lemma run_overflow:
  "2 ^ 31 - 1 < sint (counter s) + int n \<Longrightarrow> run_packets prog n s = Inl SignedOverflow"
proof (induction n arbitrary: s)
  case 0
  then show ?case using sint_word32_upper [of "counter s"] by simp
next
  case (Suc n)
  show ?case
  proof (cases "counter s = int_max")
    case True
    then show ?thesis by (simp add: overflow)
  next
    case False
    then have "sint (counter s) \<noteq> sint int_max" by (auto dest: signed_word_eqI)
    then have lt: "sint (counter s) < 2 ^ 31 - 1"
      using sint_word32_upper [of "counter s"] by (simp add: sint_int_max)
    note st = step_sint [OF lt]
    have "2 ^ 31 - 1 < sint (counter (after_packet s)) + int n"
      using Suc.prems st(2) by simp
    then show ?thesis using st(1) Suc.IH by simp
  qed
qed

end

lemmas packet_defs = packet_count_def packet_count_float_def error_packet_count_def
  bpf_printk_def after_packet_def int_inc_cases

interpretation pc: packet_program packet_count "xdp_value XDP_PASS"
  by unfold_locales (simp_all add: packet_defs)

interpretation pcf: packet_program packet_count_float 2
  by unfold_locales (simp_all add: packet_defs)

interpretation epc: packet_program error_packet_count "()"
  by unfold_locales (simp_all add: packet_defs)

section \<open>Properties\<close>

text \<open>C30: the counter of \<open>packet_count\<close>. Fewer than \<open>2 ^ 31\<close> packets after loading, every
  packet has been passed, the counter is the number of packets, and the trace pipe holds
  their numbers from 0 on; the packet after that overflows the \<open>int\<close>.\<close>

theorem packet_count_run:
  "run_packets packet_count n pkt_init =
     (if n < 2 ^ 31
      then Inr (replicate n (xdp_value XDP_PASS),
             \<lparr>counter = of_nat n, trace_pipe = map (\<lambda>i. (''%d'', [int i])) [0..<n]\<rparr>)
      else Inl SignedOverflow)"
proof (cases "n < 2 ^ 31")
  case True
  then have "sint (counter pkt_init) + int n \<le> 2 ^ 31 - 1" by (simp add: pkt_init_def)
  from pc.run [OF this] True show ?thesis by (simp add: pkt_init_def)
next
  case False
  then have "2 ^ 31 - 1 < sint (counter pkt_init) + int n" by (simp add: pkt_init_def)
  from pc.run_overflow [OF this] False show ?thesis by simp
qed

text \<open>The float and the void version count and print exactly as \<open>packet_count\<close> does, from
  every state and for every number of packets, and overflow with it; the float version
  returns \<open>2.0\<close> for every packet that \<open>packet_count\<close> passes.\<close>

lemma packet_count_variants:
  "bindE (run_packets packet_count_float n s) (\<lambda>(rs, s'). Inr (length rs, set rs \<subseteq> {2}, s')) =
   bindE (run_packets packet_count n s) (\<lambda>(rs, s'). Inr (length rs, set rs \<subseteq> {xdp_value XDP_PASS}, s'))
   \<and> bindE (run_packets error_packet_count n s) (\<lambda>(rs, s'). Inr (length rs, s')) =
     bindE (run_packets packet_count n s) (\<lambda>(rs, s'). Inr (length rs, s'))"
proof (cases "sint (counter s) + int n \<le> 2 ^ 31 - 1")
  case True
  then show ?thesis
    using pc.run [OF True] pcf.run [OF True] epc.run [OF True] by (simp add: set_replicate_conv_if)
next
  case False
  then show ?thesis
    using pc.run_overflow [of s n] pcf.run_overflow [of s n] epc.run_overflow [of s n] by simp
qed

end
