(* ===== verification/Hash_Map.thy ===== *)
theory Hash_Map
  imports Prelude "HOL-Library.AList"
begin

text \<open>
  BPF hash maps as the programs see them. The kernel's map is not in the repository, so
  the programs take its operations as an argument (a record \<open>map_ops\<close>), and the
  locales \<open>bpf_hash\<close> and \<open>bpf_hash_bounded\<close> state what
  \<open>bpf_helper_defs.h\<close> documents of \<open>bpf_map_lookup_elem\<close> and
  \<open>bpf_map_update_elem\<close>. A bounded association list with the documented behaviour of
  the flags, \<open>hmap\<close>, interprets both.
\<close>

section \<open>Operations and flags\<close>

record ('m, 'k, 'v) map_ops =
  map_lookup_elem :: "'m \<Rightarrow> 'k \<Rightarrow> 'v option"
  map_update_elem :: "'m \<Rightarrow> 'k \<Rightarrow> 'v \<Rightarrow> u64 \<Rightarrow> u64 \<times> 'm"

definition BPF_ANY :: u64 where "BPF_ANY = 0"
definition BPF_NOEXIST :: u64 where "BPF_NOEXIST = 1"
definition BPF_EXIST :: u64 where "BPF_EXIST = 2"

lemmas bpf_flags = BPF_ANY_def BPF_NOEXIST_def BPF_EXIST_def

section \<open>The documented contract\<close>

locale bpf_hash =
  fixes ops :: "('m, 'k, 'v) map_ops"
  assumes update_ok:
      "map_update_elem ops m k v BPF_ANY = (0, m') \<Longrightarrow>
       map_lookup_elem ops m' = (map_lookup_elem ops m)(k \<mapsto> v)"
    and update_err:
      "map_update_elem ops m k v fl = (e, m') \<Longrightarrow> e \<noteq> 0 \<Longrightarrow>
       map_lookup_elem ops m' = map_lookup_elem ops m"
begin

lemma lookup_update:
  "map_lookup_elem ops (snd (map_update_elem ops m k v BPF_ANY)) =
     (if fst (map_update_elem ops m k v BPF_ANY) = 0
      then (map_lookup_elem ops m)(k \<mapsto> v) else map_lookup_elem ops m)"
  using update_ok [of m k v "snd (map_update_elem ops m k v BPF_ANY)"]
    update_err [of m k v BPF_ANY "fst (map_update_elem ops m k v BPF_ANY)"
      "snd (map_update_elem ops m k v BPF_ANY)"]
  by (auto simp: prod_eq_iff)

lemma update_keeps:
  "map_lookup_elem ops m w \<noteq> None \<Longrightarrow>
   map_lookup_elem ops (snd (map_update_elem ops m k v BPF_ANY)) w \<noteq> None"
  by (auto simp: lookup_update)

end

text \<open>
  A map declared with \<open>max_entries\<close>: an update of a key it holds succeeds, and a new key
  is stored exactly when the map is not full. \<open>inv\<close> is the representation invariant.
\<close>

locale bpf_hash_bounded = bpf_hash ops for ops :: "('m, 'k, 'v) map_ops" +
  fixes cap :: "'m \<Rightarrow> nat" and inv :: "'m \<Rightarrow> bool"
  assumes finite_keys: "inv m \<Longrightarrow> finite (dom (map_lookup_elem ops m))"
    and update_room:
      "inv m \<Longrightarrow> fst (map_update_elem ops m k v BPF_ANY) = 0 \<longleftrightarrow>
         k \<in> dom (map_lookup_elem ops m) \<or> card (dom (map_lookup_elem ops m)) < cap m"
    and update_inv: "inv m \<Longrightarrow> inv (snd (map_update_elem ops m k v fl))"
    and update_cap: "cap (snd (map_update_elem ops m k v fl)) = cap m"

section \<open>Bounded hash maps\<close>

record ('k, 'v) hmap =
  max_entries :: nat
  entries :: "('k \<times> 'v) list"

definition hmap_new :: "nat \<Rightarrow> ('k, 'v) hmap" where
  "hmap_new n = \<lparr>max_entries = n, entries = []\<rparr>"

definition hmap_lookup :: "('k, 'v) hmap \<Rightarrow> 'k \<Rightarrow> 'v option" where
  "hmap_lookup m k = map_of (entries m) k"

text \<open>
  \<open>0\<close> on success, a negative error otherwise; the documentation does not say which
  negative error, and no program looks at it.
\<close>

definition map_error :: u64 where
  "map_error = -1"

definition hmap_update :: "('k, 'v) hmap \<Rightarrow> 'k \<Rightarrow> 'v \<Rightarrow> u64 \<Rightarrow> u64 \<times> ('k, 'v) hmap" where
  "hmap_update m k v fl =
     (case map_of (entries m) k of
        Some _ \<Rightarrow>
          if fl = BPF_ANY \<or> fl = BPF_EXIST
          then (0, m\<lparr>entries := AList.update k v (entries m)\<rparr>) else (map_error, m)
      | None \<Rightarrow>
          if (fl = BPF_ANY \<or> fl = BPF_NOEXIST) \<and> length (entries m) < max_entries m
          then (0, m\<lparr>entries := AList.update k v (entries m)\<rparr>) else (map_error, m))"

definition hmap_ops :: "(('k, 'v) hmap, 'k, 'v) map_ops" where
  "hmap_ops = \<lparr>map_lookup_elem = hmap_lookup, map_update_elem = hmap_update\<rparr>"

definition hmap_inv :: "('k, 'v) hmap \<Rightarrow> bool" where
  "hmap_inv m \<longleftrightarrow> distinct (map fst (entries m)) \<and> length (entries m) \<le> max_entries m"

lemma hmap_new_inv [simp, intro]: "hmap_inv (hmap_new n)"
  by (simp add: hmap_inv_def hmap_new_def)

lemma hmap_lookup_new [simp]: "hmap_lookup (hmap_new n) = Map.empty"
  by (simp add: hmap_lookup_def hmap_new_def fun_eq_iff)

lemma map_error_nonzero [simp]: "map_error \<noteq> 0"
  by (simp add: map_error_def)

lemma hmap_update_ok:
  "hmap_update m k v fl = (0, m') \<Longrightarrow> hmap_lookup m' = (hmap_lookup m)(k \<mapsto> v)"
  by (auto simp: hmap_update_def hmap_lookup_def fun_eq_iff update_conv
      split: option.splits if_splits)

lemma hmap_update_err: "hmap_update m k v fl = (e, m') \<Longrightarrow> e \<noteq> 0 \<Longrightarrow> m' = m"
  by (auto simp: hmap_update_def split: option.splits if_splits)

lemma length_AList_update:
  "length (AList.update k v xs) = (if k \<in> fst ` set xs then length xs else Suc (length xs))"
  by (induction xs) auto

lemma hmap_lookup_map_of: "hmap_lookup m = map_of (entries m)"
  by (simp add: hmap_lookup_def fun_eq_iff)

lemma hmap_card_dom:
  assumes "hmap_inv m"
  shows "card (dom (hmap_lookup m)) = length (entries m)"
proof -
  have "card (set (map fst (entries m))) = length (map fst (entries m))"
    using assms by (intro distinct_card) (simp add: hmap_inv_def)
  then show ?thesis
    by (simp add: hmap_lookup_map_of dom_map_of_conv_image_fst)
qed

lemma hmap_update_inv:
  assumes "hmap_inv m"
  shows "hmap_inv (snd (hmap_update m k v fl))"
proof (cases "map_of (entries m) k")
  case None
  then show ?thesis
    using assms by (auto simp: hmap_update_def hmap_inv_def distinct_update length_AList_update)
next
  case (Some w)
  then have "k \<in> fst ` set (entries m)" by (force dest: map_of_SomeD)
  with Some show ?thesis
    using assms by (auto simp: hmap_update_def hmap_inv_def distinct_update length_AList_update)
qed

lemma hmap_update_max [simp]: "max_entries (snd (hmap_update m k v fl)) = max_entries m"
  by (simp add: hmap_update_def split: option.splits)

interpretation hm: bpf_hash hmap_ops
  by unfold_locales (simp_all add: hmap_ops_def hmap_update_ok, metis hmap_update_err)

interpretation hmb: bpf_hash_bounded hmap_ops max_entries hmap_inv
proof unfold_locales
  fix m :: "('k, 'v) hmap" and k v fl
  show "hmap_inv m \<Longrightarrow> finite (dom (map_lookup_elem hmap_ops m))"
    by (simp add: hmap_ops_def hmap_lookup_map_of finite_dom_map_of)
  show "hmap_inv m \<Longrightarrow> (fst (map_update_elem hmap_ops m k v BPF_ANY) = 0) =
      (k \<in> dom (map_lookup_elem hmap_ops m) \<or>
       card (dom (map_lookup_elem hmap_ops m)) < max_entries m)"
    by (simp add: hmap_ops_def hmap_card_dom)
       (auto simp: hmap_update_def hmap_lookup_def split: option.splits)
  show "hmap_inv m \<Longrightarrow> hmap_inv (snd (map_update_elem hmap_ops m k v fl))"
    by (simp add: hmap_ops_def hmap_update_inv)
  show "max_entries (snd (map_update_elem hmap_ops m k v fl)) = max_entries m"
    by (simp add: hmap_ops_def)
qed

end
