(* ===== verification/Uid_Count.thy ===== *)
theory Uid_Count
  imports Hash_Map
begin

text \<open>
  The per-user counters of program executions: the \<open>hello\<close> programs of
  \<open>bpf_maps\<close> and \<open>bpf_maps_dup\<close>, and the user-space rendering of the same
  update in \<open>bpf_maps_helper.c\<close>. One run of the program handles one \<open>execve\<close> event; what
  \<open>bpf_get_current_uid_gid\<close> returns for it is an argument.
\<close>

section \<open>The programs\<close>

text \<open>The maps as declared: type hash, \<open>max_entries\<close>, 64-bit keys and values.\<close>

definition counter_table :: "(u64, u64) hmap" where
  "counter_table = hmap_new 5000000"

definition counter_table_dup :: "(u64, u64) hmap" where
  "counter_table_dup = hmap_new 5000000"

definition hello :: "('m, u64, u64) map_ops \<Rightarrow> u64 \<Rightarrow> 'm \<Rightarrow> c_int \<times> 'm" where
  "hello ops uid_gid m =
     (let counter = 0;
          uid = uid_gid AND 0xFFFFFFFF;
          p = map_lookup_elem ops m uid;
          counter = (case p of Some v \<Rightarrow> v | None \<Rightarrow> counter);
          counter = counter + 1;
          (_, m) = map_update_elem ops m uid counter 0
      in (0, m))"

text \<open>In \<open>bpf_maps_dup\<close>, \<open>uid\<close> is a global variable of the program.\<close>

record 'm dup_state =
  g_uid :: u64
  table :: 'm

definition hello_dup :: "('m, u64, u64) map_ops \<Rightarrow> u64 \<Rightarrow> 'm dup_state \<Rightarrow> c_int \<times> 'm dup_state" where
  "hello_dup ops uid_gid s =
     (let counter = 0;
          s = s\<lparr>g_uid := uid_gid AND 0xFFFFFFFF\<rparr>;
          p = map_lookup_elem ops (table s) (g_uid s);
          counter = (case p of Some v \<Rightarrow> v | None \<Rightarrow> counter);
          counter = counter + 1;
          (_, m) = map_update_elem ops (table s) (g_uid s) counter 0
      in (0, s\<lparr>table := m\<rparr>))"

text \<open>
  The user-space \<open>main\<close>: \<open>create\<close> is \<open>bpf_create_map\<close>, \<open>ops\<close> gives the map operations
  on a descriptor, \<open>getuid\<close> the value of \<open>getuid()\<close>.
\<close>

datatype out =
    Perror string
  | Printf string "u64 list"

definition updated_format :: string where
  "updated_format = ''Updated counter for UID %lu to %lu'' @ [CHR 0x0A]"

definition BPF_MAP_TYPE_HASH :: u32 where "BPF_MAP_TYPE_HASH = 1"

definition helper_main ::
  "(u32 \<Rightarrow> u32 \<Rightarrow> u32 \<Rightarrow> u32 \<Rightarrow> u32 \<Rightarrow> c_int) \<Rightarrow> (c_int \<Rightarrow> ('m, u64, u64) map_ops) \<Rightarrow> u32 \<Rightarrow> 'm
     \<Rightarrow> c_int \<times> out list \<times> 'm" where
  "helper_main create ops getuid m =
     (let map_fd = create BPF_MAP_TYPE_HASH 8 8 5000000 0
      in if sint map_fd < 0 then (1, [Perror ''bpf_create_map failed''], m)
         else
           let uid = ucast getuid;
               counter = 0;
               lookup_result = map_lookup_elem (ops map_fd) m uid;
               counter = (case lookup_result of Some v \<Rightarrow> v | None \<Rightarrow> counter);
               counter = counter + 1;
               (r, m) = map_update_elem (ops map_fd) m uid counter 0
           in if r \<noteq> 0 then (1, [Perror ''bpf_map_update_elem failed''], m)
              else (0, [Printf updated_format [uid, counter]], m))"

section \<open>The user id\<close>

text \<open>The mask keeps the low half of the helper's result, which is the user id.\<close>

definition uid_of :: "u64 \<Rightarrow> u64" where
  "uid_of uid_gid = uid_gid AND 0xFFFFFFFF"

lemma uid_of_eq: "uid_of w = take_bit 32 w"
proof -
  have "(0xFFFFFFFF :: u64) = mask 32" by (simp add: mask_eq_exp_minus_1)
  then show ?thesis by (simp add: uid_of_def take_bit_eq_mask)
qed

lemma uid_of_ucast: "uid_of w = ucast (ucast w :: u32)"
  by (rule bit_word_eqI) (simp add: uid_of_eq bit_simps)

lemma uid_of_shift: "uid_of w = drop_bit 32 (push_bit 32 w)"
  by (rule bit_word_eqI) (auto simp: uid_of_eq bit_simps)

section \<open>One event\<close>

definition bump :: "(u64 \<rightharpoonup> u64) \<Rightarrow> u64 \<Rightarrow> (u64 \<rightharpoonup> u64)" where
  "bump t u = t(u \<mapsto> (case t u of Some v \<Rightarrow> v + 1 | None \<Rightarrow> 1))"

lemmas hello_defs = hello_def hello_dup_def uid_of_def BPF_ANY_def Let_def case_prod_beta

lemma hello_update:
  "hello ops e m = (0, snd (map_update_elem ops m (uid_of e)
     (case map_lookup_elem ops m (uid_of e) of Some v \<Rightarrow> v + 1 | None \<Rightarrow> 1) BPF_ANY))"
  by (simp add: hello_defs split: option.splits)

lemma hello_dup_hello:
  "hello_dup ops e s = (0, s\<lparr>g_uid := uid_of e, table := snd (hello ops e (table s))\<rparr>)"
  by (simp add: hello_defs)

locale uid_hash = bpf_hash ops for ops :: "('m, u64, u64) map_ops"
begin

lemma hello_lookup:
  "map_lookup_elem ops (snd (hello ops e m)) =
     (if fst (map_update_elem ops m (uid_of e)
           (case map_lookup_elem ops m (uid_of e) of Some v \<Rightarrow> v + 1 | None \<Rightarrow> 1) BPF_ANY) = 0
      then bump (map_lookup_elem ops m) (uid_of e) else map_lookup_elem ops m)"
  by (simp add: hello_update lookup_update bump_def)

end

locale uid_hash_bounded = uid_hash ops + bpf_hash_bounded ops cap inv
  for ops :: "('m, u64, u64) map_ops" and cap :: "'m \<Rightarrow> nat" and inv :: "'m \<Rightarrow> bool"
begin

lemma hello_inv: "inv m \<Longrightarrow> inv (snd (hello ops e m))"
  by (simp add: hello_update update_inv)

lemma hello_cap: "cap (snd (hello ops e m)) = cap m"
  by (simp add: hello_update update_cap)

lemma hello_lookup_bounded:
  "inv m \<Longrightarrow> map_lookup_elem ops (snd (hello ops e m)) =
     (if uid_of e \<in> dom (map_lookup_elem ops m) \<or> card (dom (map_lookup_elem ops m)) < cap m
      then bump (map_lookup_elem ops m) (uid_of e) else map_lookup_elem ops m)"
  by (simp only: hello_lookup update_room)

end

section \<open>A sequence of events\<close>

fun run_events :: "('e \<Rightarrow> 's \<Rightarrow> 'r \<times> 's) \<Rightarrow> 'e list \<Rightarrow> 's \<Rightarrow> 's" where
  "run_events prog [] s = s"
| "run_events prog (e # es) s = run_events prog es (snd (prog e s))"

lemma run_events_append [simp]:
  "run_events prog (xs @ ys) s = run_events prog ys (run_events prog xs s)"
  by (induction xs arbitrary: s) simp_all

text \<open>The keys a map of the given capacity admits: the first ones to arrive.\<close>

definition admit :: "nat \<Rightarrow> 'k list \<Rightarrow> 'k \<Rightarrow> 'k list" where
  "admit n ks k = (if k \<in> set ks \<or> n \<le> length ks then ks else ks @ [k])"

definition tracked :: "nat \<Rightarrow> 'k list \<Rightarrow> 'k list" where
  "tracked n ks = foldl (admit n) [] ks"

lemma tracked_Nil [simp]: "tracked n [] = []"
  by (simp add: tracked_def)

lemma tracked_snoc [simp]: "tracked n (ks @ [k]) = admit n (tracked n ks) k"
  by (simp add: tracked_def)

lemma tracked_distinct: "distinct (tracked n ks)"
  by (induction ks rule: rev_induct) (auto simp: admit_def)

lemma tracked_card: "card (set (tracked n ks)) = length (tracked n ks)"
  by (simp add: distinct_card tracked_distinct)

lemma tracked_subset: "set (tracked n ks) \<subseteq> set ks"
  by (induction ks rule: rev_induct) (auto simp: admit_def)

lemma tracked_length: "length (tracked n ks) \<le> n"
  by (induction ks rule: rev_induct) (auto simp: admit_def)

lemma tracked_room: "length (tracked n ks) < n \<Longrightarrow> set (tracked n ks) = set ks"
  by (induction ks rule: rev_induct) (auto simp: admit_def split: if_splits)

lemma tracked_all: "card (set ks) \<le> n \<Longrightarrow> set (tracked n ks) = set ks"
proof (cases "length (tracked n ks) < n")
  case True
  then show ?thesis by (rule tracked_room)
next
  case False
  assume "card (set ks) \<le> n"
  with False have "card (set ks) \<le> card (set (tracked n ks))"
    using tracked_length [of n ks] tracked_distinct [of n ks] by (simp add: distinct_card)
  then show ?thesis by (intro card_seteq tracked_subset) auto
qed

text \<open>What the map holds after the events: the count of every admitted user id.\<close>

definition counts :: "nat \<Rightarrow> u64 list \<Rightarrow> (u64 \<rightharpoonup> u64)" where
  "counts n us = (\<lambda>u. if u \<in> set (tracked n us) then Some (of_nat (count_list us u)) else None)"

lemma counts_dom: "dom (counts n us) = set (tracked n us)"
  by (auto simp: counts_def dom_def)

lemma count_list_snoc: "count_list (xs @ [x]) y = count_list xs y + (if x = y then 1 else 0)"
  by simp

lemma counts_bump:
  assumes "u \<in> set (tracked n us) \<or> length (tracked n us) < n"
  shows "counts n (us @ [u]) = bump (counts n us) u"
proof
  fix w
  have "u \<notin> set (tracked n us) \<Longrightarrow> count_list us u = 0"
    using assms tracked_room [of n us] by (auto simp: count_list_0_iff)
  then show "counts n (us @ [u]) w = bump (counts n us) u w"
    using assms by (auto simp: counts_def bump_def admit_def)
qed

lemma counts_full:
  assumes "u \<notin> set (tracked n us)" and "n \<le> length (tracked n us)"
  shows "counts n (us @ [u]) = counts n us"
  using assms by (auto simp: counts_def admit_def fun_eq_iff)

context uid_hash_bounded
begin

lemma run_hello:
  assumes "inv m" and "map_lookup_elem ops m = Map.empty"
  shows "map_lookup_elem ops (run_events (hello ops) es m) = counts (cap m) (map uid_of es)
       \<and> inv (run_events (hello ops) es m) \<and> cap (run_events (hello ops) es m) = cap m"
proof (induction es rule: rev_induct)
  case Nil
  show ?case using assms by (simp add: counts_def fun_eq_iff)
next
  case (snoc e es)
  let ?m = "run_events (hello ops) es m" and ?us = "map uid_of es"
  have inv: "inv ?m" and cap: "cap ?m = cap m"
    and lk: "map_lookup_elem ops ?m = counts (cap m) ?us"
    using snoc.IH by auto
  have "map_lookup_elem ops (snd (hello ops e ?m)) = counts (cap m) (?us @ [uid_of e])"
  proof (cases "uid_of e \<in> set (tracked (cap m) ?us) \<or> length (tracked (cap m) ?us) < cap m")
    case True
    then show ?thesis
      using hello_lookup_bounded [OF inv, of e] by (simp only: lk cap counts_dom tracked_card counts_bump if_True)
  next
    case False
    then show ?thesis
      using hello_lookup_bounded [OF inv, of e]
      by (simp only: lk cap counts_dom tracked_card if_False) (simp add: counts_full)
  qed
  then show ?case
    using hello_inv [OF inv] hello_cap [of e ?m] cap by simp
qed

end

interpretation uh: uid_hash_bounded hmap_ops max_entries hmap_inv
  by unfold_locales

section \<open>Properties\<close>

text \<open>One event of \<open>hello\<close>. Whatever the map does, the program returns 0; the entry of the
  event's user is incremented (or created with 1) exactly when the helper reports success,
  and otherwise the event leaves no trace: the error is ignored.\<close>

lemma hello_event:
  assumes "uid_hash ops"
  shows "fst (hello ops e m) = 0 \<and>
    map_lookup_elem ops (snd (hello ops e m)) =
      (let t = map_lookup_elem ops m; u = ucast (ucast e :: u32);
           n = (case t u of Some v \<Rightarrow> v + 1 | None \<Rightarrow> 1)
       in if fst (map_update_elem ops m u n BPF_ANY) = 0 then t(u \<mapsto> n) else t)"
  using uid_hash.hello_lookup [OF assms, of e m]
  by (simp add: hello_update bump_def Let_def uid_of_ucast)

lemma hello_event_instance:
  "map_lookup_elem hmap_ops (snd (hello hmap_ops 0x3E8000001F5 counter_table)) 0x1F5 = Some 1"
  using conjunct2 [OF hello_event [OF uh.uid_hash_axioms, of "0x3E8000001F5" counter_table]]
  by (simp add: Let_def hmap_ops_def hmap_update_def hmap_lookup_def counter_table_def hmap_new_def
      BPF_ANY_def)

text \<open>C11: what the map of \<open>hello\<close> holds after any sequence of events, for any map with the
  documented behaviour and capacity \<open>cap m\<close> that starts empty: each user among the first
  \<open>cap m\<close> distinct ones has its exact number of events (modulo 2^64), and the others, whose
  updates are refused, have no entry.\<close>

theorem hello_counts:
  assumes "uid_hash_bounded ops cap ok" and "ok m" and "map_lookup_elem ops m = Map.empty"
  shows "map_lookup_elem ops (run_events (hello ops) es m) u =
    (let us = map (\<lambda>e. e AND 0xFFFFFFFF) es
     in if u \<in> set (tracked (cap m) us) then Some (of_nat (count_list us u)) else None)"
proof -
  have "(\<lambda>e. e AND 0xFFFFFFFF) = uid_of" by (simp add: uid_of_def fun_eq_iff)
  then show ?thesis
    using uid_hash_bounded.run_hello [OF assms, of es] by (simp only: counts_def Let_def)
qed

theorem hello_counts_witness:
  "map_lookup_elem hmap_ops
     (run_events (hello hmap_ops) [0x100000001, 2, 0x200000001] (hmap_new 1)) 1 = Some 2 \<and>
   map_lookup_elem hmap_ops
     (run_events (hello hmap_ops) [0x100000001, 2, 0x200000001] (hmap_new 1)) 2 = None"
proof -
  have e: "map_lookup_elem hmap_ops (hmap_new 1 :: (u64, u64) hmap) = Map.empty"
    by (simp add: hmap_ops_def)
  note c = hello_counts [OF uh.uid_hash_bounded_axioms hmap_new_inv e]
  show ?thesis unfolding c by (simp add: tracked_def admit_def hmap_new_def)
qed

text \<open>With the declared capacity of five million entries, no event of at most five million
  different users is lost.\<close>

lemma hello_counter_table:
  assumes "card (set (map uid_of es)) \<le> 5000000"
  shows "hmap_lookup (run_events (hello hmap_ops) es counter_table) u =
    (if count_list (map uid_of es) u = 0 then None else Some (of_nat (count_list (map uid_of es) u)))"
proof -
  have "hmap_lookup counter_table = Map.empty" "hmap_inv counter_table"
    by (simp_all add: counter_table_def)
  then have "hmap_lookup (run_events (hello hmap_ops) es counter_table) =
      counts (max_entries counter_table) (map uid_of es)"
    using uh.run_hello [of counter_table es] by (simp add: hmap_ops_def)
  moreover have "set (tracked (max_entries counter_table) (map uid_of es)) = set (map uid_of es)"
    using assms by (intro tracked_all) (simp add: counter_table_def hmap_new_def)
  ultimately show ?thesis by (simp add: counts_def count_list_0_iff)
qed

lemma hello_counter_table_instance:
  "hmap_lookup (run_events (hello hmap_ops) [7, 0x500000007] counter_table) 7 = Some 2"
proof -
  have "card (set (map uid_of [7, 0x500000007])) \<le> 5000000"
    by (simp add: uid_of_def)
  from hello_counter_table [OF this, of 7] show ?thesis by (simp add: uid_of_def)
qed

text \<open>Run one event after the other, the program with the global \<open>uid\<close> computes the map that
  \<open>hello\<close> computes; the global holds the last user.\<close>

lemma hello_dup_sequential:
  "table (run_events (hello_dup ops) es s) = run_events (hello ops) es (table s) \<and>
   g_uid (run_events (hello_dup ops) es s) = (if es = [] then g_uid s else uid_of (last es))"
  by (induction es arbitrary: s) (simp_all add: hello_dup_hello)

text \<open>C34: the user-space program, when the map is created and its update succeeds, does to the
  map what \<open>hello\<close> does for an event of the same user, prints the number now stored, and
  exits with 0; when the update fails it reports the error, leaves the entries as they were
  and exits with 1.\<close>

theorem helper_main_result:
  assumes "uid_hash (ops fd)" and "0 \<le> sint fd" and "ucast e = getuid"
    and "create BPF_MAP_TYPE_HASH 8 8 5000000 0 = fd"
  shows "\<exists>out m'. helper_main create ops getuid m =
      (if map_lookup_elem (ops fd) m' = bump (map_lookup_elem (ops fd) m) (ucast getuid)
       then 0 else 1, out, m') \<and> m' = snd (hello (ops fd) e m) \<and>
    out = (if map_lookup_elem (ops fd) m' = bump (map_lookup_elem (ops fd) m) (ucast getuid)
           then [Printf updated_format
                   [ucast getuid, the (map_lookup_elem (ops fd) m' (ucast getuid))]]
           else [Perror ''bpf_map_update_elem failed''])"
proof -
  let ?t = "map_lookup_elem (ops fd) m" and ?u = "ucast getuid :: u64"
  have u: "uid_of e = ?u" using assms(3) by (simp add: uid_of_ucast)
  have ne: "bump ?t ?u \<noteq> ?t"
    by (auto simp: bump_def fun_eq_iff split: option.splits intro!: exI [of _ ?u])
  have lk: "map_lookup_elem (ops fd) (snd (hello (ops fd) e m)) =
      (if fst (map_update_elem (ops fd) m ?u (case ?t ?u of Some v \<Rightarrow> v + 1 | None \<Rightarrow> 1) BPF_ANY) = 0
       then bump ?t ?u else ?t)"
    using uid_hash.hello_lookup [OF assms(1), of e m] by (simp only: u)
  show ?thesis
    using assms(2,4) ne lk
    by (cases "?t ?u")
       (auto simp: helper_main_def hello_update u Let_def BPF_ANY_def case_prod_beta bump_def)
qed

theorem helper_main_result_witness:
  "\<exists>out m'. helper_main (\<lambda>_ _ _ _ _. 3) (\<lambda>_. hmap_ops) 501 counter_table = (0, out, m')"
proof -
  have "\<exists>out m'. helper_main (\<lambda>_ _ _ _ _. 3) (\<lambda>_. hmap_ops) 501 counter_table =
      (if map_lookup_elem hmap_ops m' = bump (map_lookup_elem hmap_ops counter_table) (ucast (501 :: u32))
       then 0 else 1, out, m') \<and> m' = snd (hello hmap_ops 501 counter_table) \<and>
    out = (if map_lookup_elem hmap_ops m' = bump (map_lookup_elem hmap_ops counter_table) (ucast (501 :: u32))
           then [Printf updated_format
                   [ucast (501 :: u32), the (map_lookup_elem hmap_ops m' (ucast (501 :: u32)))]]
           else [Perror ''bpf_map_update_elem failed''])"
    by (rule helper_main_result [where fd = 3 and ops = "\<lambda>_. hmap_ops" and e = 501])
       (simp_all add: uh.uid_hash_axioms)
  moreover have "map_lookup_elem hmap_ops (snd (hello hmap_ops 501 counter_table)) =
      bump (map_lookup_elem hmap_ops counter_table) (ucast (501 :: u32))"
    by (simp add: hello_def bump_def hmap_ops_def hmap_update_def hmap_lookup_def counter_table_def
        hmap_new_def BPF_ANY_def Let_def fun_eq_iff)
  ultimately show ?thesis by auto
qed

end
