(* ===== verification/Map_Elements.thy ===== *)
theory Map_Elements
  imports Hash_Map
begin

text \<open>
  Hash maps with elements: \<open>bpf_map_lookup_elem\<close> returns a pointer to the value of an element, which
  the program may read later, when others have updated the map. The contract \<open>map_elements\<close> says
  when it still finds the value there. Two maps meet it: one that updates elements in place, and a
  pool that stores a new value in another element and uses the old one again.
\<close>

section \<open>The contract\<close>

record ('m, 'k, 'v, 'p) map_elems =
  find_elem :: "'m \<Rightarrow> 'k \<Rightarrow> 'p option"
  read_elem :: "'m \<Rightarrow> 'p \<Rightarrow> 'v option"

text \<open>
  A lookup finds the element that holds the value. An update does not move the elements of other keys,
  and writes no element but the one that its key has afterwards. Nothing is said of what becomes of
  an element that its key has left: it keeps its bytes until it is used again, for any key.
\<close>

locale map_elements = bpf_hash ops for ops :: "('m, 'k, 'v) map_ops" +
  fixes els :: "('m, 'k, 'v, 'p) map_elems"
  assumes lookup_elem: "map_lookup_elem ops m k = Option.bind (find_elem els m k) (read_elem els m)"
    and found_readable: "find_elem els m k = Some p \<Longrightarrow> read_elem els m p \<noteq> None"
    and update_find: "k' \<noteq> k \<Longrightarrow> find_elem els (snd (map_update_elem ops m k v fl)) k' = find_elem els m k'"
    and update_read: "find_elem els (snd (map_update_elem ops m k v fl)) k \<noteq> Some p \<Longrightarrow>
       read_elem els (snd (map_update_elem ops m k v fl)) p = read_elem els m p"
begin

lemma found_value: "find_elem els m k = Some p \<Longrightarrow> read_elem els m p = map_lookup_elem ops m k"
  by (simp add: lookup_elem)

lemma found_lookup: "find_elem els m k = None \<longleftrightarrow> map_lookup_elem ops m k = None"
  using found_readable [of m k] by (cases "find_elem els m k") (auto simp: lookup_elem)

lemma readable_stays:
  "read_elem els m p \<noteq> None \<Longrightarrow> read_elem els (snd (map_update_elem ops m k v fl)) p \<noteq> None"
  using found_readable [of "snd (map_update_elem ops m k v fl)" k p] update_read [of m k v fl p] by metis

end

section \<open>Elements updated in place\<close>

text \<open>The pointer to the element of a key is the key.\<close>

definition in_place :: "(('k, 'v) hmap, 'k, 'v, 'k) map_elems" where
  "in_place = \<lparr>find_elem = (\<lambda>m k. if hmap_lookup m k = None then None else Some k), read_elem = hmap_lookup\<rparr>"

lemma hmap_update_other: "k' \<noteq> k \<Longrightarrow> hmap_lookup (snd (hmap_update m k v fl)) k' = hmap_lookup m k'"
  by (auto simp: hmap_update_def hmap_lookup_def update_conv split: option.splits)

lemma hmap_update_found:
  "hmap_lookup (snd (hmap_update m k v fl)) k = None \<Longrightarrow> hmap_lookup m k = None"
  by (auto simp: hmap_update_def hmap_lookup_def update_conv split: option.splits if_splits)

interpretation ip: map_elements hmap_ops in_place
proof unfold_locales
  fix m :: "('k, 'v) hmap" and k k' p :: 'k and v fl
  show "map_lookup_elem hmap_ops m k = Option.bind (find_elem in_place m k) (read_elem in_place m)"
    by (simp add: hmap_ops_def in_place_def)
  show "find_elem in_place m k = Some p \<Longrightarrow> read_elem in_place m p \<noteq> None"
    by (auto simp: in_place_def split: if_splits)
  show "k' \<noteq> k \<Longrightarrow> find_elem in_place (snd (map_update_elem hmap_ops m k v fl)) k' = find_elem in_place m k'"
    by (simp add: hmap_ops_def in_place_def hmap_update_other)
  show "find_elem in_place (snd (map_update_elem hmap_ops m k v fl)) k \<noteq> Some p \<Longrightarrow>
      read_elem in_place (snd (map_update_elem hmap_ops m k v fl)) p = read_elem in_place m p"
    using hmap_update_found [of m k v fl]
    by (cases "p = k") (simp_all add: hmap_ops_def in_place_def hmap_update_other split: if_splits)
qed

section \<open>A pool of elements\<close>

text \<open>
  An update writes an element that no key has, preferably one that was in use before, and then gives
  it to its key; the element that the key had until then may be used again.
\<close>

record ('k, 'v) pool =
  index :: "('k \<times> nat) list"
  cells :: "nat \<Rightarrow> 'v"
  recycled :: "nat list"
  unused :: nat
  pool_size :: nat

definition pool_new :: "nat \<Rightarrow> 'v \<Rightarrow> ('k, 'v) pool" where
  "pool_new n v = \<lparr>index = [], cells = (\<lambda>_. v), recycled = [], unused = 0, pool_size = n\<rparr>"

definition pool_alloc :: "('k, 'v) pool \<Rightarrow> nat option" where
  "pool_alloc m = find (\<lambda>q. q \<notin> snd ` set (index m))
     (recycled m @ (if unused m < pool_size m then [unused m] else []))"

definition pool_update :: "('k, 'v) pool \<Rightarrow> 'k \<Rightarrow> 'v \<Rightarrow> u64 \<Rightarrow> u64 \<times> ('k, 'v) pool" where
  "pool_update m k v fl =
     (case (if fl = BPF_ANY then pool_alloc m else None) of
        None \<Rightarrow> (map_error, m)
      | Some q \<Rightarrow> (0, m\<lparr>index := AList.update k q (index m), cells := (cells m)(q := v),
          recycled := (case map_of (index m) k of None \<Rightarrow> [] | Some p \<Rightarrow> [p]) @ remove1 q (recycled m),
          unused := (if q = unused m then Suc (unused m) else unused m)\<rparr>))"

definition pool_ops :: "(('k, 'v) pool, 'k, 'v) map_ops" where
  "pool_ops = \<lparr>map_lookup_elem = (\<lambda>m k. map_option (cells m) (map_of (index m) k)), map_update_elem = pool_update\<rparr>"

definition pool_elems :: "(('k, 'v) pool, 'k, 'v, nat) map_elems" where
  "pool_elems = \<lparr>find_elem = (\<lambda>m. map_of (index m)), read_elem = (\<lambda>m p. Some (cells m p))\<rparr>"

lemma pool_alloc_unused: "pool_alloc m = Some q \<Longrightarrow> map_of (index m) k = Some p \<Longrightarrow> p \<noteq> q"
  by (force simp: pool_alloc_def find_Some_iff dest!: map_of_SomeD)

lemma pool_alloc_cells:
  "pool_alloc m = Some q \<Longrightarrow> map_option ((cells m)(q := v)) (map_of (index m) k) = map_option (cells m) (map_of (index m) k)"
  using pool_alloc_unused [of m q k] by (cases "map_of (index m) k") auto

lemma pool_update_cases:
  obtains "pool_update m k v fl = (map_error, m)"
  | q r n where "pool_alloc m = Some q"
    "pool_update m k v fl = (0, m\<lparr>index := AList.update k q (index m), cells := (cells m)(q := v), recycled := r, unused := n\<rparr>)"
proof (cases "if fl = BPF_ANY then pool_alloc m else None")
  case None
  then show ?thesis by (intro that(1)) (simp add: pool_update_def)
next
  case (Some q)
  show ?thesis by (rule that(2) [of q]) (use Some in \<open>simp_all add: pool_update_def split: if_splits\<close>)
qed

interpretation po: map_elements pool_ops pool_elems
proof unfold_locales
  fix m m' :: "('k, 'v) pool" and k k' :: 'k and p :: nat and v fl e
  show "map_lookup_elem pool_ops m' = (map_lookup_elem pool_ops m)(k \<mapsto> v)"
    if "map_update_elem pool_ops m k v BPF_ANY = (0, m')"
    using that by (cases rule: pool_update_cases [of m k v BPF_ANY])
      (auto simp: pool_ops_def fun_eq_iff update_conv pool_alloc_cells)
  show "map_lookup_elem pool_ops m' = map_lookup_elem pool_ops m"
    if "map_update_elem pool_ops m k v fl = (e, m')" "e \<noteq> 0"
    using that by (cases rule: pool_update_cases [of m k v fl]) (auto simp: pool_ops_def)
  show "map_lookup_elem pool_ops m k = Option.bind (find_elem pool_elems m k) (read_elem pool_elems m)"
    by (simp add: pool_ops_def pool_elems_def map_conv_bind_option comp_def)
  show "find_elem pool_elems m k = Some p \<Longrightarrow> read_elem pool_elems m p \<noteq> None"
    by (simp add: pool_elems_def)
  show "find_elem pool_elems (snd (map_update_elem pool_ops m k v fl)) k' = find_elem pool_elems m k'" if "k' \<noteq> k"
    using that by (cases rule: pool_update_cases [of m k v fl]) (simp_all add: pool_ops_def pool_elems_def update_conv)
  show "read_elem pool_elems (snd (map_update_elem pool_ops m k v fl)) p = read_elem pool_elems m p"
    if "find_elem pool_elems (snd (map_update_elem pool_ops m k v fl)) k \<noteq> Some p"
    using that by (cases rule: pool_update_cases [of m k v fl]) (auto simp: pool_ops_def pool_elems_def update_conv)
qed

end
