(* ===== verification/Uid_Race.thy ===== *)
theory Uid_Race
  imports Uid_Count Map_Elements
begin

text \<open>
  The programs \<open>hello\<close> of \<open>bpf_maps\<close> and \<open>bpf_maps_dup\<close> on several processors. The
  kernel runs one instance per event and the instances share the map; between the
  helper calls of one instance the others may run. Each statement that reads or writes
  shared state is one step. The map and its elements are those of the contract \<open>map_elements\<close>.
\<close>

section \<open>\<open>bpf_maps\<close>: the user id is a local variable\<close>

text \<open>
  Where an instance stands: before an event; after the assignment of \<open>uid\<close>; after a
  lookup that found an element (\<open>p\<close> points to its value); after \<open>counter\<close> is known. \<open>*p\<close> reads
  what that element holds when it is dereferenced. An update by another instance may by then have
  given the key of the lookup another element, and this one another key.
\<close>

datatype 'p pc =
    Start
  | Got_uid u64
  | Found u64 'p
  | Counter u64 u64

text \<open>\<open>done_events u\<close> is a ghost: the number of events of user \<open>u\<close> that have finished.\<close>

record ('c, 'm, 'p) cpus =
  tbl :: 'm
  pcs :: "'c \<Rightarrow> 'p pc"
  done_events :: "u64 \<Rightarrow> nat"

definition cpus_init :: "'m \<Rightarrow> ('c, 'm, 'p) cpus" where
  "cpus_init m = \<lparr>tbl = m, pcs = (\<lambda>_. Start), done_events = (\<lambda>_. 0)\<rparr>"

inductive cpu_step ::
  "('m, u64, u64) map_ops \<Rightarrow> ('m, u64, u64, 'p) map_elems \<Rightarrow> ('c, 'm, 'p) cpus \<Rightarrow> ('c, 'm, 'p) cpus \<Rightarrow> bool"
  for ops :: "('m, u64, u64) map_ops" and els :: "('m, u64, u64, 'p) map_elems" where
  get_uid: "pcs s c = Start \<Longrightarrow>
     cpu_step ops els s (s\<lparr>pcs := (pcs s)(c := Got_uid (uid_gid AND 0xFFFFFFFF))\<rparr>)"
| lookup_found: "pcs s c = Got_uid u \<Longrightarrow> find_elem els (tbl s) u = Some p \<Longrightarrow>
     cpu_step ops els s (s\<lparr>pcs := (pcs s)(c := Found u p)\<rparr>)"
| lookup_null: "pcs s c = Got_uid u \<Longrightarrow> find_elem els (tbl s) u = None \<Longrightarrow>
     cpu_step ops els s (s\<lparr>pcs := (pcs s)(c := Counter u 0)\<rparr>)"
| deref: "pcs s c = Found u p \<Longrightarrow> read_elem els (tbl s) p = Some v \<Longrightarrow>
     cpu_step ops els s (s\<lparr>pcs := (pcs s)(c := Counter u v)\<rparr>)"
| update: "pcs s c = Counter u v \<Longrightarrow>
     cpu_step ops els s (s\<lparr>tbl := snd (map_update_elem ops (tbl s) u (v + 1) 0),
       pcs := (pcs s)(c := Start), done_events := (done_events s)(u := Suc (done_events s u))\<rparr>)"

inductive cpu_reach ::
  "('m, u64, u64) map_ops \<Rightarrow> ('m, u64, u64, 'p) map_elems \<Rightarrow> 'm \<Rightarrow> ('c, 'm, 'p) cpus \<Rightarrow> bool"
  for ops :: "('m, u64, u64) map_ops" and els :: "('m, u64, u64, 'p) map_elems" and m :: 'm where
  start: "cpu_reach ops els m (cpus_init m)"
| step: "cpu_reach ops els m s \<Longrightarrow> cpu_step ops els s t \<Longrightarrow> cpu_reach ops els m t"

text \<open>No element to which an instance holds a pointer has been given to another user.\<close>

definition kept :: "('m, u64, u64, 'p) map_elems \<Rightarrow> ('c, 'm, 'p) cpus \<Rightarrow> bool" where
  "kept els s \<longleftrightarrow> (\<forall>c u p k. pcs s c = Found u p \<longrightarrow> find_elem els (tbl s) k = Some p \<longrightarrow> k = u)"

inductive kept_reach ::
  "('m, u64, u64) map_ops \<Rightarrow> ('m, u64, u64, 'p) map_elems \<Rightarrow> 'm \<Rightarrow> ('c, 'm, 'p) cpus \<Rightarrow> bool"
  for ops :: "('m, u64, u64) map_ops" and els :: "('m, u64, u64, 'p) map_elems" and m :: 'm where
  start: "kept_reach ops els m (cpus_init m)"
| step: "kept_reach ops els m s \<Longrightarrow> cpu_step ops els s t \<Longrightarrow> kept els t \<Longrightarrow> kept_reach ops els m t"

text \<open>Neither the map, nor an element that a processor points to, nor a processor has more than was counted.\<close>

definition no_overcount ::
  "('m, u64, u64) map_ops \<Rightarrow> ('m, u64, u64, 'p) map_elems \<Rightarrow> ('c, 'm, 'p) cpus \<Rightarrow> bool" where
  "no_overcount ops els s \<longleftrightarrow>
     (\<forall>u v. map_lookup_elem ops (tbl s) u = Some v \<longrightarrow> unat v \<le> done_events s u) \<and>
     (\<forall>c u p v. pcs s c = Found u p \<longrightarrow> read_elem els (tbl s) p = Some v \<longrightarrow> unat v \<le> done_events s u) \<and>
     (\<forall>c u v. pcs s c = Counter u v \<longrightarrow> unat v \<le> done_events s u)"

text \<open>A processor past a successful lookup can read the element, so \<open>*p\<close> is defined.\<close>

definition pointers_valid :: "('m, u64, u64, 'p) map_elems \<Rightarrow> ('c, 'm, 'p) cpus \<Rightarrow> bool" where
  "pointers_valid els s \<longleftrightarrow> (\<forall>c u p. pcs s c = Found u p \<longrightarrow> read_elem els (tbl s) p \<noteq> None)"

lemma unat_Suc_le: "unat (v + 1 :: u64) \<le> Suc (unat v)"
  using unat_word_ariths(1) [of v 1] by (simp add: unat_1)

locale uid_elements = uid_hash ops + map_elements ops els
  for ops :: "('m, u64, u64) map_ops" and els :: "('m, u64, u64, 'p) map_elems"
begin

lemma no_overcount_step:
  assumes "cpu_step ops els s t" and "no_overcount ops els s" and "kept els t"
  shows "no_overcount ops els t"
  using assms
proof (induction rule: cpu_step.induct)
  case (lookup_found s c u p)
  then show ?case using found_value by (auto simp: no_overcount_def split: if_splits)
next
  case (update s c u v)
  let ?m = "snd (map_update_elem ops (tbl s) u (v + 1) 0)"
  have v: "unat v \<le> done_events s u" using update by (simp add: no_overcount_def)
  have "unat (v + 1) \<le> Suc (done_events s u)"
    using v unat_Suc_le [of v] by linarith
  moreover have "map_lookup_elem ops ?m = (if fst (map_update_elem ops (tbl s) u (v + 1) 0) = 0
       then (map_lookup_elem ops (tbl s))(u \<mapsto> v + 1) else map_lookup_elem ops (tbl s))"
    using lookup_update [of "tbl s" u "v + 1"] by (simp add: BPF_ANY_def)
  ultimately have lk: "unat x \<le> (if w = u then Suc (done_events s u) else done_events s w)"
    if "map_lookup_elem ops ?m w = Some x" for w x
    using that update.prems(1) by (auto simp: no_overcount_def le_SucI split: if_splits)
  have "unat x \<le> (if w = u then Suc (done_events s u) else done_events s w)"
    if "d \<noteq> c" "pcs s d = Found w p" "read_elem els ?m p = Some x" for d w p x
  proof (cases "find_elem els ?m u = Some p")
    case True
    with that(1,2) update.prems(2) have "u = w" by (simp add: kept_def) (metis)
    with True lk [of u x] that(3) show ?thesis by (simp add: found_value)
  next
    case False
    then have "read_elem els (tbl s) p = Some x" using update_read that(3) by metis
    then show ?thesis using that(2) update.prems(1) by (auto simp: no_overcount_def le_SucI)
  qed
  with lk update.prems(1) show ?case by (auto simp: no_overcount_def le_SucI)
qed (auto simp: no_overcount_def split: if_splits)

lemma kept_no_overcount:
  assumes "kept_reach ops els m s" and "map_lookup_elem ops m = Map.empty"
  shows "no_overcount ops els s"
  using assms
proof (induction rule: kept_reach.induct)
  case start
  then show ?case by (simp add: no_overcount_def cpus_init_def)
next
  case (step s t)
  then show ?case using no_overcount_step by blast
qed

lemma pointers_valid_step:
  assumes "cpu_step ops els s t" and "pointers_valid els s"
  shows "pointers_valid els t"
  using assms
proof (induction rule: cpu_step.induct)
  case (lookup_found s c u p)
  then show ?case using found_readable by (auto simp: pointers_valid_def split: if_splits)
next
  case (update s c u v)
  then show ?case using readable_stays by (auto simp: pointers_valid_def split: if_splits)
qed (auto simp: pointers_valid_def split: if_splits)

lemma reach_pointers_valid:
  assumes "cpu_reach ops els m s"
  shows "pointers_valid els s"
  using assms
proof (induction rule: cpu_reach.induct)
  case start
  then show ?case by (simp add: pointers_valid_def cpus_init_def)
next
  case (step s t)
  then show ?case using pointers_valid_step by blast
qed

text \<open>An event that is not interrupted does what \<open>hello\<close> does.\<close>

lemma event_reach:
  assumes "cpu_reach ops els m s" and "pcs s c = Start"
  shows "cpu_reach ops els m (s\<lparr>tbl := snd (hello ops e (tbl s)),
    done_events := (done_events s)(uid_of e := Suc (done_events s (uid_of e)))\<rparr>)"
proof -
  let ?u = "uid_of e"
  define s1 where "s1 = s\<lparr>pcs := (pcs s)(c := Got_uid ?u)\<rparr>"
  define v where "v = (case map_lookup_elem ops (tbl s) ?u of Some v \<Rightarrow> v | None \<Rightarrow> 0)"
  have s1: "cpu_reach ops els m s1"
    using cpu_reach.step [OF assms(1) cpu_step.get_uid [OF assms(2)]] by (simp add: s1_def uid_of_def)
  have "cpu_reach ops els m (s1\<lparr>pcs := (pcs s1)(c := Counter ?u v)\<rparr>)"
  proof (cases "find_elem els (tbl s) ?u")
    case None
    then have "v = 0" by (simp add: v_def lookup_elem)
    then show ?thesis using cpu_reach.step [OF s1 cpu_step.lookup_null [of s1 c ?u]] None by (simp add: s1_def)
  next
    case (Some p)
    let ?s2 = "s1\<lparr>pcs := (pcs s1)(c := Found ?u p)\<rparr>"
    have "read_elem els (tbl s) p = Some v" using found_readable [OF Some] Some by (auto simp: v_def lookup_elem)
    moreover have "cpu_reach ops els m ?s2"
      using cpu_reach.step [OF s1 cpu_step.lookup_found [of s1 c ?u]] Some by (simp add: s1_def)
    ultimately show ?thesis using cpu_reach.step [OF _ cpu_step.deref [of ?s2 c ?u p]] by (simp add: s1_def)
  qed
  from cpu_reach.step [OF this cpu_step.update [of _ c ?u v]]
  have "cpu_reach ops els m (s\<lparr>tbl := snd (map_update_elem ops (tbl s) ?u (v + 1) 0), pcs := (pcs s)(c := Start),
      done_events := (done_events s)(?u := Suc (done_events s ?u))\<rparr>)" by (simp add: s1_def)
  moreover have "snd (hello ops e (tbl s)) = snd (map_update_elem ops (tbl s) ?u (v + 1) 0)"
    by (simp add: hello_update v_def BPF_ANY_def split: option.split)
  ultimately show ?thesis using assms(2) by (simp add: fun_upd_idem)
qed

end

interpretation ie: uid_elements hmap_ops in_place
  by unfold_locales

interpretation pe: uid_elements pool_ops pool_elems
  by unfold_locales

text \<open>Where elements are updated in place, no element is ever given to another user.\<close>

definition own_pointers :: "('c, 'm, u64) cpus \<Rightarrow> bool" where
  "own_pointers s \<longleftrightarrow> (\<forall>c u p. pcs s c = Found u p \<longrightarrow> p = u)"

lemma own_pointers_step:
  assumes "cpu_step hmap_ops in_place s t" and "own_pointers s"
  shows "own_pointers t"
  using assms
  by (induction rule: cpu_step.induct) (auto simp: own_pointers_def in_place_def split: if_splits)

lemma own_pointers_kept: "own_pointers s \<Longrightarrow> kept in_place s"
  by (auto simp: own_pointers_def kept_def in_place_def split: if_splits)

lemma in_place_kept:
  assumes "cpu_reach hmap_ops in_place m s"
  shows "kept_reach hmap_ops in_place m s"
proof -
  have "own_pointers s \<and> kept_reach hmap_ops in_place m s"
    using assms
  proof (induction rule: cpu_reach.induct)
    case start
    show ?case by (rule conjI, simp add: own_pointers_def cpus_init_def, rule kept_reach.start)
  next
    case (step s t)
    have t: "own_pointers t" by (rule own_pointers_step [OF step.hyps(2)]) (use step.IH in simp)
    have "kept_reach hmap_ops in_place m t"
      by (rule kept_reach.step [OF _ step.hyps(2) own_pointers_kept [OF t]]) (use step.IH in simp)
    with t show ?case by simp
  qed
  then show ?thesis by simp
qed

section \<open>\<open>bpf_maps_dup\<close>: the user id is a global variable\<close>

text \<open>
  The key of both helper calls is \<open>&uid\<close>, so each call reads the global again. The
  first component of a program counter is a ghost: the user of the event.
\<close>

datatype 'p dup_pc =
    DStart
  | DGot_uid u64
  | DFound u64 'p
  | DCounter u64 u64

record ('c, 'm, 'p) dup_cpus =
  dtbl :: 'm
  duid :: u64
  dpcs :: "'c \<Rightarrow> 'p dup_pc"
  ddone :: "u64 \<Rightarrow> nat"

definition dup_init :: "'m \<Rightarrow> ('c, 'm, 'p) dup_cpus" where
  "dup_init m = \<lparr>dtbl = m, duid = 0, dpcs = (\<lambda>_. DStart), ddone = (\<lambda>_. 0)\<rparr>"

inductive dup_step ::
  "('m, u64, u64) map_ops \<Rightarrow> ('m, u64, u64, 'p) map_elems \<Rightarrow> ('c, 'm, 'p) dup_cpus \<Rightarrow> ('c, 'm, 'p) dup_cpus \<Rightarrow> bool"
  for ops :: "('m, u64, u64) map_ops" and els :: "('m, u64, u64, 'p) map_elems" where
  get_uid: "dpcs s c = DStart \<Longrightarrow>
     dup_step ops els s (s\<lparr>duid := uid_gid AND 0xFFFFFFFF,
       dpcs := (dpcs s)(c := DGot_uid (uid_gid AND 0xFFFFFFFF))\<rparr>)"
| lookup_found: "dpcs s c = DGot_uid e \<Longrightarrow> find_elem els (dtbl s) (duid s) = Some p \<Longrightarrow>
     dup_step ops els s (s\<lparr>dpcs := (dpcs s)(c := DFound e p)\<rparr>)"
| lookup_null: "dpcs s c = DGot_uid e \<Longrightarrow> find_elem els (dtbl s) (duid s) = None \<Longrightarrow>
     dup_step ops els s (s\<lparr>dpcs := (dpcs s)(c := DCounter e 0)\<rparr>)"
| deref: "dpcs s c = DFound e p \<Longrightarrow> read_elem els (dtbl s) p = Some v \<Longrightarrow>
     dup_step ops els s (s\<lparr>dpcs := (dpcs s)(c := DCounter e v)\<rparr>)"
| update: "dpcs s c = DCounter e v \<Longrightarrow>
     dup_step ops els s (s\<lparr>dtbl := snd (map_update_elem ops (dtbl s) (duid s) (v + 1) 0),
       dpcs := (dpcs s)(c := DStart), ddone := (ddone s)(e := Suc (ddone s e))\<rparr>)"

inductive dup_reach ::
  "('m, u64, u64) map_ops \<Rightarrow> ('m, u64, u64, 'p) map_elems \<Rightarrow> 'm \<Rightarrow> ('c, 'm, 'p) dup_cpus \<Rightarrow> bool"
  for ops :: "('m, u64, u64) map_ops" and els :: "('m, u64, u64, 'p) map_elems" and m :: 'm where
  start: "dup_reach ops els m (dup_init m)"
| step: "dup_reach ops els m s \<Longrightarrow> dup_step ops els s t \<Longrightarrow> dup_reach ops els m t"

section \<open>Two interleavings of two events\<close>

text \<open>Both events are of user 1: both instances look up before either updates.\<close>

definition lost_run :: "nat \<Rightarrow> (nat, (u64, u64) hmap, u64) cpus" where
  "lost_run i = (let s0 = cpus_init counter_table;
     s1 = s0\<lparr>pcs := (pcs s0)(0 := Got_uid 1)\<rparr>;
     s2 = s1\<lparr>pcs := (pcs s1)(1 := Got_uid 1)\<rparr>;
     s3 = s2\<lparr>pcs := (pcs s2)(0 := Counter 1 0)\<rparr>;
     s4 = s3\<lparr>pcs := (pcs s3)(1 := Counter 1 0)\<rparr>;
     s5 = s4\<lparr>tbl := snd (hmap_update (tbl s4) 1 1 0), pcs := (pcs s4)(0 := Start),
              done_events := (done_events s4)(1 := 1)\<rparr>;
     s6 = s5\<lparr>tbl := snd (hmap_update (tbl s5) 1 1 0), pcs := (pcs s5)(1 := Start),
              done_events := (done_events s5)(1 := 2)\<rparr>
   in [s0, s1, s2, s3, s4, s5, s6] ! i)"

lemmas race_simps = cpus_init_def dup_init_def in_place_def hmap_ops_def hmap_lookup_def hmap_new_def
  hmap_update_def BPF_ANY_def numeral_2_eq_2

lemma lost_run_reach: "cpu_reach hmap_ops in_place counter_table (lost_run 6)"
proof -
  note st = cpu_reach.step [where ops = hmap_ops and els = in_place and m = counter_table]
  have 0: "cpu_reach hmap_ops in_place counter_table (lost_run 0)"
    by (simp add: lost_run_def cpu_reach.start)
  have 1: "cpu_reach hmap_ops in_place counter_table (lost_run 1)"
    using st [OF 0 cpu_step.get_uid [of _ 0 _ _ 1]] by (simp add: lost_run_def race_simps)
  have 2: "cpu_reach hmap_ops in_place counter_table (lost_run 2)"
    using st [OF 1 cpu_step.get_uid [of _ 1 _ _ 1]] by (simp add: lost_run_def race_simps)
  have 3: "cpu_reach hmap_ops in_place counter_table (lost_run 3)"
    using st [OF 2 cpu_step.lookup_null [of _ 0 1]] by (simp add: lost_run_def race_simps counter_table_def)
  have 4: "cpu_reach hmap_ops in_place counter_table (lost_run 4)"
    using st [OF 3 cpu_step.lookup_null [of _ 1 1]] by (simp add: lost_run_def race_simps counter_table_def)
  have 5: "cpu_reach hmap_ops in_place counter_table (lost_run 5)"
    using st [OF 4 cpu_step.update [of _ 0 1 0]] by (simp add: lost_run_def race_simps counter_table_def)
  show ?thesis
    using st [OF 5 cpu_step.update [of _ 1 1 0]] by (simp add: lost_run_def race_simps counter_table_def)
qed

text \<open>
  With the global \<open>uid\<close>: an event of user 1 and an event of user 2; the second
  assignment of \<open>uid\<close> happens before the first instance looks its key up.
\<close>

definition dup_run :: "nat \<Rightarrow> (nat, (u64, u64) hmap, u64) dup_cpus" where
  "dup_run i = (let s0 = dup_init counter_table_dup;
     s1 = s0\<lparr>duid := 1, dpcs := (dpcs s0)(0 := DGot_uid 1)\<rparr>;
     s2 = s1\<lparr>duid := 2, dpcs := (dpcs s1)(1 := DGot_uid 2)\<rparr>;
     s3 = s2\<lparr>dpcs := (dpcs s2)(0 := DCounter 1 0)\<rparr>;
     s4 = s3\<lparr>dtbl := snd (hmap_update (dtbl s3) 2 1 0), dpcs := (dpcs s3)(0 := DStart),
              ddone := (ddone s3)(1 := 1)\<rparr>;
     s5 = s4\<lparr>dpcs := (dpcs s4)(1 := DFound 2 2)\<rparr>;
     s6 = s5\<lparr>dpcs := (dpcs s5)(1 := DCounter 2 1)\<rparr>;
     s7 = s6\<lparr>dtbl := snd (hmap_update (dtbl s6) 2 2 0), dpcs := (dpcs s6)(1 := DStart),
              ddone := (ddone s6)(2 := 1)\<rparr>
   in [s0, s1, s2, s3, s4, s5, s6, s7] ! i)"

lemma dup_run_reach: "dup_reach hmap_ops in_place counter_table_dup (dup_run 7)"
proof -
  note st = dup_reach.step [where ops = hmap_ops and els = in_place and m = counter_table_dup]
  note rs = dup_run_def race_simps counter_table_dup_def
  have 0: "dup_reach hmap_ops in_place counter_table_dup (dup_run 0)"
    by (simp add: dup_run_def dup_reach.start)
  have 1: "dup_reach hmap_ops in_place counter_table_dup (dup_run 1)"
    using st [OF 0 dup_step.get_uid [of _ 0 _ _ 1]] by (simp add: rs)
  have 2: "dup_reach hmap_ops in_place counter_table_dup (dup_run 2)"
    using st [OF 1 dup_step.get_uid [of _ 1 _ _ 2]] by (simp add: rs)
  have 3: "dup_reach hmap_ops in_place counter_table_dup (dup_run 3)"
    using st [OF 2 dup_step.lookup_null [of _ 0 1]] by (simp add: rs)
  have 4: "dup_reach hmap_ops in_place counter_table_dup (dup_run 4)"
    using st [OF 3 dup_step.update [of _ 0 1 0]] by (simp add: rs)
  have 5: "dup_reach hmap_ops in_place counter_table_dup (dup_run 5)"
    using st [OF 4 dup_step.lookup_found [of _ 1 2 _ 2]] by (simp add: rs)
  have 6: "dup_reach hmap_ops in_place counter_table_dup (dup_run 6)"
    using st [OF 5 dup_step.deref [of _ 1 2 2 _ 1]] by (simp add: rs)
  show ?thesis
    using st [OF 6 dup_step.update [of _ 1 2 1]] by (simp add: rs)
qed

section \<open>A pointer to an element that is used again\<close>

text \<open>
  After an event of user 1, the instance on processor 0 looks up user 1 and is interrupted by an event
  of user 1 and three events of user 2 on processor 1; then it goes on.
\<close>

definition pool_event :: "u64 \<Rightarrow> (nat, (u64, u64) pool, nat) cpus \<Rightarrow> (nat, (u64, u64) pool, nat) cpus" where
  "pool_event u s = s\<lparr>tbl := snd (hello pool_ops u (tbl s)), done_events := (done_events s)(u := Suc (done_events s u))\<rparr>"

definition stale_lookup :: "(nat, (u64, u64) pool, nat) cpus" where
  "stale_lookup = (let s = pool_event 1 (cpus_init (pool_new 5000001 0)) in s\<lparr>pcs := (pcs s)(0 := Found 1 0)\<rparr>)"

definition stale_events :: "(nat, (u64, u64) pool, nat) cpus" where
  "stale_events = pool_event 2 (pool_event 2 (pool_event 2 (pool_event 1 stale_lookup)))"

definition stale_run :: "(nat, (u64, u64) pool, nat) cpus" where
  "stale_run = stale_events\<lparr>tbl := snd (map_update_elem pool_ops (tbl stale_events) 1 4 0),
     pcs := (pcs stale_events)(0 := Start), done_events := (done_events stale_events)(1 := Suc (done_events stale_events 1))\<rparr>"

lemmas pool_simps = pool_event_def hello_def pool_ops_def pool_elems_def pool_update_def pool_alloc_def pool_new_def
  cpus_init_def BPF_ANY_def Let_def

lemma stale_run_simps: "pcs stale_run c = Start" "done_events stale_run 1 = 3" "map_lookup_elem pool_ops (tbl stale_run) 1 = Some 4"
  by (simp_all add: stale_run_def stale_events_def stale_lookup_def pool_simps)

lemma pool_event_reach:
  assumes "cpu_reach pool_ops pool_elems m s" and "pcs s 1 = Start" and "uid_of u = u"
  shows "cpu_reach pool_ops pool_elems m (pool_event u s)"
  using pe.event_reach [OF assms(1,2), of u] assms(3) by (simp add: pool_event_def)

lemma stale_run_reach: "cpu_reach pool_ops pool_elems (pool_new 5000001 0) stale_run"
proof -
  note st = cpu_reach.step [where ops = pool_ops and els = pool_elems and m = "pool_new 5000001 0"]
  note u = uid_of_def
  let ?s = "pool_event 1 (cpus_init (pool_new 5000001 0)) :: (nat, (u64, u64) pool, nat) cpus"
  have 0: "cpu_reach pool_ops pool_elems (pool_new 5000001 0) ?s"
    by (rule pool_event_reach [OF cpu_reach.start]) (simp_all add: cpus_init_def u)
  have 1: "cpu_reach pool_ops pool_elems (pool_new 5000001 0) (?s\<lparr>pcs := (pcs ?s)(0 := Got_uid 1)\<rparr>)"
    using st [OF 0 cpu_step.get_uid [of _ 0 _ _ 1]] by (simp add: pool_event_def cpus_init_def)
  have 2: "cpu_reach pool_ops pool_elems (pool_new 5000001 0) stale_lookup"
  proof -
    let ?t = "?s\<lparr>pcs := (pcs ?s)(0 := Got_uid 1)\<rparr>"
    have "find_elem pool_elems (tbl ?t) 1 = Some 0" by (simp add: pool_simps)
    from st [OF 1 cpu_step.lookup_found [of ?t 0 1, OF _ this]] show ?thesis
      by (simp add: stale_lookup_def Let_def)
  qed
  have 3: "cpu_reach pool_ops pool_elems (pool_new 5000001 0) stale_events"
    unfolding stale_events_def
    by (intro pool_event_reach 2) (simp_all add: u pool_event_def stale_lookup_def cpus_init_def Let_def)
  have 4: "cpu_reach pool_ops pool_elems (pool_new 5000001 0) (stale_events\<lparr>pcs := (pcs stale_events)(0 := Counter 1 3)\<rparr>)"
    by (rule st [OF 3 cpu_step.deref [of _ 0 1 0]]) (simp_all add: stale_events_def stale_lookup_def pool_simps)
  show ?thesis
    using st [OF 4 cpu_step.update [of _ 0 1 3]] by (simp add: stale_run_def)
qed

section \<open>Events of one user that do not overlap\<close>

text \<open>The user whose event an instance is handling, once it has assigned \<open>uid\<close>.\<close>

fun user_of :: "'p pc \<Rightarrow> u64 option" where
  "user_of Start = None"
| "user_of (Got_uid u) = Some u"
| "user_of (Found u p) = Some u"
| "user_of (Counter u v) = Some u"

definition exclusive :: "('c, 'm, 'p) cpus \<Rightarrow> bool" where
  "exclusive s \<longleftrightarrow>
     (\<forall>c d u. user_of (pcs s c) = Some u \<longrightarrow> user_of (pcs s d) = Some u \<longrightarrow> c = d)"

text \<open>No update has been refused: each user with a finished event has an entry.\<close>

definition recorded :: "('m, u64, u64) map_ops \<Rightarrow> ('c, 'm, 'p) cpus \<Rightarrow> bool" where
  "recorded ops s \<longleftrightarrow> (\<forall>u. done_events s u \<noteq> 0 \<longrightarrow> map_lookup_elem ops (tbl s) u \<noteq> None)"

inductive calm_reach ::
  "('m, u64, u64) map_ops \<Rightarrow> ('m, u64, u64, 'p) map_elems \<Rightarrow> 'm \<Rightarrow> ('c, 'm, 'p) cpus \<Rightarrow> bool"
  for ops :: "('m, u64, u64) map_ops" and els :: "('m, u64, u64, 'p) map_elems" and m :: 'm where
  start: "calm_reach ops els m (cpus_init m)"
| step: "calm_reach ops els m s \<Longrightarrow> cpu_step ops els s t \<Longrightarrow> exclusive t \<Longrightarrow> recorded ops t \<Longrightarrow>
     calm_reach ops els m t"

text \<open>The map, and every processor that has read it, agree with what has been counted; a pointer still
  points to the element of its user.\<close>

definition exact ::
  "('m, u64, u64) map_ops \<Rightarrow> ('m, u64, u64, 'p) map_elems \<Rightarrow> ('c, 'm, 'p) cpus \<Rightarrow> bool" where
  "exact ops els s \<longleftrightarrow>
     (\<forall>u. map_lookup_elem ops (tbl s) u =
        (if done_events s u = 0 then None else Some (of_nat (done_events s u)))) \<and>
     (\<forall>c u p. pcs s c = Found u p \<longrightarrow> find_elem els (tbl s) u = Some p) \<and>
     (\<forall>c u v. pcs s c = Counter u v \<longrightarrow> v = of_nat (done_events s u))"

lemma calm_invariants:
  assumes "calm_reach ops els m s"
  shows "cpu_reach ops els m s \<and> exclusive s \<and> recorded ops s"
  using assms
proof (induction rule: calm_reach.induct)
  case start
  show ?case by (intro conjI cpu_reach.start) (simp_all add: exclusive_def recorded_def cpus_init_def)
next
  case (step s t)
  then show ?case by (simp add: cpu_reach.step [OF _ step(2)])
qed

lemma exclusive_other:
  "exclusive s \<Longrightarrow> user_of (pcs s c) = Some u \<Longrightarrow> user_of (pcs s d) = Some u \<Longrightarrow> c = d"
  unfolding exclusive_def by blast

locale uid_elements_bounded = uid_elements ops els + uid_hash_bounded ops cap inv
  for ops :: "('m, u64, u64) map_ops" and els :: "('m, u64, u64, 'p) map_elems"
    and cap :: "'m \<Rightarrow> nat" and inv :: "'m \<Rightarrow> bool"
begin

lemma exact_update:
  assumes ex: "exact ops els s" and excl: "exclusive s" and inv: "inv (tbl s)"
    and pc: "pcs s c = Counter u v"
    and t: "t = s\<lparr>tbl := snd (map_update_elem ops (tbl s) u (v + 1) 0),
       pcs := (pcs s)(c := Start), done_events := (done_events s)(u := Suc (done_events s u))\<rparr>"
    and rec: "recorded ops t"
  shows "exact ops els t"
proof -
  define m' where "m' = snd (map_update_elem ops (tbl s) u (v + 1) 0)"
  have v: "v = of_nat (done_events s u)" using ex pc by (simp add: exact_def)
  have t': "t = s\<lparr>tbl := m', pcs := (pcs s)(c := Start),
       done_events := (done_events s)(u := Suc (done_events s u))\<rparr>"
    by (simp only: t m'_def)
  have lk: "map_lookup_elem ops m' =
      (if fst (map_update_elem ops (tbl s) u (v + 1) 0) = 0
       then (map_lookup_elem ops (tbl s))(u \<mapsto> v + 1) else map_lookup_elem ops (tbl s))"
    using lookup_update [of "tbl s" u "v + 1"] by (simp only: BPF_ANY_def m'_def)
  have "map_lookup_elem ops m' u \<noteq> None"
    using rec by (simp add: t' recorded_def)
  then have "fst (map_update_elem ops (tbl s) u (v + 1) 0) = 0"
    using lk update_room [OF inv, of u "v + 1"] by (auto simp: BPF_ANY_def split: if_splits)
  then have lk': "map_lookup_elem ops m' = (map_lookup_elem ops (tbl s))(u \<mapsto> v + 1)"
    using lk by simp
  have other: "user_of (pcs s d) \<noteq> Some u" if "d \<noteq> c" for d
    using exclusive_other [OF excl, of d u c] pc that by auto
  have find: "find_elem els m' w = find_elem els (tbl s) w" if "w \<noteq> u" for w
    unfolding m'_def by (rule update_find [OF that])
  have "find_elem els m' w = Some p" if "d \<noteq> c" "pcs s d = Found w p" for d w p
    using find [of w] other [OF that(1)] that ex by (auto simp: exact_def)
  moreover have "w \<noteq> u" if "d \<noteq> c" "pcs s d = Counter w x" for d w x
    using other [OF that(1)] that(2) by auto
  ultimately show ?thesis
    using ex v by (auto simp: t' exact_def lk' add.commute)
qed

lemma exact_step:
  assumes "cpu_step ops els s t" and "exact ops els s" and "exclusive s" and "inv (tbl s)" and "recorded ops t"
  shows "exact ops els t \<and> inv (tbl t)"
  using assms
proof (induction rule: cpu_step.induct)
  case (lookup_null s c u)
  then show ?case by (auto simp: exact_def found_lookup split: if_splits)
next
  case (deref s c u p v)
  then have "map_lookup_elem ops (tbl s) u = Some v" by (simp add: exact_def lookup_elem)
  with deref show ?case by (auto simp: exact_def split: if_splits)
next
  case (update s c u v)
  show ?case
    using exact_update [OF update(2,3,4,1) refl update(5)] update_inv [OF update(4)] by simp
qed (auto simp: exact_def split: if_splits)

lemma calm_exact:
  assumes "calm_reach ops els m s" and "inv m" and "map_lookup_elem ops m = Map.empty"
  shows "exact ops els s \<and> inv (tbl s)"
  using assms
proof (induction rule: calm_reach.induct)
  case start
  then show ?case by (simp add: exact_def cpus_init_def)
next
  case (step s t)
  have "exact ops els s" "inv (tbl s)" "exclusive s"
    using step.IH step.prems calm_invariants [OF step(1)] by simp_all
  then show ?case using exact_step [OF step(2) _ _ _ step(4)] by simp
qed

end

interpretation ib: uid_elements_bounded hmap_ops in_place max_entries hmap_inv
  by unfold_locales

text \<open>One event of user 1, as a run without overlap.\<close>

definition calm_run :: "nat \<Rightarrow> (nat, (u64, u64) hmap, u64) cpus" where
  "calm_run i = (let s0 = cpus_init counter_table;
     s1 = s0\<lparr>pcs := (pcs s0)(0 := Got_uid 1)\<rparr>;
     s2 = s1\<lparr>pcs := (pcs s1)(0 := Counter 1 0)\<rparr>;
     s3 = s2\<lparr>tbl := snd (hmap_update (tbl s2) 1 1 0), pcs := (pcs s2)(0 := Start),
              done_events := (done_events s2)(1 := 1)\<rparr>
   in [s0, s1, s2, s3] ! i)"

lemma calm_run_reach: "calm_reach hmap_ops in_place counter_table (calm_run 3)"
proof -
  note st = calm_reach.step [where ops = hmap_ops and els = in_place and m = counter_table]
  note rs = calm_run_def race_simps counter_table_def numeral_3_eq_3
  note ok = exclusive_def recorded_def
  have 0: "calm_reach hmap_ops in_place counter_table (calm_run 0)"
    by (simp add: calm_run_def calm_reach.start)
  have s1: "cpu_step hmap_ops in_place (calm_run 0) (calm_run 1)"
    using cpu_step.get_uid [of "calm_run 0" 0 hmap_ops in_place 1] by (simp add: rs)
  have 1: "calm_reach hmap_ops in_place counter_table (calm_run 1)"
    by (rule st [OF 0 s1]) (simp_all add: rs ok)
  have s2: "cpu_step hmap_ops in_place (calm_run 1) (calm_run 2)"
    using cpu_step.lookup_null [of "calm_run 1" 0 1 in_place hmap_ops] by (simp add: rs)
  have 2: "calm_reach hmap_ops in_place counter_table (calm_run 2)"
    by (rule st [OF 1 s2]) (simp_all add: rs ok)
  have s3: "cpu_step hmap_ops in_place (calm_run 2) (calm_run 3)"
    using cpu_step.update [of "calm_run 2" 0 1 0 hmap_ops in_place] by (simp add: rs)
  show ?thesis
    by (rule st [OF 2 s3]) (simp_all add: rs ok)
qed

section \<open>Properties\<close>

text \<open>C9: on any number of processors, whatever the interleaving, the map never holds more for
  a user than the number of that user's finished events, as long as no element of the map is given to
  another user while an instance holds a pointer to it. (Where a map updates its elements in place,
  this is always so.)\<close>

theorem hello_no_overcount:
  assumes "uid_elements ops els" and "kept_reach ops els m s" and "map_lookup_elem ops m = Map.empty"
    and "map_lookup_elem ops (tbl s) u = Some v"
  shows "unat v \<le> done_events s u"
  using uid_elements.kept_no_overcount [OF assms(1-3)] assms(4) by (simp add: no_overcount_def)

theorem hello_no_overcount_witness:
  "unat (1 :: u64) \<le> done_events (lost_run 6) 1"
  by (rule hello_no_overcount [OF ie.uid_elements_axioms in_place_kept [OF lost_run_reach]])
     (simp_all add: lost_run_def race_simps counter_table_def fun_eq_iff)

text \<open>C10: without that condition the map can hold too much. In a map that uses the elements of replaced
  values again, an instance that handles an event of user 1 can still hold the pointer to an element
  when it has become that of user 2: then it goes on from the count of user 2, and the map has 4 for
  user 1 after three events.\<close>

theorem hello_overcount:
  "\<exists>s :: (nat, (u64, u64) pool, nat) cpus. cpu_reach pool_ops pool_elems (pool_new 5000001 0) s \<and>
     (\<forall>c. pcs s c = Start) \<and> done_events s 1 = 3 \<and> map_lookup_elem pool_ops (tbl s) 1 = Some 4"
proof (intro exI conjI)
  show "cpu_reach pool_ops pool_elems (pool_new 5000001 0) stale_run" by (rule stale_run_reach)
qed (simp_all add: stale_run_simps)

text \<open>C37: no processor gets stuck. In particular one that holds the pointer of a successful lookup
  can dereference it: the element is still memory of the map.\<close>

theorem hello_progress:
  assumes "uid_elements ops els" and "cpu_reach ops els m s"
  shows "\<exists>t. cpu_step ops els s t \<and> pcs t c \<noteq> pcs s c \<and> (\<forall>d. d \<noteq> c \<longrightarrow> pcs t d = pcs s d)"
proof (cases "pcs s c")
  case Start
  from cpu_step.get_uid [OF this, of ops els 0] Start show ?thesis by force
next
  case (Got_uid u)
  then show ?thesis
    using cpu_step.lookup_found [OF Got_uid, of els _ ops] cpu_step.lookup_null [OF Got_uid, of els ops]
    by (cases "find_elem els (tbl s) u") force+
next
  case (Found u p)
  then obtain v where "read_elem els (tbl s) p = Some v"
    using uid_elements.reach_pointers_valid [OF assms] unfolding pointers_valid_def by blast
  from cpu_step.deref [OF Found this, of ops] Found show ?thesis by force
next
  case (Counter u v)
  from cpu_step.update [OF this, of ops els] Counter show ?thesis by force
qed

theorem hello_progress_witness:
  "\<exists>t. cpu_step hmap_ops in_place (lost_run 6) t \<and> pcs t 5 \<noteq> pcs (lost_run 6) 5"
  using hello_progress [OF ie.uid_elements_axioms lost_run_reach, of 5] by blast

text \<open>C27: the increment is not atomic. Two processors can both finish an event of user 1 and leave
  the count at 1.\<close>

theorem hello_lost_update:
  "\<exists>s :: (nat, (u64, u64) hmap, u64) cpus. cpu_reach hmap_ops in_place counter_table s \<and> (\<forall>c. pcs s c = Start) \<and>
     done_events s 1 = 2 \<and> map_lookup_elem hmap_ops (tbl s) 1 = Some 1"
proof (intro exI conjI)
  show "cpu_reach hmap_ops in_place counter_table (lost_run 6)" by (rule lost_run_reach)
qed (simp_all add: lost_run_def race_simps counter_table_def)

text \<open>C16: while no two instances handle events of the same user at the same time and the map has
  room, every count is exact, whatever the interleaving of the events of different users.\<close>

theorem hello_exclusive_exact:
  assumes "uid_elements_bounded ops els cap ok" and "calm_reach ops els m s" and "ok m"
    and "map_lookup_elem ops m = Map.empty"
  shows "map_lookup_elem ops (tbl s) u =
    (if done_events s u = 0 then None else Some (of_nat (done_events s u)))"
  using uid_elements_bounded.calm_exact [OF assms] by (simp add: exact_def)

theorem hello_exclusive_exact_witness:
  "map_lookup_elem hmap_ops (tbl (calm_run 3)) 1 = Some 1"
proof -
  have "map_lookup_elem hmap_ops counter_table = Map.empty" "hmap_inv counter_table"
    by (simp_all add: hmap_ops_def counter_table_def)
  from hello_exclusive_exact [OF ib.uid_elements_bounded_axioms calm_run_reach this(2,1), of 1]
  show ?thesis by (simp add: calm_run_def race_simps counter_table_def)
qed

text \<open>C36: with the global \<open>uid\<close> of \<open>bpf_maps_dup\<close>, events of different users disturb each other:
  one event of user 1 and one of user 2 can end with both counted for user 2.\<close>

theorem hello_dup_wrong_user:
  "\<exists>s :: (nat, (u64, u64) hmap, u64) dup_cpus. dup_reach hmap_ops in_place counter_table_dup s \<and>
     (\<forall>c. dpcs s c = DStart) \<and> ddone s 1 = 1 \<and> ddone s 2 = 1 \<and>
     map_lookup_elem hmap_ops (dtbl s) 1 = None \<and> map_lookup_elem hmap_ops (dtbl s) 2 = Some 2"
proof (intro exI conjI)
  show "dup_reach hmap_ops in_place counter_table_dup (dup_run 7)" by (rule dup_run_reach)
qed (simp_all add: dup_run_def race_simps counter_table_dup_def)

end
