(* ===== verification/Map_Create.thy ===== *)
theory Map_Create
  imports Uid_Count
begin

text \<open>
  The counters over maps with entries of 4 bytes: the \<open>hello\<close> of
  \<open>bpf_maps2/hash_map_example.bpf.c\<close>, whose map has \<open>int\<close> keys and values, and that of
  \<open>bpf_maps3/hash_map_example.bpf.c\<close>, which creates such a map itself, on every event;
  \<open>sys_bpf\<close> and \<open>bpf_create_map\<close> of \<open>bpf_maps3/bpf_sys.c\<close>. The system call is an argument.
\<close>

section \<open>The system call\<close>

text \<open>The fields of \<open>union bpf_attr\<close> that are set; the initialiser zeroes the others.\<close>

record bpf_attr =
  attr_map_type :: u32
  attr_key_size :: u32
  attr_value_size :: u32
  attr_max_entries :: u32

definition BPF_MAP_CREATE :: u32 where "BPF_MAP_CREATE = 0"

text \<open>\<open>syscall\<close> returns a \<open>long\<close>, of which the \<open>int\<close> result of \<open>sys_bpf\<close> is the low half.\<close>

type_synonym syscall_fn = "u32 \<Rightarrow> bpf_attr \<Rightarrow> u32 \<Rightarrow> u64"

definition sys_bpf :: "syscall_fn \<Rightarrow> u32 \<Rightarrow> bpf_attr \<Rightarrow> u32 \<Rightarrow> c_int" where
  "sys_bpf bpf_call cmd attr sz = ucast (bpf_call cmd attr sz)"

text \<open>\<open>sizeof (attr)\<close> depends on the kernel headers and is an argument.\<close>

definition bpf_create_map :: "syscall_fn \<Rightarrow> u32 \<Rightarrow> u32 \<Rightarrow> u32 \<Rightarrow> u32 \<Rightarrow> u32 \<Rightarrow> c_int" where
  "bpf_create_map bpf_call sizeof_attr map_type key_size value_size n_entries =
     (let attr = \<lparr>attr_map_type = map_type, attr_key_size = key_size,
                  attr_value_size = value_size, attr_max_entries = n_entries\<rparr>
      in sys_bpf bpf_call BPF_MAP_CREATE attr sizeof_attr)"

section \<open>The programs\<close>

text \<open>
  The keys and the values of the maps have \<open>sizeof (int)\<close> bytes, and the programs hand them pointers
  to 64-bit variables. The map operations take and give bytes: of those at a pointer a helper reads as
  many as the map has in a key or a value, and the pointer of a lookup leads to the bytes of the value. A
  64-bit read through it is defined if there are eight.
\<close>

definition deref_u64 :: "bytes \<Rightarrow> u64 cres" where
  "deref_u64 b = (if length b < 8 then Inl OutOfBounds else Inr (of_le (take 8 b)))"

text \<open>Maps with a size of keys and of values.\<close>

record sized_map =
  key_bytes :: nat
  val_bytes :: nat
  contents :: "(bytes, bytes) hmap"

definition sized_ops :: "(sized_map, bytes, bytes) map_ops" where
  "sized_ops = \<lparr>map_lookup_elem = (\<lambda>m k. hmap_lookup (contents m) (take (key_bytes m) k)),
     map_update_elem = (\<lambda>m k v fl.
       case hmap_update (contents m) (take (key_bytes m) k) (take (val_bytes m) v) fl of
         (r, c) \<Rightarrow> (r, m\<lparr>contents := c\<rparr>))\<rparr>"

text \<open>
  The map of \<open>bpf_maps2\<close>: type hash, \<open>max_entries\<close>, \<open>int *key\<close>, \<open>int *value\<close>. (A comment of the program
  says that \<open>libbpf\<close> does not accept this declaration.)
\<close>

definition counter_table2 :: sized_map where
  "counter_table2 = \<lparr>key_bytes = 4, val_bytes = 4, contents = hmap_new 10240\<rparr>"

definition hello2 :: "('m, bytes, bytes) map_ops \<Rightarrow> u64 \<Rightarrow> 'm \<Rightarrow> (c_int \<times> 'm) cres" where
  "hello2 ops uid_gid m =
     (let counter = 0;
          uid = uid_gid AND 0xFFFFFFFF;
          p = map_lookup_elem ops m (le_bytes 8 uid)
      in bindE (case p of Some b \<Rightarrow> deref_u64 b | None \<Rightarrow> Inr counter) (\<lambda>counter.
         let counter = counter + 1;
             (_, m) = map_update_elem ops m (le_bytes 8 uid) (le_bytes 8 counter) 0
         in Inr (0, m)))"

text \<open>
  \<open>create\<close> is \<open>bpf_map_create\<close> on the kernel's maps, and \<open>ops\<close> what the two helpers do with
  the descriptor that \<open>counter_table\<close> holds.
\<close>

definition hello3 ::
  "(u32 \<Rightarrow> u32 \<Rightarrow> u32 \<Rightarrow> u32 \<Rightarrow> 'm \<Rightarrow> c_int \<times> 'm) \<Rightarrow> (c_int \<Rightarrow> ('m, bytes, bytes) map_ops) \<Rightarrow> u64 \<Rightarrow> 'm
     \<Rightarrow> (c_int \<times> 'm) cres" where
  "hello3 create ops uid_gid m =
     (let (counter_table, m) = create BPF_MAP_TYPE_HASH 4 4 10240 m;
          counter = 0;
          uid = uid_gid AND 0xFFFFFFFF;
          p = map_lookup_elem (ops counter_table) m (le_bytes 8 uid)
      in bindE (case p of Some b \<Rightarrow> deref_u64 b | None \<Rightarrow> Inr counter) (\<lambda>counter.
         let counter = counter + 1;
             (_, m) = map_update_elem (ops counter_table) m (le_bytes 8 uid) (le_bytes 8 counter) 0
         in Inr (0, m)))"

section \<open>Lemmas\<close>

lemma deref_u64_le: "deref_u64 (le_bytes 8 v) = Inr v"
  by (simp add: deref_u64_def of_le_u64)

lemma low_uid: "(ucast (uid_of e) :: u32) = ucast e"
  by (rule bit_word_eqI) (auto simp: uid_of_eq bit_simps)

lemma uid_bytes: "le_bytes 4 (uid_of e) = le_bytes 4 (ucast e :: u32)"
  by (simp add: le_bytes_low low_uid)

lemma hello2_new_user:
  "map_lookup_elem ops m (le_bytes 8 (uid_of e)) = None \<Longrightarrow>
   hello2 ops e m = Inr (0, snd (map_update_elem ops m (le_bytes 8 (uid_of e)) (le_bytes 8 (1 :: u64)) BPF_ANY))"
  by (simp add: hello2_def Let_def uid_of_def BPF_ANY_def case_prod_beta)

text \<open>With values of 4 bytes, an event of a user who has an entry reads past the value.\<close>

lemma hello2_overread:
  assumes "hmap_lookup (contents m) (take (key_bytes m) (le_bytes 8 (uid_of e))) = Some b" and "length b < 8"
  shows "hello2 sized_ops e m = Inl OutOfBounds"
  using assms by (simp add: hello2_def Let_def uid_of_def sized_ops_def deref_u64_def)

text \<open>With keys and values of 8 bytes it counts like \<open>hello\<close>.\<close>

lemma hello2_eight_bytes:
  assumes "key_bytes m = 8" and "hmap_lookup (contents m) (le_bytes 8 (uid_of e)) = map_option (le_bytes 8) t"
  shows "hello2 sized_ops e m = Inr (0, snd (map_update_elem sized_ops m (le_bytes 8 (uid_of e))
    (le_bytes 8 (case t of Some v \<Rightarrow> v + 1 :: u64 | None \<Rightarrow> 1)) BPF_ANY))"
  using assms
  by (cases t) (simp_all add: hello2_def Let_def uid_of_def sized_ops_def deref_u64_le BPF_ANY_def case_prod_beta)

text \<open>What the kernel promises of a creation: the new map is empty.\<close>

locale map_creation =
  fixes create :: "u32 \<Rightarrow> u32 \<Rightarrow> u32 \<Rightarrow> u32 \<Rightarrow> 'm \<Rightarrow> c_int \<times> 'm"
    and ops :: "c_int \<Rightarrow> ('m, bytes, bytes) map_ops"
  assumes created: "create t k v n m = (fd, m') \<Longrightarrow> map_lookup_elem (ops fd) m' = Map.empty"
begin

lemma hello3_event:
  assumes "create BPF_MAP_TYPE_HASH 4 4 10240 m = (fd, m')"
  shows "hello3 create ops e m =
    Inr (0, snd (map_update_elem (ops fd) m' (le_bytes 8 (uid_of e)) (le_bytes 8 (1 :: u64)) BPF_ANY))"
  using created [OF assms] assms
  by (simp add: hello3_def Let_def uid_of_def BPF_ANY_def case_prod_beta)

end

text \<open>Kernel maps by descriptor: each creation adds one, and the descriptor in use is that of the newest.\<close>

definition kmaps_create :: "u32 \<Rightarrow> u32 \<Rightarrow> u32 \<Rightarrow> u32 \<Rightarrow> sized_map list \<Rightarrow> c_int \<times> sized_map list" where
  "kmaps_create t k v n ms = (0, \<lparr>key_bytes = unat k, val_bytes = unat v, contents = hmap_new (unat n)\<rparr> # ms)"

definition kmaps_ops :: "c_int \<Rightarrow> (sized_map list, bytes, bytes) map_ops" where
  "kmaps_ops fd = \<lparr>
     map_lookup_elem = (\<lambda>ms k. case ms of [] \<Rightarrow> None | m # _ \<Rightarrow> map_lookup_elem sized_ops m k),
     map_update_elem = (\<lambda>ms k v fl. case ms of [] \<Rightarrow> (map_error, [])
        | m # ms \<Rightarrow> (case map_update_elem sized_ops m k v fl of (r, m') \<Rightarrow> (r, m' # ms)))\<rparr>"

interpretation km: map_creation kmaps_create kmaps_ops
  by unfold_locales (auto simp: kmaps_create_def kmaps_ops_def sized_ops_def fun_eq_iff)

text \<open>The program of \<open>bpf_maps3\<close> never counts beyond one. Each event creates a new, empty map,
  so its lookup finds nothing (which is why the over-read of \<open>*p\<close> does not happen), and the map holds 1, in
  4 bytes, for the event's user and nothing else.\<close>

lemma hello3_counts_one:
  "\<exists>m'. hello3 kmaps_create kmaps_ops e ms = Inr (0, m' # ms) \<and>
     hmap_lookup (contents m') = [le_bytes 4 (ucast e :: u32) \<mapsto> le_bytes 4 (1 :: u32)]"
proof -
  let ?m = "\<lparr>key_bytes = 4, val_bytes = 4, contents = hmap_new 10240\<rparr>"
  have "kmaps_create BPF_MAP_TYPE_HASH 4 4 10240 ms = (0, ?m # ms)" by (simp add: kmaps_create_def)
  from km.hello3_event [OF this, of e] show ?thesis
    by (simp add: kmaps_ops_def sized_ops_def hmap_update_def hmap_new_def hmap_lookup_def BPF_ANY_def uid_bytes
        take_le_bytes le_bytes_low [of 1] fun_eq_iff)
qed

text \<open>\<open>bpf_create_map\<close> under \<open>bpf_maps_helper.c\<close>. The user-space counter asks the kernel once
  for a hash map with 8-byte keys, 8-byte values and five million entries, and gives up with
  exit code 1 and the map untouched exactly when the low half of the answer is negative.\<close>

lemma helper_main_create:
  "helper_main (\<lambda>t k v n _. bpf_create_map bpf_call sz t k v n) ops getuid m =
     (let fd = ucast (bpf_call BPF_MAP_CREATE
         \<lparr>attr_map_type = 1, attr_key_size = 8, attr_value_size = 8, attr_max_entries = 5000000\<rparr> sz)
      in if sint (fd :: c_int) < 0 then (1, [Perror ''bpf_create_map failed''], m)
         else helper_main (\<lambda>_ _ _ _ _. fd) ops getuid m)"
  by (simp add: helper_main_def bpf_create_map_def sys_bpf_def BPF_MAP_TYPE_HASH_def Let_def)

end
