(* ===== verification/Bpf_Loop.thy ===== *)
theory Bpf_Loop
  imports Packet_Count
begin

text \<open>
  The helper \<open>bpf_loop\<close> and the program of \<open>bpf_loop/bpf_loop_ex.bpf.c\<close> that uses it.
  The helper runs in the kernel, so the program takes it as an argument; the locale
  \<open>loop_helper\<close> is what \<open>bpf_helper_defs.h\<close> documents, and \<open>bpf_loop_doc\<close> is the
  function that the documentation describes.
\<close>

section \<open>The helper\<close>

type_synonym 's callback = "u32 \<Rightarrow> 's \<Rightarrow> (c_int \<times> 's) cres"

text \<open>
  A callback with the state it works on; the result is the number of loops performed, or
  a negative error.
\<close>

type_synonym 's loop_fn = "u32 \<Rightarrow> 's callback \<Rightarrow> 's \<Rightarrow> u64 \<Rightarrow> (u64 \<times> 's) cres"

definition EINVAL :: u64 where "EINVAL = 22"
definition E2BIG :: u64 where "E2BIG = 7"
definition max_loops :: u32 where "max_loops = 2 ^ 23"

text \<open>
  At most \<open>n\<close> rounds from index \<open>i\<close>: a callback that returns 0 continues, another
  value skips the rest.
\<close>

fun rounds :: "'s callback \<Rightarrow> nat \<Rightarrow> nat \<Rightarrow> 's \<Rightarrow> (nat \<times> 's) cres" where
  "rounds cb i 0 s = Inr (0, s)"
| "rounds cb i (Suc n) s =
     bindE (cb (of_nat i) s) (\<lambda>(r, s').
       if r = 0 then bindE (rounds cb (Suc i) n s') (\<lambda>(k, s''). Inr (Suc k, s''))
       else Inr (1, s'))"

definition bpf_loop_doc :: "'s loop_fn" where
  "bpf_loop_doc nr cb s flags =
     (if flags \<noteq> 0 then Inr (- EINVAL, s)
      else if max_loops < nr then Inr (- E2BIG, s)
      else bindE (rounds cb 0 (unat nr) s) (\<lambda>(k, s'). Inr (of_nat k, s')))"

locale loop_helper =
  fixes loop :: "'s loop_fn"
  assumes bad_flags: "flags \<noteq> 0 \<Longrightarrow> loop nr cb s flags = Inr (- EINVAL, s)"
    and too_big: "max_loops < nr \<Longrightarrow> loop nr cb s 0 = Inr (- E2BIG, s)"
    and loops: "nr \<le> max_loops \<Longrightarrow>
      loop nr cb s 0 = bindE (rounds cb 0 (unat nr) s) (\<lambda>(k, s'). Inr (of_nat k, s'))"

interpretation bl: loop_helper bpf_loop_doc
  by unfold_locales (auto simp: bpf_loop_doc_def)

text \<open>A callback that leaves its state alone, described by what it returns.\<close>

lemma rounds_pure:
  assumes "\<And>k. i \<le> k \<Longrightarrow> k < i + n \<Longrightarrow> cb (of_nat k) s = Inr (f k, s)"
    and "\<And>k. i \<le> k \<Longrightarrow> k < i + n \<Longrightarrow> f k = 0"
  shows "rounds cb i n s = Inr (n, s)"
  using assms
proof (induction n arbitrary: i)
  case 0
  then show ?case by simp
next
  case (Suc n)
  have "rounds cb (Suc i) n s = Inr (n, s)"
    by (rule Suc.IH) (use Suc.prems in auto)
  then show ?case using Suc.prems [of i] by simp
qed

section \<open>The packet parser\<close>

text \<open>The context of an XDP program: the addresses of the first and past the last byte.\<close>

record xdp_md =
  data :: u32
  data_end :: u32

text \<open>Both fields are widened to pointers; \<open>__u32\<close> to \<open>long\<close> is a zero extension.\<close>

definition data_ptr :: "xdp_md \<Rightarrow> u64" where
  "data_ptr ctx = ucast (data ctx)"

definition data_end_ptr :: "xdp_md \<Rightarrow> u64" where
  "data_end_ptr ctx = ucast (data_end ctx)"

text \<open>
  The structure \<open>context_t\<close> that is handed to the callback has the context as its only
  field, so the callback's state is the context.
\<close>

definition do_check :: "memory \<Rightarrow> xdp_md callback" where
  "do_check mem index ctx =
     (let d = data_ptr ctx; d_end = data_end_ptr ctx
      in if 0 < index \<and> index \<le> 100 then
           let this_byte = d + ucast index;
               this_byte = d + 100
           in if d \<le> this_byte \<and> this_byte < d_end then
                bindE (load_u8 mem this_byte) (\<lambda>b.
                  if b = 123 then Inr (1, ctx) else Inr (0, ctx))
              else Inr (0, ctx)
         else Inr (0, ctx))"

definition xdp_parser_func :: "xdp_md loop_fn \<Rightarrow> memory \<Rightarrow> xdp_md \<Rightarrow> c_int cres" where
  "xdp_parser_func loop mem ctx =
     bindE (loop 1 (do_check mem) ctx 0) (\<lambda>_. Inr (xdp_value XDP_PASS))"

text \<open>The kernel's promise about the context: the bytes of the packet can be read.\<close>

definition packet_mapped :: "memory \<Rightarrow> xdp_md \<Rightarrow> bool" where
  "packet_mapped mem ctx \<longleftrightarrow>
     (\<forall>a. data_ptr ctx \<le> a \<and> a < data_end_ptr ctx \<longrightarrow> mem a \<noteq> None)"

text \<open>A pointer into the low 4 GiB does not wrap when a small offset is added.\<close>

lemma data_ptr_bound: "data_ptr ctx < 2 ^ 32"
  using unat_u32_less [of "data ctx"] by (simp add: word_less_nat_alt data_ptr_def unat_u32_u64)

lemma data_ptr_add:
  assumes "k < 2 ^ 32"
  shows "unat (data_ptr ctx + k) = unat (data_ptr ctx) + unat k"
proof -
  have "unat (data_ptr ctx) < 2 ^ 32" "unat k < 2 ^ 32"
    using data_ptr_bound [of ctx] assms by (simp_all add: word_less_nat_alt)
  then have "unat (data_ptr ctx) + unat k < 2 ^ 64" by simp
  then show ?thesis by (simp add: unat_word_ariths)
qed

lemma data_ptr_le_add: "k < 2 ^ 32 \<Longrightarrow> data_ptr ctx \<le> data_ptr ctx + k"
  by (simp add: word_le_nat_alt data_ptr_add)

lemma packet_mapped_at:
  assumes "packet_mapped mem ctx" and "k < 2 ^ 32" and "data_ptr ctx + k < data_end_ptr ctx"
  shows "\<exists>b. mem (data_ptr ctx + k) = Some b"
  using assms data_ptr_le_add [of k ctx] by (auto simp: packet_mapped_def)

text \<open>The byte every iteration looks at, if the packet has it.\<close>

definition byte_100 :: "memory \<Rightarrow> xdp_md \<Rightarrow> u8 option" where
  "byte_100 mem ctx =
     (if data_ptr ctx + 100 < data_end_ptr ctx then mem (data_ptr ctx + 100) else None)"

lemma do_check_mapped:
  assumes "packet_mapped mem ctx"
  shows "do_check mem index ctx =
     Inr (if 0 < index \<and> index \<le> 100 \<and> byte_100 mem ctx = Some 123 then 1 else 0, ctx)"
proof (cases "data_ptr ctx + 100 < data_end_ptr ctx")
  case True
  then obtain b where "mem (data_ptr ctx + 100) = Some b"
    using packet_mapped_at [OF assms, of 100] by auto
  with True show ?thesis
    using data_ptr_le_add [of 100 ctx] by (simp add: do_check_def byte_100_def Let_def)
next
  case False
  then show ?thesis by (auto simp: do_check_def byte_100_def Let_def)
qed

lemma do_check_0: "do_check mem 0 ctx = Inr (0, ctx)"
  by (simp add: do_check_def Let_def)

context loop_helper
begin

lemma loop_one: "loop 1 cb s 0 = bindE (cb 0 s) (\<lambda>(r, s'). Inr (1, s'))"
proof -
  have "loop 1 cb s 0 = bindE (rounds cb 0 (unat (1 :: u32)) s) (\<lambda>(k, s'). Inr (of_nat k, s'))"
    by (rule loops) (simp add: max_loops_def word_le_nat_alt)
  then show ?thesis
    by (cases "cb 0 s") (auto simp: unat_1 split: prod.splits)
qed

end

locale parser_loop = loop_helper loop for loop :: "xdp_md loop_fn"
begin

lemma parser: "xdp_parser_func loop mem ctx = Inr (xdp_value XDP_PASS)"
  by (simp add: xdp_parser_func_def loop_one do_check_0)

lemma check_loop:
  assumes "packet_mapped mem ctx" and "nr \<le> max_loops"
  shows "loop nr (do_check mem) ctx 0 =
     Inr (if byte_100 mem ctx = Some 123 \<and> 1 < nr then 2 else ucast nr, ctx)"
proof (cases "byte_100 mem ctx = Some 123 \<and> 1 < nr")
  case True
  then have "2 \<le> unat nr" by (simp add: word_less_nat_alt)
  then obtain n where n: "unat nr = Suc (Suc n)"
    by (metis add_2_eq_Suc le_Suc_ex)
  from True show ?thesis
    using assms by (simp add: loops n do_check_mapped)
next
  case False
  show ?thesis
  proof (cases "byte_100 mem ctx = Some 123")
    case True
    with False have "nr = 0 \<or> nr = 1" by (simp, unat_arith)
    then show ?thesis
      using assms False by (auto simp: loops do_check_0)
  next
    case no: False
    have "rounds (do_check mem) 0 (unat nr) ctx = Inr (unat nr, ctx)"
      by (rule rounds_pure [where f = "\<lambda>_. 0"]) (simp_all add: do_check_mapped [OF assms(1)] no)
    then show ?thesis using assms False no by (simp add: loops)
  qed
qed

end

interpretation pl: parser_loop bpf_loop_doc
  by unfold_locales

section \<open>Properties\<close>

text \<open>C28: the bounds check of \<open>do_check\<close> does its job. When the bytes of the packet can be read,
  the callback is defined for every index and every context, and what lies outside the
  packet has no influence on it.\<close>

theorem do_check_safe:
  assumes "packet_mapped mem ctx"
    and "\<And>a. data_ptr ctx \<le> a \<Longrightarrow> a < data_end_ptr ctx \<Longrightarrow> mem' a = mem a"
  shows "(do_check mem index ctx = Inr (0, ctx) \<or> do_check mem index ctx = Inr (1, ctx)) \<and>
    do_check mem' index ctx = do_check mem index ctx"
proof -
  have "packet_mapped mem' ctx"
    using assms by (auto simp: packet_mapped_def)
  moreover have "byte_100 mem' ctx = byte_100 mem ctx"
    using assms(2) [of "data_ptr ctx + 100"] data_ptr_le_add [of 100 ctx] by (simp add: byte_100_def)
  ultimately show ?thesis
    using assms(1) by (simp add: do_check_mapped)
qed

theorem do_check_safe_witness:
  "do_check (\<lambda>a. if a < 200 then Some 123 else None) 7 \<lparr>data = 0, data_end = 101\<rparr> =
   do_check (\<lambda>a. if a < 101 then Some 123 else None) 7 \<lparr>data = 0, data_end = 101\<rparr>"
proof -
  have "packet_mapped (\<lambda>a. if a < 101 then Some 123 else None) \<lparr>data = 0, data_end = 101\<rparr>"
    by (simp add: packet_mapped_def data_ptr_def data_end_ptr_def)
  moreover have "(if a < 200 then Some 123 else None) = (if a < 101 then Some (123 :: u8) else None)"
    if "a < data_end_ptr \<lparr>data = 0, data_end = 101\<rparr>" for a
    using that by (simp add: data_end_ptr_def) (unat_arith)
  ultimately show ?thesis
    by (intro conjunct2 [OF do_check_safe]) auto
qed

text \<open>\<open>bpf_loop\<close> over \<open>do_check\<close>. With at most \<open>2 ^ 23\<close> rounds it stops in its second round
  when byte 100 of the packet is 123, since the round of index 0 never looks at the packet,
  and performs all its rounds otherwise.\<close>

lemma do_check_loop:
  assumes "loop_helper loop" and "packet_mapped mem ctx" and "nr \<le> max_loops"
  shows "loop nr (do_check mem) ctx 0 =
     Inr (if byte_100 mem ctx = Some 123 \<and> 1 < nr then 2 else ucast nr, ctx)"
  using parser_loop.check_loop [OF parser_loop.intro [OF assms(1)] assms(2,3)] .

lemma do_check_loop_instance:
  "bpf_loop_doc 50 (do_check (\<lambda>_. Some 123)) \<lparr>data = 0, data_end = 101\<rparr> 0 =
     Inr (2, \<lparr>data = 0, data_end = 101\<rparr>)"
proof -
  have "packet_mapped (\<lambda>_. Some 123) \<lparr>data = 0, data_end = 101\<rparr>"
    by (simp add: packet_mapped_def)
  from do_check_loop [OF bl.loop_helper_axioms this, of 50] show ?thesis
    by (simp add: byte_100_def data_ptr_def data_end_ptr_def max_loops_def word_le_nat_alt)
qed

text \<open>The program asks for one round only, whose index is 0, so it passes every packet and
  never reads one: it is defined even where no memory can be read.\<close>

lemma xdp_parser_passes:
  assumes "loop_helper loop"
  shows "xdp_parser_func loop mem ctx = Inr (xdp_value XDP_PASS)"
  using parser_loop.parser [OF parser_loop.intro [OF assms]] .

lemma xdp_parser_passes_instance:
  "xdp_parser_func bpf_loop_doc Map.empty \<lparr>data = 0, data_end = 1500\<rparr> = Inr (xdp_value XDP_PASS)"
  by (rule xdp_parser_passes [OF bl.loop_helper_axioms])

end
