(* ===== verification/Xdp_Drop.thy ===== *)
theory Xdp_Drop
  imports Bpf_Loop
begin

text \<open>
  The packet filter of \<open>xdp_drop_prog/xdp_drop_prog.bpf.c\<close>. Its local \<open>h_proto\<close> is read
  before it is assigned. The model takes the initial content of \<open>h_proto\<close> as an argument:
  \<open>None\<close> is the C abstract machine, where the read is undefined, \<open>Some j\<close> an
  implementation in which the variable happens to hold \<open>j\<close>.
\<close>

section \<open>The program\<close>

definition ETH_P_IPV4 :: u16 where "ETH_P_IPV4 = 0x0800"

definition htons :: "u16 \<Rightarrow> u16" where
  "htons x = push_bit 8 x OR drop_bit 8 x"

text \<open>\<open>struct ethhdr\<close>: two six-byte addresses, then the protocol.\<close>

definition sizeof_ethhdr :: u64 where "sizeof_ethhdr = 14"
definition offset_h_proto :: u64 where "offset_h_proto = 12"

definition drop_check :: "trace callback" where
  "drop_check index tr =
     Inr (0, bpf_printk ''The value of h_proto is %d'' [sint index] tr)"

text \<open>The format of the message for IPv4 packets, with its newline.\<close>

definition ipv4_format :: string where
  "ipv4_format = ''There is an ipv4 packet and sum is %d'' @ [CHR 0x0A]"

definition read_local :: "'a option \<Rightarrow> 'a cres" where
  "read_local x = (case x of Some v \<Rightarrow> Inr v | None \<Rightarrow> Inl UninitRead)"

text \<open>\<open>for (int i = 0; i < 1024; i++)\<close> from a given \<open>i\<close>.\<close>

function fill :: "nat \<Rightarrow> u16 option \<Rightarrow> c_int list \<Rightarrow> c_int \<Rightarrow> (c_int list \<times> c_int) cres" where
  "fill i h_proto arr acc =
     (if i < 1024 then
        bindE (read_local h_proto) (\<lambda>h.
        bindE (int_add (of_nat i) (ucast h)) (\<lambda>x.
        bindE (arr_set arr i x) (\<lambda>arr.
        bindE (arr_get arr i) (\<lambda>a.
        bindE (int_add acc a) (\<lambda>acc.
        fill (Suc i) h_proto arr acc)))))
      else Inr (arr, acc))"
  by pat_completeness auto
termination
  by (relation "measure (\<lambda>(i, _). 1024 - i)") auto

declare fill.simps [simp del]

definition xdp_drop_prog ::
  "trace loop_fn \<Rightarrow> u16 option \<Rightarrow> memory \<Rightarrow> xdp_md \<Rightarrow> trace \<Rightarrow> (c_int \<times> trace) cres" where
  "xdp_drop_prog loop h_proto mem ctx tr =
     (let d_end = data_end_ptr ctx;
          d = data_ptr ctx;
          eth = d;
          arr = 1 # replicate 1023 0
      in bindE (fill 0 h_proto arr 0) (\<lambda>(arr, acc).
         if d + sizeof_ethhdr > d_end then Inr (xdp_value XDP_DROP, tr)
         else
           bindE (load_u16 mem (eth + offset_h_proto)) (\<lambda>h_proto.
           bindE (loop 100000000 drop_check tr 0) (\<lambda>(_, tr).
           let tr = (if h_proto = htons ETH_P_IPV4
                     then bpf_printk ipv4_format [sint acc] tr
                     else tr)
           in Inr (xdp_value XDP_PASS, tr)))))"

section \<open>The array loop\<close>

text \<open>The sum of the first \<open>i\<close> elements.\<close>

definition partial_sum :: "u16 \<Rightarrow> nat \<Rightarrow> int" where
  "partial_sum j i = (\<Sum>k<i. int k + uint j)"

lemma partial_sum_Suc: "partial_sum j (Suc i) = partial_sum j i + (int i + uint j)"
  by (simp add: partial_sum_def)

lemma partial_sum_0 [simp]: "partial_sum j 0 = 0"
  by (simp add: partial_sum_def)

lemma partial_sum_closed: "2 * partial_sum j i = int i * (int i - 1) + 2 * int i * uint j"
  by (induction i) (simp_all add: partial_sum_Suc algebra_simps)

lemma uint_u16_bounds: "0 \<le> uint (j :: u16)" "uint (j :: u16) \<le> 65535"
proof -
  have "uint j < 2 ^ 16" by (rule order_less_le_trans [OF unsigned_less]) simp
  then show "uint j \<le> 65535" by simp
qed simp

lemma partial_sum_nonneg: "0 \<le> partial_sum j i"
  using uint_u16_bounds(1) [of j] by (simp add: partial_sum_def sum_nonneg)

lemma partial_sum_mono: "i \<le> k \<Longrightarrow> partial_sum j i \<le> partial_sum j k"
  unfolding partial_sum_def
  using uint_u16_bounds(1) [of j] by (intro sum_mono2) auto

lemma partial_sum_total: "partial_sum j 1024 = 523776 + 1024 * uint j"
  using partial_sum_closed [of j 1024] by simp

lemma partial_sum_bound: "i \<le> 1024 \<Longrightarrow> partial_sum j i \<le> 67631616"
  using partial_sum_mono [of i 1024 j] partial_sum_total [of j] uint_u16_bounds(2) [of j]
  by linarith

definition filled :: "u16 \<Rightarrow> nat \<Rightarrow> c_int list" where
  "filled j i = map (\<lambda>k. word_of_int (int k + uint j)) [0..<i]"

lemma fill_step:
  assumes "i < 1024" and "length arr = 1024"
  shows "fill i (Some j) arr (word_of_int (partial_sum j i)) =
    fill (Suc i) (Some j) (arr[i := word_of_int (int i + uint j)]) (word_of_int (partial_sum j (Suc i)))"
proof -
  have b: "0 \<le> uint j" "uint j \<le> 65535" by (rule uint_u16_bounds)+
  have s: "0 \<le> partial_sum j i" "partial_sum j (Suc i) \<le> 67631616"
    using assms partial_sum_bound [of "Suc i" j] by (simp_all add: partial_sum_nonneg)
  have "int_add (of_nat i) (ucast j) = Inr (word_of_int (int i + uint j))"
    using int_add_of_int [of "int i" "uint j"] b assms(1) by simp
  moreover have "int_add (word_of_int (partial_sum j i)) (word_of_int (int i + uint j)) =
      Inr (word_of_int (partial_sum j (Suc i)))"
    using int_add_of_int [of "partial_sum j i" "int i + uint j"] b s assms(1)
    by (simp add: partial_sum_Suc)
  ultimately show ?thesis
    using assms by (subst fill.simps) (simp add: read_local_def)
qed

lemma fill_from:
  assumes "i \<le> 1024" and "length arr = 1024"
  shows "fill i (Some j) arr (word_of_int (partial_sum j i)) =
    Inr (take i arr @ map (\<lambda>k. word_of_int (int k + uint j)) [i..<1024],
         word_of_int (partial_sum j 1024))"
  using assms
proof (induction "1024 - i" arbitrary: i arr)
  case 0
  then show ?case by (subst fill.simps) simp
next
  case (Suc n)
  then have i: "i < 1024" by simp
  let ?v = "word_of_int (int i + uint j)"
  have "fill (Suc i) (Some j) (arr[i := ?v]) (word_of_int (partial_sum j (Suc i))) =
      Inr (take (Suc i) (arr[i := ?v]) @ map (\<lambda>k. word_of_int (int k + uint j)) [Suc i..<1024],
           word_of_int (partial_sum j 1024))"
    using Suc i by (intro Suc.hyps(1)) auto
  also have "take (Suc i) (arr[i := ?v]) = take i arr @ [?v]"
    using i Suc.prems by (simp add: take_Suc_conv_app_nth)
  finally show ?case
    using i Suc.prems by (simp add: fill_step upt_conv_Cons)
qed

definition arr_sum :: "u16 \<Rightarrow> c_int" where
  "arr_sum j = word_of_int (523776 + 1024 * uint j)"

lemma sint_arr_sum: "sint (arr_sum j) = 523776 + 1024 * uint j"
  unfolding arr_sum_def using uint_u16_bounds [of j] by (intro sint_of_int32) auto

lemma fill_all:
  assumes "length arr = 1024"
  shows "fill 0 (Some j) arr 0 = Inr (filled j 1024, arr_sum j)"
  using fill_from [of 0 arr j] assms by (simp add: filled_def arr_sum_def partial_sum_total)

lemma fill_uninit: "fill 0 None arr s = Inl UninitRead"
  by (subst fill.simps) (simp add: read_local_def)

section \<open>The rest of the program\<close>

text \<open>The two bytes of the type field, in the order in which they are on the wire.\<close>

definition is_ipv4 :: "memory \<Rightarrow> xdp_md \<Rightarrow> bool" where
  "is_ipv4 mem ctx \<longleftrightarrow>
     mem (data_ptr ctx + 12) = Some 0x08 \<and> mem (data_ptr ctx + 13) = Some 0x00"

definition too_short :: "xdp_md \<Rightarrow> bool" where
  "too_short ctx \<longleftrightarrow> unat (data_end_ptr ctx) < unat (data_ptr ctx) + 14"

lemma too_short_iff: "data_ptr ctx + sizeof_ethhdr > data_end_ptr ctx \<longleftrightarrow> too_short ctx"
  by (simp add: too_short_def sizeof_ethhdr_def word_less_nat_alt data_ptr_add)

lemma u16_bytes:
  fixes lo hi :: u8
  defines "w \<equiv> ucast lo OR push_bit 8 (ucast hi) :: u16"
  shows "ucast w = lo" and "ucast (drop_bit 8 w) = hi"
  unfolding w_def by (rule bit_word_eqI, auto simp: bit_simps dest: bit_imp_le_length)+

lemma htons_ipv4: "htons ETH_P_IPV4 = 8"
  by (simp add: htons_def ETH_P_IPV4_def)

lemma ipv4_bytes:
  fixes lo hi :: u8
  shows "(ucast lo OR push_bit 8 (ucast hi) :: u16) = htons ETH_P_IPV4 \<longleftrightarrow> lo = 8 \<and> hi = 0"
proof
  assume "(ucast lo OR push_bit 8 (ucast hi) :: u16) = htons ETH_P_IPV4"
  then have w: "(ucast lo OR push_bit 8 (ucast hi) :: u16) = 8" by (simp only: htons_ipv4)
  have "lo = ucast (8 :: u16)" and "hi = ucast (drop_bit 8 (8 :: u16))"
    using u16_bytes [of lo hi] by (simp_all only: w)
  then show "lo = 8 \<and> hi = 0" by simp
next
  assume "lo = 8 \<and> hi = 0"
  then show "(ucast lo OR push_bit 8 (ucast hi) :: u16) = htons ETH_P_IPV4"
    by (simp add: htons_ipv4)
qed

lemma load_h_proto:
  assumes "packet_mapped mem ctx" and "\<not> too_short ctx"
  obtains h where "load_u16 mem (data_ptr ctx + offset_h_proto) = Inr h"
    and "h = htons ETH_P_IPV4 \<longleftrightarrow> is_ipv4 mem ctx"
proof -
  have lt: "data_ptr ctx + 12 < data_end_ptr ctx" "data_ptr ctx + 13 < data_end_ptr ctx"
    using assms(2) by (simp_all add: too_short_def word_less_nat_alt data_ptr_add)
  then obtain lo hi where "mem (data_ptr ctx + 12) = Some lo" "mem (data_ptr ctx + 13) = Some hi"
    using packet_mapped_at [OF assms(1), of 12] packet_mapped_at [OF assms(1), of 13] by auto
  then show ?thesis
    using that by (simp add: load_u16_def offset_h_proto_def add.assoc ipv4_bytes is_ipv4_def)
qed

locale drop_loop = loop_helper loop for loop :: "trace loop_fn"
begin

text \<open>More rounds are asked for than the helper allows, so the callback never runs.\<close>

lemma loop_refused: "loop 100000000 cb s 0 = Inr (- E2BIG, s)"
  by (rule too_big) (simp add: max_loops_def)

lemma drop_prog:
  assumes "packet_mapped mem ctx"
  shows "xdp_drop_prog loop (Some j) mem ctx tr =
     Inr (if too_short ctx then (xdp_value XDP_DROP, tr)
          else (xdp_value XDP_PASS,
                if is_ipv4 mem ctx
                then tr @ [(ipv4_format, [523776 + 1024 * uint j])]
                else tr))"
proof (cases "too_short ctx")
  case True
  then show ?thesis
    by (simp add: xdp_drop_prog_def Let_def fill_all too_short_iff)
next
  case False
  obtain h where "load_u16 mem (data_ptr ctx + offset_h_proto) = Inr h"
    and "h = htons ETH_P_IPV4 \<longleftrightarrow> is_ipv4 mem ctx"
    by (rule load_h_proto [OF assms False])
  with False show ?thesis
    by (simp add: xdp_drop_prog_def Let_def fill_all too_short_iff loop_refused sint_arr_sum
        bpf_printk_def)
qed

end

interpretation dl: drop_loop bpf_loop_doc
  by unfold_locales

section \<open>Properties\<close>

text \<open>C32: the array loop. From any content of the array and any value \<open>j\<close> of \<open>h_proto\<close>, the loop
  stays within the array, no addition overflows, element \<open>k\<close> becomes \<open>k + j\<close>, and the sum is
  the exact \<open>523776 + 1024 * j\<close>.\<close>

theorem fill_result:
  assumes "length arr = 1024"
  shows "\<exists>arr' s. fill 0 (Some j) arr 0 = Inr (arr', s) \<and> length arr' = 1024 \<and>
    (\<forall>k < 1024. sint (arr' ! k) = int k + uint j) \<and> sint s = 523776 + 1024 * uint j"
proof -
  have "sint (filled j 1024 ! k) = int k + uint j" if "k < 1024" for k
  proof -
    have "filled j 1024 ! k = word_of_int (int k + uint j)"
      unfolding filled_def using that by (subst nth_map) (simp_all del: of_int_add)
    moreover have "sint (word_of_int (int k + uint j) :: c_int) = int k + uint j"
      by (rule sint_of_int32, rule order_trans [of _ 0])
         (use that uint_u16_bounds(2) [of j] in simp_all)
    ultimately show ?thesis by (simp only:)
  qed
  moreover have "length (filled j 1024) = 1024" by (simp add: filled_def)
  ultimately show ?thesis
    using fill_all [OF assms, of j] sint_arr_sum [of j] by auto
qed

theorem fill_result_witness:
  "\<exists>arr' s. fill 0 (Some 8) (1 # replicate 1023 0) 0 = Inr (arr', s) \<and> sint s = 531968"
proof -
  have "length (1 # replicate 1023 (0 :: c_int)) = 1024" by simp
  from fill_result [OF this, of 8] show ?thesis by auto
qed

text \<open>C33: \<open>h_proto\<close> is read in the first round of the array loop before anything is assigned to
  it, so in the C abstract machine every run of the program is undefined.\<close>

theorem xdp_drop_undefined:
  "xdp_drop_prog loop None mem ctx tr = Inl UninitRead"
  by (simp add: xdp_drop_prog_def Let_def fill_uninit)

text \<open>C14: what the program does when the variable holds some \<open>j\<close>. A packet too short for an
  Ethernet header is dropped; every other packet is passed, whatever its protocol, since
  \<open>bpf_loop\<close> refuses more than \<open>2 ^ 23\<close> rounds and its callback never runs; an IPv4 packet is
  reported with the sum of the array. No byte outside the packet is read.\<close>

theorem xdp_drop_result:
  assumes "loop_helper loop" and "packet_mapped mem ctx"
  shows "xdp_drop_prog loop (Some j) mem ctx tr =
    (if unat (data_end ctx) < unat (data ctx) + 14 then Inr (xdp_value XDP_DROP, tr)
     else if mem (data_ptr ctx + 12) = Some 0x08 \<and> mem (data_ptr ctx + 13) = Some 0x00
     then Inr (xdp_value XDP_PASS,
       tr @ [(ipv4_format, [523776 + 1024 * uint j])])
     else Inr (xdp_value XDP_PASS, tr))"
  using drop_loop.drop_prog [OF drop_loop.intro [OF assms(1)] assms(2), of j tr]
  by (simp add: too_short_def is_ipv4_def data_ptr_def data_end_ptr_def unat_u32_u64)

theorem xdp_drop_result_witness:
  "xdp_drop_prog bpf_loop_doc (Some 0) (\<lambda>a. Some (if a = 12 then 8 else 0))
     \<lparr>data = 0, data_end = 64\<rparr> [] =
   Inr (xdp_value XDP_PASS, [(ipv4_format, [523776])])"
proof -
  have "packet_mapped (\<lambda>a. Some (if a = 12 then 8 else 0)) \<lparr>data = 0, data_end = 64\<rparr>"
    by (simp add: packet_mapped_def)
  from xdp_drop_result [OF bl.loop_helper_axioms this, of 0 "[]"] show ?thesis
    by (simp add: data_ptr_def)
qed

end
