(* ===== verification/Hello_Kernel.thy ===== *)
theory Hello_Kernel
  imports Hash_Map Bpf_Loop
begin

text \<open>
  The kernel side of the verifier example, \<open>verifier_example/hello-verifier.bpf.c\<close> and
  the structures of \<open>hello-verifier.h\<close>: the \<open>execve\<close> probe \<open>kprobe_exec\<close>, which sends a
  \<open>data_t\<close> sample to user space, and the XDP program \<open>xdp_hello\<close>. What the helpers
  return for one event is the record \<open>probe_env\<close>; the locale \<open>probe_helpers\<close> states what
  \<open>bpf_helper_defs.h\<close> documents of them.
\<close>

section \<open>Data\<close>

record data_t =
  pid :: c_int
  uid :: c_int
  d_counter :: c_int
  command :: bytes
  message :: bytes

record msg_t =
  m_message :: bytes

definition data_zero :: data_t where
  "data_zero = \<lparr>pid = 0, uid = 0, d_counter = 0, command = replicate 16 0, message = replicate 12 0\<rparr>"

definition data_wf :: "data_t \<Rightarrow> bool" where
  "data_wf d \<longleftrightarrow> length (command d) = 16 \<and> length (message d) = 12"

text \<open>The globals of the program, its maps, and what it has printed and submitted.\<close>

record 'm probe_state =
  c :: c_int
  g_message :: bytes
  my_config :: 'm
  submitted :: "bytes list"
  printed :: trace

definition probe_init :: "'m \<Rightarrow> 'm probe_state" where
  "probe_init m = \<lparr>c = 1, g_message = str_bytes ''Hello World'' @ [0], my_config = m,
     submitted = [], printed = []\<rparr>"

definition my_config_map :: "(u32, msg_t) hmap" where
  "my_config_map = hmap_new 10240"

definition print :: "string \<Rightarrow> int list \<Rightarrow> 'm probe_state \<Rightarrow> 'm probe_state" where
  "print fmt args s = s\<lparr>printed := bpf_printk fmt args (printed s)\<rparr>"

section \<open>The layout of a sample\<close>

definition encode_data :: "data_t \<Rightarrow> bytes" where
  "encode_data d = le_bytes 4 (pid d) @ le_bytes 4 (uid d) @ le_bytes 4 (d_counter d)
     @ command d @ message d"

definition decode_data :: "bytes \<Rightarrow> data_t" where
  "decode_data b = \<lparr>pid = of_le (take 4 b), uid = of_le (take 4 (drop 4 b)),
     d_counter = of_le (take 4 (drop 8 b)), command = take 16 (drop 12 b),
     message = take 12 (drop 28 b)\<rparr>"

definition sizeof_data_t :: nat where "sizeof_data_t = 40"

lemma length_encode_data: "data_wf d \<Longrightarrow> length (encode_data d) = sizeof_data_t"
  by (simp add: encode_data_def data_wf_def sizeof_data_t_def)

lemma decode_encode: "data_wf d \<Longrightarrow> decode_data (encode_data d) = d"
  by (simp add: encode_data_def decode_data_def data_wf_def)

section \<open>The helpers\<close>

text \<open>
  \<open>probe_read n src dst\<close> is \<open>bpf_probe_read_kernel (dst, n, src)\<close>: its result and the new
  content of \<open>dst\<close>; \<open>get_comm n dst\<close> is \<open>bpf_get_current_comm (dst, n)\<close>.
\<close>

record probe_env =
  pid_tgid :: u64
  uid_gid :: u64
  probe_read :: "nat \<Rightarrow> bytes \<Rightarrow> bytes \<Rightarrow> u64 \<times> bytes"
  get_comm :: "nat \<Rightarrow> bytes \<Rightarrow> u64 \<times> bytes"

locale probe_helpers =
  fixes env :: probe_env
  assumes read_ok: "probe_read env n src dst = (0, dst') \<Longrightarrow> dst' = take n src @ drop n dst"
    and read_length: "length src = n \<Longrightarrow> length dst = n \<Longrightarrow> length (snd (probe_read env n src dst)) = n"
    and comm_length: "length dst = n \<Longrightarrow> length (snd (get_comm env n dst)) = n"
    and comm_nul: "0 < n \<Longrightarrow> length dst = n \<Longrightarrow> 0 \<in> set (snd (get_comm env n dst))"

definition doc_env :: "u64 \<Rightarrow> u64 \<Rightarrow> bytes \<Rightarrow> probe_env" where
  "doc_env pt ug comm = \<lparr>pid_tgid = pt, uid_gid = ug,
     probe_read = (\<lambda>n src dst. (0, take n src @ drop n dst)),
     get_comm = (\<lambda>n dst. (0, take n (take (n - 1) comm @ replicate n 0) @ drop n dst))\<rparr>"

interpretation de: probe_helpers "doc_env pt ug comm"
proof unfold_locales
  fix n and dst :: bytes
  assume n: "length dst = n"
  then show "length (snd (get_comm (doc_env pt ug comm) n dst)) = n"
    by (simp add: doc_env_def)
  assume "0 < n"
  then have "replicate n (0 :: u8) = 0 # replicate (n - 1) 0"
    by (metis Suc_pred' replicate_Suc)
  then show "0 \<in> set (snd (get_comm (doc_env pt ug comm) n dst))"
    using \<open>0 < n\<close> by (auto simp: doc_env_def take_Cons')
qed (auto simp: doc_env_def)

section \<open>The programs\<close>

definition deref :: "'a option \<Rightarrow> 'a cres" where
  "deref p = (case p of Some x \<Rightarrow> Inr x | None \<Rightarrow> Inl NullDeref)"

text \<open>\<open>c < sizeof (\<dots>)\<close> compares as unsigned 64-bit values: \<open>c\<close> is sign-extended first.\<close>

definition as_size :: "c_int \<Rightarrow> u64" where
  "as_size x = scast x"

text \<open>The helper reads a 32-bit key at \<open>&uid\<close>, the address of a 64-bit variable.\<close>

definition key_at :: "u64 \<Rightarrow> u32" where
  "key_at w = of_le (take 4 (le_bytes 8 w))"

definition kprobe_exec ::
  "('m, u32, msg_t) map_ops \<Rightarrow> probe_env \<Rightarrow> 'm probe_state \<Rightarrow> (c_int \<times> 'm probe_state) cres" where
  "kprobe_exec ops env s =
     (let data = data_zero\<lparr>d_counter := c s\<rparr>
      in bindE (int_add (c s) 1) (\<lambda>c'.
     let s = s\<lparr>c := c'\<rparr>;
         data = data\<lparr>pid := ucast (pid_tgid env)\<rparr>;
         uid' = uid_gid env AND 0xFFFFFFFF;
         data = data\<lparr>uid := ucast uid'\<rparr>;
         p = map_lookup_elem ops (my_config s) (key_at uid')
      in bindE (if p \<noteq> None then
                  bindE (deref p) (\<lambda>m. bindE (arr_get (m_message m) 0) (\<lambda>a.
                    Inr (print ''%d'' [sint a] s)))
                else Inr s) (\<lambda>s.
      bindE (if p \<noteq> None then
               bindE (deref p) (\<lambda>m.
                 Inr (data\<lparr>message := snd (probe_read env 12 (m_message m) (message data))\<rparr>))
             else Inr (data\<lparr>message := snd (probe_read env 12 (g_message s) (message data))\<rparr>)) (\<lambda>data.
      bindE (if as_size (c s) < 12 then
               bindE (arr_get (g_message s) (unat (as_size (c s)))) (\<lambda>a.
                 Inr (print ''%c'' [sint a] s))
             else Inr s) (\<lambda>s.
      bindE (if as_size (c s) < 12 then
               bindE (arr_get (message data) (unat (as_size (c s)))) (\<lambda>a.
                 Inr (print ''%c'' [sint a] s))
             else Inr s) (\<lambda>s.
      let data = data\<lparr>command := snd (get_comm env 16 (command data))\<rparr>
      in Inr (0, s\<lparr>submitted := submitted s @ [encode_data data]\<rparr>)))))))"

definition xdp_hello :: "xdp_md \<Rightarrow> trace \<Rightarrow> c_int \<times> trace" where
  "xdp_hello ctx tr =
     (let data = data_ptr ctx; data_end = data_end_ptr ctx
      in (xdp_value XDP_PASS, bpf_printk ''%x %x'' [uint data, uint data_end] tr))"

section \<open>Arithmetic of the guards and the key\<close>

lemma key_at_masked: "key_at (w AND 0xFFFFFFFF) = ucast w"
proof -
  have m: "(0xFFFFFFFF :: u64) = mask 32" by (simp add: mask_eq_exp_minus_1)
  have "key_at (w AND 0xFFFFFFFF) = ucast (w AND 0xFFFFFFFF)"
    by (simp add: key_at_def take_le_bytes of_le_low_u64)
  also have "\<dots> = ucast w"
    by (rule bit_word_eqI) (auto simp: m bit_simps)
  finally show ?thesis .
qed

lemma low_masked: "(ucast (w AND 0xFFFFFFFF :: u64) :: u32) = ucast w"
proof -
  have m: "(0xFFFFFFFF :: u64) = mask 32" by (simp add: mask_eq_exp_minus_1)
  show ?thesis by (rule bit_word_eqI) (auto simp: m bit_simps)
qed

lemma uint_as_size: "uint (as_size x) = sint x mod 2 ^ 64"
proof -
  have "uint (as_size x) = uint (word_of_int (sint x) :: u64)"
    by (simp only: as_size_def scast_eq)
  also have "\<dots> = sint x mod 2 ^ 64"
    by (simp only: uint_word_of_int) simp
  finally show ?thesis .
qed

lemma as_size_less:
  assumes "0 \<le> n" "n < 2 ^ 31"
  shows "uint (as_size x) < n \<longleftrightarrow> 0 \<le> sint x \<and> sint x < n"
proof -
  have u: "uint (as_size x) = sint x mod 2 ^ 64"
    by (simp only: uint_as_size)
  show ?thesis
  proof (cases "0 \<le> sint x")
    case True
    then show ?thesis using u sint_word32_upper [of x] by simp
  next
    case False
    then have "(sint x + 2 ^ 64) mod 2 ^ 64 = sint x + 2 ^ 64"
      using sint_word32_lower [of x] by (intro mod_pos_pos_trivial) simp_all
    then show ?thesis
      using u False sint_word32_lower [of x] assms by simp
  qed
qed

lemma as_size_guard: "as_size x < 12 \<longleftrightarrow> 0 \<le> sint x \<and> sint x < 12"
  using as_size_less [of 12 x] by (simp add: word_less_def)

lemma as_size_unat: "0 \<le> sint x \<Longrightarrow> unat (as_size x) = nat (sint x)"
  using sint_word32_upper [of x] uint_as_size [of x] by (simp add: unat_eq_nat_uint)

section \<open>What one event does\<close>

text \<open>The message of a user: the configured one, or the program's own.\<close>

definition chosen_message :: "('m, u32, msg_t) map_ops \<Rightarrow> probe_env \<Rightarrow> 'm probe_state \<Rightarrow> bytes" where
  "chosen_message ops env s =
     (case map_lookup_elem ops (my_config s) (ucast (uid_gid env)) of
        Some m \<Rightarrow> m_message m | None \<Rightarrow> g_message s)"

definition sample :: "('m, u32, msg_t) map_ops \<Rightarrow> probe_env \<Rightarrow> 'm probe_state \<Rightarrow> data_t" where
  "sample ops env s = \<lparr>pid = ucast (pid_tgid env), uid = ucast (uid_gid env), d_counter = c s,
     command = snd (get_comm env 16 (replicate 16 0)),
     message = snd (probe_read env 12 (chosen_message ops env s) (replicate 12 0))\<rparr>"

definition event_prints :: "('m, u32, msg_t) map_ops \<Rightarrow> probe_env \<Rightarrow> 'm probe_state \<Rightarrow> trace" where
  "event_prints ops env s =
     (case map_lookup_elem ops (my_config s) (ucast (uid_gid env)) of
        Some m \<Rightarrow> [(''%d'', [sint (m_message m ! 0)])] | None \<Rightarrow> []) @
     (if 0 \<le> sint (c s + 1) \<and> sint (c s + 1) < 12
      then [(''%c'', [sint (g_message s ! nat (sint (c s + 1)))]),
            (''%c'', [sint (message (sample ops env s) ! nat (sint (c s + 1)))])]
      else [])"

definition probe_wf :: "('m, u32, msg_t) map_ops \<Rightarrow> 'm probe_state \<Rightarrow> bool" where
  "probe_wf ops s \<longleftrightarrow> length (g_message s) = 12 \<and>
     (\<forall>k m. map_lookup_elem ops (my_config s) k = Some m \<longrightarrow> length (m_message m) = 12)"

definition after_event :: "('m, u32, msg_t) map_ops \<Rightarrow> probe_env \<Rightarrow> 'm probe_state \<Rightarrow> 'm probe_state" where
  "after_event ops env s = s\<lparr>c := c s + 1,
     submitted := submitted s @ [encode_data (sample ops env s)],
     printed := printed s @ event_prints ops env s\<rparr>"

lemma chosen_length: "probe_wf ops s \<Longrightarrow> length (chosen_message ops env s) = 12"
  by (auto simp: probe_wf_def chosen_message_def split: option.splits)

lemma probe_wf_after: "probe_wf ops s \<Longrightarrow> probe_wf ops (after_event ops env s)"
  by (simp add: probe_wf_def after_event_def)

context probe_helpers
begin

lemma sample_wf: "probe_wf ops s \<Longrightarrow> data_wf (sample ops env s)"
  by (simp add: data_wf_def sample_def read_length chosen_length comm_length)

lemma kprobe_exec_event:
  assumes wf: "probe_wf ops s" and c: "c s \<noteq> int_max"
  shows "kprobe_exec ops env s = Inr (0, after_event ops env s)"
proof -
  let ?k = "as_size (c s + 1)"
  have k: "as_size x < 12 \<Longrightarrow> unat (as_size x) = nat (sint x) \<and> nat (sint x) < 12" for x
    by (auto simp: as_size_guard as_size_unat)
  have m: "length (message (sample ops env s)) = 12"
    using sample_wf [OF wf] by (simp add: data_wf_def)
  have g: "length (g_message s) = 12" using wf by (simp add: probe_wf_def)
  show ?thesis
  proof (cases "map_lookup_elem ops (my_config s) (ucast (uid_gid env))")
    case None
    then show ?thesis
      using m g k [of "c s + 1"] c
      by (auto simp: kprobe_exec_def Let_def int_inc_cases key_at_masked low_masked as_size_guard
          after_event_def sample_def event_prints_def chosen_message_def print_def bpf_printk_def
          data_zero_def)
  next
    case (Some x)
    then have "length (m_message x) = 12" using wf by (simp add: probe_wf_def)
    with Some show ?thesis
      using m g k [of "c s + 1"] c
      by (auto simp: kprobe_exec_def Let_def int_inc_cases key_at_masked low_masked as_size_guard
          after_event_def sample_def event_prints_def chosen_message_def print_def bpf_printk_def
          data_zero_def deref_def)
  qed
qed

end

lemma kprobe_exec_overflow: "c s = int_max \<Longrightarrow> kprobe_exec ops env s = Inl SignedOverflow"
  by (simp add: kprobe_exec_def Let_def int_inc_cases)

section \<open>A sequence of events\<close>

fun run_probe :: "('m, u32, msg_t) map_ops \<Rightarrow> probe_env list \<Rightarrow> 'm probe_state \<Rightarrow> 'm probe_state cres" where
  "run_probe ops [] s = Inr s"
| "run_probe ops (e # es) s = bindE (kprobe_exec ops e s) (\<lambda>(_, s'). run_probe ops es s')"

lemma sample_cong:
  "c s = c t \<Longrightarrow> my_config s = my_config t \<Longrightarrow> g_message s = g_message t \<Longrightarrow>
   sample ops env s = sample ops env t"
  by (simp add: sample_def chosen_message_def split: option.split)

lemma run_probe_samples:
  assumes "\<forall>e \<in> set es. probe_helpers e" and "probe_wf ops s"
    and "sint (c s) + int (length es) \<le> 2 ^ 31 - 1"
  shows "\<exists>s'. run_probe ops es s = Inr s' \<and> probe_wf ops s' \<and> my_config s' = my_config s \<and>
     g_message s' = g_message s \<and> sint (c s') = sint (c s) + int (length es) \<and>
     submitted s' = submitted s @
       map (\<lambda>i. encode_data (sample ops (es ! i) (s\<lparr>c := c s + of_nat i\<rparr>))) [0..<length es]"
  using assms
proof (induction es arbitrary: s)
  case Nil
  then show ?case by simp
next
  case (Cons e es)
  have ph: "probe_helpers e" using Cons.prems(1) by simp
  have lt: "sint (c s) < 2 ^ 31 - 1" using Cons.prems(3) by simp
  then have max: "c s \<noteq> int_max" by (auto simp: sint_int_max)
  let ?t = "after_event ops e s"
  have "sint (c ?t) = sint (c s) + 1"
    using int_inc_ok [OF lt] by (simp add: int_add_Inr after_event_def)
  then have "sint (c ?t) + int (length es) \<le> 2 ^ 31 - 1" using Cons.prems(3) by simp
  with Cons.IH [of ?t] Cons.prems obtain s' where s': "run_probe ops es ?t = Inr s'"
    "probe_wf ops s'" "my_config s' = my_config ?t" "g_message s' = g_message ?t"
    "sint (c s') = sint (c ?t) + int (length es)"
    "submitted s' = submitted ?t @
       map (\<lambda>i. encode_data (sample ops (es ! i) (?t\<lparr>c := c ?t + of_nat i\<rparr>))) [0..<length es]"
    using probe_wf_after by fastforce
  have shift: "sample ops (es ! i) (?t\<lparr>c := c ?t + of_nat i\<rparr>) =
      sample ops ((e # es) ! Suc i) (s\<lparr>c := c s + of_nat (Suc i)\<rparr>)" for i
    unfolding nth_Cons_Suc by (rule sample_cong) (simp_all add: after_event_def add_ac)
  have "map (\<lambda>i. encode_data (sample ops ((e # es) ! i) (s\<lparr>c := c s + of_nat i\<rparr>))) [0..<Suc (length es)]
      = encode_data (sample ops e s) #
        map (\<lambda>i. encode_data (sample ops ((e # es) ! Suc i) (s\<lparr>c := c s + of_nat (Suc i)\<rparr>))) [0..<length es]"
    by (subst upt_conv_Cons, simp, subst map_Suc_upt [symmetric], simp add: comp_def)
  then have "submitted s' = submitted s @
      map (\<lambda>i. encode_data (sample ops ((e # es) ! i) (s\<lparr>c := c s + of_nat i\<rparr>))) [0..<length (e # es)]"
    using s'(6) by (simp only: shift length_Cons) (simp add: after_event_def)
  then show ?case
    using s'(1-5) probe_helpers.kprobe_exec_event [OF ph Cons.prems(2) max] \<open>sint (c ?t) = _\<close>
    by (simp add: after_event_def)
qed

section \<open>Properties\<close>

text \<open>The message of a sample when the copy succeeds is the chosen one.\<close>

lemma sample_message:
  assumes "probe_helpers env" and "probe_wf ops s"
    and "fst (probe_read env 12 (chosen_message ops env s) (replicate 12 0)) = 0"
  shows "message (sample ops env s) = chosen_message ops env s"
  using probe_helpers.read_ok [OF assms(1), of 12 "chosen_message ops env s" "replicate 12 0"]
    assms(3) chosen_length [OF assms(2), of env]
  by (simp add: sample_def prod_eq_iff)

lemma probe_wf_init: "map_lookup_elem ops m = Map.empty \<Longrightarrow> probe_wf ops (probe_init m)"
  by (simp add: probe_wf_def probe_init_def)

text \<open>C1: one event of \<open>kprobe_exec\<close>. Whatever the helpers return, the guards on \<open>p\<close> and \<open>c\<close> keep
  every dereference and both array accesses defined; the only undefined run is the one in
  which the counter is \<open>INT_MAX\<close>. Otherwise the program returns 0, counts the event, and
  submits one sample of the declared size, holding the old counter and the low halves of the
  two helper results.\<close>

theorem kprobe_exec_safe:
  assumes "probe_helpers env" and "probe_wf ops s"
  shows "if c s = int_max then kprobe_exec ops env s = Inl SignedOverflow
    else \<exists>s' d. kprobe_exec ops env s = Inr (0, s') \<and> probe_wf ops s' \<and> c s' = c s + 1 \<and>
      my_config s' = my_config s \<and> submitted s' = submitted s @ [encode_data d] \<and>
      length (encode_data d) = sizeof_data_t \<and> d_counter d = c s \<and>
      pid d = ucast (pid_tgid env) \<and> uid d = ucast (uid_gid env)"
proof (cases "c s = int_max")
  case True
  then show ?thesis by (simp add: kprobe_exec_overflow)
next
  case False
  have "length (encode_data (sample ops env s)) = sizeof_data_t"
    by (rule length_encode_data [OF probe_helpers.sample_wf [OF assms]])
  then show ?thesis
    using False probe_helpers.kprobe_exec_event [OF assms False] probe_wf_after [OF assms(2), of env]
    by (auto simp: after_event_def sample_def intro!: exI [of _ "sample ops env s"])
qed

theorem kprobe_exec_safe_witness:
  "\<exists>s' d. kprobe_exec hmap_ops (doc_env 42 501 []) (probe_init my_config_map) = Inr (0, s') \<and>
     submitted s' = [encode_data d] \<and> pid d = 42 \<and> uid d = 501 \<and> d_counter d = 1"
proof -
  have "map_lookup_elem hmap_ops my_config_map = Map.empty"
    by (simp add: hmap_ops_def my_config_map_def)
  from kprobe_exec_safe [OF de.probe_helpers_axioms probe_wf_init [OF this], of "42" 501 "[]"]
  show ?thesis by (auto simp: probe_init_def int_max_def doc_env_def)
qed

text \<open>C26: the message a user sees. When the copy succeeds, the sample holds the message configured
  for the low 32 bits of the event's user id, and \<open>Hello World\<close> when there is none.\<close>

theorem kprobe_exec_message:
  assumes "probe_helpers env" and "probe_wf ops s" and "c s \<noteq> int_max"
    and "\<And>src. fst (probe_read env 12 src (replicate 12 0)) = 0"
  shows "\<exists>s' d. kprobe_exec ops env s = Inr (0, s') \<and> submitted s' = submitted s @ [encode_data d] \<and>
    message (decode_data (last (submitted s'))) =
      (case map_lookup_elem ops (my_config s) (ucast (uid_gid env)) of
         Some m \<Rightarrow> m_message m | None \<Rightarrow> g_message s)"
  using probe_helpers.kprobe_exec_event [OF assms(1-3)] sample_message [OF assms(1,2,4)]
    decode_encode [OF probe_helpers.sample_wf [OF assms(1,2)]]
  by (auto simp: after_event_def chosen_message_def)

theorem kprobe_exec_message_witness:
  "\<exists>s'. kprobe_exec hmap_ops (doc_env 1 1000 []) (probe_init my_config_map) = Inr (0, s') \<and>
     message (decode_data (last (submitted s'))) = str_bytes ''Hello World'' @ [0]"
proof -
  have e: "map_lookup_elem hmap_ops my_config_map = Map.empty"
    by (simp add: hmap_ops_def my_config_map_def)
  have "c (probe_init my_config_map) \<noteq> int_max" by (simp add: probe_init_def int_max_def)
  from kprobe_exec_message [OF de.probe_helpers_axioms probe_wf_init [OF e] this, of 1 1000 "[]"]
  show ?thesis by (auto simp: doc_env_def e probe_init_def)
qed

text \<open>C25: a sequence of events after loading: as long as there are fewer than \<open>2 ^ 31 - 1\<close> of them,
  every event is handled, the samples come in order and are numbered from 1 on, and decoding
  them gives back each event's process and user.\<close>

theorem kprobe_exec_samples:
  assumes "\<And>e. e \<in> set es \<Longrightarrow> probe_helpers e" and "probe_wf ops (probe_init m)"
    and "length es < 2 ^ 31 - 1"
  shows "\<exists>s'. run_probe ops es (probe_init m) = Inr s' \<and> length (submitted s') = length es \<and>
    (\<forall>i < length es. let d = decode_data (submitted s' ! i) in
       sint (d_counter d) = int i + 1 \<and> pid d = ucast (pid_tgid (es ! i)) \<and>
       uid d = ucast (uid_gid (es ! i)))"
proof -
  let ?s = "probe_init m"
  let ?f = "\<lambda>i. sample ops (es ! i) (?s\<lparr>c := c ?s + of_nat i\<rparr>)"
  have "sint (c ?s) + int (length es) \<le> 2 ^ 31 - 1"
    using assms(3) by (simp add: probe_init_def)
  then obtain s' where r: "run_probe ops es ?s = Inr s'"
    and sub: "submitted s' = map (\<lambda>i. encode_data (?f i)) [0..<length es]"
    using run_probe_samples [of es ops ?s] assms(1,2) by (auto simp: probe_init_def)
  have "decode_data (submitted s' ! i) = ?f i" if "i < length es" for i
  proof -
    have "probe_wf ops (?s\<lparr>c := c ?s + of_nat i\<rparr>)" using assms(2) by (simp add: probe_wf_def)
    then have "data_wf (?f i)"
      using assms(1) that by (intro probe_helpers.sample_wf) simp_all
    then show ?thesis using that by (simp add: sub decode_encode)
  qed
  moreover have "sint (d_counter (?f i)) = int i + 1" if "i < length es" for i
  proof -
    have "sint (word_of_int (int i + 1) :: c_int) = int i + 1"
      using that assms(3) by (intro sint_of_int32) simp_all
    then show ?thesis by (simp add: sample_def probe_init_def add.commute)
  qed
  ultimately show ?thesis
    using r by (auto simp: sub Let_def sample_def)
qed

theorem kprobe_exec_samples_witness:
  "\<exists>s'. run_probe hmap_ops [doc_env 1 1 [], doc_env 2 501 []] (probe_init my_config_map) = Inr s' \<and>
     sint (d_counter (decode_data (submitted s' ! 1))) = 2"
proof -
  have e: "map_lookup_elem hmap_ops my_config_map = Map.empty"
    by (simp add: hmap_ops_def my_config_map_def)
  have ph: "probe_helpers e" if "e \<in> set [doc_env 1 1 [], doc_env 2 501 []]" for e
    using that de.probe_helpers_axioms by auto
  have "length [doc_env 1 1 [], doc_env 2 501 []] < 2 ^ 31 - 1" by simp
  from kprobe_exec_samples [OF ph probe_wf_init [OF e] this] obtain s' where
    "run_probe hmap_ops [doc_env 1 1 [], doc_env 2 501 []] (probe_init my_config_map) = Inr s'"
    "\<forall>i < 2. sint (d_counter (decode_data (submitted s' ! i))) = int i + 1"
    by (auto simp only: Let_def length_Cons list.size numeral_2_eq_2 One_nat_def)
  then show ?thesis by force
qed

text \<open>The bytes of a sample. A \<open>data_t\<close> whose arrays have their declared lengths is laid out in
  40 bytes, from which it can be read back, and different structures have different bytes.\<close>

lemma data_roundtrip:
  assumes "data_wf d" and "data_wf d'"
  shows "length (encode_data d) = 40 \<and> decode_data (encode_data d) = d \<and>
    (encode_data d = encode_data d' \<longrightarrow> d = d')"
proof -
  have "decode_data (encode_data d) = d" "decode_data (encode_data d') = d'"
    using assms by (simp_all add: decode_encode)
  moreover have "length (encode_data d) = 40"
    using length_encode_data [OF assms(1)] by (simp add: sizeof_data_t_def)
  ultimately show ?thesis by metis
qed

lemma data_roundtrip_instance:
  "decode_data (encode_data data_zero) = data_zero"
proof -
  have "data_wf data_zero" by (simp add: data_wf_def data_zero_def)
  from data_roundtrip [OF this this] show ?thesis by simp
qed

end
