(* ===== verification/Elf_Image.thy ===== *)
theory Elf_Image
  imports Prelude
begin

text \<open>
  The object file that \<open>hello_verifier_bpf__elf_bytes\<close> of \<open>verifier_example/hello-verifier.skel.h\<close>
  returns, byte for byte, in pieces that follow the sections of the file.
\<close>

section \<open>The pieces\<close>

text \<open>Bytes 0 to 63: the ELF header.\<close>

definition elf_header :: bytes where
  "elf_header = concat [
     [127, 69, 76, 70, 2, 1, 1, 0, 0, 0, 0, 0, 0, 0, 0, 0, 1, 0, 247, 0],
     [1, 0, 0, 0, 0, 0, 0, 0, 0, 0, 0, 0, 0, 0, 0, 0, 0, 0, 0, 0],
     [104, 22, 0, 0, 0, 0, 0, 0, 0, 0, 0, 0, 64, 0, 0, 0, 0, 0, 64, 0],
     [17, 0, 1, 0]]"

text \<open>Bytes 64 to 775: section ksyscall/execve.\<close>

definition elf_kprobe :: bytes where
  "elf_kprobe = concat [
     [191, 22, 0, 0, 0, 0, 0, 0],
     [24, 1, 0, 0, 0, 0, 0, 0],
     [0, 0, 0, 0, 0, 0, 0, 0],
     [97, 18, 0, 0, 0, 0, 0, 0],
     [191, 35, 0, 0, 0, 0, 0, 0],
     [7, 3, 0, 0, 1, 0, 0, 0],
     [99, 49, 0, 0, 0, 0, 0, 0],
     [183, 1, 0, 0, 0, 0, 0, 0],
     [99, 26, 248, 255, 0, 0, 0, 0],
     [99, 26, 244, 255, 0, 0, 0, 0],
     [99, 26, 240, 255, 0, 0, 0, 0],
     [99, 26, 236, 255, 0, 0, 0, 0],
     [99, 26, 232, 255, 0, 0, 0, 0],
     [99, 26, 228, 255, 0, 0, 0, 0],
     [99, 26, 252, 255, 0, 0, 0, 0],
     [99, 42, 224, 255, 0, 0, 0, 0],
     [133, 0, 0, 0, 14, 0, 0, 0],
     [99, 10, 216, 255, 0, 0, 0, 0],
     [133, 0, 0, 0, 15, 0, 0, 0],
     [99, 10, 220, 255, 0, 0, 0, 0],
     [103, 0, 0, 0, 32, 0, 0, 0],
     [119, 0, 0, 0, 32, 0, 0, 0],
     [123, 10, 208, 255, 0, 0, 0, 0],
     [191, 162, 0, 0, 0, 0, 0, 0],
     [7, 2, 0, 0, 208, 255, 255, 255],
     [24, 1, 0, 0, 0, 0, 0, 0],
     [0, 0, 0, 0, 0, 0, 0, 0],
     [133, 0, 0, 0, 1, 0, 0, 0],
     [191, 7, 0, 0, 0, 0, 0, 0],
     [21, 7, 12, 0, 0, 0, 0, 0],
     [113, 115, 0, 0, 0, 0, 0, 0],
     [103, 3, 0, 0, 56, 0, 0, 0],
     [199, 3, 0, 0, 56, 0, 0, 0],
     [24, 1, 0, 0, 0, 0, 0, 0],
     [0, 0, 0, 0, 0, 0, 0, 0],
     [183, 2, 0, 0, 3, 0, 0, 0],
     [133, 0, 0, 0, 6, 0, 0, 0],
     [191, 161, 0, 0, 0, 0, 0, 0],
     [7, 1, 0, 0, 244, 255, 255, 255],
     [183, 2, 0, 0, 12, 0, 0, 0],
     [191, 115, 0, 0, 0, 0, 0, 0],
     [5, 0, 5, 0, 0, 0, 0, 0],
     [191, 161, 0, 0, 0, 0, 0, 0],
     [7, 1, 0, 0, 244, 255, 255, 255],
     [183, 2, 0, 0, 12, 0, 0, 0],
     [24, 3, 0, 0, 0, 0, 0, 0],
     [0, 0, 0, 0, 0, 0, 0, 0],
     [133, 0, 0, 0, 113, 0, 0, 0],
     [24, 7, 0, 0, 0, 0, 0, 0],
     [0, 0, 0, 0, 0, 0, 0, 0],
     [97, 113, 0, 0, 0, 0, 0, 0],
     [37, 1, 22, 0, 11, 0, 0, 0],
     [24, 2, 0, 0, 0, 0, 0, 0],
     [0, 0, 0, 0, 0, 0, 0, 0],
     [15, 18, 0, 0, 0, 0, 0, 0],
     [113, 35, 0, 0, 0, 0, 0, 0],
     [103, 3, 0, 0, 56, 0, 0, 0],
     [199, 3, 0, 0, 56, 0, 0, 0],
     [24, 1, 0, 0, 3, 0, 0, 0],
     [0, 0, 0, 0, 0, 0, 0, 0],
     [183, 2, 0, 0, 3, 0, 0, 0],
     [133, 0, 0, 0, 6, 0, 0, 0],
     [97, 113, 0, 0, 0, 0, 0, 0],
     [37, 1, 10, 0, 11, 0, 0, 0],
     [191, 162, 0, 0, 0, 0, 0, 0],
     [7, 2, 0, 0, 216, 255, 255, 255],
     [15, 18, 0, 0, 0, 0, 0, 0],
     [113, 35, 28, 0, 0, 0, 0, 0],
     [103, 3, 0, 0, 56, 0, 0, 0],
     [199, 3, 0, 0, 56, 0, 0, 0],
     [24, 1, 0, 0, 6, 0, 0, 0],
     [0, 0, 0, 0, 0, 0, 0, 0],
     [183, 2, 0, 0, 3, 0, 0, 0],
     [133, 0, 0, 0, 6, 0, 0, 0],
     [191, 161, 0, 0, 0, 0, 0, 0],
     [7, 1, 0, 0, 228, 255, 255, 255],
     [183, 2, 0, 0, 16, 0, 0, 0],
     [133, 0, 0, 0, 16, 0, 0, 0],
     [191, 164, 0, 0, 0, 0, 0, 0],
     [7, 4, 0, 0, 216, 255, 255, 255],
     [191, 97, 0, 0, 0, 0, 0, 0],
     [24, 2, 0, 0, 0, 0, 0, 0],
     [0, 0, 0, 0, 0, 0, 0, 0],
     [24, 3, 0, 0, 255, 255, 255, 255],
     [0, 0, 0, 0, 0, 0, 0, 0],
     [183, 5, 0, 0, 40, 0, 0, 0],
     [133, 0, 0, 0, 25, 0, 0, 0],
     [183, 0, 0, 0, 0, 0, 0, 0],
     [149, 0, 0, 0, 0, 0, 0, 0]]"

text \<open>Bytes 776 to 839: section xdp.\<close>

definition elf_xdp :: bytes where
  "elf_xdp = concat [
     [97, 20, 4, 0, 0, 0, 0, 0],
     [97, 19, 0, 0, 0, 0, 0, 0],
     [24, 1, 0, 0, 9, 0, 0, 0],
     [0, 0, 0, 0, 0, 0, 0, 0],
     [183, 2, 0, 0, 6, 0, 0, 0],
     [133, 0, 0, 0, 6, 0, 0, 0],
     [183, 0, 0, 0, 2, 0, 0, 0],
     [149, 0, 0, 0, 0, 0, 0, 0]]"

text \<open>Bytes 840 to 855: section .data.\<close>

definition elf_data :: bytes where
  "elf_data = [
     1, 0, 0, 0, 72, 101, 108, 108, 111, 32, 87, 111, 114, 108, 100, 0]"

text \<open>Bytes 856 to 911: section .maps.\<close>

definition elf_maps :: bytes where
  "elf_maps = concat [
     [0, 0, 0, 0, 0, 0, 0, 0, 0, 0, 0, 0, 0, 0, 0, 0, 0, 0, 0, 0],
     [0, 0, 0, 0, 0, 0, 0, 0, 0, 0, 0, 0, 0, 0, 0, 0, 0, 0, 0, 0],
     [0, 0, 0, 0, 0, 0, 0, 0, 0, 0, 0, 0, 0, 0, 0, 0]]"

text \<open>Bytes 912 to 926: section .rodata.\<close>

definition elf_rodata :: bytes where
  "elf_rodata = [
     37, 100, 0, 37, 99, 0, 37, 99, 0, 37, 120, 32, 37, 120, 0]"

text \<open>Bytes 927 to 939: section license.\<close>

definition elf_license :: bytes where
  "elf_license = [
     68, 117, 97, 108, 32, 66, 83, 68, 47, 71, 80, 76, 0]"

text \<open>Bytes 940 to 963: section .BTF, header.\<close>

definition elf_btf_header :: bytes where
  "elf_btf_header = concat [
     [159, 235, 1, 0, 24, 0, 0, 0, 0, 0, 0, 0, 164, 3, 0, 0, 164, 3, 0, 0],
     [117, 5, 0, 0]]"

text \<open>Bytes 964 to 1895: section .BTF, types.\<close>

definition elf_btf_types :: bytes where
  "elf_btf_types = concat [
     [0, 0, 0, 0, 0, 0, 0, 2, 3, 0, 0, 0],
     [1, 0, 0, 0, 0, 0, 0, 1, 4, 0, 0, 0, 32, 0, 0, 1],
     [0, 0, 0, 0, 0, 0, 0, 3, 0, 0, 0, 0, 2, 0, 0, 0, 4, 0, 0, 0, 1, 0, 0, 0],
     [5, 0, 0, 0, 0, 0, 0, 1, 4, 0, 0, 0, 32, 0, 0, 0],
     [0, 0, 0, 0, 0, 0, 0, 2, 6, 0, 0, 0],
     [0, 0, 0, 0, 0, 0, 0, 3, 0, 0, 0, 0, 2, 0, 0, 0, 4, 0, 0, 0, 0, 40, 0, 0],
     [0, 0, 0, 0, 0, 0, 0, 2, 8, 0, 0, 0],
     [25, 0, 0, 0, 0, 0, 0, 8, 9, 0, 0, 0],
     [29, 0, 0, 0, 0, 0, 0, 8, 10, 0, 0, 0],
     [35, 0, 0, 0, 0, 0, 0, 1, 4, 0, 0, 0, 32, 0, 0, 0],
     [0, 0, 0, 0, 0, 0, 0, 2, 12, 0, 0, 0],
     [48, 0, 0, 0, 1, 0, 0, 4, 12, 0, 0, 0, 54, 0, 0, 0, 14, 0, 0, 0, 0, 0, 0, 0],
     [62, 0, 0, 0, 0, 0, 0, 1, 1, 0, 0, 0, 8, 0, 0, 1],
     [0, 0, 0, 0, 0, 0, 0, 3, 0, 0, 0, 0, 13, 0, 0, 0, 4, 0, 0, 0, 12, 0, 0, 0],
     [0, 0, 0, 0, 4, 0, 0, 4, 32, 0, 0, 0, 67, 0, 0, 0, 1, 0, 0, 0, 0, 0, 0, 0,
      72, 0, 0, 0, 5, 0, 0, 0, 64, 0, 0, 0, 84, 0, 0, 0, 7, 0, 0, 0, 128, 0, 0, 0,
      88, 0, 0, 0, 11, 0, 0, 0, 192, 0, 0, 0],
     [94, 0, 0, 0, 0, 0, 0, 14, 15, 0, 0, 0, 1, 0, 0, 0],
     [0, 0, 0, 0, 0, 0, 0, 2, 18, 0, 0, 0],
     [0, 0, 0, 0, 0, 0, 0, 3, 0, 0, 0, 0, 2, 0, 0, 0, 4, 0, 0, 0, 4, 0, 0, 0],
     [0, 0, 0, 0, 3, 0, 0, 4, 24, 0, 0, 0, 67, 0, 0, 0, 17, 0, 0, 0, 0, 0, 0, 0,
      104, 0, 0, 0, 17, 0, 0, 0, 64, 0, 0, 0, 113, 0, 0, 0, 17, 0, 0, 0, 128, 0, 0, 0],
     [124, 0, 0, 0, 0, 0, 0, 14, 19, 0, 0, 0, 1, 0, 0, 0],
     [0, 0, 0, 0, 0, 0, 0, 2, 0, 0, 0, 0],
     [0, 0, 0, 0, 1, 0, 0, 13, 2, 0, 0, 0, 131, 0, 0, 0, 21, 0, 0, 0],
     [135, 0, 0, 0, 1, 0, 0, 12, 22, 0, 0, 0],
     [0, 0, 0, 0, 0, 0, 0, 2, 25, 0, 0, 0],
     [8, 4, 0, 0, 6, 0, 0, 4, 24, 0, 0, 0, 15, 4, 0, 0, 9, 0, 0, 0, 0, 0, 0, 0,
      20, 4, 0, 0, 9, 0, 0, 0, 32, 0, 0, 0, 29, 4, 0, 0, 9, 0, 0, 0, 64, 0, 0, 0,
      39, 4, 0, 0, 9, 0, 0, 0, 96, 0, 0, 0, 55, 4, 0, 0, 9, 0, 0, 0, 128, 0, 0, 0,
      70, 4, 0, 0, 9, 0, 0, 0, 160, 0, 0, 0],
     [0, 0, 0, 0, 1, 0, 0, 13, 2, 0, 0, 0, 131, 0, 0, 0, 24, 0, 0, 0],
     [85, 4, 0, 0, 1, 0, 0, 12, 26, 0, 0, 0],
     [253, 4, 0, 0, 0, 0, 0, 14, 2, 0, 0, 0, 1, 0, 0, 0],
     [54, 0, 0, 0, 0, 0, 0, 14, 14, 0, 0, 0, 1, 0, 0, 0],
     [0, 0, 0, 0, 0, 0, 0, 10, 13, 0, 0, 0],
     [0, 0, 0, 0, 0, 0, 0, 3, 0, 0, 0, 0, 30, 0, 0, 0, 4, 0, 0, 0, 3, 0, 0, 0],
     [255, 4, 0, 0, 0, 0, 0, 14, 31, 0, 0, 0, 0, 0, 0, 0],
     [19, 5, 0, 0, 0, 0, 0, 14, 31, 0, 0, 0, 0, 0, 0, 0],
     [41, 5, 0, 0, 0, 0, 0, 14, 31, 0, 0, 0, 0, 0, 0, 0],
     [0, 0, 0, 0, 0, 0, 0, 3, 0, 0, 0, 0, 30, 0, 0, 0, 4, 0, 0, 0, 6, 0, 0, 0],
     [63, 5, 0, 0, 0, 0, 0, 14, 35, 0, 0, 0, 0, 0, 0, 0],
     [0, 0, 0, 0, 0, 0, 0, 3, 0, 0, 0, 0, 13, 0, 0, 0, 4, 0, 0, 0, 13, 0, 0, 0],
     [81, 5, 0, 0, 0, 0, 0, 14, 37, 0, 0, 0, 1, 0, 0, 0],
     [89, 5, 0, 0, 2, 0, 0, 15, 0, 0, 0, 0, 28, 0, 0, 0, 0, 0, 0, 0, 4, 0, 0, 0,
      29, 0, 0, 0, 0, 0, 0, 0, 12, 0, 0, 0],
     [95, 5, 0, 0, 2, 0, 0, 15, 0, 0, 0, 0, 16, 0, 0, 0, 0, 0, 0, 0, 32, 0, 0, 0,
      20, 0, 0, 0, 0, 0, 0, 0, 24, 0, 0, 0],
     [101, 5, 0, 0, 4, 0, 0, 15, 0, 0, 0, 0, 32, 0, 0, 0, 0, 0, 0, 0, 3, 0, 0, 0,
      33, 0, 0, 0, 3, 0, 0, 0, 3, 0, 0, 0, 34, 0, 0, 0, 6, 0, 0, 0, 3, 0, 0, 0,
      36, 0, 0, 0, 9, 0, 0, 0, 6, 0, 0, 0],
     [109, 5, 0, 0, 1, 0, 0, 15, 0, 0, 0, 0, 38, 0, 0, 0, 0, 0, 0, 0, 13, 0, 0, 0]]"

text \<open>The strings, with their terminating zeros.\<close>

definition elf_btf_string_rows :: "bytes list" where
  "elf_btf_string_rows = [
     [0],
     [105, 110, 116, 0],
     [95, 95, 65, 82, 82, 65, 89, 95, 83, 73, 90, 69, 95, 84, 89, 80, 69, 95, 95, 0],
     [117, 51, 50, 0],
     [95, 95, 117, 51, 50, 0],
     [117, 110, 115, 105, 103, 110, 101, 100, 32, 105, 110, 116, 0],
     [109, 115, 103, 95, 116, 0],
     [109, 101, 115, 115, 97, 103, 101, 0],
     [99, 104, 97, 114, 0],
     [116, 121, 112, 101, 0],
     [109, 97, 120, 95, 101, 110, 116, 114, 105, 101, 115, 0],
     [107, 101, 121, 0],
     [118, 97, 108, 117, 101, 0],
     [109, 121, 95, 99, 111, 110, 102, 105, 103, 0],
     [107, 101, 121, 95, 115, 105, 122, 101, 0],
     [118, 97, 108, 117, 101, 95, 115, 105, 122, 101, 0],
     [111, 117, 116, 112, 117, 116, 0],
     [99, 116, 120, 0],
     [107, 112, 114, 111, 98, 101, 95, 101, 120, 101, 99, 0],
     [107, 115, 121, 115, 99, 97, 108, 108, 47, 101, 120, 101, 99, 118, 101, 0],
     [47, 104, 111, 109, 101, 47, 115, 119, 97, 114, 110, 112, 47, 114, 101, 115, 101, 97, 114, 99, 104, 47, 101, 66,
      80, 70, 95, 110, 111, 116, 101, 115, 47, 101, 66, 80, 70, 95, 75, 111, 107, 97, 47, 118, 101, 114, 105, 102,
      105, 101, 114, 95, 101, 120, 97, 109, 112, 108, 101, 47, 104, 101, 108, 108, 111, 45, 118, 101, 114, 105, 102, 105,
      101, 114, 46, 98, 112, 102, 46, 99, 0],
     [105, 110, 116, 32, 107, 112, 114, 111, 98, 101, 95, 101, 120, 101, 99, 40, 118, 111, 105, 100, 32, 42, 99, 116,
      120, 41, 0],
     [32, 32, 32, 100, 97, 116, 97, 46, 99, 111, 117, 110, 116, 101, 114, 32, 61, 32, 99, 59, 32, 0],
     [32, 32, 32, 99, 43, 43, 59, 32, 0],
     [32, 32, 32, 115, 116, 114, 117, 99, 116, 32, 100, 97, 116, 97, 95, 116, 32, 100, 97, 116, 97, 32, 61, 32,
      123, 125, 59, 32, 0],
     [32, 32, 32, 100, 97, 116, 97, 46, 112, 105, 100, 32, 61, 32, 98, 112, 102, 95, 103, 101, 116, 95, 99, 117,
      114, 114, 101, 110, 116, 95, 112, 105, 100, 95, 116, 103, 105, 100, 40, 41, 59, 0],
     [32, 32, 32, 117, 105, 100, 32, 61, 32, 98, 112, 102, 95, 103, 101, 116, 95, 99, 117, 114, 114, 101, 110, 116,
      95, 117, 105, 100, 95, 103, 105, 100, 40, 41, 32, 38, 32, 48, 120, 70, 70, 70, 70, 70, 70, 70, 70, 59,
      0],
     [32, 32, 32, 100, 97, 116, 97, 46, 117, 105, 100, 32, 61, 32, 117, 105, 100, 59, 0],
     [32, 32, 32, 112, 32, 61, 32, 98, 112, 102, 95, 109, 97, 112, 95, 108, 111, 111, 107, 117, 112, 95, 101, 108,
      101, 109, 40, 38, 109, 121, 95, 99, 111, 110, 102, 105, 103, 44, 32, 38, 117, 105, 100, 41, 59, 0],
     [32, 32, 32, 105, 102, 32, 40, 112, 32, 33, 61, 32, 48, 41, 32, 123, 0],
     [32, 32, 32, 32, 32, 32, 99, 104, 97, 114, 32, 97, 32, 61, 32, 112, 45, 62, 109, 101, 115, 115, 97, 103,
      101, 91, 48, 93, 59, 0],
     [32, 32, 32, 32, 32, 32, 98, 112, 102, 95, 112, 114, 105, 110, 116, 107, 40, 34, 37, 100, 34, 44, 32, 97,
      41, 59, 32, 32, 32, 32, 32, 32, 32, 32, 0],
     [32, 32, 32, 32, 32, 32, 98, 112, 102, 95, 112, 114, 111, 98, 101, 95, 114, 101, 97, 100, 95, 107, 101, 114,
      110, 101, 108, 40, 38, 100, 97, 116, 97, 46, 109, 101, 115, 115, 97, 103, 101, 44, 32, 115, 105, 122, 101, 111,
      102, 40, 100, 97, 116, 97, 46, 109, 101, 115, 115, 97, 103, 101, 41, 44, 32, 112, 45, 62, 109, 101, 115, 115,
      97, 103, 101, 41, 59, 32, 32, 0],
     [32, 32, 32, 32, 32, 32, 98, 112, 102, 95, 112, 114, 111, 98, 101, 95, 114, 101, 97, 100, 95, 107, 101, 114,
      110, 101, 108, 40, 38, 100, 97, 116, 97, 46, 109, 101, 115, 115, 97, 103, 101, 44, 32, 115, 105, 122, 101, 111,
      102, 40, 100, 97, 116, 97, 46, 109, 101, 115, 115, 97, 103, 101, 41, 44, 32, 109, 101, 115, 115, 97, 103, 101,
      41, 59, 32, 0],
     [32, 32, 32, 105, 102, 32, 40, 99, 32, 60, 32, 115, 105, 122, 101, 111, 102, 40, 109, 101, 115, 115, 97, 103,
      101, 41, 41, 32, 123, 0],
     [32, 32, 32, 32, 32, 32, 99, 104, 97, 114, 32, 97, 32, 61, 32, 109, 101, 115, 115, 97, 103, 101, 91, 99,
      93, 59, 0],
     [32, 32, 32, 32, 32, 32, 98, 112, 102, 95, 112, 114, 105, 110, 116, 107, 40, 34, 37, 99, 34, 44, 32, 97,
      41, 59, 0],
     [32, 32, 32, 105, 102, 32, 40, 99, 32, 60, 32, 115, 105, 122, 101, 111, 102, 40, 100, 97, 116, 97, 46, 109,
      101, 115, 115, 97, 103, 101, 41, 41, 32, 123, 0],
     [32, 32, 32, 32, 32, 32, 99, 104, 97, 114, 32, 97, 32, 61, 32, 100, 97, 116, 97, 46, 109, 101, 115, 115,
      97, 103, 101, 91, 99, 93, 59, 0],
     [32, 32, 32, 98, 112, 102, 95, 103, 101, 116, 95, 99, 117, 114, 114, 101, 110, 116, 95, 99, 111, 109, 109, 40,
      38, 100, 97, 116, 97, 46, 99, 111, 109, 109, 97, 110, 100, 44, 32, 115, 105, 122, 101, 111, 102, 40, 100, 97,
      116, 97, 46, 99, 111, 109, 109, 97, 110, 100, 41, 41, 59, 0],
     [32, 32, 32, 98, 112, 102, 95, 112, 101, 114, 102, 95, 101, 118, 101, 110, 116, 95, 111, 117, 116, 112, 117, 116,
      40, 99, 116, 120, 44, 32, 38, 111, 117, 116, 112, 117, 116, 44, 32, 66, 80, 70, 95, 70, 95, 67, 85, 82,
      82, 69, 78, 84, 95, 67, 80, 85, 44, 32, 32, 38, 100, 97, 116, 97, 44, 32, 115, 105, 122, 101, 111, 102,
      40, 100, 97, 116, 97, 41, 41, 59, 0],
     [32, 32, 32, 114, 101, 116, 117, 114, 110, 32, 48, 59, 0],
     [120, 100, 112, 95, 109, 100, 0],
     [100, 97, 116, 97, 0],
     [100, 97, 116, 97, 95, 101, 110, 100, 0],
     [100, 97, 116, 97, 95, 109, 101, 116, 97, 0],
     [105, 110, 103, 114, 101, 115, 115, 95, 105, 102, 105, 110, 100, 101, 120, 0],
     [114, 120, 95, 113, 117, 101, 117, 101, 95, 105, 110, 100, 101, 120, 0],
     [101, 103, 114, 101, 115, 115, 95, 105, 102, 105, 110, 100, 101, 120, 0],
     [120, 100, 112, 95, 104, 101, 108, 108, 111, 0],
     [120, 100, 112, 0],
     [48, 58, 49, 0],
     [32, 32, 118, 111, 105, 100, 32, 42, 100, 97, 116, 97, 95, 101, 110, 100, 32, 61, 32, 40, 118, 111, 105, 100,
      32, 42, 41, 40, 108, 111, 110, 103, 41, 99, 116, 120, 45, 62, 100, 97, 116, 97, 95, 101, 110, 100, 59, 0],
     [48, 58, 48, 0],
     [32, 32, 118, 111, 105, 100, 32, 42, 100, 97, 116, 97, 32, 61, 32, 40, 118, 111, 105, 100, 32, 42, 41, 40,
      108, 111, 110, 103, 41, 99, 116, 120, 45, 62, 100, 97, 116, 97, 59, 0],
     [32, 32, 98, 112, 102, 95, 112, 114, 105, 110, 116, 107, 40, 34, 37, 120, 32, 37, 120, 34, 44, 32, 100, 97,
      116, 97, 44, 32, 100, 97, 116, 97, 95, 101, 110, 100, 41, 59, 0],
     [32, 32, 114, 101, 116, 117, 114, 110, 32, 88, 68, 80, 95, 80, 65, 83, 83, 59, 0],
     [99, 0],
     [107, 112, 114, 111, 98, 101, 95, 101, 120, 101, 99, 46, 95, 95, 95, 95, 102, 109, 116, 0],
     [107, 112, 114, 111, 98, 101, 95, 101, 120, 101, 99, 46, 95, 95, 95, 95, 102, 109, 116, 46, 49, 0],
     [107, 112, 114, 111, 98, 101, 95, 101, 120, 101, 99, 46, 95, 95, 95, 95, 102, 109, 116, 46, 50, 0],
     [120, 100, 112, 95, 104, 101, 108, 108, 111, 46, 95, 95, 95, 95, 102, 109, 116, 0],
     [76, 73, 67, 69, 78, 83, 69, 0],
     [46, 100, 97, 116, 97, 0],
     [46, 109, 97, 112, 115, 0],
     [46, 114, 111, 100, 97, 116, 97, 0],
     [108, 105, 99, 101, 110, 115, 101, 0]]"

text \<open>Bytes 1896 to 3292: section .BTF, strings.\<close>

definition elf_btf_strings :: bytes where
  "elf_btf_strings = concat elf_btf_string_rows"

text \<open>Bytes 3293 to 3295: padding.\<close>

definition elf_btf_pad :: bytes where
  "elf_btf_pad = [
     0, 0, 0]"

text \<open>Bytes 3296 to 4039: section .BTF.ext and padding.\<close>

definition elf_btf_ext :: bytes where
  "elf_btf_ext = concat [
     [159, 235, 1, 0, 32, 0, 0, 0, 0, 0, 0, 0, 36, 0, 0, 0, 36, 0, 0, 0],
     [116, 2, 0, 0, 152, 2, 0, 0, 44, 0, 0, 0, 8, 0, 0, 0, 147, 0, 0, 0],
     [1, 0, 0, 0, 0, 0, 0, 0, 23, 0, 0, 0, 95, 4, 0, 0, 1, 0, 0, 0],
     [0, 0, 0, 0, 27, 0, 0, 0, 16, 0, 0, 0, 147, 0, 0, 0, 34, 0, 0, 0],
     [0, 0, 0, 0, 163, 0, 0, 0, 244, 0, 0, 0, 0, 96, 0, 0, 8, 0, 0, 0],
     [163, 0, 0, 0, 15, 1, 0, 0, 19, 120, 0, 0, 32, 0, 0, 0, 163, 0, 0, 0],
     [37, 1, 0, 0, 5, 124, 0, 0, 64, 0, 0, 0, 163, 0, 0, 0, 46, 1, 0, 0],
     [18, 104, 0, 0, 120, 0, 0, 0, 163, 0, 0, 0, 15, 1, 0, 0, 17, 120, 0, 0],
     [128, 0, 0, 0, 163, 0, 0, 0, 75, 1, 0, 0, 15, 132, 0, 0, 136, 0, 0, 0],
     [163, 0, 0, 0, 75, 1, 0, 0, 13, 132, 0, 0, 144, 0, 0, 0, 163, 0, 0, 0],
     [117, 1, 0, 0, 10, 136, 0, 0, 152, 0, 0, 0, 163, 0, 0, 0, 166, 1, 0, 0],
     [13, 140, 0, 0, 160, 0, 0, 0, 163, 0, 0, 0, 117, 1, 0, 0, 36, 136, 0, 0],
     [176, 0, 0, 0, 163, 0, 0, 0, 117, 1, 0, 0, 8, 136, 0, 0, 192, 0, 0, 0],
     [163, 0, 0, 0, 0, 0, 0, 0, 0, 0, 0, 0, 200, 0, 0, 0, 163, 0, 0, 0],
     [185, 1, 0, 0, 8, 148, 0, 0, 232, 0, 0, 0, 163, 0, 0, 0, 231, 1, 0, 0],
     [8, 168, 0, 0, 240, 0, 0, 0, 163, 0, 0, 0, 248, 1, 0, 0, 16, 172, 0, 0],
     [8, 1, 0, 0, 163, 0, 0, 0, 22, 2, 0, 0, 7, 176, 0, 0, 40, 1, 0, 0],
     [163, 0, 0, 0, 0, 0, 0, 0, 0, 0, 0, 0, 56, 1, 0, 0, 163, 0, 0, 0],
     [57, 2, 0, 0, 7, 192, 0, 0, 80, 1, 0, 0, 163, 0, 0, 0, 0, 0, 0, 0],
     [0, 0, 0, 0, 96, 1, 0, 0, 163, 0, 0, 0, 137, 2, 0, 0, 7, 200, 0, 0],
     [120, 1, 0, 0, 163, 0, 0, 0, 0, 0, 0, 0, 0, 0, 0, 0, 128, 1, 0, 0],
     [163, 0, 0, 0, 213, 2, 0, 0, 8, 224, 0, 0, 152, 1, 0, 0, 163, 0, 0, 0],
     [213, 2, 0, 0, 8, 224, 0, 0, 160, 1, 0, 0, 163, 0, 0, 0, 243, 2, 0, 0],
     [16, 228, 0, 0, 208, 1, 0, 0, 163, 0, 0, 0, 14, 3, 0, 0, 7, 232, 0, 0],
     [240, 1, 0, 0, 163, 0, 0, 0, 41, 3, 0, 0, 8, 0, 1, 0, 248, 1, 0, 0],
     [163, 0, 0, 0, 41, 3, 0, 0, 8, 0, 1, 0, 8, 2, 0, 0, 163, 0, 0, 0],
     [76, 3, 0, 0, 16, 4, 1, 0, 48, 2, 0, 0, 163, 0, 0, 0, 14, 3, 0, 0],
     [7, 8, 1, 0, 80, 2, 0, 0, 163, 0, 0, 0, 108, 3, 0, 0, 25, 20, 1, 0],
     [96, 2, 0, 0, 163, 0, 0, 0, 108, 3, 0, 0, 4, 20, 1, 0, 120, 2, 0, 0],
     [163, 0, 0, 0, 108, 3, 0, 0, 25, 20, 1, 0, 128, 2, 0, 0, 163, 0, 0, 0],
     [170, 3, 0, 0, 4, 24, 1, 0, 184, 2, 0, 0, 163, 0, 0, 0, 251, 3, 0, 0],
     [4, 32, 1, 0, 95, 4, 0, 0, 4, 0, 0, 0, 0, 0, 0, 0, 163, 0, 0, 0],
     [103, 4, 0, 0, 39, 56, 1, 0, 8, 0, 0, 0, 163, 0, 0, 0, 155, 4, 0, 0],
     [35, 52, 1, 0, 16, 0, 0, 0, 163, 0, 0, 0, 195, 4, 0, 0, 3, 120, 1, 0],
     [48, 0, 0, 0, 163, 0, 0, 0, 234, 4, 0, 0, 3, 124, 1, 0, 16, 0, 0, 0],
     [95, 4, 0, 0, 2, 0, 0, 0, 0, 0, 0, 0, 25, 0, 0, 0, 99, 4, 0, 0],
     [0, 0, 0, 0, 8, 0, 0, 0, 25, 0, 0, 0, 151, 4, 0, 0, 0, 0, 0, 0],
     [0, 0, 0, 0]]"

text \<open>Bytes 4040 to 4471: section .symtab.\<close>

definition elf_symtab :: bytes where
  "elf_symtab = concat [
     [0, 0, 0, 0, 0, 0, 0, 0, 0, 0, 0, 0, 0, 0, 0, 0, 0, 0, 0, 0, 0, 0, 0, 0],
     [0, 0, 0, 0, 3, 0, 3, 0, 0, 0, 0, 0, 0, 0, 0, 0, 0, 0, 0, 0, 0, 0, 0, 0],
     [222, 0, 0, 0, 0, 0, 3, 0, 80, 1, 0, 0, 0, 0, 0, 0, 0, 0, 0, 0, 0, 0, 0, 0],
     [45, 0, 0, 0, 1, 0, 9, 0, 0, 0, 0, 0, 0, 0, 0, 0, 3, 0, 0, 0, 0, 0, 0, 0],
     [215, 0, 0, 0, 0, 0, 3, 0, 120, 1, 0, 0, 0, 0, 0, 0, 0, 0, 0, 0, 0, 0, 0, 0],
     [208, 0, 0, 0, 0, 0, 3, 0, 80, 2, 0, 0, 0, 0, 0, 0, 0, 0, 0, 0, 0, 0, 0, 0],
     [251, 0, 0, 0, 1, 0, 9, 0, 3, 0, 0, 0, 0, 0, 0, 0, 3, 0, 0, 0, 0, 0, 0, 0],
     [229, 0, 0, 0, 1, 0, 9, 0, 6, 0, 0, 0, 0, 0, 0, 0, 3, 0, 0, 0, 0, 0, 0, 0],
     [0, 0, 0, 0, 3, 0, 5, 0, 0, 0, 0, 0, 0, 0, 0, 0, 0, 0, 0, 0, 0, 0, 0, 0],
     [27, 0, 0, 0, 1, 0, 9, 0, 9, 0, 0, 0, 0, 0, 0, 0, 6, 0, 0, 0, 0, 0, 0, 0],
     [0, 0, 0, 0, 3, 0, 9, 0, 0, 0, 0, 0, 0, 0, 0, 0, 0, 0, 0, 0, 0, 0, 0, 0],
     [149, 0, 0, 0, 18, 0, 3, 0, 0, 0, 0, 0, 0, 0, 0, 0, 200, 2, 0, 0, 0, 0, 0, 0],
     [159, 0, 0, 0, 17, 0, 7, 0, 0, 0, 0, 0, 0, 0, 0, 0, 4, 0, 0, 0, 0, 0, 0, 0],
     [103, 0, 0, 0, 17, 0, 8, 0, 0, 0, 0, 0, 0, 0, 0, 0, 32, 0, 0, 0, 0, 0, 0, 0],
     [141, 0, 0, 0, 17, 0, 7, 0, 4, 0, 0, 0, 0, 0, 0, 0, 12, 0, 0, 0, 0, 0, 0, 0],
     [20, 0, 0, 0, 17, 0, 8, 0, 32, 0, 0, 0, 0, 0, 0, 0, 24, 0, 0, 0, 0, 0, 0, 0],
     [79, 0, 0, 0, 18, 0, 5, 0, 0, 0, 0, 0, 0, 0, 0, 0, 64, 0, 0, 0, 0, 0, 0, 0],
     [200, 0, 0, 0, 17, 0, 10, 0, 0, 0, 0, 0, 0, 0, 0, 0, 13, 0, 0, 0, 0, 0, 0, 0]]"

text \<open>Bytes 4472 to 4615: section .relksyscall/execve.\<close>

definition elf_rel_kprobe :: bytes where
  "elf_rel_kprobe = concat [
     [8, 0, 0, 0, 0, 0, 0, 0, 1, 0, 0, 0, 12, 0, 0, 0],
     [200, 0, 0, 0, 0, 0, 0, 0, 1, 0, 0, 0, 13, 0, 0, 0],
     [8, 1, 0, 0, 0, 0, 0, 0, 1, 0, 0, 0, 10, 0, 0, 0],
     [104, 1, 0, 0, 0, 0, 0, 0, 1, 0, 0, 0, 14, 0, 0, 0],
     [128, 1, 0, 0, 0, 0, 0, 0, 1, 0, 0, 0, 12, 0, 0, 0],
     [160, 1, 0, 0, 0, 0, 0, 0, 1, 0, 0, 0, 14, 0, 0, 0],
     [208, 1, 0, 0, 0, 0, 0, 0, 1, 0, 0, 0, 10, 0, 0, 0],
     [48, 2, 0, 0, 0, 0, 0, 0, 1, 0, 0, 0, 10, 0, 0, 0],
     [136, 2, 0, 0, 0, 0, 0, 0, 1, 0, 0, 0, 15, 0, 0, 0]]"

text \<open>Bytes 4616 to 4631: section .relxdp.\<close>

definition elf_rel_xdp :: bytes where
  "elf_rel_xdp = [
     16, 0, 0, 0, 0, 0, 0, 0, 1, 0, 0, 0, 10, 0, 0, 0]"

text \<open>Bytes 4632 to 5447: sections .rel.BTF and .rel.BTF.ext.\<close>

definition elf_rel_btf :: bytes where
  "elf_rel_btf = concat [
     [48, 3, 0, 0, 0, 0, 0, 0, 4, 0, 0, 0, 12, 0, 0, 0],
     [60, 3, 0, 0, 0, 0, 0, 0, 4, 0, 0, 0, 14, 0, 0, 0],
     [84, 3, 0, 0, 0, 0, 0, 0, 4, 0, 0, 0, 13, 0, 0, 0],
     [96, 3, 0, 0, 0, 0, 0, 0, 4, 0, 0, 0, 15, 0, 0, 0],
     [120, 3, 0, 0, 0, 0, 0, 0, 3, 0, 0, 0, 10, 0, 0, 0],
     [132, 3, 0, 0, 0, 0, 0, 0, 3, 0, 0, 0, 10, 0, 0, 0],
     [144, 3, 0, 0, 0, 0, 0, 0, 3, 0, 0, 0, 10, 0, 0, 0],
     [156, 3, 0, 0, 0, 0, 0, 0, 3, 0, 0, 0, 10, 0, 0, 0],
     [180, 3, 0, 0, 0, 0, 0, 0, 4, 0, 0, 0, 17, 0, 0, 0],
     [44, 0, 0, 0, 0, 0, 0, 0, 4, 0, 0, 0, 1, 0, 0, 0],
     [60, 0, 0, 0, 0, 0, 0, 0, 4, 0, 0, 0, 8, 0, 0, 0],
     [80, 0, 0, 0, 0, 0, 0, 0, 4, 0, 0, 0, 1, 0, 0, 0],
     [96, 0, 0, 0, 0, 0, 0, 0, 4, 0, 0, 0, 1, 0, 0, 0],
     [112, 0, 0, 0, 0, 0, 0, 0, 4, 0, 0, 0, 1, 0, 0, 0],
     [128, 0, 0, 0, 0, 0, 0, 0, 4, 0, 0, 0, 1, 0, 0, 0],
     [144, 0, 0, 0, 0, 0, 0, 0, 4, 0, 0, 0, 1, 0, 0, 0],
     [160, 0, 0, 0, 0, 0, 0, 0, 4, 0, 0, 0, 1, 0, 0, 0],
     [176, 0, 0, 0, 0, 0, 0, 0, 4, 0, 0, 0, 1, 0, 0, 0],
     [192, 0, 0, 0, 0, 0, 0, 0, 4, 0, 0, 0, 1, 0, 0, 0],
     [208, 0, 0, 0, 0, 0, 0, 0, 4, 0, 0, 0, 1, 0, 0, 0],
     [224, 0, 0, 0, 0, 0, 0, 0, 4, 0, 0, 0, 1, 0, 0, 0],
     [240, 0, 0, 0, 0, 0, 0, 0, 4, 0, 0, 0, 1, 0, 0, 0],
     [0, 1, 0, 0, 0, 0, 0, 0, 4, 0, 0, 0, 1, 0, 0, 0],
     [16, 1, 0, 0, 0, 0, 0, 0, 4, 0, 0, 0, 1, 0, 0, 0],
     [32, 1, 0, 0, 0, 0, 0, 0, 4, 0, 0, 0, 1, 0, 0, 0],
     [48, 1, 0, 0, 0, 0, 0, 0, 4, 0, 0, 0, 1, 0, 0, 0],
     [64, 1, 0, 0, 0, 0, 0, 0, 4, 0, 0, 0, 1, 0, 0, 0],
     [80, 1, 0, 0, 0, 0, 0, 0, 4, 0, 0, 0, 1, 0, 0, 0],
     [96, 1, 0, 0, 0, 0, 0, 0, 4, 0, 0, 0, 1, 0, 0, 0],
     [112, 1, 0, 0, 0, 0, 0, 0, 4, 0, 0, 0, 1, 0, 0, 0],
     [128, 1, 0, 0, 0, 0, 0, 0, 4, 0, 0, 0, 1, 0, 0, 0],
     [144, 1, 0, 0, 0, 0, 0, 0, 4, 0, 0, 0, 1, 0, 0, 0],
     [160, 1, 0, 0, 0, 0, 0, 0, 4, 0, 0, 0, 1, 0, 0, 0],
     [176, 1, 0, 0, 0, 0, 0, 0, 4, 0, 0, 0, 1, 0, 0, 0],
     [192, 1, 0, 0, 0, 0, 0, 0, 4, 0, 0, 0, 1, 0, 0, 0],
     [208, 1, 0, 0, 0, 0, 0, 0, 4, 0, 0, 0, 1, 0, 0, 0],
     [224, 1, 0, 0, 0, 0, 0, 0, 4, 0, 0, 0, 1, 0, 0, 0],
     [240, 1, 0, 0, 0, 0, 0, 0, 4, 0, 0, 0, 1, 0, 0, 0],
     [0, 2, 0, 0, 0, 0, 0, 0, 4, 0, 0, 0, 1, 0, 0, 0],
     [16, 2, 0, 0, 0, 0, 0, 0, 4, 0, 0, 0, 1, 0, 0, 0],
     [32, 2, 0, 0, 0, 0, 0, 0, 4, 0, 0, 0, 1, 0, 0, 0],
     [48, 2, 0, 0, 0, 0, 0, 0, 4, 0, 0, 0, 1, 0, 0, 0],
     [64, 2, 0, 0, 0, 0, 0, 0, 4, 0, 0, 0, 1, 0, 0, 0],
     [80, 2, 0, 0, 0, 0, 0, 0, 4, 0, 0, 0, 1, 0, 0, 0],
     [96, 2, 0, 0, 0, 0, 0, 0, 4, 0, 0, 0, 1, 0, 0, 0],
     [120, 2, 0, 0, 0, 0, 0, 0, 4, 0, 0, 0, 8, 0, 0, 0],
     [136, 2, 0, 0, 0, 0, 0, 0, 4, 0, 0, 0, 8, 0, 0, 0],
     [152, 2, 0, 0, 0, 0, 0, 0, 4, 0, 0, 0, 8, 0, 0, 0],
     [168, 2, 0, 0, 0, 0, 0, 0, 4, 0, 0, 0, 8, 0, 0, 0],
     [196, 2, 0, 0, 0, 0, 0, 0, 4, 0, 0, 0, 8, 0, 0, 0],
     [212, 2, 0, 0, 0, 0, 0, 0, 4, 0, 0, 0, 8, 0, 0, 0]]"

text \<open>Bytes 5448 to 5457: section .llvm_addrsig.\<close>

definition elf_addrsig :: bytes where
  "elf_addrsig = [
     21, 26, 24, 23, 4, 7, 8, 25, 10, 27]"

text \<open>Bytes 5458 to 5735: section .strtab and padding.\<close>

definition elf_strtab :: bytes where
  "elf_strtab = concat [
     [0, 46, 116, 101, 120, 116, 0, 46, 114, 101, 108, 46, 66, 84, 70, 46, 101, 120, 116, 0],
     [111, 117, 116, 112, 117, 116, 0, 120, 100, 112, 95, 104, 101, 108, 108, 111, 46, 95, 95, 95],
     [95, 102, 109, 116, 0, 107, 112, 114, 111, 98, 101, 95, 101, 120, 101, 99, 46, 95, 95, 95],
     [95, 102, 109, 116, 0, 46, 109, 97, 112, 115, 0, 46, 114, 101, 108, 120, 100, 112, 0, 120],
     [100, 112, 95, 104, 101, 108, 108, 111, 0, 46, 108, 108, 118, 109, 95, 97, 100, 100, 114, 115],
     [105, 103, 0, 109, 121, 95, 99, 111, 110, 102, 105, 103, 0, 46, 114, 101, 108, 107, 115, 121],
     [115, 99, 97, 108, 108, 47, 101, 120, 101, 99, 118, 101, 0, 108, 105, 99, 101, 110, 115, 101],
     [0, 109, 101, 115, 115, 97, 103, 101, 0, 107, 112, 114, 111, 98, 101, 95, 101, 120, 101, 99],
     [0, 46, 115, 116, 114, 116, 97, 98, 0, 46, 115, 121, 109, 116, 97, 98, 0, 46, 114, 111],
     [100, 97, 116, 97, 0, 46, 100, 97, 116, 97, 0, 46, 114, 101, 108, 46, 66, 84, 70, 0],
     [76, 73, 67, 69, 78, 83, 69, 0, 76, 66, 66, 48, 95, 54, 0, 76, 66, 66, 48, 95],
     [51, 0, 76, 66, 66, 48, 95, 50, 0, 107, 112, 114, 111, 98, 101, 95, 101, 120, 101, 99],
     [46, 95, 95, 95, 95, 102, 109, 116, 46, 50, 0, 107, 112, 114, 111, 98, 101, 95, 101, 120],
     [101, 99, 46, 95, 95, 95, 95, 102, 109, 116, 46, 49, 0, 0, 0, 0, 0, 0]]"

text \<open>Bytes 5736 to 6823: section header table.\<close>

definition elf_shdrs :: bytes where
  "elf_shdrs = concat [
     [0, 0, 0, 0, 0, 0, 0, 0, 0, 0, 0, 0, 0, 0, 0, 0, 0, 0, 0, 0, 0, 0, 0, 0,
      0, 0, 0, 0, 0, 0, 0, 0, 0, 0, 0, 0, 0, 0, 0, 0, 0, 0, 0, 0, 0, 0, 0, 0,
      0, 0, 0, 0, 0, 0, 0, 0, 0, 0, 0, 0, 0, 0, 0, 0],
     [161, 0, 0, 0, 3, 0, 0, 0, 0, 0, 0, 0, 0, 0, 0, 0, 0, 0, 0, 0, 0, 0, 0, 0,
      82, 21, 0, 0, 0, 0, 0, 0, 17, 1, 0, 0, 0, 0, 0, 0, 0, 0, 0, 0, 0, 0, 0, 0,
      1, 0, 0, 0, 0, 0, 0, 0, 0, 0, 0, 0, 0, 0, 0, 0],
     [1, 0, 0, 0, 1, 0, 0, 0, 6, 0, 0, 0, 0, 0, 0, 0, 0, 0, 0, 0, 0, 0, 0, 0,
      64, 0, 0, 0, 0, 0, 0, 0, 0, 0, 0, 0, 0, 0, 0, 0, 0, 0, 0, 0, 0, 0, 0, 0,
      4, 0, 0, 0, 0, 0, 0, 0, 0, 0, 0, 0, 0, 0, 0, 0],
     [117, 0, 0, 0, 1, 0, 0, 0, 6, 0, 0, 0, 0, 0, 0, 0, 0, 0, 0, 0, 0, 0, 0, 0,
      64, 0, 0, 0, 0, 0, 0, 0, 200, 2, 0, 0, 0, 0, 0, 0, 0, 0, 0, 0, 0, 0, 0, 0,
      8, 0, 0, 0, 0, 0, 0, 0, 0, 0, 0, 0, 0, 0, 0, 0],
     [113, 0, 0, 0, 9, 0, 0, 0, 64, 0, 0, 0, 0, 0, 0, 0, 0, 0, 0, 0, 0, 0, 0, 0,
      120, 17, 0, 0, 0, 0, 0, 0, 144, 0, 0, 0, 0, 0, 0, 0, 16, 0, 0, 0, 3, 0, 0, 0,
      8, 0, 0, 0, 0, 0, 0, 0, 16, 0, 0, 0, 0, 0, 0, 0],
     [75, 0, 0, 0, 1, 0, 0, 0, 6, 0, 0, 0, 0, 0, 0, 0, 0, 0, 0, 0, 0, 0, 0, 0,
      8, 3, 0, 0, 0, 0, 0, 0, 64, 0, 0, 0, 0, 0, 0, 0, 0, 0, 0, 0, 0, 0, 0, 0,
      8, 0, 0, 0, 0, 0, 0, 0, 0, 0, 0, 0, 0, 0, 0, 0],
     [71, 0, 0, 0, 9, 0, 0, 0, 64, 0, 0, 0, 0, 0, 0, 0, 0, 0, 0, 0, 0, 0, 0, 0,
      8, 18, 0, 0, 0, 0, 0, 0, 16, 0, 0, 0, 0, 0, 0, 0, 16, 0, 0, 0, 5, 0, 0, 0,
      8, 0, 0, 0, 0, 0, 0, 0, 16, 0, 0, 0, 0, 0, 0, 0],
     [185, 0, 0, 0, 1, 0, 0, 0, 3, 0, 0, 0, 0, 0, 0, 0, 0, 0, 0, 0, 0, 0, 0, 0,
      72, 3, 0, 0, 0, 0, 0, 0, 16, 0, 0, 0, 0, 0, 0, 0, 0, 0, 0, 0, 0, 0, 0, 0,
      4, 0, 0, 0, 0, 0, 0, 0, 0, 0, 0, 0, 0, 0, 0, 0],
     [65, 0, 0, 0, 1, 0, 0, 0, 3, 0, 0, 0, 0, 0, 0, 0, 0, 0, 0, 0, 0, 0, 0, 0,
      88, 3, 0, 0, 0, 0, 0, 0, 56, 0, 0, 0, 0, 0, 0, 0, 0, 0, 0, 0, 0, 0, 0, 0,
      8, 0, 0, 0, 0, 0, 0, 0, 0, 0, 0, 0, 0, 0, 0, 0],
     [177, 0, 0, 0, 1, 0, 0, 0, 2, 0, 0, 0, 0, 0, 0, 0, 0, 0, 0, 0, 0, 0, 0, 0,
      144, 3, 0, 0, 0, 0, 0, 0, 15, 0, 0, 0, 0, 0, 0, 0, 0, 0, 0, 0, 0, 0, 0, 0,
      1, 0, 0, 0, 0, 0, 0, 0, 0, 0, 0, 0, 0, 0, 0, 0],
     [133, 0, 0, 0, 1, 0, 0, 0, 3, 0, 0, 0, 0, 0, 0, 0, 0, 0, 0, 0, 0, 0, 0, 0,
      159, 3, 0, 0, 0, 0, 0, 0, 13, 0, 0, 0, 0, 0, 0, 0, 0, 0, 0, 0, 0, 0, 0, 0,
      1, 0, 0, 0, 0, 0, 0, 0, 0, 0, 0, 0, 0, 0, 0, 0],
     [195, 0, 0, 0, 1, 0, 0, 0, 0, 0, 0, 0, 0, 0, 0, 0, 0, 0, 0, 0, 0, 0, 0, 0,
      172, 3, 0, 0, 0, 0, 0, 0, 49, 9, 0, 0, 0, 0, 0, 0, 0, 0, 0, 0, 0, 0, 0, 0,
      4, 0, 0, 0, 0, 0, 0, 0, 0, 0, 0, 0, 0, 0, 0, 0],
     [191, 0, 0, 0, 9, 0, 0, 0, 64, 0, 0, 0, 0, 0, 0, 0, 0, 0, 0, 0, 0, 0, 0, 0,
      24, 18, 0, 0, 0, 0, 0, 0, 144, 0, 0, 0, 0, 0, 0, 0, 16, 0, 0, 0, 11, 0, 0, 0,
      8, 0, 0, 0, 0, 0, 0, 0, 16, 0, 0, 0, 0, 0, 0, 0],
     [11, 0, 0, 0, 1, 0, 0, 0, 0, 0, 0, 0, 0, 0, 0, 0, 0, 0, 0, 0, 0, 0, 0, 0,
      224, 12, 0, 0, 0, 0, 0, 0, 228, 2, 0, 0, 0, 0, 0, 0, 0, 0, 0, 0, 0, 0, 0, 0,
      4, 0, 0, 0, 0, 0, 0, 0, 0, 0, 0, 0, 0, 0, 0, 0],
     [7, 0, 0, 0, 9, 0, 0, 0, 64, 0, 0, 0, 0, 0, 0, 0, 0, 0, 0, 0, 0, 0, 0, 0,
      168, 18, 0, 0, 0, 0, 0, 0, 160, 2, 0, 0, 0, 0, 0, 0, 16, 0, 0, 0, 13, 0, 0, 0,
      8, 0, 0, 0, 0, 0, 0, 0, 16, 0, 0, 0, 0, 0, 0, 0],
     [89, 0, 0, 0, 3, 76, 255, 111, 0, 0, 0, 128, 0, 0, 0, 0, 0, 0, 0, 0, 0, 0, 0, 0,
      72, 21, 0, 0, 0, 0, 0, 0, 10, 0, 0, 0, 0, 0, 0, 0, 0, 0, 0, 0, 0, 0, 0, 0,
      1, 0, 0, 0, 0, 0, 0, 0, 0, 0, 0, 0, 0, 0, 0, 0],
     [169, 0, 0, 0, 2, 0, 0, 0, 0, 0, 0, 0, 0, 0, 0, 0, 0, 0, 0, 0, 0, 0, 0, 0,
      200, 15, 0, 0, 0, 0, 0, 0, 176, 1, 0, 0, 0, 0, 0, 0, 1, 0, 0, 0, 11, 0, 0, 0,
      8, 0, 0, 0, 0, 0, 0, 0, 24, 0, 0, 0, 0, 0, 0, 0]]"

section \<open>The image\<close>

definition elf_image :: bytes where
  "elf_image = concat [elf_header, elf_kprobe, elf_xdp, elf_data, elf_maps, elf_rodata, elf_license, 
     elf_btf_header, elf_btf_types, elf_btf_strings, elf_btf_pad, elf_btf_ext, 
     elf_symtab, elf_rel_kprobe, elf_rel_xdp, elf_rel_btf, elf_addrsig, 
     elf_strtab, elf_shdrs]"

lemma elf_lengths [simp]:
  "length elf_header = 64"
  "length elf_kprobe = 712"
  "length elf_xdp = 64"
  "length elf_data = 16"
  "length elf_maps = 56"
  "length elf_rodata = 15"
  "length elf_license = 13"
  "length elf_btf_header = 24"
  "length elf_btf_types = 932"
  "length elf_btf_strings = 1397"
  "length elf_btf_pad = 3"
  "length elf_btf_ext = 744"
  "length elf_symtab = 432"
  "length elf_rel_kprobe = 144"
  "length elf_rel_xdp = 16"
  "length elf_rel_btf = 816"
  "length elf_addrsig = 10"
  "length elf_strtab = 278"
  "length elf_shdrs = 1088"
  by (simp_all add: elf_header_def elf_kprobe_def elf_xdp_def elf_data_def elf_maps_def elf_rodata_def elf_license_def elf_btf_header_def elf_btf_types_def elf_btf_strings_def elf_btf_pad_def elf_btf_ext_def elf_symtab_def elf_rel_kprobe_def elf_rel_xdp_def elf_rel_btf_def elf_addrsig_def elf_strtab_def elf_shdrs_def elf_btf_string_rows_def)

lemma length_elf_image: "length elf_image = 6824"
  by (simp add: elf_image_def)

end
