(* ===== verification/Skeleton.thy ===== *)
theory Skeleton
  imports Elf_Image
begin

text \<open>
  The skeleton of the verifier example, \<open>verifier_example/hello-verifier.skel.h\<close>: the
  functions that create, open, load, attach, detach and destroy the object. The heap
  records which blocks are live; \<open>calloc\<close> may fail at any call, and freeing a block
  that is not live is an error. The \<open>libbpf\<close> functions are arguments; the locale
  \<open>libbpf_skeleton\<close> states what the code relies on.
\<close>

section \<open>The heap\<close>

type_synonym addr = nat

record heap =
  next_addr :: addr
  live :: "addr set"
  errno :: c_int

text \<open>\<open>alloc a\<close> says whether the allocation that would get address \<open>a\<close> succeeds.\<close>

definition calloc :: "(addr \<Rightarrow> bool) \<Rightarrow> heap \<Rightarrow> addr option \<times> heap" where
  "calloc alloc h =
     (if alloc (next_addr h)
      then (Some (next_addr h),
            h\<lparr>next_addr := Suc (next_addr h), live := insert (next_addr h) (live h)\<rparr>)
      else (None, h\<lparr>next_addr := Suc (next_addr h)\<rparr>))"

definition free :: "addr \<Rightarrow> heap \<Rightarrow> heap cres" where
  "free a h = (if a \<in> live h then Inr (h\<lparr>live := live h - {a}\<rparr>) else Inl InvalidFree)"

definition heap_wf :: "heap \<Rightarrow> bool" where
  "heap_wf h \<longleftrightarrow> (\<forall>a \<in> live h. a < next_addr h)"

section \<open>The object and its skeleton\<close>

text \<open>A pointer to a field of the object is the name of the field.\<close>

record map_skeleton =
  ms_name :: string
  ms_map :: string
  ms_mmaped :: "string option"

record prog_skeleton =
  ps_name :: string
  ps_prog :: string
  ps_link :: string

record object_skeleton =
  sk_addr :: addr
  sk_name :: string
  sk_obj :: string
  map_cnt :: nat
  sk_maps :: "(addr \<times> map_skeleton list) option"
  prog_cnt :: nat
  sk_progs :: "(addr \<times> prog_skeleton list) option"
  sk_data :: bytes
  sk_data_sz :: nat

record hello_verifier_bpf =
  ob_addr :: addr
  skeleton :: "object_skeleton option"

text \<open>The blocks that belong to a skeleton, and those of an object.\<close>

definition skel_blocks :: "object_skeleton \<Rightarrow> addr set" where
  "skel_blocks s = {sk_addr s} \<union> (case sk_maps s of Some (a, _) \<Rightarrow> {a} | None \<Rightarrow> {})
     \<union> (case sk_progs s of Some (a, _) \<Rightarrow> {a} | None \<Rightarrow> {})"

definition obj_blocks :: "hello_verifier_bpf \<Rightarrow> addr set" where
  "obj_blocks obj = {ob_addr obj} \<union> (case skeleton obj of Some s \<Rightarrow> skel_blocks s | None \<Rightarrow> {})"

text \<open>
  The functions of \<open>libbpf\<close> that the skeleton calls; they return an \<open>int\<close>, 0 or an error. Negating the
  error for \<open>errno\<close> is undefined if it is the least \<open>int\<close>.
\<close>

record libbpf =
  destroy_skeleton :: "object_skeleton option \<Rightarrow> heap \<Rightarrow> heap cres"
  open_skeleton :: "object_skeleton option \<Rightarrow> c_int"
  load_skeleton :: "object_skeleton option \<Rightarrow> c_int"
  attach_skeleton :: "object_skeleton option \<Rightarrow> c_int"
  detach_skeleton :: "object_skeleton option \<Rightarrow> heap \<Rightarrow> heap"

definition ENOMEM :: c_int where "ENOMEM = 12"

section \<open>The functions\<close>

definition hello_verifier_bpf__destroy ::
  "libbpf \<Rightarrow> hello_verifier_bpf option \<Rightarrow> heap \<Rightarrow> heap cres" where
  "hello_verifier_bpf__destroy lib obj h =
     (case obj of
        None \<Rightarrow> Inr h
      | Some obj \<Rightarrow>
          bindE (case skeleton obj of
                   Some s \<Rightarrow> destroy_skeleton lib (Some s) h
                 | None \<Rightarrow> Inr h) (\<lambda>h.
          free (ob_addr obj) h))"

definition the_maps :: "map_skeleton list" where
  "the_maps =
     [\<lparr>ms_name = ''my_config'', ms_map = ''maps.my_config'', ms_mmaped = None\<rparr>,
      \<lparr>ms_name = ''output'', ms_map = ''maps.output'', ms_mmaped = None\<rparr>,
      \<lparr>ms_name = ''hello_ve.data'', ms_map = ''maps.data'', ms_mmaped = Some ''data''\<rparr>,
      \<lparr>ms_name = ''hello_ve.rodata'', ms_map = ''maps.rodata'', ms_mmaped = None\<rparr>]"

definition the_progs :: "prog_skeleton list" where
  "the_progs =
     [\<lparr>ps_name = ''kprobe_exec'', ps_prog = ''progs.kprobe_exec'', ps_link = ''links.kprobe_exec''\<rparr>,
      \<lparr>ps_name = ''xdp_hello'', ps_prog = ''progs.xdp_hello'', ps_link = ''links.xdp_hello''\<rparr>]"

text \<open>
  The object file is a string literal: its bytes and a NUL, which the size leaves out.
\<close>

definition elf_literal :: bytes where
  "elf_literal = elf_image @ [0]"

definition hello_verifier_bpf__elf_bytes :: "bytes \<times> nat" where
  "hello_verifier_bpf__elf_bytes = (elf_literal, length elf_literal - 1)"

lemma elf_bytes_image:
  "take (snd hello_verifier_bpf__elf_bytes) (fst hello_verifier_bpf__elf_bytes) = elf_image"
  by (simp add: hello_verifier_bpf__elf_bytes_def elf_literal_def)

text \<open>
  \<open>create_skeleton\<close> returns its error code, the object and the heap. On an error the
  object's \<open>skeleton\<close> field is not set.
\<close>

definition hello_verifier_bpf__create_skeleton ::
  "libbpf \<Rightarrow> (addr \<Rightarrow> bool) \<Rightarrow> hello_verifier_bpf \<Rightarrow> heap \<Rightarrow> (c_int \<times> hello_verifier_bpf \<times> heap) cres" where
  "hello_verifier_bpf__create_skeleton lib alloc obj h =
     (case calloc alloc h of
        (None, h) \<Rightarrow> bindE (destroy_skeleton lib None h) (\<lambda>h. Inr (- ENOMEM, obj, h))
      | (Some a, h) \<Rightarrow>
          let s = \<lparr>sk_addr = a, sk_name = ''hello_verifier_bpf'', sk_obj = ''obj'',
                   map_cnt = 4, sk_maps = None, prog_cnt = 0, sk_progs = None,
                   sk_data = [], sk_data_sz = 0\<rparr>
          in (case calloc alloc h of
                (None, h) \<Rightarrow> bindE (destroy_skeleton lib (Some s) h) (\<lambda>h. Inr (- ENOMEM, obj, h))
              | (Some m, h) \<Rightarrow>
                  let s = s\<lparr>sk_maps := Some (m, the_maps), prog_cnt := 2\<rparr>
                  in (case calloc alloc h of
                        (None, h) \<Rightarrow> bindE (destroy_skeleton lib (Some s) h) (\<lambda>h. Inr (- ENOMEM, obj, h))
                      | (Some p, h) \<Rightarrow>
                          let s = s\<lparr>sk_progs := Some (p, the_progs),
                                   sk_data := fst hello_verifier_bpf__elf_bytes,
                                   sk_data_sz := snd hello_verifier_bpf__elf_bytes\<rparr>
                          in Inr (0, obj\<lparr>skeleton := Some s\<rparr>, h))))"

definition hello_verifier_bpf__open_opts ::
  "libbpf \<Rightarrow> (addr \<Rightarrow> bool) \<Rightarrow> heap \<Rightarrow> (hello_verifier_bpf option \<times> heap) cres" where
  "hello_verifier_bpf__open_opts lib alloc h =
     (case calloc alloc h of
        (None, h) \<Rightarrow> Inr (None, h\<lparr>errno := ENOMEM\<rparr>)
      | (Some a, h) \<Rightarrow>
          bindE (hello_verifier_bpf__create_skeleton lib alloc \<lparr>ob_addr = a, skeleton = None\<rparr> h) (\<lambda>(err, obj, h).
          let err = (if err \<noteq> 0 then err else open_skeleton lib (skeleton obj))
          in if err \<noteq> 0
             then bindE (hello_verifier_bpf__destroy lib (Some obj) h) (\<lambda>h.
                  bindE (int_neg err) (\<lambda>e. Inr (None, h\<lparr>errno := e\<rparr>)))
             else Inr (Some obj, h)))"

definition hello_verifier_bpf__open ::
  "libbpf \<Rightarrow> (addr \<Rightarrow> bool) \<Rightarrow> heap \<Rightarrow> (hello_verifier_bpf option \<times> heap) cres" where
  "hello_verifier_bpf__open lib alloc h = hello_verifier_bpf__open_opts lib alloc h"

definition hello_verifier_bpf__load :: "libbpf \<Rightarrow> hello_verifier_bpf \<Rightarrow> c_int" where
  "hello_verifier_bpf__load lib obj = load_skeleton lib (skeleton obj)"

definition hello_verifier_bpf__attach :: "libbpf \<Rightarrow> hello_verifier_bpf \<Rightarrow> c_int" where
  "hello_verifier_bpf__attach lib obj = attach_skeleton lib (skeleton obj)"

definition hello_verifier_bpf__detach :: "libbpf \<Rightarrow> hello_verifier_bpf \<Rightarrow> heap \<Rightarrow> heap" where
  "hello_verifier_bpf__detach lib obj h = detach_skeleton lib (skeleton obj) h"

definition hello_verifier_bpf__open_and_load ::
  "libbpf \<Rightarrow> (addr \<Rightarrow> bool) \<Rightarrow> heap \<Rightarrow> (hello_verifier_bpf option \<times> heap) cres" where
  "hello_verifier_bpf__open_and_load lib alloc h =
     bindE (hello_verifier_bpf__open lib alloc h) (\<lambda>(r, h).
       case r of
         None \<Rightarrow> Inr (None, h)
       | Some obj \<Rightarrow>
           let err = hello_verifier_bpf__load lib obj
           in if err \<noteq> 0
              then bindE (hello_verifier_bpf__destroy lib (Some obj) h) (\<lambda>h.
                   bindE (int_neg err) (\<lambda>e. Inr (None, h\<lparr>errno := e\<rparr>)))
              else Inr (Some obj, h))"

section \<open>What the code relies on\<close>

text \<open>
  \<open>bpf_object__destroy_skeleton\<close> ignores a null pointer and otherwise frees the blocks of
  the skeleton.
\<close>

locale libbpf_skeleton =
  fixes lib :: libbpf
  assumes destroy_null: "destroy_skeleton lib None h = Inr h"
    and destroy_frees: "skel_blocks s \<subseteq> live h \<Longrightarrow>
      destroy_skeleton lib (Some s) h = Inr (h\<lparr>live := live h - skel_blocks s\<rparr>)"

definition libbpf_doc :: "c_int \<Rightarrow> c_int \<Rightarrow> c_int \<Rightarrow> libbpf" where
  "libbpf_doc open_err load_err attach_err = \<lparr>
     destroy_skeleton = (\<lambda>s h. case s of None \<Rightarrow> Inr h
       | Some s \<Rightarrow> if skel_blocks s \<subseteq> live h then Inr (h\<lparr>live := live h - skel_blocks s\<rparr>)
                   else Inl InvalidFree),
     open_skeleton = (\<lambda>_. open_err), load_skeleton = (\<lambda>_. load_err),
     attach_skeleton = (\<lambda>_. attach_err), detach_skeleton = (\<lambda>_ h. h)\<rparr>"

interpretation ld: libbpf_skeleton "libbpf_doc oe le ae"
  by unfold_locales (simp_all add: libbpf_doc_def)

section \<open>No block is lost and none is freed twice\<close>

definition skeleton_complete :: "hello_verifier_bpf \<Rightarrow> bool" where
  "skeleton_complete obj \<longleftrightarrow>
     (\<exists>s m p. skeleton obj = Some s \<and> sk_maps s = Some (m, the_maps) \<and> map_cnt s = length the_maps \<and>
        sk_progs s = Some (p, the_progs) \<and> prog_cnt s = length the_progs \<and>
        sk_name s = ''hello_verifier_bpf'' \<and> sk_obj s = ''obj'' \<and> take (sk_data_sz s) (sk_data s) = elf_image)"

text \<open>An object that owns its blocks: they are live and the object's own block is apart.\<close>

definition owns :: "hello_verifier_bpf \<Rightarrow> heap \<Rightarrow> bool" where
  "owns obj h \<longleftrightarrow> obj_blocks obj \<subseteq> live h \<and>
     (\<forall>s. skeleton obj = Some s \<longrightarrow> ob_addr obj \<notin> skel_blocks s)"

lemma heap_wf_fresh: "heap_wf h \<Longrightarrow> next_addr h \<notin> live h"
  by (auto simp: heap_wf_def)

lemma heap_wf_calloc: "heap_wf h \<Longrightarrow> heap_wf (snd (calloc alloc h))"
  by (auto simp: heap_wf_def calloc_def intro: less_SucI)

lemma heap_wf_mono: "heap_wf h \<Longrightarrow> L \<subseteq> live h \<Longrightarrow> heap_wf (h\<lparr>live := L\<rparr>)"
  by (auto simp: heap_wf_def)

lemma heap_wf_errno [simp]: "heap_wf (h\<lparr>errno := e\<rparr>) = heap_wf h"
  by (simp add: heap_wf_def)

context libbpf_skeleton
begin

lemma destroy_owned:
  assumes "owns obj h"
  shows "hello_verifier_bpf__destroy lib (Some obj) h = Inr (h\<lparr>live := live h - obj_blocks obj\<rparr>)"
proof (cases "skeleton obj")
  case None
  then show ?thesis
    using assms by (simp add: hello_verifier_bpf__destroy_def owns_def obj_blocks_def free_def)
next
  case (Some s)
  have "live h - skel_blocks s - {ob_addr obj} = live h - obj_blocks obj"
    using Some by (auto simp: obj_blocks_def)
  then show ?thesis
    using assms Some
    by (simp add: hello_verifier_bpf__destroy_def owns_def obj_blocks_def free_def destroy_frees)
qed

text \<open>
  What \<open>create_skeleton\<close> does to the heap: on success the new blocks are those of the
  skeleton, on failure the live blocks are as before.
\<close>

lemma create_cases:
  assumes wf: "heap_wf h" and obj: "skeleton obj = None" and oa: "ob_addr obj \<in> live h"
  obtains err obj' h' where
    "hello_verifier_bpf__create_skeleton lib alloc obj h = Inr (err, obj', h')"
    and "heap_wf h'" and "ob_addr obj' = ob_addr obj"
    and "err = 0 \<and> skeleton_complete obj' \<and> owns obj' h' \<and>
           live h' = live h \<union> obj_blocks obj' \<and> obj_blocks obj' \<inter> live h = {ob_addr obj}
         \<or> err = - ENOMEM \<and> obj' = obj \<and> live h' = live h"
proof -
  note fr = heap_wf_fresh [OF wf]
  note bd = wf [unfolded heap_wf_def]
  have lt: "ob_addr obj < next_addr h" using bd oa by simp
  have bs: "\<forall>a\<in>live h. a < Suc (next_addr h)" "\<forall>a\<in>live h. a < Suc (Suc (next_addr h))"
    "\<forall>a\<in>live h. a < Suc (Suc (Suc (next_addr h)))"
    using bd by (auto intro: less_SucI)
  have nl: "Suc (next_addr h) \<notin> live h" using bd by auto
  consider "\<not> alloc (next_addr h)"
    | "alloc (next_addr h)" "\<not> alloc (Suc (next_addr h))"
    | "alloc (next_addr h)" "alloc (Suc (next_addr h))" "\<not> alloc (Suc (Suc (next_addr h)))"
    | "alloc (next_addr h)" "alloc (Suc (next_addr h))" "alloc (Suc (Suc (next_addr h)))"
    by blast
  then show thesis
  proof cases
    case 1
    then show thesis
      using that [of "- ENOMEM" obj "h\<lparr>next_addr := Suc (next_addr h)\<rparr>"] bs
      by (auto simp: hello_verifier_bpf__create_skeleton_def calloc_def destroy_null heap_wf_def)
  next
    case 2
    then show thesis
      using that [of "- ENOMEM" obj "h\<lparr>next_addr := Suc (Suc (next_addr h))\<rparr>"] bs fr nl
      by (auto simp: hello_verifier_bpf__create_skeleton_def calloc_def destroy_frees skel_blocks_def
          heap_wf_def Let_def)
  next
    case 3
    then show thesis
      using that [of "- ENOMEM" obj "h\<lparr>next_addr := Suc (Suc (Suc (next_addr h)))\<rparr>"] bs fr nl
      by (auto simp: hello_verifier_bpf__create_skeleton_def calloc_def destroy_frees skel_blocks_def
          heap_wf_def Let_def)
  next
    case 4
    show thesis
      by (rule that [of 0], simp add: hello_verifier_bpf__create_skeleton_def calloc_def Let_def 4)
         (use bd lt oa in \<open>auto simp: heap_wf_def skeleton_complete_def owns_def obj_blocks_def
            skel_blocks_def the_maps_def the_progs_def
            elf_bytes_image\<close>)
  qed
qed

end

text \<open>
  The outcome of opening: either nothing stays allocated and \<open>errno\<close> is set, or the
  caller gets a complete object whose blocks are all new.
\<close>

definition opened :: "heap \<Rightarrow> hello_verifier_bpf option \<times> heap \<Rightarrow> bool" where
  "opened h = (\<lambda>(r, h'). heap_wf h' \<and>
     (case r of
        None \<Rightarrow> live h' = live h \<and> errno h' \<noteq> 0
      | Some obj \<Rightarrow> skeleton_complete obj \<and> owns obj h' \<and>
          live h' = live h \<union> obj_blocks obj \<and> obj_blocks obj \<inter> live h = {}))"

lemma opened_live_destroyed:
  "opened h (Some obj, h') \<Longrightarrow> live h' - obj_blocks obj = live h"
  by (auto simp: opened_def)

context libbpf_skeleton
begin

lemma open_opts_opened:
  assumes wf: "heap_wf h"
  shows "(\<exists>q. hello_verifier_bpf__open_opts lib alloc h = Inr q \<and> opened h q) \<or>
    hello_verifier_bpf__open_opts lib alloc h = Inl SignedOverflow \<and> (\<exists>s. sint (open_skeleton lib s) = - (2 ^ 31))"
proof (cases "alloc (next_addr h)")
  case False
  then show ?thesis
    using wf by (auto simp: hello_verifier_bpf__open_opts_def calloc_def opened_def ENOMEM_def
        heap_wf_def intro: less_SucI)
next
  case True
  define h1 where "h1 = h\<lparr>next_addr := Suc (next_addr h), live := insert (next_addr h) (live h)\<rparr>"
  let ?obj = "\<lparr>ob_addr = next_addr h, skeleton = None\<rparr>"
  have c: "calloc alloc h = (Some (next_addr h), h1)"
    using True by (simp add: calloc_def h1_def)
  have wf1: "heap_wf h1"
    using heap_wf_calloc [OF wf, of alloc] by (simp add: c)
  have fr: "next_addr h \<notin> live h" by (rule heap_wf_fresh [OF wf])
  obtain err obj' h2 where cr: "hello_verifier_bpf__create_skeleton lib alloc ?obj h1 = Inr (err, obj', h2)"
    and wf2: "heap_wf h2" and oa: "ob_addr obj' = next_addr h"
    and out: "err = 0 \<and> skeleton_complete obj' \<and> owns obj' h2 \<and>
           live h2 = live h1 \<union> obj_blocks obj' \<and> obj_blocks obj' \<inter> live h1 = {next_addr h}
         \<or> err = - ENOMEM \<and> obj' = ?obj \<and> live h2 = live h1"
    by (rule create_cases [OF wf1, of ?obj alloc]) (auto simp: h1_def)
  have own: "owns obj' h2"
    using out
  proof
    assume "err = - ENOMEM \<and> obj' = ?obj \<and> live h2 = live h1"
    then show ?thesis by (simp add: owns_def obj_blocks_def h1_def)
  qed blast
  have l1: "live h1 = insert (next_addr h) (live h)" by (simp add: h1_def)
  have suc: "live h2 = live h \<union> obj_blocks obj' \<and> (\<forall>x \<in> live h. x \<notin> obj_blocks obj')"
    if "err = 0"
  proof -
    from out that have eqs: "live h2 = insert (next_addr h) (live h) \<union> obj_blocks obj'"
      "obj_blocks obj' \<inter> insert (next_addr h) (live h) = {next_addr h}"
      unfolding l1 ENOMEM_def by auto
    have "x \<notin> obj_blocks obj'" if "x \<in> live h" for x
      using eqs(2) that fr by (metis IntI insert_iff singletonD)
    moreover have "next_addr h \<in> obj_blocks obj'" using eqs(2) by blast
    ultimately show ?thesis unfolding eqs(1) by auto
  qed
  have left: "live h2 - obj_blocks obj' = live h"
  proof (cases "err = 0")
    case True
    then show ?thesis using suc by auto
  next
    case False
    with out have "obj' = ?obj" "live h2 = live h1" by auto
    then show ?thesis using fr by (simp add: obj_blocks_def l1)
  qed
  let ?e = "if err \<noteq> 0 then err else open_skeleton lib (skeleton obj')"
  show ?thesis
  proof (cases "?e = 0")
    case e0: True
    then have "err = 0" by (simp split: if_splits)
    then have "opened h (Some obj', h2)"
      using out own wf2 suc by (auto simp: opened_def ENOMEM_def)
    then show ?thesis
      using e0 by (simp add: hello_verifier_bpf__open_opts_def c cr Let_def)
  next
    case ne: False
    have r: "hello_verifier_bpf__open_opts lib alloc h =
        bindE (int_neg ?e) (\<lambda>e. Inr (None, h2\<lparr>live := live h, errno := e\<rparr>))"
      using ne by (simp add: hello_verifier_bpf__open_opts_def c cr Let_def destroy_owned [OF own] left)
    show ?thesis
    proof (cases "sint ?e = - (2 ^ 31)")
      case True
      moreover from this have "err = 0" using out by (auto simp: ENOMEM_def)
      ultimately show ?thesis using r by (auto simp: int_neg_def)
    next
      case False
      moreover have "opened h (None, h2\<lparr>live := live h, errno := - ?e\<rparr>)"
        using ne wf2 left by (auto simp: opened_def heap_wf_def split: if_splits)
      ultimately show ?thesis using r by (simp add: int_neg_def)
    qed
  qed
qed

lemma open_and_load_opened:
  assumes wf: "heap_wf h"
  shows "(\<exists>q. hello_verifier_bpf__open_and_load lib alloc h = Inr q \<and> opened h q) \<or>
    hello_verifier_bpf__open_and_load lib alloc h = Inl SignedOverflow \<and>
    (\<exists>s. sint (open_skeleton lib s) = - (2 ^ 31) \<or> sint (load_skeleton lib s) = - (2 ^ 31))"
  using open_opts_opened [OF wf, of alloc]
proof (elim disjE exE conjE)
  assume "hello_verifier_bpf__open_opts lib alloc h = Inl SignedOverflow"
  then have "hello_verifier_bpf__open_and_load lib alloc h = Inl SignedOverflow"
    by (simp add: hello_verifier_bpf__open_and_load_def hello_verifier_bpf__open_def)
  moreover fix s
  assume "sint (open_skeleton lib s) = - (2 ^ 31)"
  ultimately show ?thesis by blast
next
  fix q0
  assume q0: "hello_verifier_bpf__open_opts lib alloc h = Inr q0" "opened h q0"
  obtain r h1 where q: "hello_verifier_bpf__open_opts lib alloc h = Inr (r, h1)" "opened h (r, h1)"
    using q0 by (cases q0) auto
  show ?thesis
  proof (cases r)
    case None
    with q show ?thesis
      by (simp add: hello_verifier_bpf__open_and_load_def hello_verifier_bpf__open_def)
  next
    case (Some obj)
    have own: "owns obj h1" using q(2) Some by (simp add: opened_def)
    have left: "live h1 - obj_blocks obj = live h"
      using q(2) Some by (auto dest: opened_live_destroyed)
    have "opened h (None, h1\<lparr>live := live h, errno := - e\<rparr>)" if "e \<noteq> 0" for e
      using that q(2) left by (auto simp: opened_def heap_wf_def split: option.splits)
    then show ?thesis
      using q Some
      by (auto simp: hello_verifier_bpf__open_and_load_def hello_verifier_bpf__open_def hello_verifier_bpf__load_def
          Let_def destroy_owned [OF own] left int_neg_def)
  qed
qed

end

section \<open>Properties\<close>

text \<open>C22: opening and loading the skeleton, whatever allocations fail and whatever \<open>libbpf\<close>
  reports. No block is freed twice; either the caller gets an object with all four maps and
  both programs, whose blocks are all new, and nothing else is allocated, or it gets a null
  pointer, \<open>errno\<close> is set and no block stays allocated. The one undefined outcome is the negation of
  an error code of \<open>libbpf\<close> that is the least \<open>int\<close>.\<close>

theorem open_and_load_result:
  assumes "libbpf_skeleton lib" and "heap_wf h"
  shows "(\<exists>r h'. hello_verifier_bpf__open_and_load lib alloc h = Inr (r, h') \<and>
    (case r of
       None \<Rightarrow> live h' = live h \<and> errno h' \<noteq> 0
     | Some obj \<Rightarrow> skeleton_complete obj \<and> live h' = live h \<union> obj_blocks obj \<and>
         obj_blocks obj \<inter> live h = {})) \<or>
    hello_verifier_bpf__open_and_load lib alloc h = Inl SignedOverflow \<and>
    (\<exists>s. sint (open_skeleton lib s) = - (2 ^ 31) \<or> sint (load_skeleton lib s) = - (2 ^ 31))"
  using libbpf_skeleton.open_and_load_opened [OF assms, of alloc]
proof (elim disjE exE conjE)
  fix q
  assume "hello_verifier_bpf__open_and_load lib alloc h = Inr q" "opened h q"
  then show ?thesis by (intro disjI1) (cases q, force simp: opened_def split: option.splits)
qed blast+

theorem open_and_load_result_witness:
  "\<exists>r h'. hello_verifier_bpf__open_and_load (libbpf_doc 0 (-22) 0) (\<lambda>_. True)
     \<lparr>next_addr = 0, live = {}, errno = 0\<rparr> = Inr (r, h')"
proof -
  have "heap_wf \<lparr>next_addr = 0, live = {}, errno = 0\<rparr>" by (simp add: heap_wf_def)
  from open_and_load_result [OF ld.libbpf_skeleton_axioms this, of 0 "-22" 0 "\<lambda>_. True"] show ?thesis
    by (auto simp: libbpf_doc_def)
qed

text \<open>Destroying what \<open>open_opts\<close> gave releases exactly its blocks, so that the live blocks are
  those from before the call, and destroying it again is an invalid free.\<close>

lemma open_destroy:
  assumes "libbpf_skeleton lib" and "heap_wf h"
    and "hello_verifier_bpf__open_opts lib alloc h = Inr (Some obj, h')"
  shows "\<exists>h''. hello_verifier_bpf__destroy lib (Some obj) h' = Inr h'' \<and> live h'' = live h \<and>
    ob_addr obj \<notin> live h'' \<and> free (ob_addr obj) h'' = Inl InvalidFree"
proof -
  have o: "opened h (Some obj, h')"
    using libbpf_skeleton.open_opts_opened [OF assms(1,2), of alloc] assms(3) by auto
  then have "owns obj h'" by (simp add: opened_def)
  moreover have "ob_addr obj \<in> obj_blocks obj" by (simp add: obj_blocks_def)
  ultimately show ?thesis
    using libbpf_skeleton.destroy_owned [OF assms(1), of obj h'] opened_live_destroyed [OF o] o
    by (auto simp: free_def opened_def)
qed

lemma open_destroy_instance:
  "\<exists>obj h' h''. hello_verifier_bpf__open_opts (libbpf_doc 0 0 0) (\<lambda>_. True)
       \<lparr>next_addr = 0, live = {}, errno = 0\<rparr> = Inr (Some obj, h') \<and> live h' = {0, 1, 2, 3} \<and>
     hello_verifier_bpf__destroy (libbpf_doc 0 0 0) (Some obj) h' = Inr h'' \<and> live h'' = {}"
proof -
  let ?h = "\<lparr>next_addr = 0, live = {}, errno = 0\<rparr>"
  have wf: "heap_wf ?h" by (simp add: heap_wf_def)
  obtain obj h' where o: "hello_verifier_bpf__open_opts (libbpf_doc 0 0 0) (\<lambda>_. True) ?h = Inr (Some obj, h')"
    and l: "live h' = {0, 1, 2, 3}"
    by (simp add: hello_verifier_bpf__open_opts_def hello_verifier_bpf__create_skeleton_def calloc_def
        Let_def libbpf_doc_def numeral_3_eq_3 numeral_2_eq_2 insert_commute)
  from open_destroy [OF ld.libbpf_skeleton_axioms wf o] o l show ?thesis by auto
qed

end
