(* ===== verification/Hello_User.thy ===== *)
theory Hello_User
  imports Hello_Kernel Skeleton
begin

text \<open>
  The user side of the verifier example, \<open>verifier_example/hello-verifier.c\<close>: the
  callbacks for log messages, samples and lost samples, and \<open>main\<close>, which opens, loads and
  attaches the object through the skeleton, configures a message for user 501 and polls
  the perf buffer until it is interrupted or fails.
\<close>

section \<open>Formatted output\<close>

function dec_nat :: "nat \<Rightarrow> string" where
  "dec_nat n = (if n < 10 then [char_of (48 + n)] else dec_nat (n div 10) @ [char_of (48 + n mod 10)])"
  by pat_completeness auto
termination
  by (relation "measure id") auto

declare dec_nat.simps [simp del]

definition dec_int :: "int \<Rightarrow> string" where
  "dec_int i = (if i < 0 then CHR ''-'' # dec_nat (nat (- i)) else dec_nat (nat i))"

text \<open>\<open>%-nd\<close> and \<open>%-ns\<close>: left-justified in a field of \<open>n\<close> characters.\<close>

definition pad_right :: "nat \<Rightarrow> bytes \<Rightarrow> bytes" where
  "pad_right n s = s @ replicate (n - length s) 32"

definition newline :: bytes where "newline = [10]"
definition blank :: bytes where "blank = [32]"

section \<open>Callbacks\<close>

datatype libbpf_print_level = LIBBPF_WARN | LIBBPF_INFO | LIBBPF_DEBUG

fun level_value :: "libbpf_print_level \<Rightarrow> nat" where
  "level_value LIBBPF_WARN = 0"
| "level_value LIBBPF_INFO = 1"
| "level_value LIBBPF_DEBUG = 2"

text \<open>The constants of the enumeration are compared as numbers.\<close>

lemma level_value_inj: "level_value a = level_value b \<Longrightarrow> a = b"
  by (cases a; cases b) simp_all

instantiation libbpf_print_level :: linorder
begin

definition less_eq_libbpf_print_level :: "libbpf_print_level \<Rightarrow> libbpf_print_level \<Rightarrow> bool" where
  "less_eq_libbpf_print_level a b \<longleftrightarrow> level_value a \<le> level_value b"

definition less_libbpf_print_level :: "libbpf_print_level \<Rightarrow> libbpf_print_level \<Rightarrow> bool" where
  "less_libbpf_print_level a b \<longleftrightarrow> level_value a < level_value b"

instance
  by standard (auto simp: less_eq_libbpf_print_level_def less_libbpf_print_level_def intro: level_value_inj)

end

text \<open>\<open>vfprintf\<close> is an argument: the formatted message goes to \<open>stderr\<close>.\<close>

definition libbpf_print_fn ::
  "('a \<Rightarrow> c_int \<times> bytes) \<Rightarrow> libbpf_print_level \<Rightarrow> 'a \<Rightarrow> c_int \<times> bytes" where
  "libbpf_print_fn vfprintf level fmt_args =
     (if level \<ge> LIBBPF_DEBUG then (0, []) else vfprintf fmt_args)"

text \<open>
  The sample is read through a pointer to \<open>data_t\<close>; \<open>%s\<close> reads each array up to its NUL.
\<close>

definition handle_event :: "bytes \<Rightarrow> bytes cres" where
  "handle_event buf =
     (if length buf < sizeof_data_t then Inl OutOfBounds
      else
        let m = decode_data buf
        in bindE (c_string (command m)) (\<lambda>com.
           bindE (c_string (message m)) (\<lambda>msg.
           Inr (pad_right 6 (str_bytes (dec_int (sint (pid m)))) @ blank
                @ pad_right 6 (str_bytes (dec_int (sint (uid m)))) @ blank
                @ pad_right 4 (str_bytes (dec_int (sint (d_counter m)))) @ blank
                @ pad_right 16 com @ blank @ msg @ newline))))"

lemma libbpf_print_fn_debug:
  "libbpf_print_fn vf level args = (if level = LIBBPF_DEBUG then (0, []) else vf args)"
  by (cases level) (simp_all add: libbpf_print_fn_def less_eq_libbpf_print_level_def)

definition lost_event :: "u64 \<Rightarrow> bytes" where
  "lost_event data_sz = str_bytes ''lost event'' @ newline"

section \<open>\<open>main\<close>\<close>

datatype effect =
    Set_strict_mode
  | Set_print
  | Stdout bytes
  | Stderr bytes
  | Perf_new
  | Perf_poll
  | Perf_free

text \<open>
  What \<open>perf_buffer__poll\<close> finds in the buffer, in order: a sample or a number of lost samples. It calls
  \<open>handle_event\<close> or \<open>lost_event\<close> for each, before it returns.
\<close>

datatype perf_event = Sample bytes | Lost u64

fun perf_callback :: "perf_event \<Rightarrow> bytes cres" where
  "perf_callback (Sample b) = handle_event b"
| "perf_callback (Lost n) = Inr (lost_event n)"

fun deliver :: "perf_event list \<Rightarrow> effect list cres" where
  "deliver [] = Inr []"
| "deliver (e # es) = bindE (perf_callback e) (\<lambda>t. bindE (deliver es) (\<lambda>out. Inr (Stdout t # out)))"

text \<open>
  What the world gives to one run: the functions of \<open>libbpf\<close>, what \<open>calloc\<close> does, the
  content of \<open>log_buf\<close> after loading, what the uninitialised \<open>msg\<close> holds, whether the perf
  buffer is created, and for each poll what is in the buffer and the result.
\<close>

record user_env =
  lib :: libbpf
  alloc :: "addr \<Rightarrow> bool"
  log_buf :: bytes
  msg_junk :: bytes
  perf_ok :: bool
  poll :: "nat \<Rightarrow> perf_event list \<times> c_int"

definition EINTR :: c_int where "EINTR = 4"

text \<open>The verifier log is printed up to two consecutive NULs.\<close>

function print_log :: "bytes \<Rightarrow> nat \<Rightarrow> bytes cres" where
  "print_log buf i =
     (if i < length buf then
        bindE (arr_get buf i) (\<lambda>b.
        bindE (if b = 0 then bindE (arr_get buf (i + 1)) (\<lambda>b'. Inr (b' = 0)) else Inr False) (\<lambda>stop.
        if stop then Inr []
        else bindE (print_log buf (i + 1)) (\<lambda>out. Inr (b # out))))
      else Inr [])"
  by pat_completeness auto
termination
  by (relation "measure (\<lambda>(buf, i). length buf - i)") auto

declare print_log.simps [simp del]

definition strncpy :: "bytes \<Rightarrow> bytes \<Rightarrow> nat \<Rightarrow> bytes cres" where
  "strncpy dst src n =
     (let s = take n (takeWhile (\<lambda>b. b \<noteq> 0) src)
      in if n \<le> length dst then Inr (s @ replicate (n - length s) 0 @ drop n dst)
         else Inl OutOfBounds)"

text \<open>The polling loop from the \<open>i\<close>-th poll on; it may run for ever.\<close>

partial_function (option) poll_loop ::
  "(nat \<Rightarrow> perf_event list \<times> c_int) \<Rightarrow> nat \<Rightarrow> effect list \<Rightarrow> (c_int \<times> effect list) cres option" where
  "poll_loop polls i out =
     (case deliver (fst (polls i)) of
        Inl e \<Rightarrow> Some (Inl e)
      | Inr shown \<Rightarrow>
          let err = snd (polls i); out = out @ Perf_poll # shown
          in if err = - EINTR then Some (Inr (0, out))
             else if sint err < 0 then
               Some (Inr (err, out @ [Stdout (str_bytes (''Error polling perf buffer: '' @ dec_int (sint err)) @ newline)]))
             else poll_loop polls (Suc i) out)"

text \<open>Sequencing of computations that may not return and may reach undefined behaviour.\<close>

definition bindO :: "'a cres option \<Rightarrow> ('a \<Rightarrow> 'b cres option) \<Rightarrow> 'b cres option" where
  "bindO m f = (case m of None \<Rightarrow> None | Some (Inl e) \<Rightarrow> Some (Inl e) | Some (Inr x) \<Rightarrow> f x)"

lemma bindO_simps [simp, cres_simps]:
  "bindO None f = None"
  "bindO (Some (Inl e)) f = Some (Inl e)"
  "bindO (Some (Inr x)) f = f x"
  by (simp_all add: bindO_def)

definition hello_msg :: bytes where
  "hello_msg = str_bytes ''hello Liz''"

definition main ::
  "user_env \<Rightarrow> ('m, u32, msg_t) map_ops \<Rightarrow> 'm \<Rightarrow> heap \<Rightarrow>
   (c_int \<times> effect list \<times> 'm \<times> heap) cres option" where
  "main env ops cfg h =
     (let out = [Set_strict_mode, Set_print]
      in bindO (Some (hello_verifier_bpf__open_opts (lib env) (alloc env) h)) (\<lambda>(skel, h).
      case skel of
        None \<Rightarrow> Some (Inr (1, out @ [Stdout (str_bytes ''Failed to open BPF object'' @ newline)], cfg, h))
      | Some obj \<Rightarrow>
          let err = hello_verifier_bpf__load (lib env) obj
          in bindO (Some (print_log (log_buf env) 0)) (\<lambda>log.
          let out = out @ [Stdout log]
          in if err \<noteq> 0 then
               let out = out @ [Stdout (str_bytes ''Failed to load BPF object'' @ newline)]
               in bindO (Some (hello_verifier_bpf__destroy (lib env) (Some obj) h)) (\<lambda>h.
                  Some (Inr (1, out, cfg, h)))
             else
               bindO (Some (strncpy (msg_junk env) (hello_msg @ [0]) (length hello_msg))) (\<lambda>msg.
               let cfg = snd (map_update_elem ops cfg 501 \<lparr>m_message = msg\<rparr> 0);
                   err = hello_verifier_bpf__attach (lib env) obj
               in if err \<noteq> 0 then
                    let out = out @ [Stderr (str_bytes (''Failed to attach BPF skeleton: '' @ dec_int (sint err)) @ newline)]
                    in bindO (Some (hello_verifier_bpf__destroy (lib env) (Some obj) h)) (\<lambda>h.
                       Some (Inr (1, out, cfg, h)))
                  else
                    let out = out @ [Perf_new]
                    in if \<not> perf_ok env then
                         let out = out @ [Stderr (str_bytes ''Failed to create ring buffer'' @ newline)]
                         in bindO (Some (hello_verifier_bpf__destroy (lib env) (Some obj) h)) (\<lambda>h.
                            Some (Inr (1, out, cfg, h)))
                       else
                         bindO (poll_loop (poll env) 0 out) (\<lambda>(err, out).
                         let out = out @ [Perf_free]
                         in bindO (Some (hello_verifier_bpf__destroy (lib env) (Some obj) h)) (\<lambda>h.
                            bindO (Some (int_neg err)) (\<lambda>code. Some (Inr (code, out, cfg, h)))))))))"

section \<open>Samples\<close>

definition sample_line :: "data_t \<Rightarrow> bytes" where
  "sample_line d =
     pad_right 6 (str_bytes (dec_int (sint (pid d)))) @ blank
     @ pad_right 6 (str_bytes (dec_int (sint (uid d)))) @ blank
     @ pad_right 4 (str_bytes (dec_int (sint (d_counter d)))) @ blank
     @ pad_right 16 (takeWhile (\<lambda>b. b \<noteq> 0) (command d)) @ blank
     @ takeWhile (\<lambda>b. b \<noteq> 0) (message d) @ newline"

lemma handle_event_encoded:
  assumes "data_wf d"
  shows "handle_event (encode_data d) =
     (if 0 \<in> set (command d) \<and> 0 \<in> set (message d) then Inr (sample_line d) else Inl OutOfBounds)"
  using assms
  by (cases "0 \<in> set (command d)"; cases "0 \<in> set (message d)")
     (simp_all add: handle_event_def length_encode_data decode_encode Let_def c_string_nul
      c_string_no_nul sample_line_def)

text \<open>\<open>handle_event\<close> on any sample. It prints one line if the sample is large enough and both
  arrays hold a NUL; if not, the \<open>%s\<close> conversions read past the array.\<close>

lemma handle_event_result:
  "handle_event buf =
     (if 40 \<le> length buf \<and> 0 \<in> set (take 16 (drop 12 buf)) \<and> 0 \<in> set (take 12 (drop 28 buf))
      then Inr (sample_line (decode_data buf)) else Inl OutOfBounds)"
proof (cases "40 \<le> length buf")
  case True
  then show ?thesis
    by (cases "0 \<in> set (take 16 (drop 12 buf))"; cases "0 \<in> set (take 12 (drop 28 buf))")
       (simp_all add: handle_event_def sizeof_data_t_def Let_def decode_data_def c_string_nul
         c_string_no_nul sample_line_def)
next
  case False
  then show ?thesis by (simp add: handle_event_def sizeof_data_t_def)
qed

text \<open>Which samples make the callbacks of a poll undefined.\<close>

lemma deliver_fails:
  assumes "deliver es = Inl e"
  shows "e = OutOfBounds \<and> (\<exists>b. Sample b \<in> set es \<and>
    (length b < 40 \<or> 0 \<notin> set (take 16 (drop 12 b)) \<or> 0 \<notin> set (take 12 (drop 28 b))))"
  using assms
proof (induction es)
  case (Cons x es)
  show ?case
  proof (cases "perf_callback x")
    case (Inl e')
    with Cons.prems have "perf_callback x = Inl e" by simp
    then show ?thesis by (cases x) (auto simp: handle_event_result not_le split: if_splits)
  next
    case (Inr t)
    with Cons.prems have "deliver es = Inl e" by (cases "deliver es") simp_all
    with Cons.IH show ?thesis by auto
  qed
qed simp

section \<open>The verifier log\<close>

text \<open>The same text by recursion on the rest of the buffer.\<close>

fun log_text :: "bytes \<Rightarrow> bytes cres" where
  "log_text [] = Inr []"
| "log_text [b] = (if b = 0 then Inl OutOfBounds else Inr [b])"
| "log_text (a # b # bs) =
     (if a = 0 \<and> b = 0 then Inr [] else bindE (log_text (b # bs)) (\<lambda>t. Inr (a # t)))"

lemma print_log_text: "print_log buf i = log_text (drop i buf)"
proof (induction buf i rule: print_log.induct)
  case (1 buf i)
  show ?case
  proof (cases "i < length buf")
    case False
    then show ?thesis by (subst print_log.simps) simp
  next
    case lt: True
    then have d: "drop i buf = buf ! i # drop (i + 1) buf" by (simp add: Cons_nth_drop_Suc)
    have IH: "print_log buf (i + 1) = log_text (drop (i + 1) buf)"
      using "1.IH" [of False] lt by simp
    show ?thesis
    proof (cases "i + 1 < length buf")
      case True
      then have d2: "drop (i + 1) buf = buf ! (i + 1) # drop (i + 2) buf"
        by (simp add: Cons_nth_drop_Suc)
      show ?thesis
        using lt True IH unfolding d d2 by (subst print_log.simps) auto
    next
      case False
      then have "drop (i + 1) buf = []" by simp
      then show ?thesis
        using lt False IH unfolding d by (subst print_log.simps) (auto simp: arr_get_def)
    qed
  qed
qed

definition double_nul :: "bytes \<Rightarrow> nat \<Rightarrow> bool" where
  "double_nul buf i \<longleftrightarrow> Suc i < length buf \<and> buf ! i = 0 \<and> buf ! Suc i = 0"

lemma double_nul_Cons_Suc: "double_nul (a # bs) (Suc i) \<longleftrightarrow> double_nul bs i"
  by (simp add: double_nul_def)

lemma double_nul_Cons_0: "double_nul (a # b # bs) 0 \<longleftrightarrow> a = 0 \<and> b = 0"
  by (auto simp: double_nul_def)

lemma log_text_found:
  assumes "double_nul buf k" and "\<And>i. i < k \<Longrightarrow> \<not> double_nul buf i"
  shows "log_text buf = Inr (take k buf)"
  using assms
proof (induction buf arbitrary: k rule: log_text.induct)
  case (3 a b bs)
  show ?case
  proof (cases k)
    case 0
    with 3 show ?thesis by (simp add: double_nul_Cons_0)
  next
    case (Suc j)
    have n0: "\<not> (a = 0 \<and> b = 0)" using "3.prems"(2) [of 0] Suc by (simp add: double_nul_Cons_0)
    have "double_nul (b # bs) j" using "3.prems"(1) Suc by (simp add: double_nul_Cons_Suc)
    moreover have "\<not> double_nul (b # bs) i" if "i < j" for i
      using "3.prems"(2) [of "Suc i"] that Suc by (simp add: double_nul_Cons_Suc)
    ultimately have "log_text (b # bs) = Inr (take j (b # bs))" by (rule "3.IH" [OF n0])
    with n0 Suc show ?thesis by simp
  qed
qed (simp_all add: double_nul_def)

lemma log_text_none:
  assumes "\<And>i. \<not> double_nul buf i"
  shows "log_text buf = (if buf \<noteq> [] \<and> last buf = 0 then Inl OutOfBounds else Inr buf)"
  using assms
proof (induction buf rule: log_text.induct)
  case (3 a b bs)
  have n0: "\<not> (a = 0 \<and> b = 0)" using "3.prems" [of 0] by (simp add: double_nul_Cons_0)
  have "\<not> double_nul (b # bs) i" for i using "3.prems" [of "Suc i"] by (simp add: double_nul_Cons_Suc)
  with "3.IH" [OF n0] n0 show ?case by auto
qed simp_all

lemma print_log_0:
  "print_log buf 0 =
     (if \<exists>i. double_nul buf i then Inr (take (LEAST i. double_nul buf i) buf)
      else if buf \<noteq> [] \<and> last buf = 0 then Inl OutOfBounds else Inr buf)"
proof (cases "\<exists>i. double_nul buf i")
  case True
  then have "double_nul buf (LEAST i. double_nul buf i)" by (blast intro: LeastI)
  then have "log_text buf = Inr (take (LEAST i. double_nul buf i) buf)"
    by (rule log_text_found) (rule not_less_Least)
  with True show ?thesis by (simp add: print_log_text)
next
  case False
  then show ?thesis by (simp add: print_log_text log_text_none)
qed

section \<open>Configuration\<close>

text \<open>\<open>strncpy\<close> with the length of the string as bound does not copy the terminating NUL.\<close>

lemma length_hello_msg [simp]: "length hello_msg = 9"
  by (simp add: hello_msg_def)

lemma hello_msg_no_nul: "0 \<notin> set hello_msg"
  by (simp add: hello_msg_def str_bytes_def)

lemma strncpy_hello:
  assumes "length junk = 12"
  shows "strncpy junk (hello_msg @ [0]) (length hello_msg) = Inr (hello_msg @ drop 9 junk)"
proof -
  have "takeWhile (\<lambda>b. b \<noteq> 0) (hello_msg @ [0]) = hello_msg"
    using hello_msg_no_nul by (subst takeWhile_append2) auto
  then show ?thesis using assms by (simp add: strncpy_def)
qed

section \<open>Polling\<close>

definition poll_result :: "c_int \<Rightarrow> c_int" where
  "poll_result e = (if e = - EINTR then 0 else e)"

lemma EINTR_negative: "sint (- EINTR) < 0"
  by (simp add: EINTR_def)

text \<open>The loop ends at the first poll with a sample that cannot be printed or a negative result.\<close>

definition poll_stops :: "(nat \<Rightarrow> perf_event list \<times> c_int) \<Rightarrow> nat \<Rightarrow> bool" where
  "poll_stops f k \<longleftrightarrow> sint (snd (f k)) < 0 \<or> (\<exists>e. deliver (fst (f k)) = Inl e)"

lemma deliver_printed: "deliver es = Inr t \<Longrightarrow> Perf_free \<notin> set t"
  by (induction es arbitrary: t) (auto simp: bindE_eq_Inr)

lemma poll_loop_goes_on:
  assumes "\<not> poll_stops f i"
  shows "\<exists>t. poll_loop f i out = poll_loop f (Suc i) (out @ t) \<and> Perf_free \<notin> set t"
proof -
  obtain t where t: "deliver (fst (f i)) = Inr t"
    using assms by (cases "deliver (fst (f i))") (auto simp: poll_stops_def)
  have "0 \<le> sint (snd (f i))" using assms by (simp add: poll_stops_def)
  then have "snd (f i) \<noteq> - EINTR" using EINTR_negative by auto
  with assms t deliver_printed [OF t] show ?thesis
    by (intro exI [of _ "Perf_poll # t"]) (subst poll_loop.simps, simp add: poll_stops_def Let_def)
qed

lemma poll_loop_ends:
  assumes "poll_stops f i"
  shows "(\<exists>e. deliver (fst (f i)) = Inl e \<and> poll_loop f i out = Some (Inl e)) \<or>
    sint (snd (f i)) < 0 \<and> (\<exists>t. poll_loop f i out = Some (Inr (poll_result (snd (f i)), out @ t)) \<and> Perf_free \<notin> set t)"
proof (cases "deliver (fst (f i))")
  case (Inl e)
  then show ?thesis by (subst (1) poll_loop.simps) simp
next
  case (Inr t)
  then have "sint (snd (f i)) < 0" using assms by (simp add: poll_stops_def)
  with Inr deliver_printed [OF Inr] show ?thesis
    by (subst poll_loop.simps) (auto simp: poll_result_def Let_def)
qed

lemma poll_loop_stops:
  assumes "poll_stops f (i + k)" and "\<And>j. j < k \<Longrightarrow> \<not> poll_stops f (i + j)"
  shows "(\<exists>e. deliver (fst (f (i + k))) = Inl e \<and> poll_loop f i out = Some (Inl e)) \<or>
    sint (snd (f (i + k))) < 0 \<and>
    (\<exists>t. poll_loop f i out = Some (Inr (poll_result (snd (f (i + k))), out @ t)) \<and> Perf_free \<notin> set t)"
  using assms
proof (induction k arbitrary: i out)
  case 0
  then show ?case using poll_loop_ends [of f i out] by simp
next
  case (Suc k)
  have "\<not> poll_stops f i" using Suc.prems(2) [of 0] by simp
  then obtain t where t: "poll_loop f i out = poll_loop f (Suc i) (out @ t)" "Perf_free \<notin> set t"
    using poll_loop_goes_on by blast
  have "poll_stops f (Suc i + k)" using Suc.prems(1) by simp
  moreover have "\<not> poll_stops f (Suc i + j)" if "j < k" for j
    using Suc.prems(2) [of "Suc j"] that by simp
  ultimately show ?case
    using Suc.IH [of "Suc i" "out @ t"] t by auto
qed

lemma poll_loop_Some:
  assumes "poll_loop f i out = Some r"
  shows "\<exists>k. poll_stops f (i + k) \<and> (\<forall>j<k. \<not> poll_stops f (i + j))"
proof (rule poll_loop.raw_induct [where P = "\<lambda>f i out r. \<exists>k. poll_stops f (i + k) \<and>
    (\<forall>j<k. \<not> poll_stops f (i + j))", OF _ assms])
  fix loop f i out r
  assume IH: "\<And>f i out r. loop f i out = Some r \<Longrightarrow> \<exists>k. poll_stops f (i + k) \<and> (\<forall>j<k. \<not> poll_stops f (i + j))"
    and eq: "(case deliver (fst (f i)) of
        Inl e \<Rightarrow> Some (Inl e)
      | Inr shown \<Rightarrow>
          let err = snd (f i); out = out @ Perf_poll # shown
          in if err = - EINTR then Some (Inr (0, out))
             else if sint err < 0 then
               Some (Inr (err, out @ [Stdout (str_bytes (''Error polling perf buffer: '' @ dec_int (sint err)) @ newline)]))
             else loop f (Suc i) out) = Some r"
  show "\<exists>k. poll_stops f (i + k) \<and> (\<forall>j<k. \<not> poll_stops f (i + j))"
  proof (cases "poll_stops f i")
    case True
    then show ?thesis by (intro exI [of _ 0]) simp
  next
    case False
    then obtain t where t: "deliver (fst (f i)) = Inr t" "0 \<le> sint (snd (f i))"
      by (cases "deliver (fst (f i))") (auto simp: poll_stops_def)
    then have "snd (f i) \<noteq> - EINTR" using EINTR_negative by auto
    with eq t have "loop f (Suc i) (out @ Perf_poll # t) = Some r" by (simp add: Let_def)
    from IH [OF this] obtain k where k: "poll_stops f (Suc i + k)" "\<forall>j<k. \<not> poll_stops f (Suc i + j)"
      by blast
    have "\<not> poll_stops f (i + j)" if "j < Suc k" for j
      using that k(2) False by (cases j) auto
    with k(1) show ?thesis by (intro exI [of _ "Suc k"]) simp
  qed
qed

section \<open>A run of \<open>main\<close>\<close>

text \<open>What \<open>main\<close> does once the object is open, up to its \<open>destroy\<close> call.\<close>

definition main_opened ::
  "user_env \<Rightarrow> ('m, u32, msg_t) map_ops \<Rightarrow> 'm \<Rightarrow> hello_verifier_bpf \<Rightarrow>
   (c_int \<times> effect list \<times> 'm) cres option" where
  "main_opened env ops cfg obj =
     bindO (Some (print_log (log_buf env) 0)) (\<lambda>log.
     let out = [Set_strict_mode, Set_print, Stdout log]
     in if load_skeleton (lib env) (skeleton obj) \<noteq> 0
        then Some (Inr (1, out @ [Stdout (str_bytes ''Failed to load BPF object'' @ newline)], cfg))
        else
          bindO (Some (strncpy (msg_junk env) (hello_msg @ [0]) (length hello_msg))) (\<lambda>msg.
          let cfg = snd (map_update_elem ops cfg 501 \<lparr>m_message = msg\<rparr> 0);
              err = attach_skeleton (lib env) (skeleton obj)
          in if err \<noteq> 0
             then Some (Inr (1, out @ [Stderr (str_bytes (''Failed to attach BPF skeleton: '' @ dec_int (sint err)) @ newline)], cfg))
             else if \<not> perf_ok env
             then Some (Inr (1, out @ [Perf_new, Stderr (str_bytes ''Failed to create ring buffer'' @ newline)], cfg))
             else bindO (poll_loop (poll env) 0 (out @ [Perf_new])) (\<lambda>(err, out).
                  bindO (Some (int_neg err)) (\<lambda>code. Some (Inr (code, out @ [Perf_free], cfg))))))"

lemma bindO_Some: "bindO (Some r) f = (case r of Inl e \<Rightarrow> Some (Inl e) | Inr x \<Rightarrow> f x)"
  by (simp add: bindO_def)

lemma main_open_failed:
  "hello_verifier_bpf__open_opts (lib env) (alloc env) h = Inr (None, h1) \<Longrightarrow>
   main env ops cfg h = Some (Inr (1,
     [Set_strict_mode, Set_print, Stdout (str_bytes ''Failed to open BPF object'' @ newline)], cfg, h1))"
  by (simp add: main_def)

lemma main_open_ok:
  assumes "hello_verifier_bpf__open_opts (lib env) (alloc env) h = Inr (Some obj, h1)"
    and "hello_verifier_bpf__destroy (lib env) (Some obj) h1 = Inr h2"
  shows "main env ops cfg h =
    bindO (main_opened env ops cfg obj) (\<lambda>(code, out, cfg'). Some (Inr (code, out, cfg', h2)))"
  using assms
  by (simp add: main_def main_opened_def hello_verifier_bpf__load_def hello_verifier_bpf__attach_def
      Let_def bindO_Some bindO_def split: sum.split option.split prod.split)

text \<open>The cases together: an overflow, an error exit, or the run of an object that is destroyed at the end.\<close>

lemma main_cases:
  assumes "heap_wf h" and "libbpf_skeleton (lib env)"
  obtains (overflow) x where "sint (open_skeleton (lib env) x) = - (2 ^ 31)"
      "\<And>p. main (env\<lparr>poll := p\<rparr>) ops cfg h = Some (Inl SignedOverflow)"
    | (failed) h1 where "live h1 = live h"
      "\<And>p. main (env\<lparr>poll := p\<rparr>) ops cfg h = Some (Inr (1,
         [Set_strict_mode, Set_print, Stdout (str_bytes ''Failed to open BPF object'' @ newline)], cfg, h1))"
    | (opened) obj h1 where "live h1 = live h" "skeleton_complete obj"
      "\<And>p. main (env\<lparr>poll := p\<rparr>) ops cfg h = bindO (main_opened (env\<lparr>poll := p\<rparr>) ops cfg obj)
         (\<lambda>(code, out, cfg'). Some (Inr (code, out, cfg', h1)))"
  using libbpf_skeleton.open_opts_opened [OF assms(2,1), of "alloc env"]
proof (elim disjE exE conjE)
  fix x
  assume "hello_verifier_bpf__open_opts (lib env) (alloc env) h = Inl SignedOverflow"
    and x: "sint (open_skeleton (lib env) x) = - (2 ^ 31)"
  then have "\<And>p. main (env\<lparr>poll := p\<rparr>) ops cfg h = Some (Inl SignedOverflow)" by (simp add: main_def)
  with x show thesis by (rule overflow)
next
  fix q
  assume "hello_verifier_bpf__open_opts (lib env) (alloc env) h = Inr q" "opened h q"
  then obtain r h1 where q: "hello_verifier_bpf__open_opts (lib env) (alloc env) h = Inr (r, h1)"
    "opened h (r, h1)" by (cases q) auto
  show thesis
  proof (cases r)
    case None
    with q show thesis
      by (intro failed [of h1]) (auto simp: opened_def intro!: main_open_failed)
  next
    case (Some obj)
    have own: "owns obj h1" using q(2) Some by (simp add: opened_def)
    have left: "live h1 - obj_blocks obj = live h"
      using q(2) Some by (auto dest: opened_live_destroyed)
    show thesis
      by (rule opened [of "h1\<lparr>live := live h\<rparr>" obj])
         (use q Some libbpf_skeleton.destroy_owned [OF assms(2) own] left in
            \<open>auto simp: opened_def intro!: main_open_ok\<close>)
  qed
qed

lemma poll_loop_result:
  assumes "poll_loop f 0 out = Some r"
  shows "\<exists>k. (\<forall>j<k. \<not> poll_stops f j) \<and> ((\<exists>e. deliver (fst (f k)) = Inl e \<and> r = Inl e) \<or>
    sint (snd (f k)) < 0 \<and> (\<exists>rest. r = Inr (poll_result (snd (f k)), out @ rest) \<and> Perf_free \<notin> set rest))"
proof -
  obtain k where k: "poll_stops f k" "\<forall>j<k. \<not> poll_stops f j"
    using poll_loop_Some [OF assms] by auto
  then show ?thesis using poll_loop_stops [of f 0 k out] assms by (intro exI [of _ k]) auto
qed

lemma poll_loop_None: "poll_loop f 0 out = None \<longleftrightarrow> (\<forall>k. \<not> poll_stops f k)"
proof
  assume none: "poll_loop f 0 out = None"
  show "\<forall>k. \<not> poll_stops f k"
  proof (rule ccontr)
    assume "\<not> (\<forall>k. \<not> poll_stops f k)"
    then obtain k where "poll_stops f k" "\<And>j. j < k \<Longrightarrow> \<not> poll_stops f j"
      using exists_least_iff [of "poll_stops f"] by blast
    with poll_loop_stops [of f 0 k out] none show False by auto
  qed
next
  assume "\<forall>k. \<not> poll_stops f k"
  then show "poll_loop f 0 out = None"
    using poll_loop_Some [of f 0 out] by (cases "poll_loop f 0 out") auto
qed

text \<open>The three ways through \<open>main_opened\<close>: undefined, an error exit, or polling.\<close>

definition effects_before :: "bytes \<Rightarrow> effect list" where
  "effects_before lg = [Set_strict_mode, Set_print, Stdout lg, Perf_new]"

definition configured :: "user_env \<Rightarrow> ('m, u32, msg_t) map_ops \<Rightarrow> 'm \<Rightarrow> 'm" where
  "configured env ops cfg =
     snd (map_update_elem ops cfg 501 \<lparr>m_message = hello_msg @ drop 9 (msg_junk env)\<rparr> 0)"

lemma main_opened_cases:
  assumes "length (msg_junk env) = 12"
  obtains (overread) "print_log (log_buf env) 0 = Inl OutOfBounds"
      "\<And>p. main_opened (env\<lparr>poll := p\<rparr>) ops cfg obj = Some (Inl OutOfBounds)"
    | (error) out cfg' where "Perf_free \<notin> set out"
      "\<And>p. main_opened (env\<lparr>poll := p\<rparr>) ops cfg obj = Some (Inr (1, out, cfg'))"
    | (polls) lg where
      "\<And>p. main_opened (env\<lparr>poll := p\<rparr>) ops cfg obj =
         bindO (poll_loop p 0 (effects_before lg)) (\<lambda>(err, out).
           bindO (Some (int_neg err)) (\<lambda>code. Some (Inr (code, out @ [Perf_free], configured env ops cfg))))"
proof (cases "print_log (log_buf env) 0")
  case (Inl e)
  then have "e = OutOfBounds" by (auto simp: print_log_0 split: if_splits)
  with Inl show thesis by (intro overread) (simp_all add: main_opened_def)
next
  case (Inr lg)
  note defs = main_opened_def Inr Let_def strncpy_hello [OF assms, unfolded length_hello_msg] configured_def
  consider "load_skeleton (lib env) (skeleton obj) \<noteq> 0"
    | "load_skeleton (lib env) (skeleton obj) = 0" "attach_skeleton (lib env) (skeleton obj) \<noteq> 0"
    | "load_skeleton (lib env) (skeleton obj) = 0" "attach_skeleton (lib env) (skeleton obj) = 0"
      "\<not> perf_ok env"
    | "load_skeleton (lib env) (skeleton obj) = 0" "attach_skeleton (lib env) (skeleton obj) = 0"
      "perf_ok env"
    by blast
  then show thesis
  proof cases
    case 1
    then show thesis
      by (intro error [of "[Set_strict_mode, Set_print, Stdout lg,
            Stdout (str_bytes ''Failed to load BPF object'' @ newline)]" cfg]) (simp_all add: defs)
  next
    case 2
    then show thesis
      by (intro error [of "[Set_strict_mode, Set_print, Stdout lg,
            Stderr (str_bytes (''Failed to attach BPF skeleton: '' @
              dec_int (sint (attach_skeleton (lib env) (skeleton obj)))) @ newline)]" "configured env ops cfg"]) (simp_all add: defs)
  next
    case 3
    then show thesis
      by (intro error [of "[Set_strict_mode, Set_print, Stdout lg, Perf_new,
            Stderr (str_bytes ''Failed to create ring buffer'' @ newline)]" "configured env ops cfg"]) (simp_all add: defs)
  next
    case 4
    then show thesis
      by (intro polls [of lg]) (simp add: defs effects_before_def)
  qed
qed

lemma env_poll [simp]: "env\<lparr>poll := poll env\<rparr> = env"
  by simp

text \<open>The end of \<open>main\<close> after polling: the perf buffer is freed, and the result negated.\<close>

definition main_end :: "'m \<Rightarrow> heap \<Rightarrow> (c_int \<times> effect list) cres \<Rightarrow> (c_int \<times> effect list \<times> 'm \<times> heap) cres" where
  "main_end cfg h r = bindE r (\<lambda>(err, out). bindE (int_neg err) (\<lambda>code. Inr (code, out @ [Perf_free], cfg, h)))"

lemma int_neg_result:
  "int_neg (poll_result e) = (if sint e = - (2 ^ 31) then Inl SignedOverflow
     else Inr (if e = - EINTR then 0 else - e))"
  by (simp add: int_neg_def poll_result_def EINTR_def)

lemma main_end_simps [simp]:
  "main_end cfg h (Inl e) = Inl e"
  "main_end cfg h (Inr (poll_result k, out)) = (if sint k = - (2 ^ 31) then Inl SignedOverflow
     else Inr (if k = - EINTR then 0 else - k, out @ [Perf_free], cfg, h))"
  by (simp_all add: main_end_def int_neg_result)

text \<open>Both together: the runs of \<open>main\<close> for all results of polling.\<close>

lemma main_runs:
  assumes "heap_wf h" and "libbpf_skeleton (lib env)" and "length (msg_junk env) = 12"
  obtains (overflow) x where "sint (open_skeleton (lib env) x) = - (2 ^ 31)"
      "\<And>p. main (env\<lparr>poll := p\<rparr>) ops cfg h = Some (Inl SignedOverflow)"
    | (overread) "print_log (log_buf env) 0 = Inl OutOfBounds"
      "\<And>p. main (env\<lparr>poll := p\<rparr>) ops cfg h = Some (Inl OutOfBounds)"
    | (error) out cfg' h' where "Perf_free \<notin> set out" "live h' = live h"
      "\<And>p. main (env\<lparr>poll := p\<rparr>) ops cfg h = Some (Inr (1, out, cfg', h'))"
    | (polls) lg h' where "live h' = live h"
      "\<And>p. main (env\<lparr>poll := p\<rparr>) ops cfg h =
         map_option (main_end (configured env ops cfg) h') (poll_loop p 0 (effects_before lg))"
proof (rule main_cases [OF assms(1,2), of ops cfg])
  fix x
  assume "sint (open_skeleton (lib env) x) = - (2 ^ 31)"
    and "\<And>p. main (env\<lparr>poll := p\<rparr>) ops cfg h = Some (Inl SignedOverflow)"
  then show thesis by (rule overflow)
next
  fix h1
  assume *: "live h1 = live h" "\<And>p. main (env\<lparr>poll := p\<rparr>) ops cfg h = Some (Inr (1,
         [Set_strict_mode, Set_print, Stdout (str_bytes ''Failed to open BPF object'' @ newline)], cfg, h1))"
  show thesis by (rule error [OF _ *]) simp
next
  fix obj h1
  assume l: "live h1 = live h" and m: "\<And>p. main (env\<lparr>poll := p\<rparr>) ops cfg h =
      bindO (main_opened (env\<lparr>poll := p\<rparr>) ops cfg obj)
         (\<lambda>(code, out, cfg'). Some (Inr (code, out, cfg', h1)))"
  show thesis
  proof (rule main_opened_cases [OF assms(3), of ops cfg obj])
    assume "print_log (log_buf env) 0 = Inl OutOfBounds"
      and "\<And>p. main_opened (env\<lparr>poll := p\<rparr>) ops cfg obj = Some (Inl OutOfBounds)"
    then show thesis by (intro overread) (simp_all add: m)
  next
    fix out cfg'
    assume "Perf_free \<notin> set out"
      and "\<And>p. main_opened (env\<lparr>poll := p\<rparr>) ops cfg obj = Some (Inr (1, out, cfg'))"
    then show thesis by (intro error [of out h1 cfg']) (simp_all add: m l)
  next
    fix lg
    assume o: "\<And>p. main_opened (env\<lparr>poll := p\<rparr>) ops cfg obj =
         bindO (poll_loop p 0 (effects_before lg)) (\<lambda>(err, out).
           bindO (Some (int_neg err)) (\<lambda>code. Some (Inr (code, out @ [Perf_free], configured env ops cfg))))"
    show thesis
    proof (rule polls [OF l, of lg])
      fix p
      show "main (env\<lparr>poll := p\<rparr>) ops cfg h =
         map_option (main_end (configured env ops cfg) h1) (poll_loop p 0 (effects_before lg))"
        unfolding m o
        by (cases "poll_loop p 0 (effects_before lg)")
           (auto simp: bindO_Some main_end_def bindE_def split: sum.split)
    qed
  qed
qed

text \<open>A concrete world for the witnesses: everything works and the third poll is interrupted.\<close>

definition env_ok :: user_env where
  "env_ok = \<lparr>lib = libbpf_doc 0 0 0, alloc = (\<lambda>_. True), log_buf = replicate 65536 0,
     msg_junk = replicate 12 0, perf_ok = True, poll = (\<lambda>i. if i < 2 then ([], 0) else ([], - EINTR))\<rparr>"

definition heap_empty :: heap where
  "heap_empty = \<lparr>next_addr = 0, live = {}, errno = 0\<rparr>"

lemma env_ok_wf: "heap_wf heap_empty" "libbpf_skeleton (lib env_ok)" "length (msg_junk env_ok) = 12"
  by (simp_all add: heap_wf_def heap_empty_def env_ok_def ld.libbpf_skeleton_axioms)

lemma env_ok_log: "print_log (log_buf env_ok) 0 = Inr []"
  by (subst print_log.simps) (simp add: env_ok_def arr_get_def)

lemma env_ok_poll: "poll_loop (poll env_ok) 0 out = Some (Inr (0, out @ [Perf_poll, Perf_poll, Perf_poll]))"
  by (simp add: env_ok_def poll_loop.simps [of _ 0] poll_loop.simps [of _ "Suc 0"]
      poll_loop.simps [of _ "Suc (Suc 0)"] EINTR_def)

lemma main_env_junk:
  assumes "length junk = 12"
  obtains out cfg' h' where
    "main (env_ok\<lparr>msg_junk := junk\<rparr>) hmap_ops my_config_map heap_empty = Some (Inr (0, out, cfg', h'))"
    and "Perf_free \<in> set out"
proof -
  let ?env = "env_ok\<lparr>msg_junk := junk\<rparr>"
  obtain obj h1 where o: "hello_verifier_bpf__open_opts (lib ?env) (alloc ?env) heap_empty = Inr (Some obj, h1)"
    by (simp add: hello_verifier_bpf__open_opts_def hello_verifier_bpf__create_skeleton_def calloc_def
        Let_def libbpf_doc_def env_ok_def heap_empty_def)
  have "libbpf_skeleton (lib ?env)" using env_ok_wf(2) by simp
  moreover from this have "opened heap_empty (Some obj, h1)"
    using libbpf_skeleton.open_opts_opened [of "lib ?env" heap_empty "alloc ?env"] env_ok_wf(1) o by auto
  ultimately have d: "hello_verifier_bpf__destroy (lib ?env) (Some obj) h1 =
      Inr (h1\<lparr>live := live h1 - obj_blocks obj\<rparr>)"
    by (intro libbpf_skeleton.destroy_owned) (simp_all add: opened_def)
  have l: "load_skeleton (lib env_ok) x = 0" "attach_skeleton (lib env_ok) x = 0" "perf_ok env_ok" for x
    by (simp_all add: env_ok_def libbpf_doc_def)
  have "main ?env hmap_ops my_config_map heap_empty = Some (Inr (0,
      effects_before [] @ [Perf_poll, Perf_poll, Perf_poll, Perf_free],
      configured ?env hmap_ops my_config_map, h1\<lparr>live := live h1 - obj_blocks obj\<rparr>))"
    by (subst main_open_ok [OF o d])
       (simp add: main_opened_def env_ok_log Let_def strncpy_hello [OF assms, unfolded length_hello_msg]
         env_ok_poll int_neg_def l effects_before_def configured_def)
  then show thesis by (rule that) simp
qed

lemma main_env_ok:
  obtains out cfg' h' where "main env_ok hmap_ops my_config_map heap_empty = Some (Inr (0, out, cfg', h'))"
    and "Perf_free \<in> set out"
  using main_env_junk [OF env_ok_wf(3)] by auto

lemma main_env_ok_overflow:
  "main (env_ok\<lparr>poll := \<lambda>_. ([], 0x80000000)\<rparr>) hmap_ops my_config_map heap_empty = Some (Inl SignedOverflow)"
proof (rule main_runs [OF env_ok_wf, of hmap_ops my_config_map])
  fix x
  assume "sint (open_skeleton (lib env_ok) x) = - (2 ^ 31)"
    and m: "\<And>p. main (env_ok\<lparr>poll := p\<rparr>) hmap_ops my_config_map heap_empty = Some (Inl SignedOverflow)"
  then show ?thesis by simp
next
  assume "print_log (log_buf env_ok) 0 = Inl OutOfBounds"
  then show ?thesis by (simp add: env_ok_log)
next
  fix o1 cfg1 h1
  assume "Perf_free \<notin> set o1"
    and m: "\<And>p. main (env_ok\<lparr>poll := p\<rparr>) hmap_ops my_config_map heap_empty = Some (Inr (1, o1, cfg1, h1))"
  with m [of "poll env_ok"] show ?thesis by (auto intro: main_env_ok)
next
  fix lg h1
  assume m: "\<And>p. main (env_ok\<lparr>poll := p\<rparr>) hmap_ops my_config_map heap_empty =
         map_option (main_end (configured env_ok hmap_ops my_config_map) h1) (poll_loop p 0 (effects_before lg))"
  have "\<exists>o1. poll_loop (\<lambda>_. ([], 0x80000000)) 0 (effects_before lg) = Some (Inr (poll_result 0x80000000, o1))"
    using poll_loop_ends [of "\<lambda>_. ([], 0x80000000)" 0 "effects_before lg"] by (auto simp: poll_stops_def)
  then show ?thesis by (auto simp: m int_neg_result)
qed

text \<open>The map that a run with polling leaves.\<close>

lemma main_config:
  assumes "heap_wf h" and "libbpf_skeleton (lib env)" and "length (msg_junk env) = 12"
    and "main env ops cfg h = Some (Inr (code, out, cfg', h'))" and "Perf_free \<in> set out"
  shows "cfg' = configured env ops cfg"
proof (rule main_runs [OF assms(1-3), of ops cfg])
  fix x
  assume "sint (open_skeleton (lib env) x) = - (2 ^ 31)"
    and m: "\<And>p. main (env\<lparr>poll := p\<rparr>) ops cfg h = Some (Inl SignedOverflow)"
  from m [of "poll env"] show ?thesis using assms(4) by simp
next
  assume "\<And>p. main (env\<lparr>poll := p\<rparr>) ops cfg h = Some (Inl OutOfBounds)"
  from this [of "poll env"] show ?thesis using assms(4) by simp
next
  fix o1 cfg1 h1
  assume "Perf_free \<notin> set o1"
    and "\<And>p. main (env\<lparr>poll := p\<rparr>) ops cfg h = Some (Inr (1, o1, cfg1, h1))"
  with this(2) [of "poll env"] show ?thesis using assms(4,5) by simp
next
  fix lg h1
  assume "\<And>p. main (env\<lparr>poll := p\<rparr>) ops cfg h =
         map_option (main_end (configured env ops cfg) h1) (poll_loop p 0 (effects_before lg))"
  from this [of "poll env"] show ?thesis
    using assms(4) by (auto simp: eq_commute [of "Some x" for x] main_end_def bindE_eq_Inr)
qed

text \<open>A run that polls is undefined if the first poll finds a sample that cannot be printed.\<close>

lemma main_unprintable:
  assumes "heap_wf h" and "libbpf_skeleton (lib env)" and "length (msg_junk env) = 12"
    and "main env ops cfg h = Some (Inr (code, out, cfg', h'))" and "Perf_free \<in> set out"
    and "handle_event b = Inl e"
  shows "main (env\<lparr>poll := \<lambda>_. ([Sample b], 1)\<rparr>) ops cfg h = Some (Inl e)"
proof (rule main_runs [OF assms(1-3), of ops cfg])
  fix x
  assume "\<And>p. main (env\<lparr>poll := p\<rparr>) ops cfg h = Some (Inl SignedOverflow)"
  from this [of "poll env"] show ?thesis using assms(4) by simp
next
  assume "\<And>p. main (env\<lparr>poll := p\<rparr>) ops cfg h = Some (Inl OutOfBounds)"
  from this [of "poll env"] show ?thesis using assms(4) by simp
next
  fix o1 cfg1 h1
  assume "Perf_free \<notin> set o1"
    and "\<And>p. main (env\<lparr>poll := p\<rparr>) ops cfg h = Some (Inr (1, o1, cfg1, h1))"
  with this(2) [of "poll env"] show ?thesis using assms(4,5) by simp
next
  fix lg h1
  assume m: "\<And>p. main (env\<lparr>poll := p\<rparr>) ops cfg h =
         map_option (main_end (configured env ops cfg) h1) (poll_loop p 0 (effects_before lg))"
  have "poll_loop (\<lambda>_. ([Sample b], 1)) 0 (effects_before lg) = Some (Inl e)"
    by (subst poll_loop.simps) (simp add: assms(6))
  then show ?thesis by (simp add: m)
qed

section \<open>Properties\<close>

text \<open>C8: what \<open>main\<close> leaves behind and returns. On every run that ends, each block it allocated has
  been freed; once polling has ended the perf buffer has been freed too, and the exit code is
  0 if the first negative poll result was \<open>-EINTR\<close> and its absolute value otherwise; every
  other exit has code 1.\<close>

theorem main_exit:
  assumes "heap_wf h" and "libbpf_skeleton (lib env)" and "length (msg_junk env) = 12"
    and "main env ops cfg h = Some (Inr (code, out, cfg', h'))"
  shows "live h' = live h \<and>
    (if Perf_free \<in> set out
     then \<exists>k. sint (snd (poll env k)) < 0 \<and> (\<forall>j<k. 0 \<le> sint (snd (poll env j))) \<and>
       code = (if snd (poll env k) = - EINTR then 0 else - snd (poll env k))
     else code = 1)"
proof (rule main_runs [OF assms(1-3), of ops cfg])
  fix x
  assume "\<And>p. main (env\<lparr>poll := p\<rparr>) ops cfg h = Some (Inl SignedOverflow)"
  from this [of "poll env"] show ?thesis using assms(4) by simp
next
  assume "\<And>p. main (env\<lparr>poll := p\<rparr>) ops cfg h = Some (Inl OutOfBounds)"
  from this [of "poll env"] show ?thesis using assms(4) by simp
next
  fix o1 cfg1 h1
  assume "Perf_free \<notin> set o1" "live h1 = live h"
    "\<And>p. main (env\<lparr>poll := p\<rparr>) ops cfg h = Some (Inr (1, o1, cfg1, h1))"
  with this(3) [of "poll env"] show ?thesis using assms(4) by simp
next
  fix lg h1
  assume l: "live h1 = live h" and m: "\<And>p. main (env\<lparr>poll := p\<rparr>) ops cfg h =
         map_option (main_end (configured env ops cfg) h1) (poll_loop p 0 (effects_before lg))"
  from m [of "poll env"] assms(4) obtain q where p: "poll_loop (poll env) 0 (effects_before lg) = Some q"
    and r: "main_end (configured env ops cfg) h1 q = Inr (code, out, cfg', h')"
    by (auto simp: eq_commute [of "Some x" for x])
  obtain k rest where k: "\<forall>j<k. \<not> poll_stops (poll env) j" "sint (snd (poll env k)) < 0"
    "q = Inr (poll_result (snd (poll env k)), effects_before lg @ rest)"
    using poll_loop_result [OF p] r by auto
  from r k(3) have "code = (if snd (poll env k) = - EINTR then 0 else - snd (poll env k))"
    and "Perf_free \<in> set out" and "h' = h1"
    by (auto simp: int_neg_result split: if_splits)
  moreover have "\<forall>j<k. 0 \<le> sint (snd (poll env j))" using k(1) by (auto simp: poll_stops_def not_less)
  ultimately show ?thesis using k(2) l by auto
qed

theorem main_exit_witness:
  "\<exists>out cfg' h'. main env_ok hmap_ops my_config_map heap_empty = Some (Inr (0, out, cfg', h')) \<and>
     live h' = {}"
proof -
  obtain out cfg' h' where m: "main env_ok hmap_ops my_config_map heap_empty = Some (Inr (0, out, cfg', h'))"
    by (rule main_env_ok)
  from main_exit [OF env_ok_wf m] m show ?thesis by (auto simp: heap_empty_def)
qed

text \<open>C24: what can go wrong in \<open>main\<close> is only this: the log loop reads past \<open>log_buf\<close>, which happens
  when the buffer ends in a NUL and has no two NULs in a row; \<open>handle_event\<close>, called for a sample
  while polling, reads past it or past one of its arrays, because it is too short or an array has no NUL; the
  negation of the last poll result, or that of an error on opening, overflows. No block is freed
  twice and the configured message fits its array.\<close>

theorem main_defined:
  assumes "heap_wf h" and "libbpf_skeleton (lib env)" and "length (msg_junk env) = 12"
    and "main env ops cfg h = Some (Inl e)"
  shows "e = OutOfBounds \<and> (\<forall>i. \<not> double_nul (log_buf env) i) \<and> last (log_buf env) = 0 \<or>
    e = OutOfBounds \<and> (\<exists>k b. Sample b \<in> set (fst (poll env k)) \<and>
      (length b < 40 \<or> 0 \<notin> set (take 16 (drop 12 b)) \<or> 0 \<notin> set (take 12 (drop 28 b)))) \<or>
    e = SignedOverflow \<and> (\<exists>k. sint (snd (poll env k)) = - (2 ^ 31)) \<or>
    e = SignedOverflow \<and> (\<exists>s. sint (open_skeleton (lib env) s) = - (2 ^ 31))"
proof (rule main_runs [OF assms(1-3), of ops cfg])
  fix x
  assume "sint (open_skeleton (lib env) x) = - (2 ^ 31)"
    and m: "\<And>p. main (env\<lparr>poll := p\<rparr>) ops cfg h = Some (Inl SignedOverflow)"
  with m [of "poll env"] show ?thesis using assms(4) by auto
next
  assume "print_log (log_buf env) 0 = Inl OutOfBounds"
    and "\<And>p. main (env\<lparr>poll := p\<rparr>) ops cfg h = Some (Inl OutOfBounds)"
  with this(2) [of "poll env"] show ?thesis using assms(4) by (auto simp: print_log_0 split: if_splits)
next
  fix o1 cfg1 h1
  assume "\<And>p. main (env\<lparr>poll := p\<rparr>) ops cfg h = Some (Inr (1, o1, cfg1, h1))"
  from this [of "poll env"] show ?thesis using assms(4) by simp
next
  fix lg h1
  assume m: "\<And>p. main (env\<lparr>poll := p\<rparr>) ops cfg h =
         map_option (main_end (configured env ops cfg) h1) (poll_loop p 0 (effects_before lg))"
  from m [of "poll env"] assms(4) obtain q where p: "poll_loop (poll env) 0 (effects_before lg) = Some q"
    and r: "main_end (configured env ops cfg) h1 q = Inl e"
    by (auto simp: eq_commute [of "Some x" for x])
  from poll_loop_result [OF p] obtain k where
    "(\<exists>e. deliver (fst (poll env k)) = Inl e \<and> q = Inl e) \<or> (\<exists>o1. q = Inr (poll_result (snd (poll env k)), o1))" by blast
  then show ?thesis
  proof (elim disjE exE conjE)
    fix e'
    assume "deliver (fst (poll env k)) = Inl e'" "q = Inl e'"
    with deliver_fails [of "fst (poll env k)" e'] r show ?thesis by auto
  next
    fix o1
    assume "q = Inr (poll_result (snd (poll env k)), o1)"
    with r show ?thesis by (auto simp: int_neg_result split: if_splits)
  qed
qed

theorem main_defined_witness:
  "\<exists>k. sint (snd (poll (env_ok\<lparr>poll := \<lambda>_. ([], 0x80000000)\<rparr>) k)) = - (2 ^ 31)"
proof -
  let ?env = "env_ok\<lparr>poll := \<lambda>_. ([], 0x80000000)\<rparr>"
  have "main ?env hmap_ops my_config_map heap_empty = Some (Inl SignedOverflow)"
    by (rule main_env_ok_overflow)
  from main_defined [OF env_ok_wf(1) _ _ this] env_ok_wf show ?thesis by simp
qed

text \<open>C29: \<open>main\<close> runs for ever exactly when it gets to the polling loop, no poll returns a
  negative value and every sample can be printed. (It gets there if it would free the perf buffer when
  interrupted at once.)\<close>

theorem main_returns:
  assumes "heap_wf h" and "libbpf_skeleton (lib env)" and "length (msg_junk env) = 12"
  shows "main env ops cfg h = None \<longleftrightarrow> (\<forall>k. 0 \<le> sint (snd (poll env k)) \<and> (\<exists>t. deliver (fst (poll env k)) = Inr t)) \<and>
    (\<exists>code out cfg' h'. main (env\<lparr>poll := \<lambda>_. ([], - EINTR)\<rparr>) ops cfg h = Some (Inr (code, out, cfg', h')) \<and>
       Perf_free \<in> set out)"
proof (rule main_runs [OF assms, of ops cfg])
  fix x
  assume m: "\<And>p. main (env\<lparr>poll := p\<rparr>) ops cfg h = Some (Inl SignedOverflow)"
  from m [of "poll env"] m [of "\<lambda>_. ([], - EINTR)"] show ?thesis by simp
next
  assume m: "\<And>p. main (env\<lparr>poll := p\<rparr>) ops cfg h = Some (Inl OutOfBounds)"
  from m [of "poll env"] m [of "\<lambda>_. ([], - EINTR)"] show ?thesis by simp
next
  fix o1 cfg1 h1
  assume "Perf_free \<notin> set o1"
    and m: "\<And>p. main (env\<lparr>poll := p\<rparr>) ops cfg h = Some (Inr (1, o1, cfg1, h1))"
  with m [of "poll env"] m [of "\<lambda>_. ([], - EINTR)"] show ?thesis by simp
next
  fix lg h1
  assume m: "\<And>p. main (env\<lparr>poll := p\<rparr>) ops cfg h =
         map_option (main_end (configured env ops cfg) h1) (poll_loop p 0 (effects_before lg))"
  have "poll_loop (\<lambda>_. ([], - EINTR)) 0 (effects_before lg) = Some (Inr (0, effects_before lg @ [Perf_poll]))"
    by (subst poll_loop.simps) simp
  then have "\<exists>code out cfg' h'. main (env\<lparr>poll := \<lambda>_. ([], - EINTR)\<rparr>) ops cfg h =
      Some (Inr (code, out, cfg', h')) \<and> Perf_free \<in> set out"
    by (simp add: m main_end_def int_neg_def)
  moreover have "main env ops cfg h = None \<longleftrightarrow> poll_loop (poll env) 0 (effects_before lg) = None"
    using m [of "poll env"] by simp
  moreover have "\<not> poll_stops (poll env) k \<longleftrightarrow> 0 \<le> sint (snd (poll env k)) \<and> (\<exists>t. deliver (fst (poll env k)) = Inr t)" for k
    by (cases "deliver (fst (poll env k))") (auto simp: poll_stops_def)
  ultimately show ?thesis by (simp add: poll_loop_None)
qed

theorem main_returns_witness:
  "main (env_ok\<lparr>poll := \<lambda>_. ([], 0)\<rparr>) hmap_ops my_config_map heap_empty = None \<longleftrightarrow>
   (\<exists>code out cfg' h'. main (env_ok\<lparr>poll := \<lambda>_. ([], - EINTR)\<rparr>) hmap_ops my_config_map heap_empty =
     Some (Inr (code, out, cfg', h')) \<and> Perf_free \<in> set out)"
  using main_returns [of heap_empty "env_ok\<lparr>poll := \<lambda>_. ([], 0)\<rparr>" hmap_ops my_config_map] env_ok_wf by simp

text \<open>The loop that prints the verifier log. It prints the text before the first two NULs in a
  row and never runs past the buffer if there are two. Otherwise it prints the whole buffer,
  unless the last byte is a NUL, when it reads the byte after the buffer.\<close>

lemma print_log_result:
  "print_log buf 0 =
     (if \<exists>i. double_nul buf i then Inr (take (LEAST i. double_nul buf i) buf)
      else if buf \<noteq> [] \<and> last buf = 0 then Inl OutOfBounds else Inr buf)"
  by (rule print_log_0)

text \<open>C15: the message configured for user 501, from \<open>main\<close> to the line that is printed. \<open>strncpy\<close>
  copies the nine characters without a NUL into an uninitialised array, so the sample of an
  event of this user carries \<open>hello Liz\<close> followed by whatever the array held, and printing it
  is undefined when none of the last three bytes is 0: then \<open>main\<close> is undefined once a poll finds that
  sample. (The map starts empty, the entry of 501
  has been accepted, and \<open>t\<close> is the state of the probe with the map that \<open>main\<close> leaves.)\<close>

theorem hello_liz:
  assumes "bpf_hash ops" and "heap_wf h" and "libbpf_skeleton (lib env)" and "length (msg_junk env) = 12"
    and "main env ops cfg h = Some (Inr (code, out, my_config t, h'))" and "Perf_free \<in> set out"
    and "map_lookup_elem ops cfg = Map.empty" and "map_lookup_elem ops (my_config t) 501 \<noteq> None"
    and "probe_helpers e" and "ucast (uid_gid e) = (501 :: u32)"
    and "\<And>src. fst (probe_read e 12 src (replicate 12 0)) = 0" and "probe_wf ops t" and "c t \<noteq> int_max"
  shows "\<exists>t' d. kprobe_exec ops e t = Inr (0, t') \<and> submitted t' = submitted t @ [encode_data d] \<and>
    message d = hello_msg @ drop 9 (msg_junk env) \<and>
    handle_event (encode_data d) =
      (if 0 \<in> set (drop 9 (msg_junk env)) then Inr (sample_line d) else Inl OutOfBounds) \<and>
    (0 \<in> set (drop 9 (msg_junk env)) \<or>
      main (env\<lparr>poll := \<lambda>_. ([Sample (encode_data d)], 1)\<rparr>) ops cfg h = Some (Inl OutOfBounds))"
proof -
  let ?msg = "hello_msg @ drop 9 (msg_junk env)" and ?d = "sample ops e t"
  have cfg: "my_config t = configured env ops cfg"
    by (rule main_config [OF assms(2-6)])
  have "map_lookup_elem ops (my_config t) 501 = Some \<lparr>m_message = ?msg\<rparr>"
    using bpf_hash.lookup_update [OF assms(1), of cfg 501 "\<lparr>m_message = ?msg\<rparr>"] assms(7,8)
    by (simp add: cfg configured_def BPF_ANY_def split: if_splits)
  then have "chosen_message ops e t = ?msg" by (simp add: chosen_message_def assms(10))
  then have m: "message ?d = ?msg"
    using sample_message [OF assms(9,12,11)] by simp
  have "0 \<in> set (command ?d)"
    using probe_helpers.comm_nul [OF assms(9), of 16 "replicate 16 0"] by (simp add: sample_def)
  then have "handle_event (encode_data ?d) =
      (if 0 \<in> set (drop 9 (msg_junk env)) then Inr (sample_line ?d) else Inl OutOfBounds)"
    using handle_event_encoded [OF probe_helpers.sample_wf [OF assms(9,12)]] m hello_msg_no_nul
    by simp
  moreover from this have "0 \<in> set (drop 9 (msg_junk env)) \<or>
      main (env\<lparr>poll := \<lambda>_. ([Sample (encode_data ?d)], 1)\<rparr>) ops cfg h = Some (Inl OutOfBounds)"
    using main_unprintable [OF assms(2-6), of "encode_data ?d"] by (auto split: if_splits)
  ultimately show ?thesis
    using m probe_helpers.kprobe_exec_event [OF assms(9,12,13)] by (auto simp: after_event_def)
qed

theorem hello_liz_witness:
  "\<exists>t t' d. kprobe_exec hmap_ops (doc_env 7 501 []) t = Inr (0, t') \<and>
     submitted t' = submitted t @ [encode_data d] \<and> handle_event (encode_data d) = Inl OutOfBounds"
proof -
  let ?env = "env_ok\<lparr>msg_junk := replicate 12 120\<rparr>"
  have l: "length (msg_junk ?env) = 12" "libbpf_skeleton (lib ?env)" using env_ok_wf by simp_all
  obtain out cfg' h' where m: "main ?env hmap_ops my_config_map heap_empty = Some (Inr (0, out, cfg', h'))"
    and pf: "Perf_free \<in> set out" by (rule main_env_junk [OF length_replicate])
  let ?t = "probe_init cfg'"
  have cfg: "my_config ?t = configured ?env hmap_ops my_config_map"
    using main_config [OF env_ok_wf(1) l(2,1) m pf] by (simp add: probe_init_def)
  have m': "main ?env hmap_ops my_config_map heap_empty = Some (Inr (0, out, my_config ?t, h'))"
    using m by (simp add: probe_init_def)
  have e: "map_lookup_elem hmap_ops my_config_map = Map.empty"
    by (simp add: hmap_ops_def my_config_map_def)
  have s: "map_lookup_elem hmap_ops (my_config ?t) 501 \<noteq> None" and wf: "probe_wf hmap_ops ?t"
    unfolding probe_wf_def cfg
    by (auto simp: probe_init_def configured_def hmap_ops_def hmap_update_def
        my_config_map_def hmap_new_def hmap_lookup_def BPF_ANY_def split: if_splits)
  have n: "c ?t \<noteq> int_max" by (simp add: probe_init_def int_max_def)
  have r: "fst (probe_read (doc_env 7 501 []) 12 src (replicate 12 0)) = 0"
    and u: "ucast (uid_gid (doc_env 7 501 [])) = (501 :: u32)" for src
    by (simp_all add: doc_env_def)
  from hello_liz [OF hm.bpf_hash_axioms env_ok_wf(1) l(2,1) m' pf e s de.probe_helpers_axioms u r wf n]
  show ?thesis by force
qed

end
