(* ===== verification/Bytecode.thy ===== *)
theory Bytecode
  imports Prelude
begin

text \<open>
  A machine for the eBPF bytecode in the repository's listings: instructions, their decoding
  from the 8-byte slots of the object code, registers that hold numbers or pointers into
  regions, byte-addressed regions with bounds, and execution with fuel. Helper calls are
  an argument of the machine. An access that the verifier would refuse is an error.
\<close>

section \<open>Instructions\<close>

datatype alu = Add | Or | Lsh | Rsh | Arsh | Mov
datatype cond = Eq | Gt
datatype operand = Reg nat | Imm u32

text \<open>The operand of a jump is a signed distance in slots; sizes are in bytes.\<close>

datatype insn =
    Alu64 alu nat operand
  | Ld_imm64 nat u64
  | Ldx nat nat nat u16
  | Stx nat nat u16 nat
  | Jmp cond nat operand u16
  | Ja u16
  | Call u32
  | Exit

definition alu_of :: "u8 \<Rightarrow> alu option" where
  "alu_of op = map_of [(0x07, Add), (0x0f, Add), (0x47, Or), (0x4f, Or), (0x67, Lsh), (0x6f, Lsh),
     (0x77, Rsh), (0x7f, Rsh), (0xb7, Mov), (0xbf, Mov), (0xc7, Arsh), (0xcf, Arsh)] op"

definition cond_of :: "u8 \<Rightarrow> cond option" where
  "cond_of op = map_of [(0x15, Eq), (0x1d, Eq), (0x25, Gt), (0x2d, Gt)] op"

definition load_size :: "u8 \<Rightarrow> nat option" where
  "load_size op = map_of [(0x61, 4), (0x69, 2), (0x71, 1), (0x79, 8)] op"

definition store_size :: "u8 \<Rightarrow> nat option" where
  "store_size op = map_of [(0x63, 4), (0x6b, 2), (0x73, 1), (0x7b, 8)] op"

text \<open>Bit 3 of the opcode selects the source register over the immediate.\<close>

definition decode_insn :: "u8 \<Rightarrow> nat \<Rightarrow> nat \<Rightarrow> u16 \<Rightarrow> u32 \<Rightarrow> insn option" where
  "decode_insn op dst src off imm =
     (let x = (if op AND 8 = 0 then Imm imm else Reg src)
      in case alu_of op of Some a \<Rightarrow> Some (Alu64 a dst x)
       | None \<Rightarrow> (case cond_of op of Some c \<Rightarrow> Some (Jmp c dst x off)
       | None \<Rightarrow> (case load_size op of Some n \<Rightarrow> Some (Ldx n dst src off)
       | None \<Rightarrow> (case store_size op of Some n \<Rightarrow> Some (Stx n dst off src)
       | None \<Rightarrow> if op = 0x05 then Some (Ja off) else if op = 0x85 then Some (Call imm)
               else if op = 0x95 then Some Exit else None))))"

text \<open>
  A slot is opcode, registers (destination in the low half), offset and immediate. The
  opcode \<open>0x18\<close> takes two slots; the second holds the upper half of the immediate and is
  not an instruction.
\<close>

fun slots :: "bytes \<Rightarrow> (u8 \<times> nat \<times> nat \<times> u16 \<times> u32) list" where
  "slots (op # rg # o0 # o1 # i0 # i1 # i2 # i3 # rest) =
     (op, unat (rg AND 15), unat (drop_bit 4 rg), of_le [o0, o1], of_le [i0, i1, i2, i3]) # slots rest"
| "slots _ = []"

fun decode_slots :: "(u8 \<times> nat \<times> nat \<times> u16 \<times> u32) list \<Rightarrow> insn option list" where
  "decode_slots [] = []"
| "decode_slots [(op, dst, src, off, imm)] = [decode_insn op dst src off imm]"
| "decode_slots ((op, dst, src, off, imm) # (op', dst', src', off', imm') # ss) =
     (if op = 0x18
      then Some (Ld_imm64 dst (ucast imm OR push_bit 32 (ucast imm'))) # None # decode_slots ss
      else decode_insn op dst src off imm # decode_slots ((op', dst', src', off', imm') # ss))"

definition decode_prog :: "bytes \<Rightarrow> insn option list" where
  "decode_prog b = decode_slots (slots b)"

section \<open>Values, memory, state\<close>

text \<open>
  The regions a program can reach. \<open>Map_value\<close> is what the last lookup found. The context of a
  packet gives its start and end as numbers, with which programs compute; \<open>Packet\<close> is what
  such numbers address.
\<close>

datatype region = Ctx | Stack | Data | Rodata | Map_object | Map_value | Packet

datatype val = Scalar u64 | Addr region int

datatype vm_error = Bad_insn | Bad_reg | Bad_mem | Bad_op | Bad_call

type_synonym vmem = "region \<Rightarrow> int \<Rightarrow> u8 option"

record 'w vm =
  pc :: int
  regs :: "val option list"
  mem :: vmem
  world :: 'w

text \<open>Reading \<open>n\<close> bytes, and writing a list of bytes; only the stack and the data can be written.\<close>

fun read_bytes :: "vmem \<Rightarrow> region \<Rightarrow> int \<Rightarrow> nat \<Rightarrow> bytes option" where
  "read_bytes mm r a 0 = Some []"
| "read_bytes mm r a (Suc n) =
     (case mm r a of None \<Rightarrow> None
      | Some b \<Rightarrow> map_option (Cons b) (read_bytes mm r (a + 1) n))"

definition put_bytes :: "vmem \<Rightarrow> region \<Rightarrow> int \<Rightarrow> bytes \<Rightarrow> vmem" where
  "put_bytes mm r a bs = mm(r := (\<lambda>x. if a \<le> x \<and> x < a + int (length bs)
     then Some (bs ! nat (x - a)) else mm r x))"

definition stack_size :: int where "stack_size = 512"

definition writable :: "vmem \<Rightarrow> region \<Rightarrow> int \<Rightarrow> nat \<Rightarrow> bool" where
  "writable mm r a n =
     (case r of Stack \<Rightarrow> - stack_size \<le> a \<and> a + int n \<le> 0
      | Data \<Rightarrow> read_bytes mm r a n \<noteq> None
      | _ \<Rightarrow> False)"

text \<open>Nothing is mapped in the first page, so that null is not an address.\<close>

definition first_address :: int where "first_address = 4096"

definition load :: "vmem \<Rightarrow> nat \<Rightarrow> val \<Rightarrow> u16 \<Rightarrow> vm_error + u64" where
  "load mm n p off =
     (case p of
        Scalar w \<Rightarrow> if uint w + sint off < first_address then Inl Bad_mem
          else (case read_bytes mm Packet (uint w + sint off) n of
                  None \<Rightarrow> Inl Bad_mem | Some bs \<Rightarrow> Inr (of_le bs))
      | Addr r a \<Rightarrow> (case read_bytes mm r (a + sint off) n of
                      None \<Rightarrow> Inl Bad_mem | Some bs \<Rightarrow> Inr (of_le bs)))"

definition store :: "vmem \<Rightarrow> nat \<Rightarrow> val \<Rightarrow> u16 \<Rightarrow> val \<Rightarrow> vm_error + vmem" where
  "store mm n p off v =
     (case (p, v) of
        (Addr r a, Scalar w) \<Rightarrow>
          if writable mm r (a + sint off) n then Inr (put_bytes mm r (a + sint off) (le_bytes n w))
          else Inl Bad_mem
      | _ \<Rightarrow> Inl Bad_mem)"

section \<open>Operations\<close>

definition reg_get :: "val option list \<Rightarrow> nat \<Rightarrow> vm_error + val" where
  "reg_get rs i = (if i < length rs then (case rs ! i of Some v \<Rightarrow> Inr v | None \<Rightarrow> Inl Bad_reg) else Inl Bad_reg)"

text \<open>\<open>r10\<close>, the frame pointer, is read-only.\<close>

definition reg_set :: "val option list \<Rightarrow> nat \<Rightarrow> val \<Rightarrow> vm_error + val option list" where
  "reg_set rs i v = (if i < 10 \<and> i < length rs then Inr (rs[i := Some v]) else Inl Bad_reg)"

text \<open>An immediate is sign-extended to 64 bits.\<close>

definition operand_val :: "val option list \<Rightarrow> operand \<Rightarrow> vm_error + val" where
  "operand_val rs x = (case x of Reg i \<Rightarrow> reg_get rs i | Imm k \<Rightarrow> Inr (Scalar (scast k)))"

text \<open>A pointer can be moved and shifted by a number; everything else needs two numbers.\<close>

definition alu_op :: "alu \<Rightarrow> val \<Rightarrow> val \<Rightarrow> vm_error + val" where
  "alu_op op x y =
     (case (op, x, y) of
        (Mov, _, v) \<Rightarrow> Inr v
      | (Add, Scalar a, Scalar b) \<Rightarrow> Inr (Scalar (a + b))
      | (Add, Addr r a, Scalar b) \<Rightarrow> Inr (Addr r (a + sint b))
      | (Or, Scalar a, Scalar b) \<Rightarrow> Inr (Scalar (a OR b))
      | (Lsh, Scalar a, Scalar b) \<Rightarrow> Inr (Scalar (push_bit (unat (b AND 63)) a))
      | (Rsh, Scalar a, Scalar b) \<Rightarrow> Inr (Scalar (drop_bit (unat (b AND 63)) a))
      | (Arsh, Scalar a, Scalar b) \<Rightarrow> Inr (Scalar (signed_drop_bit (unat (b AND 63)) a))
      | _ \<Rightarrow> Inl Bad_op)"

text \<open>A pointer is never null; otherwise only numbers are compared.\<close>

definition cond_holds :: "cond \<Rightarrow> val \<Rightarrow> val \<Rightarrow> vm_error + bool" where
  "cond_holds c x y =
     (case (c, x, y) of
        (Eq, Scalar a, Scalar b) \<Rightarrow> Inr (a = b)
      | (Gt, Scalar a, Scalar b) \<Rightarrow> Inr (b < a)
      | (Eq, Addr r a, Scalar b) \<Rightarrow> if b = 0 then Inr False else Inl Bad_op
      | _ \<Rightarrow> Inl Bad_op)"

section \<open>Execution\<close>

text \<open>
  A helper gets the five argument registers, the memory and the world. \<open>reloc\<close> is the
  relocation table of the object: for the two-slot instruction at an index, the region and
  the offset of the symbol to which the loader adds the immediate.
\<close>

type_synonym 'w helper_fn =
  "u32 \<Rightarrow> val option list \<Rightarrow> vmem \<Rightarrow> 'w \<Rightarrow> vm_error + val \<times> vmem \<times> 'w"

type_synonym relocs = "(int \<times> region \<times> int) list"

definition ld_imm :: "relocs \<Rightarrow> int \<Rightarrow> u64 \<Rightarrow> val" where
  "ld_imm rel i k = (case map_of rel i of None \<Rightarrow> Scalar k | Some (r, a) \<Rightarrow> Addr r (a + uint k))"

datatype 'w outcome = Halt u64 "'w vm" | Next "'w vm" | Fault vm_error

definition continue_with :: "vm_error + 'w vm \<Rightarrow> 'w outcome" where
  "continue_with r = (case r of Inl e \<Rightarrow> Fault e | Inr s \<Rightarrow> Next s)"

definition exec_insn :: "'w helper_fn \<Rightarrow> relocs \<Rightarrow> insn \<Rightarrow> 'w vm \<Rightarrow> 'w outcome" where
  "exec_insn helpers rel i s =
     (case i of
        Alu64 op d x \<Rightarrow> continue_with (
          bindE (if op = Mov then Inr (Scalar 0) else reg_get (regs s) d) (\<lambda>a.
          bindE (operand_val (regs s) x) (\<lambda>b.
          bindE (alu_op op a b) (\<lambda>v.
          bindE (reg_set (regs s) d v) (\<lambda>rs. Inr (s\<lparr>regs := rs, pc := pc s + 1\<rparr>))))))
      | Ld_imm64 d k \<Rightarrow> continue_with (
          bindE (reg_set (regs s) d (ld_imm rel (pc s) k)) (\<lambda>rs. Inr (s\<lparr>regs := rs, pc := pc s + 2\<rparr>)))
      | Ldx n d x off \<Rightarrow> continue_with (
          bindE (reg_get (regs s) x) (\<lambda>p.
          bindE (load (mem s) n p off) (\<lambda>w.
          bindE (reg_set (regs s) d (Scalar w)) (\<lambda>rs. Inr (s\<lparr>regs := rs, pc := pc s + 1\<rparr>)))))
      | Stx n d off x \<Rightarrow> continue_with (
          bindE (reg_get (regs s) d) (\<lambda>p.
          bindE (reg_get (regs s) x) (\<lambda>v.
          bindE (store (mem s) n p off v) (\<lambda>mm. Inr (s\<lparr>mem := mm, pc := pc s + 1\<rparr>)))))
      | Jmp c d x off \<Rightarrow> continue_with (
          bindE (reg_get (regs s) d) (\<lambda>a.
          bindE (operand_val (regs s) x) (\<lambda>b.
          bindE (cond_holds c a b) (\<lambda>t.
            Inr (s\<lparr>pc := pc s + 1 + (if t then sint off else 0)\<rparr>)))))
      | Ja off \<Rightarrow> Next (s\<lparr>pc := pc s + 1 + sint off\<rparr>)
      | Call n \<Rightarrow> continue_with (
          bindE (helpers n (take 5 (tl (regs s))) (mem s) (world s)) (\<lambda>(v, mm, w).
            Inr (s\<lparr>regs := Some v # replicate 5 None @ drop 6 (regs s), mem := mm, world := w,
                   pc := pc s + 1\<rparr>)))
      | Exit \<Rightarrow> (case reg_get (regs s) 0 of
          Inr (Scalar w) \<Rightarrow> Halt w s | Inr (Addr _ _) \<Rightarrow> Fault Bad_reg | Inl e \<Rightarrow> Fault e))"

definition step :: "insn option list \<Rightarrow> 'w helper_fn \<Rightarrow> relocs \<Rightarrow> 'w vm \<Rightarrow> 'w outcome" where
  "step code helpers rel s =
     (if 0 \<le> pc s \<and> nat (pc s) < length code
      then (case code ! nat (pc s) of Some i \<Rightarrow> exec_insn helpers rel i s | None \<Rightarrow> Fault Bad_insn)
      else Fault Bad_insn)"

text \<open>\<open>None\<close>: the fuel is used up.\<close>

fun exec :: "insn option list \<Rightarrow> 'w helper_fn \<Rightarrow> relocs \<Rightarrow> nat \<Rightarrow> 'w vm
    \<Rightarrow> (vm_error + u64 \<times> 'w vm) option" where
  "exec code helpers rel 0 s = None"
| "exec code helpers rel (Suc n) s =
     (case step code helpers rel s of
        Halt w t \<Rightarrow> Some (Inr (w, t)) | Fault e \<Rightarrow> Some (Inl e) | Next t \<Rightarrow> exec code helpers rel n t)"

text \<open>A program starts with the context in \<open>r1\<close> and the frame pointer in \<open>r10\<close>.\<close>

definition vm_init :: "vmem \<Rightarrow> 'w \<Rightarrow> 'w vm" where
  "vm_init mm w = \<lparr>pc = 0, regs = [None, Some (Addr Ctx 0), None, None, None, None, None, None,
       None, None, Some (Addr Stack 0)],
     mem = mm(Stack := (\<lambda>_. None)), world = w\<rparr>"

text \<open>A run that ends, with enough fuel.\<close>

definition runs_to :: "insn option list \<Rightarrow> 'w helper_fn \<Rightarrow> relocs \<Rightarrow> 'w vm \<Rightarrow> u64 \<Rightarrow> 'w vm \<Rightarrow> bool" where
  "runs_to code helpers rel s w t \<longleftrightarrow> (\<exists>n. exec code helpers rel n s = Some (Inr (w, t)))"

section \<open>Fuel\<close>

lemma exec_more:
  "exec code helpers rel n s = Some r \<Longrightarrow> n \<le> k \<Longrightarrow> exec code helpers rel k s = Some r"
proof (induction n arbitrary: s k)
  case 0
  then show ?case by simp
next
  case (Suc n)
  then obtain j where "k = Suc j" "n \<le> j" by (cases k) auto
  with Suc show ?case by (auto split: outcome.splits)
qed

lemma exec_unique:
  "exec code helpers rel n s = Some r \<Longrightarrow> exec code helpers rel k s = Some r' \<Longrightarrow> r = r'"
  using exec_more [of code helpers rel n s r "max n k"] exec_more [of code helpers rel k s r' "max n k"]
  by simp

lemma runs_to_unique: "runs_to code h rel s w t \<Longrightarrow> runs_to code h rel s w' t' \<Longrightarrow> w = w' \<and> t = t'"
  by (auto simp: runs_to_def dest: exec_unique)

lemma runs_step: "step code h rel s = Next s' \<Longrightarrow> runs_to code h rel s' w t \<Longrightarrow> runs_to code h rel s w t"
  unfolding runs_to_def by (metis exec.simps(2) outcome.simps(11))

lemma runs_halt: "step code h rel s = Halt w t \<Longrightarrow> runs_to code h rel s w t"
  unfolding runs_to_def by (rule exI [of _ 1]) simp

text \<open>A fixed number of steps, none of which ends the program: one basic block at a time.\<close>

fun steps :: "insn option list \<Rightarrow> 'w helper_fn \<Rightarrow> relocs \<Rightarrow> nat \<Rightarrow> 'w vm \<Rightarrow> 'w vm option" where
  "steps code h rel 0 s = Some s"
| "steps code h rel (Suc n) s =
     (case step code h rel s of Next t \<Rightarrow> steps code h rel n t | _ \<Rightarrow> None)"

lemma steps_numeral:
  "steps code h rel (numeral k) s =
     (case step code h rel s of Next t \<Rightarrow> steps code h rel (pred_numeral k) t | _ \<Rightarrow> None)"
  by (simp add: numeral_eq_Suc)

lemma runs_steps:
  "steps code h rel n s = Some s' \<Longrightarrow> runs_to code h rel s' w t \<Longrightarrow> runs_to code h rel s w t"
proof (induction n arbitrary: s)
  case 0
  then show ?case by simp
next
  case (Suc n)
  then show ?case by (auto split: outcome.splits intro: runs_step)
qed

lemma steps_join:
  "steps code h rel m s = Some t \<Longrightarrow> steps code h rel n t = Some u \<Longrightarrow>
   steps code h rel (m + n) s = Some u"
  by (induction m arbitrary: s) (simp_all split: outcome.splits)

lemma exec_steps: "steps code h rel n s = Some t \<Longrightarrow> exec code h rel (n + m) s = exec code h rel m t"
  by (induction n arbitrary: s) (simp_all split: outcome.splits)

text \<open>
  Code without a jump back: the program counter only grows, so a run ends within the length of
  the code, and the slots behind it do not matter.
\<close>

definition forward :: "insn option list \<Rightarrow> bool" where
  "forward code \<longleftrightarrow> list_all (\<lambda>x. case x of
     Some (Jmp _ _ _ off) \<Rightarrow> 0 \<le> sint off | Some (Ja off) \<Rightarrow> 0 \<le> sint off | _ \<Rightarrow> True) code"

lemma continue_Next: "continue_with r = Next t \<longleftrightarrow> r = Inr t"
  by (simp add: continue_with_def split: sum.split)

lemma forward_step:
  assumes "forward code" and "step code h rel s = Next t"
  shows "pc s < pc t"
proof -
  obtain i where i: "nat (pc s) < length code" "code ! nat (pc s) = Some i" "exec_insn h rel i s = Next t"
    using assms(2) by (auto simp: step_def split: if_splits option.splits)
  then have "case i of Jmp _ _ _ off \<Rightarrow> 0 \<le> sint off | Ja off \<Rightarrow> 0 \<le> sint off | _ \<Rightarrow> True"
    using assms(1) by (auto simp: forward_def list_all_length split: insn.splits option.splits)
  then show ?thesis
    using i(3) by (cases i)
      (auto simp: exec_insn_def continue_Next bindE_eq_Inr split: sum.splits val.splits if_splits)
qed

lemma forward_exec:
  assumes "forward code"
  shows "0 \<le> pc s \<Longrightarrow> length code < n + nat (pc s) \<Longrightarrow> 0 < n \<Longrightarrow> exec code h rel n s \<noteq> None"
proof (induction n arbitrary: s)
  case (Suc n)
  show ?case
  proof (cases "step code h rel s")
    case (Next t)
    then have lt: "pc s < pc t" by (rule forward_step [OF assms])
    show ?thesis
    proof (cases n)
      case 0
      then have "\<not> nat (pc s) < length code" using Suc.prems by simp
      then show ?thesis using Next by (simp add: step_def split: if_splits)
    next
      case (Suc m)
      with Suc.prems lt have "exec code h rel n t \<noteq> None" by (intro Suc.IH) simp_all
      with Next show ?thesis by simp
    qed
  qed simp_all
qed simp

lemma sint_scast_u32 [simp]: "sint (scast (k :: u32) :: u64) = sint k"
  by (simp add: sint_up_scast is_up)

lemmas step_simps = steps_numeral step_def exec_insn_def continue_with_def reg_get_def reg_set_def
  operand_val_def alu_op_def cond_holds_def ld_imm_def load_def first_address_def store_def writable_def stack_size_def

section \<open>Memory\<close>

lemma read_put_same [simp]: "length bs = n \<Longrightarrow> read_bytes (put_bytes mm r a bs) r a n = Some bs"
proof -
  have "read_bytes (put_bytes mm r a bs) r (a + int k) n = Some (drop k bs)"
    if "k + n = length bs" for k n
    using that
  proof (induction n arbitrary: k)
    case 0
    then show ?case by simp
  next
    case (Suc n)
    have "read_bytes (put_bytes mm r a bs) r (a + int (Suc k)) n = Some (drop (Suc k) bs)"
      using Suc.prems by (intro Suc.IH) simp
    moreover have "drop k bs = bs ! k # drop (Suc k) bs"
      using Suc.prems by (simp add: Cons_nth_drop_Suc)
    moreover have "put_bytes mm r a bs r (a + int k) = Some (bs ! k)"
      using Suc.prems by (simp add: put_bytes_def)
    ultimately show ?case by (simp add: add.assoc add.commute [of 1])
  qed
  from this [of 0 n] show "length bs = n \<Longrightarrow> ?thesis" by simp
qed

lemma read_put_other:
  "r \<noteq> r' \<or> a + int n \<le> b \<or> b + int (length bs) \<le> a \<Longrightarrow>
   read_bytes (put_bytes mm r' b bs) r a n = read_bytes mm r a n"
  by (induction n arbitrary: a) (auto simp: put_bytes_def split: option.split)

lemma read_append:
  "read_bytes mm r a (m + n) =
     (case read_bytes mm r a m of None \<Rightarrow> None
      | Some bs \<Rightarrow> map_option (append bs) (read_bytes mm r (a + int m) n))"
proof (induction m arbitrary: a)
  case 0
  show ?case by (cases "read_bytes mm r a n") simp_all
next
  case (Suc m)
  then show ?case
    by (cases "mm r a"; cases "read_bytes mm r (a + 1) m"; cases "read_bytes mm r (a + 1 + int m) n")
       (simp_all add: add.assoc)
qed

lemma read_bytes_length: "read_bytes mm r a n = Some bs \<Longrightarrow> length bs = n"
  by (induction n arbitrary: a bs) (auto split: option.splits)

lemma read_slice:
  assumes "read_bytes mm r a n = Some bs" and "i + k \<le> n"
  shows "read_bytes mm r (a + int i) k = Some (take k (drop i bs))"
proof -
  obtain j where j: "n = i + (k + j)"
    using assms(2) le_Suc_ex [of "i + k" n] by (auto simp: add.assoc)
  show ?thesis
    using assms(1) unfolding j read_append [of mm r a i] read_append [of mm r "a + int i" k]
    by (auto split: option.splits dest!: read_bytes_length)
qed

lemma read_other_region [simp]:
  "r \<noteq> r' \<Longrightarrow> read_bytes (mm(r' := f)) r a n = read_bytes mm r a n"
  by (induction n arbitrary: a) (auto split: option.split)

lemma read_put_region [simp]:
  "r \<noteq> r' \<Longrightarrow> read_bytes (put_bytes mm r' b bs) r a n = read_bytes mm r a n"
  by (rule read_put_other) simp

end
