(* ===== verification/Elf.thy ===== *)
theory Elf
  imports Bytecode Elf_Image
begin

text \<open>
  Reading an ELF object: the section table, the symbols and the relocations of a 64-bit
  little-endian file for the machine BPF, and with them the program of a section: its code
  and its relocation table. A range that leaves the file is an error (\<open>None\<close>).
\<close>

section \<open>Fields\<close>

definition slice :: "nat \<Rightarrow> nat \<Rightarrow> bytes \<Rightarrow> bytes option" where
  "slice off n b = (if off + n \<le> length b then Some (take n (drop off b)) else None)"

definition get_nat :: "nat \<Rightarrow> nat \<Rightarrow> bytes \<Rightarrow> nat option" where
  "get_nat off n b = map_option (\<lambda>f. unat (of_le f :: u64)) (slice off n b)"

definition name_at :: "bytes \<Rightarrow> nat \<Rightarrow> string" where
  "name_at tab off = map (\<lambda>x. char_of (unat x)) (takeWhile (\<lambda>x. x \<noteq> 0) (drop off tab))"

text \<open>All results of a list of computations, or an error.\<close>

fun all_Some :: "'a option list \<Rightarrow> 'a list option" where
  "all_Some [] = Some []"
| "all_Some (x # xs) = Option.bind x (\<lambda>y. map_option (Cons y) (all_Some xs))"

definition entry_table :: "nat \<Rightarrow> nat \<Rightarrow> nat \<Rightarrow> (bytes \<Rightarrow> 'a option) \<Rightarrow> bytes \<Rightarrow> 'a list option" where
  "entry_table off k n entry b =
     Option.bind (slice off (k * n) b) (\<lambda>t.
       all_Some (map (\<lambda>i. Option.bind (slice (i * n) n t) entry) [0..<k]))"

section \<open>Sections\<close>

record elf_section =
  es_name :: nat
  es_offset :: nat
  es_size :: nat
  es_link :: nat

definition section_entry :: "bytes \<Rightarrow> elf_section option" where
  "section_entry b =
     Option.bind (get_nat 0 4 b) (\<lambda>nm. Option.bind (get_nat 24 8 b) (\<lambda>off.
     Option.bind (get_nat 32 8 b) (\<lambda>sz. Option.bind (get_nat 40 4 b) (\<lambda>lk.
       Some \<lparr>es_name = nm, es_offset = off, es_size = sz, es_link = lk\<rparr>))))"

text \<open>Magic number, 64 bits, little-endian; the machine number of BPF is 247.\<close>

definition elf_ident :: "bytes \<Rightarrow> bool" where
  "elf_ident b \<longleftrightarrow> take 6 b = [0x7f, 0x45, 0x4c, 0x46, 2, 1] \<and> get_nat 18 2 b = Some 247"

definition elf_sections :: "bytes \<Rightarrow> elf_section list option" where
  "elf_sections b =
     (if elf_ident b then
        Option.bind (get_nat 40 8 b) (\<lambda>off. Option.bind (get_nat 60 2 b) (\<lambda>n.
          entry_table off n 64 section_entry b))
      else None)"

definition section_bytes :: "bytes \<Rightarrow> elf_section \<Rightarrow> bytes option" where
  "section_bytes b s = slice (es_offset s) (es_size s) b"

definition nth_opt :: "'a list \<Rightarrow> nat \<Rightarrow> 'a option" where
  "nth_opt xs i = (if i < length xs then Some (xs ! i) else None)"

text \<open>The names of the sections, in order.\<close>

definition section_names :: "bytes \<Rightarrow> elf_section list \<Rightarrow> string list option" where
  "section_names b ss =
     Option.bind (get_nat 62 2 b) (\<lambda>k. Option.bind (nth_opt ss k) (\<lambda>s.
     Option.bind (section_bytes b s) (\<lambda>tab. Some (map (\<lambda>s. name_at tab (es_name s)) ss))))"

definition find_section :: "string list \<Rightarrow> elf_section list \<Rightarrow> string \<Rightarrow> elf_section option" where
  "find_section nms ss nm = map_of (zip nms ss) nm"

section \<open>Symbols and relocations\<close>

text \<open>A symbol: the index of its section and its value; a relocation: its offset and symbol.\<close>

definition symbol_entry :: "bytes \<Rightarrow> (nat \<times> nat) option" where
  "symbol_entry b =
     Option.bind (get_nat 6 2 b) (\<lambda>sec. Option.bind (get_nat 8 8 b) (\<lambda>v. Some (sec, v)))"

definition reloc_entry :: "bytes \<Rightarrow> (nat \<times> nat) option" where
  "reloc_entry b =
     Option.bind (get_nat 0 8 b) (\<lambda>off. Option.bind (get_nat 12 4 b) (\<lambda>sym. Some (off, sym)))"

definition region_of :: "string \<Rightarrow> region option" where
  "region_of nm = map_of [(''.data'', Data), (''.bss'', Data), (''.rodata'', Rodata), (''.maps'', Map_object)] nm"

definition reloc_of :: "string list \<Rightarrow> (nat \<times> nat) list \<Rightarrow> nat \<times> nat \<Rightarrow> (int \<times> region \<times> int) option" where
  "reloc_of nms syms = (\<lambda>(off, sym).
     Option.bind (nth_opt syms sym) (\<lambda>(sec, v). Option.bind (nth_opt nms sec) (\<lambda>nm.
     map_option (\<lambda>r. (int (off div 8), r, int v)) (region_of nm))))"

definition section_relocs :: "bytes \<Rightarrow> string list \<Rightarrow> elf_section list \<Rightarrow> string \<Rightarrow> relocs option" where
  "section_relocs b nms ss nm =
     (case find_section nms ss (''.rel'' @ nm) of
        None \<Rightarrow> Some []
      | Some r \<Rightarrow>
          Option.bind (nth_opt ss (es_link r)) (\<lambda>sy.
          Option.bind (entry_table (es_offset sy) (es_size sy div 24) 24 symbol_entry b) (\<lambda>syms.
          Option.bind (entry_table (es_offset r) (es_size r div 16) 16 reloc_entry b) (\<lambda>rs.
          all_Some (map (reloc_of nms syms) rs)))))"

section \<open>Programs and data\<close>

definition elf_section_named :: "bytes \<Rightarrow> string \<Rightarrow> bytes option" where
  "elf_section_named b nm =
     Option.bind (elf_sections b) (\<lambda>ss. Option.bind (section_names b ss) (\<lambda>nms.
     Option.bind (find_section nms ss nm) (section_bytes b)))"

definition elf_program :: "bytes \<Rightarrow> string \<Rightarrow> (bytes \<times> relocs) option" where
  "elf_program b nm =
     Option.bind (elf_sections b) (\<lambda>ss. Option.bind (section_names b ss) (\<lambda>nms.
     Option.bind (find_section nms ss nm) (\<lambda>s. Option.bind (section_bytes b s) (\<lambda>code.
     map_option (Pair code) (section_relocs b nms ss nm)))))"

text \<open>The memory of a loaded object: its data and its read-only data.\<close>

definition elf_memory :: "bytes \<Rightarrow> vmem option" where
  "elf_memory b =
     Option.bind (elf_section_named b ''.data'') (\<lambda>d.
     Option.bind (elf_section_named b ''.rodata'') (\<lambda>ro.
       Some (put_bytes (put_bytes (\<lambda>_ _. None) Data 0 d) Rodata 0 ro)))"

text \<open>
  The global symbols: name, section and value. A symbol is global when the upper half of its
  \<open>st_info\<close> is 1.
\<close>

definition symbol_full :: "bytes \<Rightarrow> (nat \<times> nat \<times> nat \<times> nat) option" where
  "symbol_full b =
     Option.bind (get_nat 0 4 b) (\<lambda>nm. Option.bind (get_nat 4 1 b) (\<lambda>inf.
     map_option (\<lambda>(sec, v). (nm, inf, sec, v)) (symbol_entry b)))"

definition elf_globals :: "bytes \<Rightarrow> (string \<times> string \<times> nat) list option" where
  "elf_globals b =
     Option.bind (elf_sections b) (\<lambda>ss. Option.bind (section_names b ss) (\<lambda>nms.
     Option.bind (find_section nms ss ''.symtab'') (\<lambda>s. Option.bind (nth_opt ss (es_link s)) (\<lambda>l.
     Option.bind (section_bytes b l) (\<lambda>tab.
     Option.bind (entry_table (es_offset s) (es_size s div 24) 24 symbol_full b) (\<lambda>sy.
       all_Some (map (\<lambda>(nm, _, sec, v). map_option (\<lambda>sn. (name_at tab nm, sn, v)) (nth_opt nms sec))
         (filter (\<lambda>(_, inf, _). inf div 16 = 1) sy))))))))"

section \<open>General facts\<close>

lemma slice_Some: "slice off n b = Some t \<Longrightarrow> length t = n \<and> off + n \<le> length b"
  by (auto simp: slice_def split: if_splits)

lemma slice_append:
  "slice off n (pre @ p @ post) = Some (take n (drop (off - length pre) p))"
  if "length pre \<le> off" "off + n \<le> length pre + length p"
  using that by (simp add: slice_def)

lemma all_Some_length: "all_Some xs = Some ys \<Longrightarrow> length ys = length xs"
  by (induction xs arbitrary: ys) (auto simp: bind_eq_Some_conv)

lemma table_length: "entry_table off k n entry b = Some xs \<Longrightarrow> length xs = k \<and> off + k * n \<le> length b"
  by (auto simp: entry_table_def bind_eq_Some_conv dest: all_Some_length slice_Some)

text \<open>A table is read from the piece of the file that holds it, one row per entry.\<close>

lemma table_slice: "slice off (k * n) b = Some t \<Longrightarrow>
  entry_table off k n entry b = entry_table 0 k n entry t"
proof -
  assume t: "slice off (k * n) b = Some t"
  moreover have "slice 0 (k * n) t = Some t"
    using slice_Some [OF t] by (simp add: slice_def)
  ultimately show ?thesis by (simp add: entry_table_def)
qed

lemma slice_row:
  "\<forall>r \<in> set rows. length r = n \<Longrightarrow> i < length rows \<Longrightarrow> slice (i * n) n (concat rows) = Some (rows ! i)"
proof (induction rows arbitrary: i)
  case (Cons r rows)
  show ?case
  proof (cases i)
    case 0
    then show ?thesis using Cons.prems by (simp add: slice_def)
  next
    case (Suc j)
    then show ?thesis using Cons.prems Cons.IH [of j] by (simp add: slice_def split: if_splits)
  qed
qed simp

lemma table_rows:
  assumes "list_all (\<lambda>r. length r = n) rows" and "length rows = k" and "all_Some (map entry rows) = res"
  shows "entry_table 0 k n entry (concat rows) = res"
proof -
  have rows: "\<forall>r \<in> set rows. length r = n" using assms(1) by (simp add: list_all_iff)
  have len: "length (concat rows) = k * n"
    using rows assms(2) by (induction rows arbitrary: k) auto
  have "map (\<lambda>i. Option.bind (slice (i * n) n (concat rows)) entry) [0..<k] = map entry rows"
    using slice_row [OF rows] assms(2) by (intro nth_equalityI) simp_all
  then show ?thesis
    using assms(3) by (simp add: entry_table_def slice_def len)
qed

end
