(* ===== verification/Helper_Table.thy ===== *)
theory Helper_Table
  imports Prelude
begin

text \<open>
  The helper functions of the kernel, \<open>bpf_helper_defs.h\<close>: for every declaration its
  number, its result type, its name and its parameters, in the order of the file. The
  number is what a \<open>call\<close> instruction carries.
\<close>

section \<open>Prototypes\<close>

datatype ctype =
    CVoid | CChar | CInt | CLong | CULong
  | U16 | U32 | U64 | S32 | S64 | Be16 | Be32 | Wsum
  | Struct string
  | Const ctype
  | Ptr ctype
  | Variadic

datatype helper_proto =
  Proto (hp_id: nat) (hp_ret: ctype) (hp_name: string) (hp_args: "(string \<times> ctype) list")

text \<open>The structures that are only declared.\<close>

definition helper_structs :: "string list" where
  "helper_structs = [
    ''bpf_fib_lookup'', ''bpf_sk_lookup'', ''bpf_perf_event_data'', ''bpf_perf_event_value'', ''bpf_pidns_info'',
    ''bpf_redir_neigh'', ''bpf_sock'', ''bpf_sock_addr'', ''bpf_sock_ops'', ''bpf_sock_tuple'',
    ''bpf_spin_lock'', ''bpf_sysctl'', ''bpf_tcp_sock'', ''bpf_tunnel_key'', ''bpf_xfrm_state'',
    ''linux_binprm'', ''pt_regs'', ''sk_reuseport_md'', ''sockaddr'', ''tcphdr'', ''seq_file'', ''tcp6_sock'',
    ''tcp_sock'', ''tcp_timewait_sock'', ''tcp_request_sock'', ''udp6_sock'', ''unix_sock'', ''task_struct'',
    ''__sk_buff'', ''sk_msg_md'', ''xdp_md'', ''path'', ''btf_ptr'', ''inode'', ''socket'', ''file'',
    ''bpf_timer'', ''mptcp_sock'', ''bpf_dynptr'', ''iphdr'', ''ipv6hdr'']"

section \<open>The declarations\<close>

definition bpf_map_lookup_elem_proto :: helper_proto where
  "bpf_map_lookup_elem_proto = Proto 1 (Ptr CVoid) ''bpf_map_lookup_elem''
     [(''map'', Ptr CVoid), (''key'', Ptr (Const CVoid))]"

definition bpf_map_update_elem_proto :: helper_proto where
  "bpf_map_update_elem_proto = Proto 2 CLong ''bpf_map_update_elem''
     [(''map'', Ptr CVoid), (''key'', Ptr (Const CVoid)), (''value'', Ptr (Const CVoid)),
      (''flags'', U64)]"

definition bpf_map_delete_elem_proto :: helper_proto where
  "bpf_map_delete_elem_proto = Proto 3 CLong ''bpf_map_delete_elem''
     [(''map'', Ptr CVoid), (''key'', Ptr (Const CVoid))]"

definition bpf_probe_read_proto :: helper_proto where
  "bpf_probe_read_proto = Proto 4 CLong ''bpf_probe_read''
     [(''dst'', Ptr CVoid), (''size'', U32), (''unsafe_ptr'', Ptr (Const CVoid))]"

definition bpf_ktime_get_ns_proto :: helper_proto where
  "bpf_ktime_get_ns_proto = Proto 5 U64 ''bpf_ktime_get_ns''
     []"

definition bpf_trace_printk_proto :: helper_proto where
  "bpf_trace_printk_proto = Proto 6 CLong ''bpf_trace_printk''
     [(''fmt'', Ptr (Const CChar)), (''fmt_size'', U32), (''...'', Variadic)]"

definition bpf_get_prandom_u32_proto :: helper_proto where
  "bpf_get_prandom_u32_proto = Proto 7 U32 ''bpf_get_prandom_u32''
     []"

definition bpf_get_smp_processor_id_proto :: helper_proto where
  "bpf_get_smp_processor_id_proto = Proto 8 U32 ''bpf_get_smp_processor_id''
     []"

definition bpf_skb_store_bytes_proto :: helper_proto where
  "bpf_skb_store_bytes_proto = Proto 9 CLong ''bpf_skb_store_bytes''
     [(''skb'', Ptr (Struct ''__sk_buff'')), (''offset'', U32), (''from'', Ptr (Const CVoid)),
      (''len'', U32), (''flags'', U64)]"

definition bpf_l3_csum_replace_proto :: helper_proto where
  "bpf_l3_csum_replace_proto = Proto 10 CLong ''bpf_l3_csum_replace''
     [(''skb'', Ptr (Struct ''__sk_buff'')), (''offset'', U32), (''from'', U64), (''to'', U64),
      (''size'', U64)]"

definition bpf_l4_csum_replace_proto :: helper_proto where
  "bpf_l4_csum_replace_proto = Proto 11 CLong ''bpf_l4_csum_replace''
     [(''skb'', Ptr (Struct ''__sk_buff'')), (''offset'', U32), (''from'', U64), (''to'', U64),
      (''flags'', U64)]"

definition bpf_tail_call_proto :: helper_proto where
  "bpf_tail_call_proto = Proto 12 CLong ''bpf_tail_call''
     [(''ctx'', Ptr CVoid), (''prog_array_map'', Ptr CVoid), (''index'', U32)]"

definition bpf_clone_redirect_proto :: helper_proto where
  "bpf_clone_redirect_proto = Proto 13 CLong ''bpf_clone_redirect''
     [(''skb'', Ptr (Struct ''__sk_buff'')), (''ifindex'', U32), (''flags'', U64)]"

definition bpf_get_current_pid_tgid_proto :: helper_proto where
  "bpf_get_current_pid_tgid_proto = Proto 14 U64 ''bpf_get_current_pid_tgid''
     []"

definition bpf_get_current_uid_gid_proto :: helper_proto where
  "bpf_get_current_uid_gid_proto = Proto 15 U64 ''bpf_get_current_uid_gid''
     []"

definition bpf_get_current_comm_proto :: helper_proto where
  "bpf_get_current_comm_proto = Proto 16 CLong ''bpf_get_current_comm''
     [(''buf'', Ptr CVoid), (''size_of_buf'', U32)]"

definition bpf_get_cgroup_classid_proto :: helper_proto where
  "bpf_get_cgroup_classid_proto = Proto 17 U32 ''bpf_get_cgroup_classid''
     [(''skb'', Ptr (Struct ''__sk_buff''))]"

definition bpf_skb_vlan_push_proto :: helper_proto where
  "bpf_skb_vlan_push_proto = Proto 18 CLong ''bpf_skb_vlan_push''
     [(''skb'', Ptr (Struct ''__sk_buff'')), (''vlan_proto'', Be16), (''vlan_tci'', U16)]"

definition bpf_skb_vlan_pop_proto :: helper_proto where
  "bpf_skb_vlan_pop_proto = Proto 19 CLong ''bpf_skb_vlan_pop''
     [(''skb'', Ptr (Struct ''__sk_buff''))]"

definition bpf_skb_get_tunnel_key_proto :: helper_proto where
  "bpf_skb_get_tunnel_key_proto = Proto 20 CLong ''bpf_skb_get_tunnel_key''
     [(''skb'', Ptr (Struct ''__sk_buff'')), (''key'', Ptr (Struct ''bpf_tunnel_key'')), (''size'', U32),
      (''flags'', U64)]"

definition bpf_skb_set_tunnel_key_proto :: helper_proto where
  "bpf_skb_set_tunnel_key_proto = Proto 21 CLong ''bpf_skb_set_tunnel_key''
     [(''skb'', Ptr (Struct ''__sk_buff'')), (''key'', Ptr (Struct ''bpf_tunnel_key'')), (''size'', U32),
      (''flags'', U64)]"

definition bpf_perf_event_read_proto :: helper_proto where
  "bpf_perf_event_read_proto = Proto 22 U64 ''bpf_perf_event_read''
     [(''map'', Ptr CVoid), (''flags'', U64)]"

definition bpf_redirect_proto :: helper_proto where
  "bpf_redirect_proto = Proto 23 CLong ''bpf_redirect''
     [(''ifindex'', U32), (''flags'', U64)]"

definition bpf_get_route_realm_proto :: helper_proto where
  "bpf_get_route_realm_proto = Proto 24 U32 ''bpf_get_route_realm''
     [(''skb'', Ptr (Struct ''__sk_buff''))]"

definition bpf_perf_event_output_proto :: helper_proto where
  "bpf_perf_event_output_proto = Proto 25 CLong ''bpf_perf_event_output''
     [(''ctx'', Ptr CVoid), (''map'', Ptr CVoid), (''flags'', U64), (''data'', Ptr CVoid),
      (''size'', U64)]"

definition bpf_skb_load_bytes_proto :: helper_proto where
  "bpf_skb_load_bytes_proto = Proto 26 CLong ''bpf_skb_load_bytes''
     [(''skb'', Ptr (Const CVoid)), (''offset'', U32), (''to'', Ptr CVoid), (''len'', U32)]"

definition bpf_get_stackid_proto :: helper_proto where
  "bpf_get_stackid_proto = Proto 27 CLong ''bpf_get_stackid''
     [(''ctx'', Ptr CVoid), (''map'', Ptr CVoid), (''flags'', U64)]"

definition bpf_csum_diff_proto :: helper_proto where
  "bpf_csum_diff_proto = Proto 28 S64 ''bpf_csum_diff''
     [(''from'', Ptr Be32), (''from_size'', U32), (''to'', Ptr Be32), (''to_size'', U32),
      (''seed'', Wsum)]"

definition bpf_skb_get_tunnel_opt_proto :: helper_proto where
  "bpf_skb_get_tunnel_opt_proto = Proto 29 CLong ''bpf_skb_get_tunnel_opt''
     [(''skb'', Ptr (Struct ''__sk_buff'')), (''opt'', Ptr CVoid), (''size'', U32)]"

definition bpf_skb_set_tunnel_opt_proto :: helper_proto where
  "bpf_skb_set_tunnel_opt_proto = Proto 30 CLong ''bpf_skb_set_tunnel_opt''
     [(''skb'', Ptr (Struct ''__sk_buff'')), (''opt'', Ptr CVoid), (''size'', U32)]"

definition bpf_skb_change_proto_proto :: helper_proto where
  "bpf_skb_change_proto_proto = Proto 31 CLong ''bpf_skb_change_proto''
     [(''skb'', Ptr (Struct ''__sk_buff'')), (''proto'', Be16), (''flags'', U64)]"

definition bpf_skb_change_type_proto :: helper_proto where
  "bpf_skb_change_type_proto = Proto 32 CLong ''bpf_skb_change_type''
     [(''skb'', Ptr (Struct ''__sk_buff'')), (''type'', U32)]"

definition bpf_skb_under_cgroup_proto :: helper_proto where
  "bpf_skb_under_cgroup_proto = Proto 33 CLong ''bpf_skb_under_cgroup''
     [(''skb'', Ptr (Struct ''__sk_buff'')), (''map'', Ptr CVoid), (''index'', U32)]"

definition bpf_get_hash_recalc_proto :: helper_proto where
  "bpf_get_hash_recalc_proto = Proto 34 U32 ''bpf_get_hash_recalc''
     [(''skb'', Ptr (Struct ''__sk_buff''))]"

definition bpf_get_current_task_proto :: helper_proto where
  "bpf_get_current_task_proto = Proto 35 U64 ''bpf_get_current_task''
     []"

definition bpf_probe_write_user_proto :: helper_proto where
  "bpf_probe_write_user_proto = Proto 36 CLong ''bpf_probe_write_user''
     [(''dst'', Ptr CVoid), (''src'', Ptr (Const CVoid)), (''len'', U32)]"

definition bpf_current_task_under_cgroup_proto :: helper_proto where
  "bpf_current_task_under_cgroup_proto = Proto 37 CLong ''bpf_current_task_under_cgroup''
     [(''map'', Ptr CVoid), (''index'', U32)]"

definition bpf_skb_change_tail_proto :: helper_proto where
  "bpf_skb_change_tail_proto = Proto 38 CLong ''bpf_skb_change_tail''
     [(''skb'', Ptr (Struct ''__sk_buff'')), (''len'', U32), (''flags'', U64)]"

definition bpf_skb_pull_data_proto :: helper_proto where
  "bpf_skb_pull_data_proto = Proto 39 CLong ''bpf_skb_pull_data''
     [(''skb'', Ptr (Struct ''__sk_buff'')), (''len'', U32)]"

definition bpf_csum_update_proto :: helper_proto where
  "bpf_csum_update_proto = Proto 40 S64 ''bpf_csum_update''
     [(''skb'', Ptr (Struct ''__sk_buff'')), (''csum'', Wsum)]"

definition bpf_set_hash_invalid_proto :: helper_proto where
  "bpf_set_hash_invalid_proto = Proto 41 CVoid ''bpf_set_hash_invalid''
     [(''skb'', Ptr (Struct ''__sk_buff''))]"

definition bpf_get_numa_node_id_proto :: helper_proto where
  "bpf_get_numa_node_id_proto = Proto 42 CLong ''bpf_get_numa_node_id''
     []"

definition bpf_skb_change_head_proto :: helper_proto where
  "bpf_skb_change_head_proto = Proto 43 CLong ''bpf_skb_change_head''
     [(''skb'', Ptr (Struct ''__sk_buff'')), (''len'', U32), (''flags'', U64)]"

definition bpf_xdp_adjust_head_proto :: helper_proto where
  "bpf_xdp_adjust_head_proto = Proto 44 CLong ''bpf_xdp_adjust_head''
     [(''xdp_md'', Ptr (Struct ''xdp_md'')), (''delta'', CInt)]"

definition bpf_probe_read_str_proto :: helper_proto where
  "bpf_probe_read_str_proto = Proto 45 CLong ''bpf_probe_read_str''
     [(''dst'', Ptr CVoid), (''size'', U32), (''unsafe_ptr'', Ptr (Const CVoid))]"

definition bpf_get_socket_cookie_proto :: helper_proto where
  "bpf_get_socket_cookie_proto = Proto 46 U64 ''bpf_get_socket_cookie''
     [(''ctx'', Ptr CVoid)]"

definition bpf_get_socket_uid_proto :: helper_proto where
  "bpf_get_socket_uid_proto = Proto 47 U32 ''bpf_get_socket_uid''
     [(''skb'', Ptr (Struct ''__sk_buff''))]"

definition bpf_set_hash_proto :: helper_proto where
  "bpf_set_hash_proto = Proto 48 CLong ''bpf_set_hash''
     [(''skb'', Ptr (Struct ''__sk_buff'')), (''hash'', U32)]"

definition bpf_setsockopt_proto :: helper_proto where
  "bpf_setsockopt_proto = Proto 49 CLong ''bpf_setsockopt''
     [(''bpf_socket'', Ptr CVoid), (''level'', CInt), (''optname'', CInt), (''optval'', Ptr CVoid),
      (''optlen'', CInt)]"

definition bpf_skb_adjust_room_proto :: helper_proto where
  "bpf_skb_adjust_room_proto = Proto 50 CLong ''bpf_skb_adjust_room''
     [(''skb'', Ptr (Struct ''__sk_buff'')), (''len_diff'', S32), (''mode'', U32), (''flags'', U64)]"

definition bpf_redirect_map_proto :: helper_proto where
  "bpf_redirect_map_proto = Proto 51 CLong ''bpf_redirect_map''
     [(''map'', Ptr CVoid), (''key'', U32), (''flags'', U64)]"

definition bpf_sk_redirect_map_proto :: helper_proto where
  "bpf_sk_redirect_map_proto = Proto 52 CLong ''bpf_sk_redirect_map''
     [(''skb'', Ptr (Struct ''__sk_buff'')), (''map'', Ptr CVoid), (''key'', U32), (''flags'', U64)]"

definition bpf_sock_map_update_proto :: helper_proto where
  "bpf_sock_map_update_proto = Proto 53 CLong ''bpf_sock_map_update''
     [(''skops'', Ptr (Struct ''bpf_sock_ops'')), (''map'', Ptr CVoid), (''key'', Ptr CVoid),
      (''flags'', U64)]"

definition bpf_xdp_adjust_meta_proto :: helper_proto where
  "bpf_xdp_adjust_meta_proto = Proto 54 CLong ''bpf_xdp_adjust_meta''
     [(''xdp_md'', Ptr (Struct ''xdp_md'')), (''delta'', CInt)]"

definition bpf_perf_event_read_value_proto :: helper_proto where
  "bpf_perf_event_read_value_proto = Proto 55 CLong ''bpf_perf_event_read_value''
     [(''map'', Ptr CVoid), (''flags'', U64), (''buf'', Ptr (Struct ''bpf_perf_event_value'')),
      (''buf_size'', U32)]"

definition bpf_perf_prog_read_value_proto :: helper_proto where
  "bpf_perf_prog_read_value_proto = Proto 56 CLong ''bpf_perf_prog_read_value''
     [(''ctx'', Ptr (Struct ''bpf_perf_event_data'')), (''buf'', Ptr (Struct ''bpf_perf_event_value'')),
      (''buf_size'', U32)]"

definition bpf_getsockopt_proto :: helper_proto where
  "bpf_getsockopt_proto = Proto 57 CLong ''bpf_getsockopt''
     [(''bpf_socket'', Ptr CVoid), (''level'', CInt), (''optname'', CInt), (''optval'', Ptr CVoid),
      (''optlen'', CInt)]"

definition bpf_override_return_proto :: helper_proto where
  "bpf_override_return_proto = Proto 58 CLong ''bpf_override_return''
     [(''regs'', Ptr (Struct ''pt_regs'')), (''rc'', U64)]"

definition bpf_sock_ops_cb_flags_set_proto :: helper_proto where
  "bpf_sock_ops_cb_flags_set_proto = Proto 59 CLong ''bpf_sock_ops_cb_flags_set''
     [(''bpf_sock'', Ptr (Struct ''bpf_sock_ops'')), (''argval'', CInt)]"

definition bpf_msg_redirect_map_proto :: helper_proto where
  "bpf_msg_redirect_map_proto = Proto 60 CLong ''bpf_msg_redirect_map''
     [(''msg'', Ptr (Struct ''sk_msg_md'')), (''map'', Ptr CVoid), (''key'', U32), (''flags'', U64)]"

definition bpf_msg_apply_bytes_proto :: helper_proto where
  "bpf_msg_apply_bytes_proto = Proto 61 CLong ''bpf_msg_apply_bytes''
     [(''msg'', Ptr (Struct ''sk_msg_md'')), (''bytes'', U32)]"

definition bpf_msg_cork_bytes_proto :: helper_proto where
  "bpf_msg_cork_bytes_proto = Proto 62 CLong ''bpf_msg_cork_bytes''
     [(''msg'', Ptr (Struct ''sk_msg_md'')), (''bytes'', U32)]"

definition bpf_msg_pull_data_proto :: helper_proto where
  "bpf_msg_pull_data_proto = Proto 63 CLong ''bpf_msg_pull_data''
     [(''msg'', Ptr (Struct ''sk_msg_md'')), (''start'', U32), (''end'', U32), (''flags'', U64)]"

definition bpf_bind_proto :: helper_proto where
  "bpf_bind_proto = Proto 64 CLong ''bpf_bind''
     [(''ctx'', Ptr (Struct ''bpf_sock_addr'')), (''addr'', Ptr (Struct ''sockaddr'')),
      (''addr_len'', CInt)]"

definition bpf_xdp_adjust_tail_proto :: helper_proto where
  "bpf_xdp_adjust_tail_proto = Proto 65 CLong ''bpf_xdp_adjust_tail''
     [(''xdp_md'', Ptr (Struct ''xdp_md'')), (''delta'', CInt)]"

definition bpf_skb_get_xfrm_state_proto :: helper_proto where
  "bpf_skb_get_xfrm_state_proto = Proto 66 CLong ''bpf_skb_get_xfrm_state''
     [(''skb'', Ptr (Struct ''__sk_buff'')), (''index'', U32),
      (''xfrm_state'', Ptr (Struct ''bpf_xfrm_state'')), (''size'', U32), (''flags'', U64)]"

definition bpf_get_stack_proto :: helper_proto where
  "bpf_get_stack_proto = Proto 67 CLong ''bpf_get_stack''
     [(''ctx'', Ptr CVoid), (''buf'', Ptr CVoid), (''size'', U32), (''flags'', U64)]"

definition bpf_skb_load_bytes_relative_proto :: helper_proto where
  "bpf_skb_load_bytes_relative_proto = Proto 68 CLong ''bpf_skb_load_bytes_relative''
     [(''skb'', Ptr (Const CVoid)), (''offset'', U32), (''to'', Ptr CVoid), (''len'', U32),
      (''start_header'', U32)]"

definition bpf_fib_lookup_proto :: helper_proto where
  "bpf_fib_lookup_proto = Proto 69 CLong ''bpf_fib_lookup''
     [(''ctx'', Ptr CVoid), (''params'', Ptr (Struct ''bpf_fib_lookup'')), (''plen'', CInt),
      (''flags'', U32)]"

definition bpf_sock_hash_update_proto :: helper_proto where
  "bpf_sock_hash_update_proto = Proto 70 CLong ''bpf_sock_hash_update''
     [(''skops'', Ptr (Struct ''bpf_sock_ops'')), (''map'', Ptr CVoid), (''key'', Ptr CVoid),
      (''flags'', U64)]"

definition bpf_msg_redirect_hash_proto :: helper_proto where
  "bpf_msg_redirect_hash_proto = Proto 71 CLong ''bpf_msg_redirect_hash''
     [(''msg'', Ptr (Struct ''sk_msg_md'')), (''map'', Ptr CVoid), (''key'', Ptr CVoid),
      (''flags'', U64)]"

definition bpf_sk_redirect_hash_proto :: helper_proto where
  "bpf_sk_redirect_hash_proto = Proto 72 CLong ''bpf_sk_redirect_hash''
     [(''skb'', Ptr (Struct ''__sk_buff'')), (''map'', Ptr CVoid), (''key'', Ptr CVoid),
      (''flags'', U64)]"

definition bpf_lwt_push_encap_proto :: helper_proto where
  "bpf_lwt_push_encap_proto = Proto 73 CLong ''bpf_lwt_push_encap''
     [(''skb'', Ptr (Struct ''__sk_buff'')), (''type'', U32), (''hdr'', Ptr CVoid), (''len'', U32)]"

definition bpf_lwt_seg6_store_bytes_proto :: helper_proto where
  "bpf_lwt_seg6_store_bytes_proto = Proto 74 CLong ''bpf_lwt_seg6_store_bytes''
     [(''skb'', Ptr (Struct ''__sk_buff'')), (''offset'', U32), (''from'', Ptr (Const CVoid)),
      (''len'', U32)]"

definition bpf_lwt_seg6_adjust_srh_proto :: helper_proto where
  "bpf_lwt_seg6_adjust_srh_proto = Proto 75 CLong ''bpf_lwt_seg6_adjust_srh''
     [(''skb'', Ptr (Struct ''__sk_buff'')), (''offset'', U32), (''delta'', S32)]"

definition bpf_lwt_seg6_action_proto :: helper_proto where
  "bpf_lwt_seg6_action_proto = Proto 76 CLong ''bpf_lwt_seg6_action''
     [(''skb'', Ptr (Struct ''__sk_buff'')), (''action'', U32), (''param'', Ptr CVoid),
      (''param_len'', U32)]"

definition bpf_rc_repeat_proto :: helper_proto where
  "bpf_rc_repeat_proto = Proto 77 CLong ''bpf_rc_repeat''
     [(''ctx'', Ptr CVoid)]"

definition bpf_rc_keydown_proto :: helper_proto where
  "bpf_rc_keydown_proto = Proto 78 CLong ''bpf_rc_keydown''
     [(''ctx'', Ptr CVoid), (''protocol'', U32), (''scancode'', U64), (''toggle'', U32)]"

definition bpf_skb_cgroup_id_proto :: helper_proto where
  "bpf_skb_cgroup_id_proto = Proto 79 U64 ''bpf_skb_cgroup_id''
     [(''skb'', Ptr (Struct ''__sk_buff''))]"

definition bpf_get_current_cgroup_id_proto :: helper_proto where
  "bpf_get_current_cgroup_id_proto = Proto 80 U64 ''bpf_get_current_cgroup_id''
     []"

definition bpf_get_local_storage_proto :: helper_proto where
  "bpf_get_local_storage_proto = Proto 81 (Ptr CVoid) ''bpf_get_local_storage''
     [(''map'', Ptr CVoid), (''flags'', U64)]"

definition bpf_sk_select_reuseport_proto :: helper_proto where
  "bpf_sk_select_reuseport_proto = Proto 82 CLong ''bpf_sk_select_reuseport''
     [(''reuse'', Ptr (Struct ''sk_reuseport_md'')), (''map'', Ptr CVoid), (''key'', Ptr CVoid),
      (''flags'', U64)]"

definition bpf_skb_ancestor_cgroup_id_proto :: helper_proto where
  "bpf_skb_ancestor_cgroup_id_proto = Proto 83 U64 ''bpf_skb_ancestor_cgroup_id''
     [(''skb'', Ptr (Struct ''__sk_buff'')), (''ancestor_level'', CInt)]"

definition bpf_sk_lookup_tcp_proto :: helper_proto where
  "bpf_sk_lookup_tcp_proto = Proto 84 (Ptr (Struct ''bpf_sock'')) ''bpf_sk_lookup_tcp''
     [(''ctx'', Ptr CVoid), (''tuple'', Ptr (Struct ''bpf_sock_tuple'')), (''tuple_size'', U32),
      (''netns'', U64), (''flags'', U64)]"

definition bpf_sk_lookup_udp_proto :: helper_proto where
  "bpf_sk_lookup_udp_proto = Proto 85 (Ptr (Struct ''bpf_sock'')) ''bpf_sk_lookup_udp''
     [(''ctx'', Ptr CVoid), (''tuple'', Ptr (Struct ''bpf_sock_tuple'')), (''tuple_size'', U32),
      (''netns'', U64), (''flags'', U64)]"

definition bpf_sk_release_proto :: helper_proto where
  "bpf_sk_release_proto = Proto 86 CLong ''bpf_sk_release''
     [(''sock'', Ptr CVoid)]"

definition bpf_map_push_elem_proto :: helper_proto where
  "bpf_map_push_elem_proto = Proto 87 CLong ''bpf_map_push_elem''
     [(''map'', Ptr CVoid), (''value'', Ptr (Const CVoid)), (''flags'', U64)]"

definition bpf_map_pop_elem_proto :: helper_proto where
  "bpf_map_pop_elem_proto = Proto 88 CLong ''bpf_map_pop_elem''
     [(''map'', Ptr CVoid), (''value'', Ptr CVoid)]"

definition bpf_map_peek_elem_proto :: helper_proto where
  "bpf_map_peek_elem_proto = Proto 89 CLong ''bpf_map_peek_elem''
     [(''map'', Ptr CVoid), (''value'', Ptr CVoid)]"

definition bpf_msg_push_data_proto :: helper_proto where
  "bpf_msg_push_data_proto = Proto 90 CLong ''bpf_msg_push_data''
     [(''msg'', Ptr (Struct ''sk_msg_md'')), (''start'', U32), (''len'', U32), (''flags'', U64)]"

definition bpf_msg_pop_data_proto :: helper_proto where
  "bpf_msg_pop_data_proto = Proto 91 CLong ''bpf_msg_pop_data''
     [(''msg'', Ptr (Struct ''sk_msg_md'')), (''start'', U32), (''len'', U32), (''flags'', U64)]"

definition bpf_rc_pointer_rel_proto :: helper_proto where
  "bpf_rc_pointer_rel_proto = Proto 92 CLong ''bpf_rc_pointer_rel''
     [(''ctx'', Ptr CVoid), (''rel_x'', S32), (''rel_y'', S32)]"

definition bpf_spin_lock_proto :: helper_proto where
  "bpf_spin_lock_proto = Proto 93 CLong ''bpf_spin_lock''
     [(''lock'', Ptr (Struct ''bpf_spin_lock''))]"

definition bpf_spin_unlock_proto :: helper_proto where
  "bpf_spin_unlock_proto = Proto 94 CLong ''bpf_spin_unlock''
     [(''lock'', Ptr (Struct ''bpf_spin_lock''))]"

definition bpf_sk_fullsock_proto :: helper_proto where
  "bpf_sk_fullsock_proto = Proto 95 (Ptr (Struct ''bpf_sock'')) ''bpf_sk_fullsock''
     [(''sk'', Ptr (Struct ''bpf_sock''))]"

definition bpf_tcp_sock_proto :: helper_proto where
  "bpf_tcp_sock_proto = Proto 96 (Ptr (Struct ''bpf_tcp_sock'')) ''bpf_tcp_sock''
     [(''sk'', Ptr (Struct ''bpf_sock''))]"

definition bpf_skb_ecn_set_ce_proto :: helper_proto where
  "bpf_skb_ecn_set_ce_proto = Proto 97 CLong ''bpf_skb_ecn_set_ce''
     [(''skb'', Ptr (Struct ''__sk_buff''))]"

definition bpf_get_listener_sock_proto :: helper_proto where
  "bpf_get_listener_sock_proto = Proto 98 (Ptr (Struct ''bpf_sock'')) ''bpf_get_listener_sock''
     [(''sk'', Ptr (Struct ''bpf_sock''))]"

definition bpf_skc_lookup_tcp_proto :: helper_proto where
  "bpf_skc_lookup_tcp_proto = Proto 99 (Ptr (Struct ''bpf_sock'')) ''bpf_skc_lookup_tcp''
     [(''ctx'', Ptr CVoid), (''tuple'', Ptr (Struct ''bpf_sock_tuple'')), (''tuple_size'', U32),
      (''netns'', U64), (''flags'', U64)]"

definition bpf_tcp_check_syncookie_proto :: helper_proto where
  "bpf_tcp_check_syncookie_proto = Proto 100 CLong ''bpf_tcp_check_syncookie''
     [(''sk'', Ptr CVoid), (''iph'', Ptr CVoid), (''iph_len'', U32), (''th'', Ptr (Struct ''tcphdr'')),
      (''th_len'', U32)]"

definition bpf_sysctl_get_name_proto :: helper_proto where
  "bpf_sysctl_get_name_proto = Proto 101 CLong ''bpf_sysctl_get_name''
     [(''ctx'', Ptr (Struct ''bpf_sysctl'')), (''buf'', Ptr CChar), (''buf_len'', CULong),
      (''flags'', U64)]"

definition bpf_sysctl_get_current_value_proto :: helper_proto where
  "bpf_sysctl_get_current_value_proto = Proto 102 CLong ''bpf_sysctl_get_current_value''
     [(''ctx'', Ptr (Struct ''bpf_sysctl'')), (''buf'', Ptr CChar), (''buf_len'', CULong)]"

definition bpf_sysctl_get_new_value_proto :: helper_proto where
  "bpf_sysctl_get_new_value_proto = Proto 103 CLong ''bpf_sysctl_get_new_value''
     [(''ctx'', Ptr (Struct ''bpf_sysctl'')), (''buf'', Ptr CChar), (''buf_len'', CULong)]"

definition bpf_sysctl_set_new_value_proto :: helper_proto where
  "bpf_sysctl_set_new_value_proto = Proto 104 CLong ''bpf_sysctl_set_new_value''
     [(''ctx'', Ptr (Struct ''bpf_sysctl'')), (''buf'', Ptr (Const CChar)), (''buf_len'', CULong)]"

definition bpf_strtol_proto :: helper_proto where
  "bpf_strtol_proto = Proto 105 CLong ''bpf_strtol''
     [(''buf'', Ptr (Const CChar)), (''buf_len'', CULong), (''flags'', U64), (''res'', Ptr CLong)]"

definition bpf_strtoul_proto :: helper_proto where
  "bpf_strtoul_proto = Proto 106 CLong ''bpf_strtoul''
     [(''buf'', Ptr (Const CChar)), (''buf_len'', CULong), (''flags'', U64), (''res'', Ptr CULong)]"

definition bpf_sk_storage_get_proto :: helper_proto where
  "bpf_sk_storage_get_proto = Proto 107 (Ptr CVoid) ''bpf_sk_storage_get''
     [(''map'', Ptr CVoid), (''sk'', Ptr CVoid), (''value'', Ptr CVoid), (''flags'', U64)]"

definition bpf_sk_storage_delete_proto :: helper_proto where
  "bpf_sk_storage_delete_proto = Proto 108 CLong ''bpf_sk_storage_delete''
     [(''map'', Ptr CVoid), (''sk'', Ptr CVoid)]"

definition bpf_send_signal_proto :: helper_proto where
  "bpf_send_signal_proto = Proto 109 CLong ''bpf_send_signal''
     [(''sig'', U32)]"

definition bpf_tcp_gen_syncookie_proto :: helper_proto where
  "bpf_tcp_gen_syncookie_proto = Proto 110 S64 ''bpf_tcp_gen_syncookie''
     [(''sk'', Ptr CVoid), (''iph'', Ptr CVoid), (''iph_len'', U32), (''th'', Ptr (Struct ''tcphdr'')),
      (''th_len'', U32)]"

definition bpf_skb_output_proto :: helper_proto where
  "bpf_skb_output_proto = Proto 111 CLong ''bpf_skb_output''
     [(''ctx'', Ptr CVoid), (''map'', Ptr CVoid), (''flags'', U64), (''data'', Ptr CVoid),
      (''size'', U64)]"

definition bpf_probe_read_user_proto :: helper_proto where
  "bpf_probe_read_user_proto = Proto 112 CLong ''bpf_probe_read_user''
     [(''dst'', Ptr CVoid), (''size'', U32), (''unsafe_ptr'', Ptr (Const CVoid))]"

definition bpf_probe_read_kernel_proto :: helper_proto where
  "bpf_probe_read_kernel_proto = Proto 113 CLong ''bpf_probe_read_kernel''
     [(''dst'', Ptr CVoid), (''size'', U32), (''unsafe_ptr'', Ptr (Const CVoid))]"

definition bpf_probe_read_user_str_proto :: helper_proto where
  "bpf_probe_read_user_str_proto = Proto 114 CLong ''bpf_probe_read_user_str''
     [(''dst'', Ptr CVoid), (''size'', U32), (''unsafe_ptr'', Ptr (Const CVoid))]"

definition bpf_probe_read_kernel_str_proto :: helper_proto where
  "bpf_probe_read_kernel_str_proto = Proto 115 CLong ''bpf_probe_read_kernel_str''
     [(''dst'', Ptr CVoid), (''size'', U32), (''unsafe_ptr'', Ptr (Const CVoid))]"

definition bpf_tcp_send_ack_proto :: helper_proto where
  "bpf_tcp_send_ack_proto = Proto 116 CLong ''bpf_tcp_send_ack''
     [(''tp'', Ptr CVoid), (''rcv_nxt'', U32)]"

definition bpf_send_signal_thread_proto :: helper_proto where
  "bpf_send_signal_thread_proto = Proto 117 CLong ''bpf_send_signal_thread''
     [(''sig'', U32)]"

definition bpf_jiffies64_proto :: helper_proto where
  "bpf_jiffies64_proto = Proto 118 U64 ''bpf_jiffies64''
     []"

definition bpf_read_branch_records_proto :: helper_proto where
  "bpf_read_branch_records_proto = Proto 119 CLong ''bpf_read_branch_records''
     [(''ctx'', Ptr (Struct ''bpf_perf_event_data'')), (''buf'', Ptr CVoid), (''size'', U32),
      (''flags'', U64)]"

definition bpf_get_ns_current_pid_tgid_proto :: helper_proto where
  "bpf_get_ns_current_pid_tgid_proto = Proto 120 CLong ''bpf_get_ns_current_pid_tgid''
     [(''dev'', U64), (''ino'', U64), (''nsdata'', Ptr (Struct ''bpf_pidns_info'')), (''size'', U32)]"

definition bpf_xdp_output_proto :: helper_proto where
  "bpf_xdp_output_proto = Proto 121 CLong ''bpf_xdp_output''
     [(''ctx'', Ptr CVoid), (''map'', Ptr CVoid), (''flags'', U64), (''data'', Ptr CVoid),
      (''size'', U64)]"

definition bpf_get_netns_cookie_proto :: helper_proto where
  "bpf_get_netns_cookie_proto = Proto 122 U64 ''bpf_get_netns_cookie''
     [(''ctx'', Ptr CVoid)]"

definition bpf_get_current_ancestor_cgroup_id_proto :: helper_proto where
  "bpf_get_current_ancestor_cgroup_id_proto = Proto 123 U64 ''bpf_get_current_ancestor_cgroup_id''
     [(''ancestor_level'', CInt)]"

definition bpf_sk_assign_proto :: helper_proto where
  "bpf_sk_assign_proto = Proto 124 CLong ''bpf_sk_assign''
     [(''ctx'', Ptr CVoid), (''sk'', Ptr CVoid), (''flags'', U64)]"

definition bpf_ktime_get_boot_ns_proto :: helper_proto where
  "bpf_ktime_get_boot_ns_proto = Proto 125 U64 ''bpf_ktime_get_boot_ns''
     []"

definition bpf_seq_printf_proto :: helper_proto where
  "bpf_seq_printf_proto = Proto 126 CLong ''bpf_seq_printf''
     [(''m'', Ptr (Struct ''seq_file'')), (''fmt'', Ptr (Const CChar)), (''fmt_size'', U32),
      (''data'', Ptr (Const CVoid)), (''data_len'', U32)]"

definition bpf_seq_write_proto :: helper_proto where
  "bpf_seq_write_proto = Proto 127 CLong ''bpf_seq_write''
     [(''m'', Ptr (Struct ''seq_file'')), (''data'', Ptr (Const CVoid)), (''len'', U32)]"

definition bpf_sk_cgroup_id_proto :: helper_proto where
  "bpf_sk_cgroup_id_proto = Proto 128 U64 ''bpf_sk_cgroup_id''
     [(''sk'', Ptr CVoid)]"

definition bpf_sk_ancestor_cgroup_id_proto :: helper_proto where
  "bpf_sk_ancestor_cgroup_id_proto = Proto 129 U64 ''bpf_sk_ancestor_cgroup_id''
     [(''sk'', Ptr CVoid), (''ancestor_level'', CInt)]"

definition bpf_ringbuf_output_proto :: helper_proto where
  "bpf_ringbuf_output_proto = Proto 130 CLong ''bpf_ringbuf_output''
     [(''ringbuf'', Ptr CVoid), (''data'', Ptr CVoid), (''size'', U64), (''flags'', U64)]"

definition bpf_ringbuf_reserve_proto :: helper_proto where
  "bpf_ringbuf_reserve_proto = Proto 131 (Ptr CVoid) ''bpf_ringbuf_reserve''
     [(''ringbuf'', Ptr CVoid), (''size'', U64), (''flags'', U64)]"

definition bpf_ringbuf_submit_proto :: helper_proto where
  "bpf_ringbuf_submit_proto = Proto 132 CVoid ''bpf_ringbuf_submit''
     [(''data'', Ptr CVoid), (''flags'', U64)]"

definition bpf_ringbuf_discard_proto :: helper_proto where
  "bpf_ringbuf_discard_proto = Proto 133 CVoid ''bpf_ringbuf_discard''
     [(''data'', Ptr CVoid), (''flags'', U64)]"

definition bpf_ringbuf_query_proto :: helper_proto where
  "bpf_ringbuf_query_proto = Proto 134 U64 ''bpf_ringbuf_query''
     [(''ringbuf'', Ptr CVoid), (''flags'', U64)]"

definition bpf_csum_level_proto :: helper_proto where
  "bpf_csum_level_proto = Proto 135 CLong ''bpf_csum_level''
     [(''skb'', Ptr (Struct ''__sk_buff'')), (''level'', U64)]"

definition bpf_skc_to_tcp6_sock_proto :: helper_proto where
  "bpf_skc_to_tcp6_sock_proto = Proto 136 (Ptr (Struct ''tcp6_sock'')) ''bpf_skc_to_tcp6_sock''
     [(''sk'', Ptr CVoid)]"

definition bpf_skc_to_tcp_sock_proto :: helper_proto where
  "bpf_skc_to_tcp_sock_proto = Proto 137 (Ptr (Struct ''tcp_sock'')) ''bpf_skc_to_tcp_sock''
     [(''sk'', Ptr CVoid)]"

definition bpf_skc_to_tcp_timewait_sock_proto :: helper_proto where
  "bpf_skc_to_tcp_timewait_sock_proto = Proto 138 (Ptr (Struct ''tcp_timewait_sock'')) ''bpf_skc_to_tcp_timewait_sock''
     [(''sk'', Ptr CVoid)]"

definition bpf_skc_to_tcp_request_sock_proto :: helper_proto where
  "bpf_skc_to_tcp_request_sock_proto = Proto 139 (Ptr (Struct ''tcp_request_sock'')) ''bpf_skc_to_tcp_request_sock''
     [(''sk'', Ptr CVoid)]"

definition bpf_skc_to_udp6_sock_proto :: helper_proto where
  "bpf_skc_to_udp6_sock_proto = Proto 140 (Ptr (Struct ''udp6_sock'')) ''bpf_skc_to_udp6_sock''
     [(''sk'', Ptr CVoid)]"

definition bpf_get_task_stack_proto :: helper_proto where
  "bpf_get_task_stack_proto = Proto 141 CLong ''bpf_get_task_stack''
     [(''task'', Ptr (Struct ''task_struct'')), (''buf'', Ptr CVoid), (''size'', U32), (''flags'', U64)]"

definition bpf_load_hdr_opt_proto :: helper_proto where
  "bpf_load_hdr_opt_proto = Proto 142 CLong ''bpf_load_hdr_opt''
     [(''skops'', Ptr (Struct ''bpf_sock_ops'')), (''searchby_res'', Ptr CVoid), (''len'', U32),
      (''flags'', U64)]"

definition bpf_store_hdr_opt_proto :: helper_proto where
  "bpf_store_hdr_opt_proto = Proto 143 CLong ''bpf_store_hdr_opt''
     [(''skops'', Ptr (Struct ''bpf_sock_ops'')), (''from'', Ptr (Const CVoid)), (''len'', U32),
      (''flags'', U64)]"

definition bpf_reserve_hdr_opt_proto :: helper_proto where
  "bpf_reserve_hdr_opt_proto = Proto 144 CLong ''bpf_reserve_hdr_opt''
     [(''skops'', Ptr (Struct ''bpf_sock_ops'')), (''len'', U32), (''flags'', U64)]"

definition bpf_inode_storage_get_proto :: helper_proto where
  "bpf_inode_storage_get_proto = Proto 145 (Ptr CVoid) ''bpf_inode_storage_get''
     [(''map'', Ptr CVoid), (''inode'', Ptr CVoid), (''value'', Ptr CVoid), (''flags'', U64)]"

definition bpf_inode_storage_delete_proto :: helper_proto where
  "bpf_inode_storage_delete_proto = Proto 146 CInt ''bpf_inode_storage_delete''
     [(''map'', Ptr CVoid), (''inode'', Ptr CVoid)]"

definition bpf_d_path_proto :: helper_proto where
  "bpf_d_path_proto = Proto 147 CLong ''bpf_d_path''
     [(''path'', Ptr (Struct ''path'')), (''buf'', Ptr CChar), (''sz'', U32)]"

definition bpf_copy_from_user_proto :: helper_proto where
  "bpf_copy_from_user_proto = Proto 148 CLong ''bpf_copy_from_user''
     [(''dst'', Ptr CVoid), (''size'', U32), (''user_ptr'', Ptr (Const CVoid))]"

definition bpf_snprintf_btf_proto :: helper_proto where
  "bpf_snprintf_btf_proto = Proto 149 CLong ''bpf_snprintf_btf''
     [(''str'', Ptr CChar), (''str_size'', U32), (''ptr'', Ptr (Struct ''btf_ptr'')),
      (''btf_ptr_size'', U32), (''flags'', U64)]"

definition bpf_seq_printf_btf_proto :: helper_proto where
  "bpf_seq_printf_btf_proto = Proto 150 CLong ''bpf_seq_printf_btf''
     [(''m'', Ptr (Struct ''seq_file'')), (''ptr'', Ptr (Struct ''btf_ptr'')), (''ptr_size'', U32),
      (''flags'', U64)]"

definition bpf_skb_cgroup_classid_proto :: helper_proto where
  "bpf_skb_cgroup_classid_proto = Proto 151 U64 ''bpf_skb_cgroup_classid''
     [(''skb'', Ptr (Struct ''__sk_buff''))]"

definition bpf_redirect_neigh_proto :: helper_proto where
  "bpf_redirect_neigh_proto = Proto 152 CLong ''bpf_redirect_neigh''
     [(''ifindex'', U32), (''params'', Ptr (Struct ''bpf_redir_neigh'')), (''plen'', CInt),
      (''flags'', U64)]"

definition bpf_per_cpu_ptr_proto :: helper_proto where
  "bpf_per_cpu_ptr_proto = Proto 153 (Ptr CVoid) ''bpf_per_cpu_ptr''
     [(''percpu_ptr'', Ptr (Const CVoid)), (''cpu'', U32)]"

definition bpf_this_cpu_ptr_proto :: helper_proto where
  "bpf_this_cpu_ptr_proto = Proto 154 (Ptr CVoid) ''bpf_this_cpu_ptr''
     [(''percpu_ptr'', Ptr (Const CVoid))]"

definition bpf_redirect_peer_proto :: helper_proto where
  "bpf_redirect_peer_proto = Proto 155 CLong ''bpf_redirect_peer''
     [(''ifindex'', U32), (''flags'', U64)]"

definition bpf_task_storage_get_proto :: helper_proto where
  "bpf_task_storage_get_proto = Proto 156 (Ptr CVoid) ''bpf_task_storage_get''
     [(''map'', Ptr CVoid), (''task'', Ptr (Struct ''task_struct'')), (''value'', Ptr CVoid),
      (''flags'', U64)]"

definition bpf_task_storage_delete_proto :: helper_proto where
  "bpf_task_storage_delete_proto = Proto 157 CLong ''bpf_task_storage_delete''
     [(''map'', Ptr CVoid), (''task'', Ptr (Struct ''task_struct''))]"

definition bpf_get_current_task_btf_proto :: helper_proto where
  "bpf_get_current_task_btf_proto = Proto 158 (Ptr (Struct ''task_struct'')) ''bpf_get_current_task_btf''
     []"

definition bpf_bprm_opts_set_proto :: helper_proto where
  "bpf_bprm_opts_set_proto = Proto 159 CLong ''bpf_bprm_opts_set''
     [(''bprm'', Ptr (Struct ''linux_binprm'')), (''flags'', U64)]"

definition bpf_ktime_get_coarse_ns_proto :: helper_proto where
  "bpf_ktime_get_coarse_ns_proto = Proto 160 U64 ''bpf_ktime_get_coarse_ns''
     []"

definition bpf_ima_inode_hash_proto :: helper_proto where
  "bpf_ima_inode_hash_proto = Proto 161 CLong ''bpf_ima_inode_hash''
     [(''inode'', Ptr (Struct ''inode'')), (''dst'', Ptr CVoid), (''size'', U32)]"

definition bpf_sock_from_file_proto :: helper_proto where
  "bpf_sock_from_file_proto = Proto 162 (Ptr (Struct ''socket'')) ''bpf_sock_from_file''
     [(''file'', Ptr (Struct ''file''))]"

definition bpf_check_mtu_proto :: helper_proto where
  "bpf_check_mtu_proto = Proto 163 CLong ''bpf_check_mtu''
     [(''ctx'', Ptr CVoid), (''ifindex'', U32), (''mtu_len'', Ptr U32), (''len_diff'', S32),
      (''flags'', U64)]"

definition bpf_for_each_map_elem_proto :: helper_proto where
  "bpf_for_each_map_elem_proto = Proto 164 CLong ''bpf_for_each_map_elem''
     [(''map'', Ptr CVoid), (''callback_fn'', Ptr CVoid), (''callback_ctx'', Ptr CVoid),
      (''flags'', U64)]"

definition bpf_snprintf_proto :: helper_proto where
  "bpf_snprintf_proto = Proto 165 CLong ''bpf_snprintf''
     [(''str'', Ptr CChar), (''str_size'', U32), (''fmt'', Ptr (Const CChar)), (''data'', Ptr U64),
      (''data_len'', U32)]"

definition bpf_sys_bpf_proto :: helper_proto where
  "bpf_sys_bpf_proto = Proto 166 CLong ''bpf_sys_bpf''
     [(''cmd'', U32), (''attr'', Ptr CVoid), (''attr_size'', U32)]"

definition bpf_btf_find_by_name_kind_proto :: helper_proto where
  "bpf_btf_find_by_name_kind_proto = Proto 167 CLong ''bpf_btf_find_by_name_kind''
     [(''name'', Ptr CChar), (''name_sz'', CInt), (''kind'', U32), (''flags'', CInt)]"

definition bpf_sys_close_proto :: helper_proto where
  "bpf_sys_close_proto = Proto 168 CLong ''bpf_sys_close''
     [(''fd'', U32)]"

definition bpf_timer_init_proto :: helper_proto where
  "bpf_timer_init_proto = Proto 169 CLong ''bpf_timer_init''
     [(''timer'', Ptr (Struct ''bpf_timer'')), (''map'', Ptr CVoid), (''flags'', U64)]"

definition bpf_timer_set_callback_proto :: helper_proto where
  "bpf_timer_set_callback_proto = Proto 170 CLong ''bpf_timer_set_callback''
     [(''timer'', Ptr (Struct ''bpf_timer'')), (''callback_fn'', Ptr CVoid)]"

definition bpf_timer_start_proto :: helper_proto where
  "bpf_timer_start_proto = Proto 171 CLong ''bpf_timer_start''
     [(''timer'', Ptr (Struct ''bpf_timer'')), (''nsecs'', U64), (''flags'', U64)]"

definition bpf_timer_cancel_proto :: helper_proto where
  "bpf_timer_cancel_proto = Proto 172 CLong ''bpf_timer_cancel''
     [(''timer'', Ptr (Struct ''bpf_timer''))]"

definition bpf_get_func_ip_proto :: helper_proto where
  "bpf_get_func_ip_proto = Proto 173 U64 ''bpf_get_func_ip''
     [(''ctx'', Ptr CVoid)]"

definition bpf_get_attach_cookie_proto :: helper_proto where
  "bpf_get_attach_cookie_proto = Proto 174 U64 ''bpf_get_attach_cookie''
     [(''ctx'', Ptr CVoid)]"

definition bpf_task_pt_regs_proto :: helper_proto where
  "bpf_task_pt_regs_proto = Proto 175 CLong ''bpf_task_pt_regs''
     [(''task'', Ptr (Struct ''task_struct''))]"

definition bpf_get_branch_snapshot_proto :: helper_proto where
  "bpf_get_branch_snapshot_proto = Proto 176 CLong ''bpf_get_branch_snapshot''
     [(''entries'', Ptr CVoid), (''size'', U32), (''flags'', U64)]"

definition bpf_trace_vprintk_proto :: helper_proto where
  "bpf_trace_vprintk_proto = Proto 177 CLong ''bpf_trace_vprintk''
     [(''fmt'', Ptr (Const CChar)), (''fmt_size'', U32), (''data'', Ptr (Const CVoid)),
      (''data_len'', U32)]"

definition bpf_skc_to_unix_sock_proto :: helper_proto where
  "bpf_skc_to_unix_sock_proto = Proto 178 (Ptr (Struct ''unix_sock'')) ''bpf_skc_to_unix_sock''
     [(''sk'', Ptr CVoid)]"

definition bpf_kallsyms_lookup_name_proto :: helper_proto where
  "bpf_kallsyms_lookup_name_proto = Proto 179 CLong ''bpf_kallsyms_lookup_name''
     [(''name'', Ptr (Const CChar)), (''name_sz'', CInt), (''flags'', CInt), (''res'', Ptr U64)]"

definition bpf_find_vma_proto :: helper_proto where
  "bpf_find_vma_proto = Proto 180 CLong ''bpf_find_vma''
     [(''task'', Ptr (Struct ''task_struct'')), (''addr'', U64), (''callback_fn'', Ptr CVoid),
      (''callback_ctx'', Ptr CVoid), (''flags'', U64)]"

definition bpf_loop_proto :: helper_proto where
  "bpf_loop_proto = Proto 181 CLong ''bpf_loop''
     [(''nr_loops'', U32), (''callback_fn'', Ptr CVoid), (''callback_ctx'', Ptr CVoid), (''flags'', U64)]"

definition bpf_strncmp_proto :: helper_proto where
  "bpf_strncmp_proto = Proto 182 CLong ''bpf_strncmp''
     [(''s1'', Ptr (Const CChar)), (''s1_sz'', U32), (''s2'', Ptr (Const CChar))]"

definition bpf_get_func_arg_proto :: helper_proto where
  "bpf_get_func_arg_proto = Proto 183 CLong ''bpf_get_func_arg''
     [(''ctx'', Ptr CVoid), (''n'', U32), (''value'', Ptr U64)]"

definition bpf_get_func_ret_proto :: helper_proto where
  "bpf_get_func_ret_proto = Proto 184 CLong ''bpf_get_func_ret''
     [(''ctx'', Ptr CVoid), (''value'', Ptr U64)]"

definition bpf_get_func_arg_cnt_proto :: helper_proto where
  "bpf_get_func_arg_cnt_proto = Proto 185 CLong ''bpf_get_func_arg_cnt''
     [(''ctx'', Ptr CVoid)]"

definition bpf_get_retval_proto :: helper_proto where
  "bpf_get_retval_proto = Proto 186 CInt ''bpf_get_retval''
     []"

definition bpf_set_retval_proto :: helper_proto where
  "bpf_set_retval_proto = Proto 187 CInt ''bpf_set_retval''
     [(''retval'', CInt)]"

definition bpf_xdp_get_buff_len_proto :: helper_proto where
  "bpf_xdp_get_buff_len_proto = Proto 188 U64 ''bpf_xdp_get_buff_len''
     [(''xdp_md'', Ptr (Struct ''xdp_md''))]"

definition bpf_xdp_load_bytes_proto :: helper_proto where
  "bpf_xdp_load_bytes_proto = Proto 189 CLong ''bpf_xdp_load_bytes''
     [(''xdp_md'', Ptr (Struct ''xdp_md'')), (''offset'', U32), (''buf'', Ptr CVoid), (''len'', U32)]"

definition bpf_xdp_store_bytes_proto :: helper_proto where
  "bpf_xdp_store_bytes_proto = Proto 190 CLong ''bpf_xdp_store_bytes''
     [(''xdp_md'', Ptr (Struct ''xdp_md'')), (''offset'', U32), (''buf'', Ptr CVoid), (''len'', U32)]"

definition bpf_copy_from_user_task_proto :: helper_proto where
  "bpf_copy_from_user_task_proto = Proto 191 CLong ''bpf_copy_from_user_task''
     [(''dst'', Ptr CVoid), (''size'', U32), (''user_ptr'', Ptr (Const CVoid)),
      (''tsk'', Ptr (Struct ''task_struct'')), (''flags'', U64)]"

definition bpf_skb_set_tstamp_proto :: helper_proto where
  "bpf_skb_set_tstamp_proto = Proto 192 CLong ''bpf_skb_set_tstamp''
     [(''skb'', Ptr (Struct ''__sk_buff'')), (''tstamp'', U64), (''tstamp_type'', U32)]"

definition bpf_ima_file_hash_proto :: helper_proto where
  "bpf_ima_file_hash_proto = Proto 193 CLong ''bpf_ima_file_hash''
     [(''file'', Ptr (Struct ''file'')), (''dst'', Ptr CVoid), (''size'', U32)]"

definition bpf_kptr_xchg_proto :: helper_proto where
  "bpf_kptr_xchg_proto = Proto 194 (Ptr CVoid) ''bpf_kptr_xchg''
     [(''map_value'', Ptr CVoid), (''ptr'', Ptr CVoid)]"

definition bpf_map_lookup_percpu_elem_proto :: helper_proto where
  "bpf_map_lookup_percpu_elem_proto = Proto 195 (Ptr CVoid) ''bpf_map_lookup_percpu_elem''
     [(''map'', Ptr CVoid), (''key'', Ptr (Const CVoid)), (''cpu'', U32)]"

definition bpf_skc_to_mptcp_sock_proto :: helper_proto where
  "bpf_skc_to_mptcp_sock_proto = Proto 196 (Ptr (Struct ''mptcp_sock'')) ''bpf_skc_to_mptcp_sock''
     [(''sk'', Ptr CVoid)]"

definition bpf_dynptr_from_mem_proto :: helper_proto where
  "bpf_dynptr_from_mem_proto = Proto 197 CLong ''bpf_dynptr_from_mem''
     [(''data'', Ptr CVoid), (''size'', U32), (''flags'', U64), (''ptr'', Ptr (Struct ''bpf_dynptr''))]"

definition bpf_ringbuf_reserve_dynptr_proto :: helper_proto where
  "bpf_ringbuf_reserve_dynptr_proto = Proto 198 CLong ''bpf_ringbuf_reserve_dynptr''
     [(''ringbuf'', Ptr CVoid), (''size'', U32), (''flags'', U64),
      (''ptr'', Ptr (Struct ''bpf_dynptr''))]"

definition bpf_ringbuf_submit_dynptr_proto :: helper_proto where
  "bpf_ringbuf_submit_dynptr_proto = Proto 199 CVoid ''bpf_ringbuf_submit_dynptr''
     [(''ptr'', Ptr (Struct ''bpf_dynptr'')), (''flags'', U64)]"

definition bpf_ringbuf_discard_dynptr_proto :: helper_proto where
  "bpf_ringbuf_discard_dynptr_proto = Proto 200 CVoid ''bpf_ringbuf_discard_dynptr''
     [(''ptr'', Ptr (Struct ''bpf_dynptr'')), (''flags'', U64)]"

definition bpf_dynptr_read_proto :: helper_proto where
  "bpf_dynptr_read_proto = Proto 201 CLong ''bpf_dynptr_read''
     [(''dst'', Ptr CVoid), (''len'', U32), (''src'', Ptr (Struct ''bpf_dynptr'')), (''offset'', U32),
      (''flags'', U64)]"

definition bpf_dynptr_write_proto :: helper_proto where
  "bpf_dynptr_write_proto = Proto 202 CLong ''bpf_dynptr_write''
     [(''dst'', Ptr (Struct ''bpf_dynptr'')), (''offset'', U32), (''src'', Ptr CVoid), (''len'', U32),
      (''flags'', U64)]"

definition bpf_dynptr_data_proto :: helper_proto where
  "bpf_dynptr_data_proto = Proto 203 (Ptr CVoid) ''bpf_dynptr_data''
     [(''ptr'', Ptr (Struct ''bpf_dynptr'')), (''offset'', U32), (''len'', U32)]"

definition bpf_tcp_raw_gen_syncookie_ipv4_proto :: helper_proto where
  "bpf_tcp_raw_gen_syncookie_ipv4_proto = Proto 204 S64 ''bpf_tcp_raw_gen_syncookie_ipv4''
     [(''iph'', Ptr (Struct ''iphdr'')), (''th'', Ptr (Struct ''tcphdr'')), (''th_len'', U32)]"

definition bpf_tcp_raw_gen_syncookie_ipv6_proto :: helper_proto where
  "bpf_tcp_raw_gen_syncookie_ipv6_proto = Proto 205 S64 ''bpf_tcp_raw_gen_syncookie_ipv6''
     [(''iph'', Ptr (Struct ''ipv6hdr'')), (''th'', Ptr (Struct ''tcphdr'')), (''th_len'', U32)]"

definition bpf_tcp_raw_check_syncookie_ipv4_proto :: helper_proto where
  "bpf_tcp_raw_check_syncookie_ipv4_proto = Proto 206 CLong ''bpf_tcp_raw_check_syncookie_ipv4''
     [(''iph'', Ptr (Struct ''iphdr'')), (''th'', Ptr (Struct ''tcphdr''))]"

definition bpf_tcp_raw_check_syncookie_ipv6_proto :: helper_proto where
  "bpf_tcp_raw_check_syncookie_ipv6_proto = Proto 207 CLong ''bpf_tcp_raw_check_syncookie_ipv6''
     [(''iph'', Ptr (Struct ''ipv6hdr'')), (''th'', Ptr (Struct ''tcphdr''))]"

definition bpf_ktime_get_tai_ns_proto :: helper_proto where
  "bpf_ktime_get_tai_ns_proto = Proto 208 U64 ''bpf_ktime_get_tai_ns''
     []"

text \<open>In the order of the file.\<close>

definition helper_protos :: "helper_proto list" where
  "helper_protos = [
    bpf_map_lookup_elem_proto, bpf_map_update_elem_proto, bpf_map_delete_elem_proto, bpf_probe_read_proto,
    bpf_ktime_get_ns_proto, bpf_trace_printk_proto, bpf_get_prandom_u32_proto, bpf_get_smp_processor_id_proto,
    bpf_skb_store_bytes_proto, bpf_l3_csum_replace_proto, bpf_l4_csum_replace_proto, bpf_tail_call_proto,
    bpf_clone_redirect_proto, bpf_get_current_pid_tgid_proto, bpf_get_current_uid_gid_proto,
    bpf_get_current_comm_proto, bpf_get_cgroup_classid_proto, bpf_skb_vlan_push_proto, bpf_skb_vlan_pop_proto,
    bpf_skb_get_tunnel_key_proto, bpf_skb_set_tunnel_key_proto, bpf_perf_event_read_proto, bpf_redirect_proto,
    bpf_get_route_realm_proto, bpf_perf_event_output_proto, bpf_skb_load_bytes_proto, bpf_get_stackid_proto,
    bpf_csum_diff_proto, bpf_skb_get_tunnel_opt_proto, bpf_skb_set_tunnel_opt_proto, bpf_skb_change_proto_proto,
    bpf_skb_change_type_proto, bpf_skb_under_cgroup_proto, bpf_get_hash_recalc_proto, bpf_get_current_task_proto,
    bpf_probe_write_user_proto, bpf_current_task_under_cgroup_proto, bpf_skb_change_tail_proto,
    bpf_skb_pull_data_proto, bpf_csum_update_proto, bpf_set_hash_invalid_proto, bpf_get_numa_node_id_proto,
    bpf_skb_change_head_proto, bpf_xdp_adjust_head_proto, bpf_probe_read_str_proto, bpf_get_socket_cookie_proto,
    bpf_get_socket_uid_proto, bpf_set_hash_proto, bpf_setsockopt_proto, bpf_skb_adjust_room_proto,
    bpf_redirect_map_proto, bpf_sk_redirect_map_proto, bpf_sock_map_update_proto, bpf_xdp_adjust_meta_proto,
    bpf_perf_event_read_value_proto, bpf_perf_prog_read_value_proto, bpf_getsockopt_proto,
    bpf_override_return_proto, bpf_sock_ops_cb_flags_set_proto, bpf_msg_redirect_map_proto,
    bpf_msg_apply_bytes_proto, bpf_msg_cork_bytes_proto, bpf_msg_pull_data_proto, bpf_bind_proto,
    bpf_xdp_adjust_tail_proto, bpf_skb_get_xfrm_state_proto, bpf_get_stack_proto,
    bpf_skb_load_bytes_relative_proto, bpf_fib_lookup_proto, bpf_sock_hash_update_proto,
    bpf_msg_redirect_hash_proto, bpf_sk_redirect_hash_proto, bpf_lwt_push_encap_proto,
    bpf_lwt_seg6_store_bytes_proto, bpf_lwt_seg6_adjust_srh_proto, bpf_lwt_seg6_action_proto,
    bpf_rc_repeat_proto, bpf_rc_keydown_proto, bpf_skb_cgroup_id_proto, bpf_get_current_cgroup_id_proto,
    bpf_get_local_storage_proto, bpf_sk_select_reuseport_proto, bpf_skb_ancestor_cgroup_id_proto,
    bpf_sk_lookup_tcp_proto, bpf_sk_lookup_udp_proto, bpf_sk_release_proto, bpf_map_push_elem_proto,
    bpf_map_pop_elem_proto, bpf_map_peek_elem_proto, bpf_msg_push_data_proto, bpf_msg_pop_data_proto,
    bpf_rc_pointer_rel_proto, bpf_spin_lock_proto, bpf_spin_unlock_proto, bpf_sk_fullsock_proto,
    bpf_tcp_sock_proto, bpf_skb_ecn_set_ce_proto, bpf_get_listener_sock_proto, bpf_skc_lookup_tcp_proto,
    bpf_tcp_check_syncookie_proto, bpf_sysctl_get_name_proto, bpf_sysctl_get_current_value_proto,
    bpf_sysctl_get_new_value_proto, bpf_sysctl_set_new_value_proto, bpf_strtol_proto, bpf_strtoul_proto,
    bpf_sk_storage_get_proto, bpf_sk_storage_delete_proto, bpf_send_signal_proto, bpf_tcp_gen_syncookie_proto,
    bpf_skb_output_proto, bpf_probe_read_user_proto, bpf_probe_read_kernel_proto, bpf_probe_read_user_str_proto,
    bpf_probe_read_kernel_str_proto, bpf_tcp_send_ack_proto, bpf_send_signal_thread_proto, bpf_jiffies64_proto,
    bpf_read_branch_records_proto, bpf_get_ns_current_pid_tgid_proto, bpf_xdp_output_proto,
    bpf_get_netns_cookie_proto, bpf_get_current_ancestor_cgroup_id_proto, bpf_sk_assign_proto,
    bpf_ktime_get_boot_ns_proto, bpf_seq_printf_proto, bpf_seq_write_proto, bpf_sk_cgroup_id_proto,
    bpf_sk_ancestor_cgroup_id_proto, bpf_ringbuf_output_proto, bpf_ringbuf_reserve_proto,
    bpf_ringbuf_submit_proto, bpf_ringbuf_discard_proto, bpf_ringbuf_query_proto, bpf_csum_level_proto,
    bpf_skc_to_tcp6_sock_proto, bpf_skc_to_tcp_sock_proto, bpf_skc_to_tcp_timewait_sock_proto,
    bpf_skc_to_tcp_request_sock_proto, bpf_skc_to_udp6_sock_proto, bpf_get_task_stack_proto,
    bpf_load_hdr_opt_proto, bpf_store_hdr_opt_proto, bpf_reserve_hdr_opt_proto, bpf_inode_storage_get_proto,
    bpf_inode_storage_delete_proto, bpf_d_path_proto, bpf_copy_from_user_proto, bpf_snprintf_btf_proto,
    bpf_seq_printf_btf_proto, bpf_skb_cgroup_classid_proto, bpf_redirect_neigh_proto, bpf_per_cpu_ptr_proto,
    bpf_this_cpu_ptr_proto, bpf_redirect_peer_proto, bpf_task_storage_get_proto, bpf_task_storage_delete_proto,
    bpf_get_current_task_btf_proto, bpf_bprm_opts_set_proto, bpf_ktime_get_coarse_ns_proto,
    bpf_ima_inode_hash_proto, bpf_sock_from_file_proto, bpf_check_mtu_proto, bpf_for_each_map_elem_proto,
    bpf_snprintf_proto, bpf_sys_bpf_proto, bpf_btf_find_by_name_kind_proto, bpf_sys_close_proto,
    bpf_timer_init_proto, bpf_timer_set_callback_proto, bpf_timer_start_proto, bpf_timer_cancel_proto,
    bpf_get_func_ip_proto, bpf_get_attach_cookie_proto, bpf_task_pt_regs_proto, bpf_get_branch_snapshot_proto,
    bpf_trace_vprintk_proto, bpf_skc_to_unix_sock_proto, bpf_kallsyms_lookup_name_proto, bpf_find_vma_proto,
    bpf_loop_proto, bpf_strncmp_proto, bpf_get_func_arg_proto, bpf_get_func_ret_proto,
    bpf_get_func_arg_cnt_proto, bpf_get_retval_proto, bpf_set_retval_proto, bpf_xdp_get_buff_len_proto,
    bpf_xdp_load_bytes_proto, bpf_xdp_store_bytes_proto, bpf_copy_from_user_task_proto, bpf_skb_set_tstamp_proto,
    bpf_ima_file_hash_proto, bpf_kptr_xchg_proto, bpf_map_lookup_percpu_elem_proto, bpf_skc_to_mptcp_sock_proto,
    bpf_dynptr_from_mem_proto, bpf_ringbuf_reserve_dynptr_proto, bpf_ringbuf_submit_dynptr_proto,
    bpf_ringbuf_discard_dynptr_proto, bpf_dynptr_read_proto, bpf_dynptr_write_proto, bpf_dynptr_data_proto,
    bpf_tcp_raw_gen_syncookie_ipv4_proto, bpf_tcp_raw_gen_syncookie_ipv6_proto,
    bpf_tcp_raw_check_syncookie_ipv4_proto, bpf_tcp_raw_check_syncookie_ipv6_proto, bpf_ktime_get_tai_ns_proto]"

lemmas helpers_defs =
  bpf_map_lookup_elem_proto_def bpf_map_update_elem_proto_def bpf_map_delete_elem_proto_def
  bpf_probe_read_proto_def bpf_ktime_get_ns_proto_def bpf_trace_printk_proto_def bpf_get_prandom_u32_proto_def
  bpf_get_smp_processor_id_proto_def bpf_skb_store_bytes_proto_def bpf_l3_csum_replace_proto_def
  bpf_l4_csum_replace_proto_def bpf_tail_call_proto_def bpf_clone_redirect_proto_def
  bpf_get_current_pid_tgid_proto_def bpf_get_current_uid_gid_proto_def bpf_get_current_comm_proto_def
  bpf_get_cgroup_classid_proto_def bpf_skb_vlan_push_proto_def bpf_skb_vlan_pop_proto_def
  bpf_skb_get_tunnel_key_proto_def bpf_skb_set_tunnel_key_proto_def bpf_perf_event_read_proto_def
  bpf_redirect_proto_def bpf_get_route_realm_proto_def bpf_perf_event_output_proto_def
  bpf_skb_load_bytes_proto_def bpf_get_stackid_proto_def bpf_csum_diff_proto_def
  bpf_skb_get_tunnel_opt_proto_def bpf_skb_set_tunnel_opt_proto_def bpf_skb_change_proto_proto_def
  bpf_skb_change_type_proto_def bpf_skb_under_cgroup_proto_def bpf_get_hash_recalc_proto_def
  bpf_get_current_task_proto_def bpf_probe_write_user_proto_def bpf_current_task_under_cgroup_proto_def
  bpf_skb_change_tail_proto_def bpf_skb_pull_data_proto_def bpf_csum_update_proto_def
  bpf_set_hash_invalid_proto_def bpf_get_numa_node_id_proto_def bpf_skb_change_head_proto_def
  bpf_xdp_adjust_head_proto_def bpf_probe_read_str_proto_def bpf_get_socket_cookie_proto_def
  bpf_get_socket_uid_proto_def bpf_set_hash_proto_def bpf_setsockopt_proto_def bpf_skb_adjust_room_proto_def
  bpf_redirect_map_proto_def bpf_sk_redirect_map_proto_def bpf_sock_map_update_proto_def
  bpf_xdp_adjust_meta_proto_def bpf_perf_event_read_value_proto_def bpf_perf_prog_read_value_proto_def
  bpf_getsockopt_proto_def bpf_override_return_proto_def bpf_sock_ops_cb_flags_set_proto_def
  bpf_msg_redirect_map_proto_def bpf_msg_apply_bytes_proto_def bpf_msg_cork_bytes_proto_def
  bpf_msg_pull_data_proto_def bpf_bind_proto_def bpf_xdp_adjust_tail_proto_def bpf_skb_get_xfrm_state_proto_def
  bpf_get_stack_proto_def bpf_skb_load_bytes_relative_proto_def bpf_fib_lookup_proto_def
  bpf_sock_hash_update_proto_def bpf_msg_redirect_hash_proto_def bpf_sk_redirect_hash_proto_def
  bpf_lwt_push_encap_proto_def bpf_lwt_seg6_store_bytes_proto_def bpf_lwt_seg6_adjust_srh_proto_def
  bpf_lwt_seg6_action_proto_def bpf_rc_repeat_proto_def bpf_rc_keydown_proto_def bpf_skb_cgroup_id_proto_def
  bpf_get_current_cgroup_id_proto_def bpf_get_local_storage_proto_def bpf_sk_select_reuseport_proto_def
  bpf_skb_ancestor_cgroup_id_proto_def bpf_sk_lookup_tcp_proto_def bpf_sk_lookup_udp_proto_def
  bpf_sk_release_proto_def bpf_map_push_elem_proto_def bpf_map_pop_elem_proto_def bpf_map_peek_elem_proto_def
  bpf_msg_push_data_proto_def bpf_msg_pop_data_proto_def bpf_rc_pointer_rel_proto_def bpf_spin_lock_proto_def
  bpf_spin_unlock_proto_def bpf_sk_fullsock_proto_def bpf_tcp_sock_proto_def bpf_skb_ecn_set_ce_proto_def
  bpf_get_listener_sock_proto_def bpf_skc_lookup_tcp_proto_def bpf_tcp_check_syncookie_proto_def
  bpf_sysctl_get_name_proto_def bpf_sysctl_get_current_value_proto_def bpf_sysctl_get_new_value_proto_def
  bpf_sysctl_set_new_value_proto_def bpf_strtol_proto_def bpf_strtoul_proto_def bpf_sk_storage_get_proto_def
  bpf_sk_storage_delete_proto_def bpf_send_signal_proto_def bpf_tcp_gen_syncookie_proto_def
  bpf_skb_output_proto_def bpf_probe_read_user_proto_def bpf_probe_read_kernel_proto_def
  bpf_probe_read_user_str_proto_def bpf_probe_read_kernel_str_proto_def bpf_tcp_send_ack_proto_def
  bpf_send_signal_thread_proto_def bpf_jiffies64_proto_def bpf_read_branch_records_proto_def
  bpf_get_ns_current_pid_tgid_proto_def bpf_xdp_output_proto_def bpf_get_netns_cookie_proto_def
  bpf_get_current_ancestor_cgroup_id_proto_def bpf_sk_assign_proto_def bpf_ktime_get_boot_ns_proto_def
  bpf_seq_printf_proto_def bpf_seq_write_proto_def bpf_sk_cgroup_id_proto_def
  bpf_sk_ancestor_cgroup_id_proto_def bpf_ringbuf_output_proto_def bpf_ringbuf_reserve_proto_def
  bpf_ringbuf_submit_proto_def bpf_ringbuf_discard_proto_def bpf_ringbuf_query_proto_def
  bpf_csum_level_proto_def bpf_skc_to_tcp6_sock_proto_def bpf_skc_to_tcp_sock_proto_def
  bpf_skc_to_tcp_timewait_sock_proto_def bpf_skc_to_tcp_request_sock_proto_def bpf_skc_to_udp6_sock_proto_def
  bpf_get_task_stack_proto_def bpf_load_hdr_opt_proto_def bpf_store_hdr_opt_proto_def
  bpf_reserve_hdr_opt_proto_def bpf_inode_storage_get_proto_def bpf_inode_storage_delete_proto_def
  bpf_d_path_proto_def bpf_copy_from_user_proto_def bpf_snprintf_btf_proto_def bpf_seq_printf_btf_proto_def
  bpf_skb_cgroup_classid_proto_def bpf_redirect_neigh_proto_def bpf_per_cpu_ptr_proto_def
  bpf_this_cpu_ptr_proto_def bpf_redirect_peer_proto_def bpf_task_storage_get_proto_def
  bpf_task_storage_delete_proto_def bpf_get_current_task_btf_proto_def bpf_bprm_opts_set_proto_def
  bpf_ktime_get_coarse_ns_proto_def bpf_ima_inode_hash_proto_def bpf_sock_from_file_proto_def
  bpf_check_mtu_proto_def bpf_for_each_map_elem_proto_def bpf_snprintf_proto_def bpf_sys_bpf_proto_def
  bpf_btf_find_by_name_kind_proto_def bpf_sys_close_proto_def bpf_timer_init_proto_def
  bpf_timer_set_callback_proto_def bpf_timer_start_proto_def bpf_timer_cancel_proto_def
  bpf_get_func_ip_proto_def bpf_get_attach_cookie_proto_def bpf_task_pt_regs_proto_def
  bpf_get_branch_snapshot_proto_def bpf_trace_vprintk_proto_def bpf_skc_to_unix_sock_proto_def
  bpf_kallsyms_lookup_name_proto_def bpf_find_vma_proto_def bpf_loop_proto_def bpf_strncmp_proto_def
  bpf_get_func_arg_proto_def bpf_get_func_ret_proto_def bpf_get_func_arg_cnt_proto_def bpf_get_retval_proto_def
  bpf_set_retval_proto_def bpf_xdp_get_buff_len_proto_def bpf_xdp_load_bytes_proto_def
  bpf_xdp_store_bytes_proto_def bpf_copy_from_user_task_proto_def bpf_skb_set_tstamp_proto_def
  bpf_ima_file_hash_proto_def bpf_kptr_xchg_proto_def bpf_map_lookup_percpu_elem_proto_def
  bpf_skc_to_mptcp_sock_proto_def bpf_dynptr_from_mem_proto_def bpf_ringbuf_reserve_dynptr_proto_def
  bpf_ringbuf_submit_dynptr_proto_def bpf_ringbuf_discard_dynptr_proto_def bpf_dynptr_read_proto_def
  bpf_dynptr_write_proto_def bpf_dynptr_data_proto_def bpf_tcp_raw_gen_syncookie_ipv4_proto_def
  bpf_tcp_raw_gen_syncookie_ipv6_proto_def bpf_tcp_raw_check_syncookie_ipv4_proto_def
  bpf_tcp_raw_check_syncookie_ipv6_proto_def bpf_ktime_get_tai_ns_proto_def

section \<open>Lookup\<close>

text \<open>The declaration a \<open>call\<close> instruction with operand \<open>n\<close> refers to.\<close>

definition helper_by_id :: "nat \<Rightarrow> helper_proto option" where
  "helper_by_id n = find (\<lambda>p. hp_id p = n) helper_protos"

definition helper_by_name :: "string \<Rightarrow> helper_proto option" where
  "helper_by_name s = find (\<lambda>p. hp_name p = s) helper_protos"

lemma helper_protos_ids: "map hp_id helper_protos = [1..<209]"
  by code_simp

lemma helper_protos_arity: "list_all (\<lambda>p. length (hp_args p) \<le> 5) helper_protos"
  by code_simp

section \<open>Properties\<close>

lemma distinct_helper_ids: "distinct (map hp_id helper_protos)"
  by (simp add: helper_protos_ids)

lemma find_id:
  assumes "distinct (map hp_id ps)"
  shows "find (\<lambda>p. hp_id p = n) ps = Some p \<longleftrightarrow> p \<in> set ps \<and> hp_id p = n"
  using assms by (induction ps) force+

text \<open>The table of the helpers. Their numbers are 1 to 208 in the order of the declarations, so
  that each of these numbers, and no other, is the number of exactly one declaration; and each
  helper can be called, since its arguments fit the five argument registers R1 to R5.\<close>

lemma helper_numbers:
  "(helper_by_id n = Some p \<longleftrightarrow> p \<in> set helper_protos \<and> hp_id p = n) \<and>
   (helper_by_id n = None \<longleftrightarrow> n < 1 \<or> 208 < n) \<and>
   (\<forall>q \<in> set helper_protos. length (hp_args q) \<le> 5)"
proof -
  have "helper_by_id n = None \<longleftrightarrow> n \<notin> set (map hp_id helper_protos)"
    by (auto simp: helper_by_id_def find_None_iff)
  then have none: "helper_by_id n = None \<longleftrightarrow> n < 1 \<or> 208 < n"
    by (simp only: helper_protos_ids) auto
  have "\<forall>q \<in> set helper_protos. length (hp_args q) \<le> 5"
    using helper_protos_arity by (simp only: list_all_iff)
  with none show ?thesis
    using find_id [OF distinct_helper_ids, of n p] by (simp only: helper_by_id_def)
qed

text \<open>The instruction \<open>call 113\<close> is \<open>bpf_probe_read_kernel\<close>.\<close>

lemma helper_numbers_instance:
  "map_option hp_name (helper_by_id 113) = Some ''bpf_probe_read_kernel''"
proof -
  let ?p = "Proto 113 CLong ''bpf_probe_read_kernel''
      [(''dst'', Ptr CVoid), (''size'', U32), (''unsafe_ptr'', Ptr (Const CVoid))]"
  have "?p \<in> set helper_protos"
    unfolding helper_protos_def bpf_probe_read_kernel_proto_def by simp
  then show ?thesis using helper_numbers [of 113 ?p] by simp
qed

end
