(* ===== verification/Kernel_Calls.thy ===== *)
theory Kernel_Calls
  imports Bytecode Hello_Kernel Helper_Table
begin

text \<open>
  The helper calls of the bytecode programs, as \<open>bpf_helper_defs.h\<close> documents them: the
  machine's registers and memory on one side, the map operations and helper results that
  the models of the C programs take as arguments on the other.
\<close>

section \<open>Kernel and world\<close>

text \<open>
  A kernel has the map of the program, with the sizes and the layouts of its keys and
  values, the results of the helpers for the current event, and the result of
  \<open>bpf_trace_printk\<close> and \<open>bpf_perf_event_output\<close>, which no program looks at.
\<close>

record ('m, 'k, 'v) kernel =
  k_ops :: "('m, 'k, 'v) map_ops"
  key_size :: nat
  key_of :: "bytes \<Rightarrow> 'k"
  value_size :: nat
  value_of :: "bytes \<Rightarrow> 'v"
  value_bytes :: "'v \<Rightarrow> bytes"
  k_env :: probe_env
  k_result :: u64

record 'm kworld =
  k_trace :: trace
  k_map :: 'm
  k_out :: "bytes list"

section \<open>The helpers\<close>

text \<open>The conversions of a format and the value each prints of its 64-bit argument.\<close>

fun conversions :: "string \<Rightarrow> char list" where
  "conversions (x # y # ys) =
     (if x = CHR ''%'' then y # conversions ys else conversions (y # ys))"
| "conversions _ = []"

definition conv_value :: "char \<Rightarrow> u64 \<Rightarrow> int" where
  "conv_value x w = (if x = CHR ''x'' then uint (ucast w :: u32) else sint (ucast w :: u32))"

fun print_args :: "char list \<Rightarrow> val option list \<Rightarrow> int list option" where
  "print_args [] rs = Some []"
| "print_args (x # xs) (Some (Scalar w) # rs) = map_option (Cons (conv_value x w)) (print_args xs rs)"
| "print_args _ _ = None"

definition call_printk :: "('m, 'k, 'v) kernel \<Rightarrow> 'm kworld helper_fn" where
  "call_printk K n args mm w =
     (case args of
        Some (Addr r a) # Some (Scalar k) # rest \<Rightarrow>
          (case read_bytes mm r a (unat k) of
             None \<Rightarrow> Inl Bad_call
           | Some bs \<Rightarrow>
               let fmt = map (\<lambda>b. char_of (unat b)) (takeWhile (\<lambda>b. b \<noteq> 0) bs)
               in (case print_args (conversions fmt) rest of
                     None \<Rightarrow> Inl Bad_call
                   | Some xs \<Rightarrow> Inr (Scalar (k_result K), mm,
                       w\<lparr>k_trace := bpf_printk fmt xs (k_trace w)\<rparr>)))
      | _ \<Rightarrow> Inl Bad_call)"

text \<open>Where the maps of a program lie in the section \<open>.maps\<close> of its object: the hash map comes first
  and takes 32 bytes, the perf event array follows.\<close>

definition hash_map_at :: int where "hash_map_at = 0"
definition perf_map_at :: int where "perf_map_at = 32"

definition call_lookup :: "('m, 'k, 'v) kernel \<Rightarrow> 'm kworld helper_fn" where
  "call_lookup K n args mm w =
     (case args of
        Some (Addr Map_object j) # Some (Addr r a) # _ \<Rightarrow> if j \<noteq> hash_map_at then Inl Bad_call else
          (case read_bytes mm r a (key_size K) of
             None \<Rightarrow> Inl Bad_call
           | Some bs \<Rightarrow> Inr (case map_lookup_elem (k_ops K) (k_map w) (key_of K bs) of
                 None \<Rightarrow> (Scalar 0, mm, w)
               | Some v \<Rightarrow> (Addr Map_value 0, put_bytes mm Map_value 0 (value_bytes K v), w)))
      | _ \<Rightarrow> Inl Bad_call)"

definition call_update :: "('m, 'k, 'v) kernel \<Rightarrow> 'm kworld helper_fn" where
  "call_update K n args mm w =
     (case args of
        Some (Addr Map_object j) # Some (Addr r a) # Some (Addr r' a') # Some (Scalar flags) # _ \<Rightarrow>
          if j \<noteq> hash_map_at then Inl Bad_call else
          (case (read_bytes mm r a (key_size K), read_bytes mm r' a' (value_size K)) of
             (Some bs, Some bs') \<Rightarrow>
               (case map_update_elem (k_ops K) (k_map w) (key_of K bs) (value_of K bs') flags of
                  (e, m) \<Rightarrow> Inr (Scalar e, mm, w\<lparr>k_map := m\<rparr>))
           | _ \<Rightarrow> Inl Bad_call)
      | _ \<Rightarrow> Inl Bad_call)"

text \<open>The destination of a copy is given by its bytes before the call, which must be readable.\<close>

definition call_probe_read :: "('m, 'k, 'v) kernel \<Rightarrow> 'm kworld helper_fn" where
  "call_probe_read K n args mm w =
     (case args of
        Some (Addr r a) # Some (Scalar k) # Some (Addr r' a') # _ \<Rightarrow>
          (case (read_bytes mm r a (unat k), read_bytes mm r' a' (unat k)) of
             (Some dst, Some src) \<Rightarrow>
               if writable mm r a (unat k) then
                 (case probe_read (k_env K) (unat k) src dst of
                    (e, dst') \<Rightarrow> Inr (Scalar e, put_bytes mm r a dst', w))
               else Inl Bad_call
           | _ \<Rightarrow> Inl Bad_call)
      | _ \<Rightarrow> Inl Bad_call)"

definition call_comm :: "('m, 'k, 'v) kernel \<Rightarrow> 'm kworld helper_fn" where
  "call_comm K n args mm w =
     (case args of
        Some (Addr r a) # Some (Scalar k) # _ \<Rightarrow>
          (case read_bytes mm r a (unat k) of
             Some dst \<Rightarrow>
               if writable mm r a (unat k) then
                 (case get_comm (k_env K) (unat k) dst of
                    (e, dst') \<Rightarrow> Inr (Scalar e, put_bytes mm r a dst', w))
               else Inl Bad_call
           | None \<Rightarrow> Inl Bad_call)
      | _ \<Rightarrow> Inl Bad_call)"

definition BPF_F_CURRENT_CPU :: u64 where "BPF_F_CURRENT_CPU = 0xFFFFFFFF"

definition call_perf_output :: "('m, 'k, 'v) kernel \<Rightarrow> 'm kworld helper_fn" where
  "call_perf_output K n args mm w =
     (case args of
        [Some (Addr Ctx _), Some (Addr Map_object j), Some (Scalar flags), Some (Addr r a), Some (Scalar k)] \<Rightarrow>
          if j \<noteq> perf_map_at then Inl Bad_call else
          (case read_bytes mm r a (unat k) of
             None \<Rightarrow> Inl Bad_call
           | Some bs \<Rightarrow> if flags = BPF_F_CURRENT_CPU
               then Inr (Scalar (k_result K), mm, w\<lparr>k_out := k_out w @ [bs]\<rparr>) else Inl Bad_call)
      | _ \<Rightarrow> Inl Bad_call)"

text \<open>The dispatch of a \<open>call\<close> instruction: by the name of the helper with that number.\<close>

definition kernel_call :: "('m, 'k, 'v) kernel \<Rightarrow> 'm kworld helper_fn" where
  "kernel_call K n args mm w =
     (if n = 1 then call_lookup K n args mm w
      else if n = 2 then call_update K n args mm w
      else if n = 6 then call_printk K n args mm w
      else if n = 14 then Inr (Scalar (pid_tgid (k_env K)), mm, w)
      else if n = 15 then Inr (Scalar (uid_gid (k_env K)), mm, w)
      else if n = 16 then call_comm K n args mm w
      else if n = 25 then call_perf_output K n args mm w
      else if n = 113 then call_probe_read K n args mm w
      else Inl Bad_call)"

text \<open>The numbers are those of the helper table.\<close>

lemma kernel_call_names:
  "map (\<lambda>n. map_option hp_name (helper_by_id n)) [1, 2, 6, 14, 15, 16, 25, 113] =
     map Some [''bpf_map_lookup_elem'', ''bpf_map_update_elem'', ''bpf_trace_printk'',
       ''bpf_get_current_pid_tgid'', ''bpf_get_current_uid_gid'', ''bpf_get_current_comm'',
       ''bpf_perf_event_output'', ''bpf_probe_read_kernel'']"
  by code_simp

end
