(* ===== verification/Bytecode_Programs.thy ===== *)
theory Bytecode_Programs
  imports Kernel_Calls Uid_Count
begin

text \<open>
  The object code of the packet counters, of \<open>hello\<close> and of \<open>xdp_hello\<close>, as listed by
  \<open>llvm-objdump\<close> in the repository, and its execution against the models of the C programs.
  The relocations, which the dump of an object file does not show, are those of the
  translated listings: the index of a two-slot instruction, and the region and offset of the symbol.
\<close>

section \<open>The object code\<close>

definition packet_count_code :: bytes where
  "packet_count_code = [
     0x18, 6, 0, 0, 0, 0, 0, 0, 0, 0, 0, 0, 0, 0, 0, 0,
     0x61, 0x63, 0, 0, 0, 0, 0, 0,
     0x18, 1, 0, 0, 0, 0, 0, 0, 0, 0, 0, 0, 0, 0, 0, 0,
     0xb7, 2, 0, 0, 3, 0, 0, 0,
     0x85, 0, 0, 0, 6, 0, 0, 0,
     0x61, 0x61, 0, 0, 0, 0, 0, 0,
     7, 1, 0, 0, 1, 0, 0, 0,
     0x63, 0x16, 0, 0, 0, 0, 0, 0,
     0xb7, 0, 0, 0, 2, 0, 0, 0,
     0x95, 0, 0, 0, 0, 0, 0, 0]"

lemma packet_count_code_decoded:
  "decode_prog packet_count_code = [
     Some (Ld_imm64 6 0), None, Some (Ldx 4 3 6 0), Some (Ld_imm64 1 0), None, 
     Some (Alu64 Mov 2 (Imm 3)), Some (Call 6), Some (Ldx 4 1 6 0), 
     Some (Alu64 Add 1 (Imm 1)), Some (Stx 4 6 0 1), Some (Alu64 Mov 0 (Imm 2)), Some Exit]"
  by code_simp


definition packet_count_float_code :: bytes where
  "packet_count_float_code = [
     0x18, 6, 0, 0, 0, 0, 0, 0, 0, 0, 0, 0, 0, 0, 0, 0,
     0x61, 0x63, 0, 0, 0, 0, 0, 0,
     0x18, 1, 0, 0, 0, 0, 0, 0, 0, 0, 0, 0, 0, 0, 0, 0,
     0xb7, 2, 0, 0, 3, 0, 0, 0,
     0x85, 0, 0, 0, 6, 0, 0, 0,
     0x61, 0x61, 0, 0, 0, 0, 0, 0,
     7, 1, 0, 0, 1, 0, 0, 0,
     0x63, 0x16, 0, 0, 0, 0, 0, 0,
     0xb7, 0, 0, 0, 0, 0, 0, 0x40,
     0x95, 0, 0, 0, 0, 0, 0, 0]"

lemma packet_count_float_code_decoded:
  "decode_prog packet_count_float_code = [
     Some (Ld_imm64 6 0), None, Some (Ldx 4 3 6 0), Some (Ld_imm64 1 0), None, 
     Some (Alu64 Mov 2 (Imm 3)), Some (Call 6), Some (Ldx 4 1 6 0), 
     Some (Alu64 Add 1 (Imm 1)), Some (Stx 4 6 0 1), Some (Alu64 Mov 0 (Imm 0x40000000)), 
     Some Exit]"
  by code_simp


definition hello_code :: bytes where
  "hello_code = [
     0x85, 0, 0, 0, 0x0f, 0, 0, 0,
     0x67, 0, 0, 0, 0x20, 0, 0, 0,
     0x77, 0, 0, 0, 0x20, 0, 0, 0,
     0x7b, 0x0a, 0xf8, 0xff, 0, 0, 0, 0,
     0xbf, 0xa2, 0, 0, 0, 0, 0, 0,
     7, 2, 0, 0, 0xf8, 0xff, 0xff, 0xff,
     0x18, 1, 0, 0, 0, 0, 0, 0, 0, 0, 0, 0, 0, 0, 0, 0,
     0x85, 0, 0, 0, 1, 0, 0, 0,
     0xb7, 1, 0, 0, 1, 0, 0, 0,
     0x15, 0, 2, 0, 0, 0, 0, 0,
     0x79, 1, 0, 0, 0, 0, 0, 0,
     7, 1, 0, 0, 1, 0, 0, 0,
     0x7b, 0x1a, 0xf0, 0xff, 0, 0, 0, 0,
     0xbf, 0xa2, 0, 0, 0, 0, 0, 0,
     7, 2, 0, 0, 0xf8, 0xff, 0xff, 0xff,
     0xbf, 0xa3, 0, 0, 0, 0, 0, 0,
     7, 3, 0, 0, 0xf0, 0xff, 0xff, 0xff,
     0x18, 1, 0, 0, 0, 0, 0, 0, 0, 0, 0, 0, 0, 0, 0, 0,
     0xb7, 4, 0, 0, 0, 0, 0, 0,
     0x85, 0, 0, 0, 2, 0, 0, 0,
     0xb7, 0, 0, 0, 0, 0, 0, 0,
     0x95, 0, 0, 0, 0, 0, 0, 0]"

lemma hello_code_decoded:
  "decode_prog hello_code = [
     Some (Call 0xf), Some (Alu64 Lsh 0 (Imm 0x20)), Some (Alu64 Rsh 0 (Imm 0x20)), 
     Some (Stx 8 10 0xfff8 0), Some (Alu64 Mov 2 (Reg 10)), 
     Some (Alu64 Add 2 (Imm 0xfffffff8)), Some (Ld_imm64 1 0), None, Some (Call 1), 
     Some (Alu64 Mov 1 (Imm 1)), Some (Jmp Eq 0 (Imm 0) 2), Some (Ldx 8 1 0 0), 
     Some (Alu64 Add 1 (Imm 1)), Some (Stx 8 10 0xfff0 1), Some (Alu64 Mov 2 (Reg 10)), 
     Some (Alu64 Add 2 (Imm 0xfffffff8)), Some (Alu64 Mov 3 (Reg 10)), 
     Some (Alu64 Add 3 (Imm 0xfffffff0)), Some (Ld_imm64 1 0), None, 
     Some (Alu64 Mov 4 (Imm 0)), Some (Call 2), Some (Alu64 Mov 0 (Imm 0)), Some Exit]"
  by code_simp


definition xdp_hello_code :: bytes where
  "xdp_hello_code = [
     0x61, 0x14, 4, 0, 0, 0, 0, 0,
     0x61, 0x13, 0, 0, 0, 0, 0, 0,
     0x18, 1, 0, 0, 9, 0, 0, 0, 0, 0, 0, 0, 0, 0, 0, 0,
     0xb7, 2, 0, 0, 6, 0, 0, 0,
     0x85, 0, 0, 0, 6, 0, 0, 0,
     0xb7, 0, 0, 0, 2, 0, 0, 0,
     0x95, 0, 0, 0, 0, 0, 0, 0]"

lemma xdp_hello_code_decoded:
  "decode_prog xdp_hello_code = [
     Some (Ldx 4 4 1 4), Some (Ldx 4 3 1 0), Some (Ld_imm64 1 9), None, 
     Some (Alu64 Mov 2 (Imm 6)), Some (Call 6), Some (Alu64 Mov 0 (Imm 2)), Some Exit]"
  by code_simp


text \<open>\<open>counter\<close> is the data, the format string the read-only data.\<close>

definition packet_relocs :: relocs where
  "packet_relocs = [(0, Data, 0), (3, Rodata, 0)]"

definition hello_relocs :: relocs where
  "hello_relocs = [(6, Map_object, 0), (18, Map_object, 0)]"

definition xdp_hello_relocs :: relocs where
  "xdp_hello_relocs = [(2, Rodata, 0)]"

section \<open>Lemmas for the runs\<close>

lemmas call_simps = kernel_call_def call_printk_def call_lookup_def call_update_def hash_map_at_def
  perf_map_at_def

lemma replicate_5: "replicate 5 x = [x, x, x, x, x]"
  by (simp add: numeral_eq_Suc)

lemma of_le_u32_u64: "(of_le (le_bytes 4 (k :: u32)) :: u64) = ucast k"
  by (simp add: of_le_le_bytes take_bit_word_eq_self)

lemma ucast_low [simp]: "(ucast (ucast (k :: u32) :: u64) :: u32) = k"
  by (rule bit_word_eqI) (auto simp: bit_simps dest: bit_imp_le_length)

lemma low_half_inc: "(ucast (ucast (k :: u32) + 1 :: u64) :: u32) = k + 1"
proof -
  have "unat (ucast k + 1 :: u64) = unat k + 1"
    using unat_u32_less [of k] by (simp add: unat_word_ariths unat_u32_u64)
  then have "unat (ucast (ucast k + 1 :: u64) :: u32) = unat (k + 1)"
    by (simp add: unsigned_ucast_eq take_bit_eq_mod unat_word_ariths)
  then show ?thesis by (simp only: word_unat_eq_iff)
qed

lemma format_d: "map (\<lambda>b. char_of (unat b)) (takeWhile (\<lambda>b. b \<noteq> 0) (str_bytes ''%d'' @ [0])) = ''%d''"
  by code_simp

lemma format_xx: "map (\<lambda>b. char_of (unat b)) (takeWhile (\<lambda>b. b \<noteq> 0) (str_bytes ''%x %x'' @ [0])) = ''%x %x''"
  by code_simp

lemma conv_value_d: "conv_value CHR ''d'' (ucast (k :: u32)) = sint k"
  by (simp add: conv_value_def)

lemma conv_value_x: "conv_value CHR ''x'' (ucast (k :: u32)) = uint (ucast k :: u64)"
  using unat_u32_u64 [of k] by (simp add: conv_value_def) (metis of_nat_unat)

lemmas run_simps = step_simps call_simps replicate_5 of_le_u32_u64 Let_def

text \<open>The value of a normal single-precision number: sign, exponent and fraction bits.\<close>

definition single_value :: "u32 \<Rightarrow> rat" where
  "single_value b =
     (let e = int (unat (drop_bit 23 b AND 0xFF)); f = of_nat (unat (b AND 0x7FFFFF)) / 2 ^ 23 :: rat
      in (if bit b 31 then - 1 else 1) * (1 + f) *
         (if 127 \<le> e then 2 ^ nat (e - 127) else 1 / 2 ^ nat (127 - e)))"

lemma single_two: "single_value 0x40000000 = 2"
  by (simp add: single_value_def)

section \<open>The packet counters\<close>

text \<open>Both object codes up to \<open>exit\<close>: they differ in the number they return.\<close>

definition packet_after :: "('m, 'k, 'v) kernel \<Rightarrow> u64 \<Rightarrow> vmem \<Rightarrow> 'm kworld \<Rightarrow> c_int \<Rightarrow> 'm kworld vm" where
  "packet_after K r mm w k = \<lparr>pc = 11,
     regs = [Some (Scalar r), Some (Scalar (ucast k + 1)), None, None, None, None,
       Some (Addr Data 0), None, None, None, Some (Addr Stack 0)],
     mem = put_bytes (mm(Stack := (\<lambda>_. None))) Data 0 (le_bytes 4 (k + 1)),
     world = w\<lparr>k_trace := bpf_printk ''%d'' [sint k] (k_trace w)\<rparr>\<rparr>"

lemma packet_count_block:
  assumes "read_bytes mm Data 0 4 = Some (le_bytes 4 (k :: c_int))"
    and "read_bytes mm Rodata 0 3 = Some (str_bytes ''%d'' @ [0])"
  shows "steps (decode_prog packet_count_code) (kernel_call K) packet_relocs 9 (vm_init mm w) =
      Some (packet_after K 2 mm w k)"
    and "steps (decode_prog packet_count_float_code) (kernel_call K) packet_relocs 9 (vm_init mm w) =
      Some (packet_after K 0x40000000 mm w k)"
  by (simp_all add: vm_init_def packet_count_code_decoded packet_count_float_code_decoded
      packet_relocs_def run_simps assms format_d conv_value_d le_bytes_low [of "_ + 1"] low_half_inc
      packet_after_def)

lemma packet_exit:
  "step (decode_prog packet_count_code) h rel (packet_after K r mm w k) = Halt r (packet_after K r mm w k)"
  "step (decode_prog packet_count_float_code) h rel (packet_after K r mm w k) = Halt r (packet_after K r mm w k)"
  by (simp_all add: packet_count_code_decoded packet_count_float_code_decoded run_simps packet_after_def)

section \<open>\<open>xdp_hello\<close>\<close>

definition xdp_hello_after :: "('m, 'k, 'v) kernel \<Rightarrow> vmem \<Rightarrow> 'm kworld \<Rightarrow> xdp_md \<Rightarrow> 'm kworld vm" where
  "xdp_hello_after K mm w ctx = \<lparr>pc = 7,
     regs = [Some (Scalar 2), None, None, None, None, None, None, None, None, None, Some (Addr Stack 0)],
     mem = mm(Stack := (\<lambda>_. None)),
     world = w\<lparr>k_trace := snd (xdp_hello ctx (k_trace w))\<rparr>\<rparr>"

lemma xdp_hello_block:
  assumes "read_bytes mm Ctx 0 4 = Some (le_bytes 4 (data ctx))"
    and "read_bytes mm Ctx 4 4 = Some (le_bytes 4 (data_end ctx))"
    and "read_bytes mm Rodata 9 6 = Some (str_bytes ''%x %x'' @ [0])"
  shows "steps (decode_prog xdp_hello_code) (kernel_call K) xdp_hello_relocs 6 (vm_init mm w) =
    Some (xdp_hello_after K mm w ctx)"
  by (simp add: vm_init_def xdp_hello_code_decoded xdp_hello_relocs_def run_simps assms format_xx
      conv_value_x xdp_hello_after_def xdp_hello_def data_ptr_def data_end_ptr_def)

section \<open>\<open>hello\<close>\<close>

text \<open>The keys and the values of the map are 8 bytes.\<close>

definition u64_kernel :: "('m, u64, u64) kernel \<Rightarrow> bool" where
  "u64_kernel K \<longleftrightarrow> key_size K = 8 \<and> key_of K = of_le \<and> value_size K = 8 \<and> value_of K = of_le \<and>
     value_bytes K = le_bytes 8"

lemma read_stack_other [simp]:
  "a + int n \<le> b \<or> b + int (length bs) \<le> a \<Longrightarrow>
   read_bytes (put_bytes mm Stack b bs) Stack a n = read_bytes mm Stack a n"
  by (rule read_put_other) simp

lemmas hello_block_simps = vm_init_def hello_code_decoded hello_relocs_def run_simps u64_kernel_def
  uid_of_shift

lemma hello_steps:
  assumes K: "u64_kernel K"
  shows "\<exists>n t. steps (decode_prog hello_code) (kernel_call K) hello_relocs n (vm_init mm w) = Some t \<and>
    step (decode_prog hello_code) (kernel_call K) hello_relocs t = Halt 0 t \<and>
    world t = w\<lparr>k_map := snd (hello (k_ops K) (uid_gid (k_env K)) (k_map w))\<rparr>"
proof -
  let ?u = "uid_of (uid_gid (k_env K))"
  let ?v = "case map_lookup_elem (k_ops K) (k_map w) ?u of Some v \<Rightarrow> v + 1 | None \<Rightarrow> 1"
  obtain e m' where u: "map_update_elem (k_ops K) (k_map w) ?u ?v 0 = (e, m')" by fastforce
  then have h: "snd (hello (k_ops K) (uid_gid (k_env K)) (k_map w)) = m'"
    by (simp add: hello_update BPF_ANY_def)
  show ?thesis
  proof (cases "map_lookup_elem (k_ops K) (k_map w) ?u")
    case None
    show ?thesis unfolding h
      by (rule exI [of _ 19], rule exI, rule conjI,
          use K u None in \<open>simp add: hello_block_simps; fail\<close>, simp add: hello_block_simps)
  next
    case (Some v)
    show ?thesis unfolding h
      by (rule exI [of _ 21], rule exI, rule conjI,
          use K u Some in \<open>simp add: hello_block_simps; fail\<close>, simp add: hello_block_simps)
  qed
qed

text \<open>A kernel and a memory for the witnesses.\<close>

definition doc_kernel :: "u64 \<Rightarrow> ((u64, u64) hmap, u64, u64) kernel" where
  "doc_kernel ug = \<lparr>k_ops = hmap_ops, key_size = 8, key_of = of_le, value_size = 8, value_of = of_le,
     value_bytes = le_bytes 8, k_env = doc_env 0 ug [], k_result = 0\<rparr>"

definition packet_mem :: "c_int \<Rightarrow> vmem" where
  "packet_mem k = put_bytes (put_bytes (\<lambda>_ _. None) Data 0 (le_bytes 4 k)) Rodata 0 (str_bytes ''%d'' @ [0])"

lemma packet_mem_read:
  "read_bytes (packet_mem k) Data 0 4 = Some (le_bytes 4 k)"
  "read_bytes (packet_mem k) Rodata 0 3 = Some (str_bytes ''%d'' @ [0])"
  by (simp_all add: packet_mem_def)

definition world_init :: "(u64, u64) hmap kworld" where
  "world_init = \<lparr>k_trace = [], k_map = counter_table, k_out = []\<rparr>"

section \<open>Properties\<close>

text \<open>The object code of \<open>packet_count\<close> refines the C program. Where the C program is defined, it
  ends, returns the same value, leaves the same counter in its data and prints the same text.\<close>

lemma packet_count_object:
  assumes "read_bytes mm Data 0 4 = Some (le_bytes 4 (counter s))"
    and "read_bytes mm Rodata 0 3 = Some (str_bytes ''%d'' @ [0])"
    and "k_trace w = trace_pipe s" and "packet_count s = Inr (r, s')"
  shows "\<exists>v t. runs_to (decode_prog packet_count_code) (kernel_call K) packet_relocs (vm_init mm w) v t \<and>
    ucast v = r \<and> read_bytes (mem t) Data 0 4 = Some (le_bytes 4 (counter s')) \<and>
    k_trace (world t) = trace_pipe s' \<and> k_map (world t) = k_map w \<and> mem t Stack = (\<lambda>_. None)"
proof -
  let ?t = "packet_after K 2 mm w (counter s)"
  have "runs_to (decode_prog packet_count_code) (kernel_call K) packet_relocs (vm_init mm w) 2 ?t"
    by (rule runs_steps [OF packet_count_block(1) [OF assms(1,2)] runs_halt [OF packet_exit(1)]])
  moreover have "r = 2" "s' = after_packet s"
    using assms(4) by (auto simp: packet_defs Let_def split: if_splits)
  moreover have "put_bytes (mm(Stack := (\<lambda>_. None))) Data a bs Stack = (\<lambda>_. None)" for a bs
    by (simp add: put_bytes_def)
  ultimately show ?thesis
    using assms(3) by (intro exI [of _ 2] exI [of _ ?t]) (simp add: packet_after_def after_packet_def bpf_printk_def)
qed

lemma packet_count_object_instance:
  "\<exists>v t. runs_to (decode_prog packet_count_code) (kernel_call (doc_kernel 0)) packet_relocs
       (vm_init (packet_mem 0) world_init) v t \<and> ucast v = xdp_value XDP_PASS \<and>
     read_bytes (mem t) Data 0 4 = Some (le_bytes 4 (1 :: c_int))"
proof -
  have "packet_count pkt_init = Inr (xdp_value XDP_PASS, after_packet pkt_init)"
    by (rule pc.step) (simp add: pkt_init_def int_max_def)
  from packet_count_object [OF _ packet_mem_read(2) _ this, of 0 world_init "doc_kernel 0"]
  show ?thesis by (auto simp: packet_mem_read pkt_init_def world_init_def after_packet_def)
qed

text \<open>The object code of the float version does what the C program does to the counter and the
  trace, and returns the bits of the single-precision number that the C program returns; as an
  \<open>int\<close> they are no XDP action.\<close>

lemma packet_count_float_bytecode:
  assumes "read_bytes mm Data 0 4 = Some (le_bytes 4 (counter s))"
    and "read_bytes mm Rodata 0 3 = Some (str_bytes ''%d'' @ [0])"
    and "k_trace w = trace_pipe s" and "packet_count_float s = Inr (r, s')"
  shows "\<exists>v t. runs_to (decode_prog packet_count_float_code) (kernel_call K) packet_relocs (vm_init mm w) v t \<and>
    single_value (ucast v) = r \<and> (\<forall>a. ucast v \<noteq> xdp_value a) \<and>
    read_bytes (mem t) Data 0 4 = Some (le_bytes 4 (counter s')) \<and> k_trace (world t) = trace_pipe s'"
proof -
  let ?t = "packet_after K 0x40000000 mm w (counter s)"
  have "runs_to (decode_prog packet_count_float_code) (kernel_call K) packet_relocs (vm_init mm w) 0x40000000 ?t"
    by (rule runs_steps [OF packet_count_block(2) [OF assms(1,2)] runs_halt [OF packet_exit(2)]])
  moreover have "r = 2" "s' = after_packet s"
    using assms(4) by (auto simp: packet_defs Let_def split: if_splits)
  moreover have "xdp_value a \<noteq> 0x40000000" for a by (cases a) simp_all
  ultimately show ?thesis
    using assms(3)
    by (intro exI [of _ "0x40000000"] exI [of _ ?t])
       (auto simp: packet_after_def after_packet_def bpf_printk_def single_two)
qed

lemma packet_count_float_bytecode_instance:
  "\<exists>v t. runs_to (decode_prog packet_count_float_code) (kernel_call (doc_kernel 0)) packet_relocs
       (vm_init (packet_mem 0) world_init) v t \<and> single_value (ucast v) = 2"
proof -
  have "packet_count_float pkt_init = Inr (2, after_packet pkt_init)"
    by (rule pcf.step) (simp add: pkt_init_def int_max_def)
  from packet_count_float_bytecode [OF _ packet_mem_read(2) _ this, of 0 world_init "doc_kernel 0"]
  show ?thesis by (auto simp: packet_mem_read pkt_init_def world_init_def)
qed

text \<open>The object code of \<open>xdp_hello\<close> returns and prints what the C program does, for every
  context.\<close>

lemma xdp_hello_bytecode:
  assumes "read_bytes mm Ctx 0 4 = Some (le_bytes 4 (data ctx))"
    and "read_bytes mm Ctx 4 4 = Some (le_bytes 4 (data_end ctx))"
    and "read_bytes mm Rodata 9 6 = Some (str_bytes ''%x %x'' @ [0])"
  shows "\<exists>v t. runs_to (decode_prog xdp_hello_code) (kernel_call K) xdp_hello_relocs (vm_init mm w) v t \<and>
    xdp_hello ctx (k_trace w) = (ucast v, k_trace (world t))"
proof -
  have "step (decode_prog xdp_hello_code) (kernel_call K) xdp_hello_relocs (xdp_hello_after K mm w ctx) =
      Halt 2 (xdp_hello_after K mm w ctx)"
    by (simp add: xdp_hello_code_decoded run_simps xdp_hello_after_def)
  from runs_steps [OF xdp_hello_block [OF assms] runs_halt [OF this]] show ?thesis
    by (intro exI [of _ 2] exI conjI) (auto simp: xdp_hello_after_def xdp_hello_def)
qed

lemma xdp_hello_bytecode_instance:
  "\<exists>v t. runs_to (decode_prog xdp_hello_code) (kernel_call (doc_kernel 0)) xdp_hello_relocs
       (vm_init (put_bytes (put_bytes (put_bytes (\<lambda>_ _. None) Rodata 9 (str_bytes ''%x %x'' @ [0]))
          Ctx 0 (le_bytes 4 (16 :: u32))) Ctx 4 (le_bytes 4 (80 :: u32))) world_init) v t \<and>
     k_trace (world t) = [(''%x %x'', [16, 80])]"
proof -
  let ?mm = "put_bytes (put_bytes (put_bytes (\<lambda>_ _. None) Rodata 9 (str_bytes ''%x %x'' @ [0]))
      Ctx 0 (le_bytes 4 (16 :: u32))) Ctx 4 (le_bytes 4 (80 :: u32))"
  have "read_bytes ?mm Ctx 0 4 = Some (le_bytes 4 (data \<lparr>data = 16, data_end = 80\<rparr>))"
    "read_bytes ?mm Ctx 4 4 = Some (le_bytes 4 (data_end \<lparr>data = 16, data_end = 80\<rparr>))"
    "read_bytes ?mm Rodata 9 6 = Some (str_bytes ''%x %x'' @ [0])"
    by (simp_all add: read_put_other)
  from xdp_hello_bytecode [OF this, of "doc_kernel 0" world_init] show ?thesis
    by (simp add: xdp_hello_def bpf_printk_def data_ptr_def data_end_ptr_def)
       (metis append_Nil kworld.select_convs(1) world_init_def)
qed

lemma hello_object:
  assumes "u64_kernel K"
  shows "\<exists>v t. runs_to (decode_prog hello_code) (kernel_call K) hello_relocs (vm_init mm w) v t \<and>
    hello (k_ops K) (uid_gid (k_env K)) (k_map w) = (ucast v, k_map (world t)) \<and>
    k_trace (world t) = k_trace w \<and> k_out (world t) = k_out w"
proof -
  obtain n t where "steps (decode_prog hello_code) (kernel_call K) hello_relocs n (vm_init mm w) = Some t"
    "step (decode_prog hello_code) (kernel_call K) hello_relocs t = Halt 0 t"
    and t: "world t = w\<lparr>k_map := snd (hello (k_ops K) (uid_gid (k_env K)) (k_map w))\<rparr>"
    using hello_steps [OF assms] by blast
  then have "runs_to (decode_prog hello_code) (kernel_call K) hello_relocs (vm_init mm w) 0 t"
    by (blast intro: runs_steps runs_halt)
  with t show ?thesis
    by (intro exI [of _ 0] exI [of _ t]) (simp add: hello_update prod_eq_iff)
qed

text \<open>The object code of \<open>hello\<close> refines the C program on any map: it ends without an invalid
  access, whatever the memory, with the result and the map of the C program, and neither
  prints nor submits anything.\<close>

lemma hello_bytecode:
  assumes "u64_kernel K"
  shows "\<exists>v t. runs_to (decode_prog hello_code) (kernel_call K) hello_relocs (vm_init mm w) v t \<and>
    hello (k_ops K) (uid_gid (k_env K)) (k_map w) = (ucast v, k_map (world t)) \<and>
    k_trace (world t) = k_trace w \<and> k_out (world t) = k_out w"
  by (rule hello_object [OF assms])

lemma hello_501: "hmap_lookup (snd (hello hmap_ops 501 counter_table)) 501 = Some 1"
  by (simp add: hello_def hmap_ops_def hmap_update_def hmap_lookup_def counter_table_def hmap_new_def BPF_ANY_def Let_def)

lemma hello_bytecode_instance:
  "\<exists>v t. runs_to (decode_prog hello_code) (kernel_call (doc_kernel 501)) hello_relocs
       (vm_init (\<lambda>_ _. None) world_init) v t \<and> hmap_lookup (k_map (world t)) 501 = Some 1"
proof -
  have "u64_kernel (doc_kernel 501)" by (simp add: u64_kernel_def doc_kernel_def)
  from hello_bytecode [OF this, of "\<lambda>_ _. None" world_init] obtain v t where
    r: "runs_to (decode_prog hello_code) (kernel_call (doc_kernel 501)) hello_relocs
      (vm_init (\<lambda>_ _. None) world_init) v t" and
    h: "hello hmap_ops 501 counter_table = (ucast v, k_map (world t))"
    by (auto simp: doc_kernel_def doc_env_def world_init_def)
  from h r hello_501 show ?thesis by (metis snd_conv)
qed

end
