(* ===== verification/Bytecode_Probe.thy ===== *)
theory Bytecode_Probe
  imports Bytecode_Programs
begin

text \<open>
  The object code of \<open>kprobe_exec\<close>, as listed in \<open>verifier_example/hello-verifier.md\<close>, and
  its refinement of the C program, one basic block after the other.
\<close>

section \<open>The object code\<close>

definition kprobe_exec_code :: bytes where
  "kprobe_exec_code = [
     0xbf, 0x16, 0, 0, 0, 0, 0, 0,
     0x18, 1, 0, 0, 0, 0, 0, 0, 0, 0, 0, 0, 0, 0, 0, 0,
     0x61, 0x12, 0, 0, 0, 0, 0, 0,
     0xbf, 0x23, 0, 0, 0, 0, 0, 0,
     7, 3, 0, 0, 1, 0, 0, 0,
     0x63, 0x31, 0, 0, 0, 0, 0, 0,
     0xb7, 1, 0, 0, 0, 0, 0, 0,
     0x63, 0x1a, 0xf8, 0xff, 0, 0, 0, 0,
     0x63, 0x1a, 0xf4, 0xff, 0, 0, 0, 0,
     0x63, 0x1a, 0xf0, 0xff, 0, 0, 0, 0,
     0x63, 0x1a, 0xec, 0xff, 0, 0, 0, 0,
     0x63, 0x1a, 0xe8, 0xff, 0, 0, 0, 0,
     0x63, 0x1a, 0xe4, 0xff, 0, 0, 0, 0,
     0x63, 0x1a, 0xfc, 0xff, 0, 0, 0, 0,
     0x63, 0x2a, 0xe0, 0xff, 0, 0, 0, 0,
     0x85, 0, 0, 0, 0x0e, 0, 0, 0,
     0x63, 0x0a, 0xd8, 0xff, 0, 0, 0, 0,
     0x85, 0, 0, 0, 0x0f, 0, 0, 0,
     0x63, 0x0a, 0xdc, 0xff, 0, 0, 0, 0,
     0x67, 0, 0, 0, 0x20, 0, 0, 0,
     0x77, 0, 0, 0, 0x20, 0, 0, 0,
     0x7b, 0x0a, 0xd0, 0xff, 0, 0, 0, 0,
     0xbf, 0xa2, 0, 0, 0, 0, 0, 0,
     7, 2, 0, 0, 0xd0, 0xff, 0xff, 0xff,
     0x18, 1, 0, 0, 0, 0, 0, 0, 0, 0, 0, 0, 0, 0, 0, 0,
     0x85, 0, 0, 0, 1, 0, 0, 0,
     0xbf, 7, 0, 0, 0, 0, 0, 0,
     0x15, 7, 0x0c, 0, 0, 0, 0, 0,
     0x71, 0x73, 0, 0, 0, 0, 0, 0,
     0x67, 3, 0, 0, 0x38, 0, 0, 0,
     0xc7, 3, 0, 0, 0x38, 0, 0, 0,
     0x18, 1, 0, 0, 0, 0, 0, 0, 0, 0, 0, 0, 0, 0, 0, 0,
     0xb7, 2, 0, 0, 3, 0, 0, 0,
     0x85, 0, 0, 0, 6, 0, 0, 0,
     0xbf, 0xa1, 0, 0, 0, 0, 0, 0,
     7, 1, 0, 0, 0xf4, 0xff, 0xff, 0xff,
     0xb7, 2, 0, 0, 0x0c, 0, 0, 0,
     0xbf, 0x73, 0, 0, 0, 0, 0, 0,
     5, 0, 5, 0, 0, 0, 0, 0,
     0xbf, 0xa1, 0, 0, 0, 0, 0, 0,
     7, 1, 0, 0, 0xf4, 0xff, 0xff, 0xff,
     0xb7, 2, 0, 0, 0x0c, 0, 0, 0,
     0x18, 3, 0, 0, 0, 0, 0, 0, 0, 0, 0, 0, 0, 0, 0, 0,
     0x85, 0, 0, 0, 0x71, 0, 0, 0,
     0x18, 7, 0, 0, 0, 0, 0, 0, 0, 0, 0, 0, 0, 0, 0, 0,
     0x61, 0x71, 0, 0, 0, 0, 0, 0,
     0x25, 1, 0x16, 0, 0x0b, 0, 0, 0,
     0x18, 2, 0, 0, 0, 0, 0, 0, 0, 0, 0, 0, 0, 0, 0, 0,
     0x0f, 0x12, 0, 0, 0, 0, 0, 0,
     0x71, 0x23, 0, 0, 0, 0, 0, 0,
     0x67, 3, 0, 0, 0x38, 0, 0, 0,
     0xc7, 3, 0, 0, 0x38, 0, 0, 0,
     0x18, 1, 0, 0, 3, 0, 0, 0, 0, 0, 0, 0, 0, 0, 0, 0,
     0xb7, 2, 0, 0, 3, 0, 0, 0,
     0x85, 0, 0, 0, 6, 0, 0, 0,
     0x61, 0x71, 0, 0, 0, 0, 0, 0,
     0x25, 1, 0x0a, 0, 0x0b, 0, 0, 0,
     0xbf, 0xa2, 0, 0, 0, 0, 0, 0,
     7, 2, 0, 0, 0xd8, 0xff, 0xff, 0xff,
     0x0f, 0x12, 0, 0, 0, 0, 0, 0,
     0x71, 0x23, 0x1c, 0, 0, 0, 0, 0,
     0x67, 3, 0, 0, 0x38, 0, 0, 0,
     0xc7, 3, 0, 0, 0x38, 0, 0, 0,
     0x18, 1, 0, 0, 6, 0, 0, 0, 0, 0, 0, 0, 0, 0, 0, 0,
     0xb7, 2, 0, 0, 3, 0, 0, 0,
     0x85, 0, 0, 0, 6, 0, 0, 0,
     0xbf, 0xa1, 0, 0, 0, 0, 0, 0,
     7, 1, 0, 0, 0xe4, 0xff, 0xff, 0xff,
     0xb7, 2, 0, 0, 0x10, 0, 0, 0,
     0x85, 0, 0, 0, 0x10, 0, 0, 0,
     0xbf, 0xa4, 0, 0, 0, 0, 0, 0,
     7, 4, 0, 0, 0xd8, 0xff, 0xff, 0xff,
     0xbf, 0x61, 0, 0, 0, 0, 0, 0,
     0x18, 2, 0, 0, 0, 0, 0, 0, 0, 0, 0, 0, 0, 0, 0, 0,
     0x18, 3, 0, 0, 0xff, 0xff, 0xff, 0xff, 0, 0, 0, 0, 0, 0, 0, 0,
     0xb7, 5, 0, 0, 0x28, 0, 0, 0,
     0x85, 0, 0, 0, 0x19, 0, 0, 0,
     0xb7, 0, 0, 0, 0, 0, 0, 0,
     0x95, 0, 0, 0, 0, 0, 0, 0]"

lemma kprobe_exec_code_decoded:
  "decode_prog kprobe_exec_code = [
     Some (Alu64 Mov 6 (Reg 1)), Some (Ld_imm64 1 0), None, Some (Ldx 4 2 1 0), 
     Some (Alu64 Mov 3 (Reg 2)), Some (Alu64 Add 3 (Imm 1)), Some (Stx 4 1 0 3), 
     Some (Alu64 Mov 1 (Imm 0)), Some (Stx 4 10 0xfff8 1), Some (Stx 4 10 0xfff4 1), 
     Some (Stx 4 10 0xfff0 1), Some (Stx 4 10 0xffec 1), Some (Stx 4 10 0xffe8 1), 
     Some (Stx 4 10 0xffe4 1), Some (Stx 4 10 0xfffc 1), Some (Stx 4 10 0xffe0 2), 
     Some (Call 0xe), Some (Stx 4 10 0xffd8 0), Some (Call 0xf), Some (Stx 4 10 0xffdc 0), 
     Some (Alu64 Lsh 0 (Imm 0x20)), Some (Alu64 Rsh 0 (Imm 0x20)), Some (Stx 8 10 0xffd0 0), 
     Some (Alu64 Mov 2 (Reg 10)), Some (Alu64 Add 2 (Imm 0xffffffd0)), Some (Ld_imm64 1 0), 
     None, Some (Call 1), Some (Alu64 Mov 7 (Reg 0)), Some (Jmp Eq 7 (Imm 0) 0xc), 
     Some (Ldx 1 3 7 0), Some (Alu64 Lsh 3 (Imm 0x38)), Some (Alu64 Arsh 3 (Imm 0x38)), 
     Some (Ld_imm64 1 0), None, Some (Alu64 Mov 2 (Imm 3)), Some (Call 6), 
     Some (Alu64 Mov 1 (Reg 10)), Some (Alu64 Add 1 (Imm 0xfffffff4)), 
     Some (Alu64 Mov 2 (Imm 0xc)), Some (Alu64 Mov 3 (Reg 7)), Some (Ja 5), 
     Some (Alu64 Mov 1 (Reg 10)), Some (Alu64 Add 1 (Imm 0xfffffff4)), 
     Some (Alu64 Mov 2 (Imm 0xc)), Some (Ld_imm64 3 0), None, Some (Call 0x71), 
     Some (Ld_imm64 7 0), None, Some (Ldx 4 1 7 0), Some (Jmp Gt 1 (Imm 0xb) 0x16), 
     Some (Ld_imm64 2 0), None, Some (Alu64 Add 2 (Reg 1)), Some (Ldx 1 3 2 0), 
     Some (Alu64 Lsh 3 (Imm 0x38)), Some (Alu64 Arsh 3 (Imm 0x38)), Some (Ld_imm64 1 3), None, 
     Some (Alu64 Mov 2 (Imm 3)), Some (Call 6), Some (Ldx 4 1 7 0), 
     Some (Jmp Gt 1 (Imm 0xb) 0xa), Some (Alu64 Mov 2 (Reg 10)), 
     Some (Alu64 Add 2 (Imm 0xffffffd8)), Some (Alu64 Add 2 (Reg 1)), Some (Ldx 1 3 2 0x1c), 
     Some (Alu64 Lsh 3 (Imm 0x38)), Some (Alu64 Arsh 3 (Imm 0x38)), Some (Ld_imm64 1 6), None, 
     Some (Alu64 Mov 2 (Imm 3)), Some (Call 6), Some (Alu64 Mov 1 (Reg 10)), 
     Some (Alu64 Add 1 (Imm 0xffffffe4)), Some (Alu64 Mov 2 (Imm 0x10)), Some (Call 0x10), 
     Some (Alu64 Mov 4 (Reg 10)), Some (Alu64 Add 4 (Imm 0xffffffd8)), 
     Some (Alu64 Mov 1 (Reg 6)), Some (Ld_imm64 2 0), None, Some (Ld_imm64 3 0xffffffff), 
     None, Some (Alu64 Mov 5 (Imm 0x28)), Some (Call 0x19), Some (Alu64 Mov 0 (Imm 0)), 
     Some Exit]"
  by code_simp

text \<open>
  The data are \<open>c\<close> and, at offset 4, \<open>message\<close>; the read-only data are the three formats.
\<close>

definition kprobe_relocs :: relocs where
  "kprobe_relocs = [(1, Data, 0), (25, Map_object, 0), (33, Rodata, 0), (45, Data, 4), (48, Data, 0),
     (52, Data, 4), (58, Rodata, 0), (70, Rodata, 0), (81, Map_object, 32)]"

abbreviation kprobe_steps where
  "kprobe_steps K \<equiv> steps (decode_prog kprobe_exec_code) (kernel_call K) kprobe_relocs"

section \<open>The memory of the program\<close>

text \<open>The structure \<open>data\<close> lies at offset -40 of the stack.\<close>

definition frame :: "vmem \<Rightarrow> data_t \<Rightarrow> bool" where
  "frame mm d \<longleftrightarrow> read_bytes mm Stack (-40) 4 = Some (le_bytes 4 (pid d)) \<and>
     read_bytes mm Stack (-36) 4 = Some (le_bytes 4 (uid d)) \<and>
     read_bytes mm Stack (-32) 4 = Some (le_bytes 4 (d_counter d)) \<and>
     read_bytes mm Stack (-28) 16 = Some (command d) \<and>
     read_bytes mm Stack (-12) 12 = Some (message d)"

definition globals :: "vmem \<Rightarrow> c_int \<Rightarrow> bytes \<Rightarrow> bool" where
  "globals mm k msg \<longleftrightarrow> read_bytes mm Data 0 4 = Some (le_bytes 4 k) \<and>
     read_bytes mm Data 4 12 = Some msg \<and>
     read_bytes mm Rodata 0 3 = Some (str_bytes ''%d'' @ [0]) \<and>
     read_bytes mm Rodata 3 3 = Some (str_bytes ''%c'' @ [0]) \<and>
     read_bytes mm Rodata 6 3 = Some (str_bytes ''%c'' @ [0])"

lemma frame_encode: "frame mm d \<Longrightarrow> read_bytes mm Stack (-40) 40 = Some (encode_data d)"
  using read_append [of mm Stack "-40" 4 36] read_append [of mm Stack "-36" 4 32]
    read_append [of mm Stack "-32" 4 28] read_append [of mm Stack "-28" 16 12]
  by (simp add: frame_def encode_data_def)

lemma frame_message:
  "frame mm d \<Longrightarrow> length msg = 12 \<Longrightarrow> frame (put_bytes mm Stack (-12) msg) (d\<lparr>message := msg\<rparr>)"
  by (simp add: frame_def)

lemma frame_command:
  "frame mm d \<Longrightarrow> length com = 16 \<Longrightarrow> frame (put_bytes mm Stack (-28) com) (d\<lparr>command := com\<rparr>)"
  by (simp add: frame_def)

lemma globals_stack [simp]: "globals (put_bytes mm Stack a bs) k msg = globals mm k msg"
  by (simp add: globals_def)

text \<open>Single bytes of a read.\<close>

lemma read_nth:
  "read_bytes mm r a n = Some bs \<Longrightarrow> k < n \<Longrightarrow> mm r (a + int k) = Some (bs ! k)"
proof (induction n arbitrary: a bs k)
  case 0
  then show ?case by simp
next
  case (Suc n)
  then obtain b bs' where b: "mm r a = Some b" "read_bytes mm r (a + 1) n = Some bs'" "bs = b # bs'"
    by (auto split: option.splits)
  show ?case
  proof (cases k)
    case 0
    with b show ?thesis by simp
  next
    case (Suc j)
    with b Suc.IH [OF b(2), of j] Suc.prems show ?thesis by (simp add: add.assoc)
  qed
qed

lemma read_one: "read_bytes mm r a (Suc 0) = map_option (\<lambda>b. [b]) (mm r a)"
  by (simp split: option.split)

text \<open>The prologue zeroes the two arrays in pieces of four bytes.\<close>

lemma read_zeros_12:
  assumes "read_bytes mm Stack (-12) 4 = Some (replicate 4 0)"
    and "read_bytes mm Stack (-8) 4 = Some (replicate 4 0)"
    and "read_bytes mm Stack (-4) 4 = Some (replicate 4 0)"
  shows "read_bytes mm Stack (-12) 12 = Some (replicate 12 0)"
  using assms read_append [of mm Stack "-12" 4 8] read_append [of mm Stack "-8" 4 4]
  by (simp add: replicate_add [symmetric])

lemma read_zeros_16:
  assumes "read_bytes mm Stack (-28) 4 = Some (replicate 4 0)"
    and "read_bytes mm Stack (-24) 4 = Some (replicate 4 0)"
    and "read_bytes mm Stack (-20) 4 = Some (replicate 4 0)"
    and "read_bytes mm Stack (-16) 4 = Some (replicate 4 0)"
  shows "read_bytes mm Stack (-28) 16 = Some (replicate 16 0)"
  using assms read_append [of mm Stack "-28" 4 12] read_append [of mm Stack "-24" 4 8]
    read_append [of mm Stack "-20" 4 4]
  by (simp add: replicate_add [symmetric])

lemma le_bytes_zero: "le_bytes n 0 = replicate n 0"
  by (induction n) simp_all

section \<open>The prologue and the lookup\<close>

definition msg_kernel :: "('m, u32, msg_t) kernel \<Rightarrow> bool" where
  "msg_kernel K \<longleftrightarrow> key_size K = 4 \<and> key_of K = of_le \<and> value_size K = 12 \<and>
     value_of K = (\<lambda>b. \<lparr>m_message = b\<rparr>) \<and> value_bytes K = m_message"

lemmas kprobe_simps = kprobe_exec_code_decoded kprobe_relocs_def run_simps call_probe_read_def
  call_comm_def call_perf_output_def

lemma read_put_prefix:
  assumes "n \<le> length bs"
  shows "read_bytes (put_bytes mm r a bs) r a n = Some (take n bs)"
proof -
  have "read_bytes (put_bytes mm r a bs) r a (n + (length bs - n)) = Some bs"
    using assms by simp
  then obtain xs ys where "read_bytes (put_bytes mm r a bs) r a n = Some xs" "bs = xs @ ys"
    by (auto simp only: read_append split: option.splits)
  then show ?thesis using read_bytes_length [of _ r a n xs] by fastforce
qed

definition prologue_mem :: "vmem \<Rightarrow> probe_env \<Rightarrow> c_int \<Rightarrow> vmem" where
  "prologue_mem mm env k =
     (let mm = put_bytes (mm(Stack := (\<lambda>_. None))) Data 0 (le_bytes 4 (k + 1));
          mm = foldl (\<lambda>mm a. put_bytes mm Stack a (replicate 4 0)) mm [-8, -12, -16, -20, -24, -28, -4];
          mm = put_bytes mm Stack (-32) (le_bytes 4 k);
          mm = put_bytes mm Stack (-40) (le_bytes 4 (pid_tgid env));
          mm = put_bytes mm Stack (-36) (le_bytes 4 (uid_gid env))
      in put_bytes mm Stack (-48) (le_bytes 8 (uid_of (uid_gid env))))"

definition prologue_data :: "probe_env \<Rightarrow> c_int \<Rightarrow> data_t" where
  "prologue_data env k =
     data_zero\<lparr>d_counter := k, pid := ucast (pid_tgid env), uid := ucast (uid_gid env)\<rparr>"

lemma prologue_frame: "frame (prologue_mem mm env k) (prologue_data env k)"
  using read_zeros_12 [of "prologue_mem mm env k"] read_zeros_16 [of "prologue_mem mm env k"]
  by (simp add: frame_def prologue_mem_def prologue_data_def data_zero_def Let_def le_bytes_low)

lemma read_data_tail:
  "read_bytes (put_bytes mm Data 0 (le_bytes 4 (k :: c_int))) Data 4 12 = read_bytes mm Data 4 12"
  by (rule read_put_other) simp

lemma prologue_globals: "globals mm k msg \<Longrightarrow> globals (prologue_mem mm env k) (k + 1) msg"
  by (simp add: globals_def prologue_mem_def Let_def read_data_tail)

lemma prologue_key:
  "read_bytes (prologue_mem mm env k) Stack (-48) 4 = Some (take 4 (le_bytes 8 (uid_of (uid_gid env))))"
  by (simp add: prologue_mem_def Let_def read_put_prefix)

definition looked_up :: "val \<Rightarrow> vmem \<Rightarrow> 'm kworld \<Rightarrow> 'm kworld vm" where
  "looked_up r mm w = \<lparr>pc = 29,
     regs = [Some r, None, None, None, None, None, Some (Addr Ctx 0), Some r, None, None,
       Some (Addr Stack 0)], mem = mm, world = w\<rparr>"

lemma kprobe_prologue:
  assumes K: "msg_kernel K" and g: "globals mm k msg"
  shows "kprobe_steps K 27 (vm_init mm w) = Some
    (case map_lookup_elem (k_ops K) (k_map w) (ucast (uid_gid (k_env K))) of
       None \<Rightarrow> looked_up (Scalar 0) (prologue_mem mm (k_env K) k) w
     | Some m \<Rightarrow> looked_up (Addr Map_value 0)
         (put_bytes (prologue_mem mm (k_env K) k) Map_value 0 (m_message m)) w)"
proof -
  have key: "of_le (take 4 (le_bytes 8 (uid_of (uid_gid (k_env K))))) = (ucast (uid_gid (k_env K)) :: u32)"
    using key_at_masked [of "uid_gid (k_env K)"] by (simp add: key_at_def uid_of_def)
  show ?thesis
    using K g prologue_key [of mm "k_env K" k] key
    by (simp add: vm_init_def kprobe_simps msg_kernel_def globals_def prologue_mem_def Let_def
        le_bytes_zero le_bytes_low [of "_ + 1"] le_bytes_low [of "ucast k"] low_half_inc uid_of_shift
        looked_up_def split: option.split)
qed

section \<open>The copy of the message\<close>

lemma sint_char:
  "sint (ucast (signed_drop_bit 56 (push_bit 56 (ucast (b :: u8) :: u64))) :: u32) = sint b"
proof -
  have "(ucast (signed_drop_bit 56 (push_bit 56 (ucast b :: u64))) :: u32) = scast b"
    by (rule bit_word_eqI) (auto simp: bit_simps)
  then show ?thesis by (simp add: sint_up_scast is_up)
qed

definition copied :: "val option \<Rightarrow> val option \<Rightarrow> vmem \<Rightarrow> 'm kworld \<Rightarrow> 'm kworld vm" where
  "copied x y mm w = \<lparr>pc = 48,
     regs = [x, None, None, None, None, None, Some (Addr Ctx 0), y, None, None, Some (Addr Stack 0)],
     mem = mm, world = w\<rparr>"

lemma kprobe_copy_default:
  assumes "globals mm k msg" and "frame mm d" and "message d = replicate 12 0"
  shows "kprobe_steps K 6 (looked_up (Scalar 0) mm w) = Some
    (copied (Some (Scalar (fst (probe_read (k_env K) 12 msg (replicate 12 0))))) (Some (Scalar 0))
       (put_bytes mm Stack (-12) (snd (probe_read (k_env K) 12 msg (replicate 12 0)))) w)"
  using assms
  by (simp add: looked_up_def copied_def kprobe_simps globals_def frame_def split: prod.split)

lemma kprobe_copy_found:
  assumes "globals mm k msg" and "frame mm d" and "message d = replicate 12 0"
    and m: "read_bytes mm Map_value 0 12 = Some m"
  shows "kprobe_steps K 13 (looked_up (Addr Map_value 0) mm w) = Some
    (copied (Some (Scalar (fst (probe_read (k_env K) 12 m (replicate 12 0))))) (Some (Addr Map_value 0))
       (put_bytes mm Stack (-12) (snd (probe_read (k_env K) 12 m (replicate 12 0))))
       (w\<lparr>k_trace := bpf_printk ''%d'' [sint (m ! 0)] (k_trace w)\<rparr>))"
proof -
  have one: "mm Map_value 0 = Some (m ! 0)"
    using read_nth [OF m, of 0] by simp
  show ?thesis
    using assms one
    by (simp add: looked_up_def copied_def kprobe_simps globals_def frame_def format_d conv_value_def
        sint_char split: prod.split)
qed

section \<open>The guarded prints\<close>

lemma uint_of_sint:
  fixes k :: u32
  shows "uint k = (if 0 \<le> sint k then sint k else sint k + 2 ^ 32)"
proof -
  have u: "uint k = sint k mod 2 ^ 32"
    by (simp add: uint_sint take_bit_eq_mod)
  show ?thesis
  proof (cases "0 \<le> sint k")
    case True
    then show ?thesis using u sint_word32_upper [of k] by simp
  next
    case False
    then have "(sint k + 2 ^ 32) mod 2 ^ 32 = sint k + 2 ^ 32"
      using sint_word32_lower [of k] by (intro mod_pos_pos_trivial) simp_all
    then show ?thesis using u False by simp
  qed
qed
lemma uint_u32_u64: "uint (ucast (k :: u32) :: u64) = uint k"
  using unat_u32_u64 [of k] by (metis of_nat_unat)

lemma guard_unsigned:
  "11 < (ucast (k :: c_int) :: u64) \<longleftrightarrow> \<not> (0 \<le> sint k \<and> sint k < 12)"
proof -
  have "11 < (ucast k :: u64) \<longleftrightarrow> 11 < uint k"
    by (simp add: word_less_def uint_u32_u64)
  then show ?thesis
    using uint_of_sint [of k] sint_word32_lower [of k] by auto
qed

lemma sint_u32_u64: "sint (ucast (k :: c_int) :: u64) = uint k"
proof -
  have "sint (ucast k :: u64) = signed_take_bit 63 (uint k)"
    by (simp only: sint_uint) (simp add: uint_u32_u64)
  also have "\<dots> = uint k"
    by (rule signed_take_bit_int_eq_self, rule order_trans [of _ 0]) (use uint_lt2p [of k] in simp_all)
  finally show ?thesis .
qed

definition guarded :: "val option \<Rightarrow> val option \<Rightarrow> vmem \<Rightarrow> 'm kworld \<Rightarrow> 'm kworld vm" where
  "guarded x r1 mm w = \<lparr>pc = 74,
     regs = [x, r1, None, None, None, None, Some (Addr Ctx 0), Some (Addr Data 0), None, None,
       Some (Addr Stack 0)], mem = mm, world = w\<rparr>"

lemma format_c: "map (\<lambda>b. char_of (unat b)) (takeWhile (\<lambda>b. b \<noteq> 0) (str_bytes ''%c'' @ [0])) = ''%c''"
  by code_simp

lemma kprobe_guard_out:
  assumes "globals mm k msg" and "\<not> (0 \<le> sint k \<and> sint k < 12)"
  shows "kprobe_steps K 3 (copied x y mm w) = Some (guarded x (Some (Scalar (ucast k))) mm w)"
proof -
  have "11 < (ucast k :: u64)" using assms(2) by (simp add: guard_unsigned)
  then show ?thesis
    using assms(1) by (simp add: guarded_def copied_def kprobe_simps globals_def)
qed

lemma kprobe_guard_in:
  assumes "globals mm k msg" and "frame mm d" and k: "0 \<le> sint k" "sint k < 12"
  shows "kprobe_steps K 22 (copied x y mm w) = Some
    (guarded (Some (Scalar (k_result K))) None mm
       (w\<lparr>k_trace := k_trace w @ [(''%c'', [sint (msg ! nat (sint k))]), (''%c'', [sint (message d ! nat (sint k))])]\<rparr>))"
proof -
  have le: "\<not> 11 < (ucast k :: u64)" using k by (simp add: guard_unsigned)
  have s: "sint (ucast k :: u64) = sint k" using k uint_of_sint [of k] by (simp add: sint_u32_u64)
  have "mm Data (4 + int (nat (sint k))) = Some (msg ! nat (sint k))"
    using assms(1) k by (intro read_nth [of _ _ _ 12]) (simp_all add: globals_def)
  then have a: "mm Data (4 + sint k) = Some (msg ! nat (sint k))"
    using k by simp
  have "mm Stack (-12 + int (nat (sint k))) = Some (message d ! nat (sint k))"
    using assms(2) k by (intro read_nth [of _ _ _ 12]) (simp_all add: frame_def)
  then have b: "mm Stack (sint k - 12) = Some (message d ! nat (sint k))"
    using k by simp
  show ?thesis
    using assms(1) le a b s
    by (simp add: guarded_def copied_def kprobe_simps globals_def format_c conv_value_def sint_char bpf_printk_def)
qed

section \<open>The epilogue\<close>

lemma kprobe_epilogue:
  assumes "frame mm d" and "length (snd (get_comm (k_env K) 16 (command d))) = 16"
  shows "\<exists>t. kprobe_steps K 12 (guarded x y mm w) = Some t \<and>
    step (decode_prog kprobe_exec_code) (kernel_call K) kprobe_relocs t = Halt 0 t \<and>
    mem t = put_bytes mm Stack (-28) (snd (get_comm (k_env K) 16 (command d))) \<and>
    world t = w\<lparr>k_out := k_out w @ [encode_data (d\<lparr>command := snd (get_comm (k_env K) 16 (command d))\<rparr>)]\<rparr>"
proof -
  obtain e com where c: "get_comm (k_env K) 16 (command d) = (e, com)" by fastforce
  with assms have "frame (put_bytes mm Stack (-28) com) (d\<lparr>command := com\<rparr>)"
    by (intro frame_command) simp_all
  note enc = frame_encode [OF this]
  show ?thesis
    by (rule exI, rule conjI, use assms(1) c enc in \<open>simp add: guarded_def kprobe_simps frame_def BPF_F_CURRENT_CPU_def; fail\<close>,
        simp add: kprobe_simps c)
qed

section \<open>The whole program\<close>

abbreviation kprobe_runs where
  "kprobe_runs K \<equiv> runs_to (decode_prog kprobe_exec_code) (kernel_call K) kprobe_relocs"

lemma kprobe_tail:
  assumes g: "globals mm k msg" and f: "frame mm d"
    and com: "length (snd (get_comm (k_env K) 16 (command d))) = 16"
  shows "\<exists>t. kprobe_runs K (copied x y mm w) 0 t \<and> globals (mem t) k msg \<and>
    world t = w\<lparr>k_trace := k_trace w @ (if 0 \<le> sint k \<and> sint k < 12
        then [(''%c'', [sint (msg ! nat (sint k))]), (''%c'', [sint (message d ! nat (sint k))])] else []),
      k_out := k_out w @ [encode_data (d\<lparr>command := snd (get_comm (k_env K) 16 (command d))\<rparr>)]\<rparr>"
proof -
  let ?w = "w\<lparr>k_trace := k_trace w @ (if 0 \<le> sint k \<and> sint k < 12
      then [(''%c'', [sint (msg ! nat (sint k))]), (''%c'', [sint (message d ! nat (sint k))])] else [])\<rparr>"
  obtain n x' r1 where "kprobe_steps K n (copied x y mm w) = Some (guarded x' r1 mm ?w)"
    using kprobe_guard_out [OF g, of K x y w] kprobe_guard_in [OF g f, of K x y w]
    by (cases "0 \<le> sint k \<and> sint k < 12") auto
  moreover obtain t where t: "kprobe_steps K 12 (guarded x' r1 mm ?w) = Some t"
      "step (decode_prog kprobe_exec_code) (kernel_call K) kprobe_relocs t = Halt 0 t"
      "mem t = put_bytes mm Stack (-28) (snd (get_comm (k_env K) 16 (command d)))"
      "world t = ?w\<lparr>k_out := k_out ?w @ [encode_data (d\<lparr>command := snd (get_comm (k_env K) 16 (command d))\<rparr>)]\<rparr>"
    using kprobe_epilogue [OF f com, of x' r1 ?w] by blast
  ultimately have "kprobe_runs K (copied x y mm w) 0 t"
    by (blast intro: runs_steps runs_halt)
  with t g show ?thesis by (intro exI [of _ t]) simp
qed

lemma prologue_message: "message (prologue_data env k) = replicate 12 0"
  "command (prologue_data env k) = replicate 16 0"
  by (simp_all add: prologue_data_def data_zero_def)

text \<open>Up to the copy, in both cases of the lookup.\<close>

lemma kprobe_head:
  assumes K: "msg_kernel K" and h: "probe_helpers (k_env K)" and wf: "probe_wf (k_ops K) s"
    and g: "globals mm (c s) (g_message s)" and w: "k_map w = my_config s"
  obtains n x y mm' where
    "kprobe_steps K n (vm_init mm w) = Some (copied x y mm' (w\<lparr>k_trace := k_trace w @
       (case map_lookup_elem (k_ops K) (my_config s) (ucast (uid_gid (k_env K))) of
          Some m \<Rightarrow> [(''%d'', [sint (m_message m ! 0)])] | None \<Rightarrow> [])\<rparr>))"
    and "globals mm' (c s + 1) (g_message s)"
    and "frame mm' ((prologue_data (k_env K) (c s))\<lparr>message := message (sample (k_ops K) (k_env K) s)\<rparr>)"
proof -
  let ?mm = "prologue_mem mm (k_env K) (c s)" and ?d = "prologue_data (k_env K) (c s)"
  let ?msg = "chosen_message (k_ops K) (k_env K) s"
  let ?m = "snd (probe_read (k_env K) 12 ?msg (replicate 12 0))"
  note G = prologue_globals [OF g, of "k_env K"] and F = prologue_frame [of mm "k_env K" "c s"]
  have "length ?m = 12"
    using probe_helpers.read_length [OF h] chosen_length [OF wf] by simp
  then have F': "frame (put_bytes mm' Stack (-12) ?m) (?d\<lparr>message := ?m\<rparr>)"
    if "frame mm' ?d" for mm' using frame_message that by blast
  show thesis
  proof (cases "map_lookup_elem (k_ops K) (my_config s) (ucast (uid_gid (k_env K)))")
    case None
    then have "kprobe_steps K 27 (vm_init mm w) = Some (looked_up (Scalar 0) ?mm w)"
      using kprobe_prologue [OF K g, of w] w by simp
    note run = steps_join [OF this kprobe_copy_default [OF G F prologue_message(1)]]
    have "?msg = g_message s" using None by (simp add: chosen_message_def)
    then show thesis
      by (intro that [OF run [THEN trans]]) (use G F' [OF F] None in \<open>simp_all add: sample_def\<close>)
  next
    case (Some m)
    let ?mm' = "put_bytes ?mm Map_value 0 (m_message m)"
    have m: "length (m_message m) = 12" using wf Some by (simp add: probe_wf_def)
    have "kprobe_steps K 27 (vm_init mm w) = Some (looked_up (Addr Map_value 0) ?mm' w)"
      using kprobe_prologue [OF K g, of w] w Some by simp
    moreover have G': "globals ?mm' (c s + 1) (g_message s)" and F2: "frame ?mm' ?d"
      using G F by (simp_all add: globals_def frame_def)
    moreover have "read_bytes ?mm' Map_value 0 12 = Some (m_message m)" using m by simp
    ultimately have run: "kprobe_steps K (27 + 13) (vm_init mm w) = Some
        (copied (Some (Scalar (fst (probe_read (k_env K) 12 (m_message m) (replicate 12 0))))) (Some (Addr Map_value 0))
           (put_bytes ?mm' Stack (-12) (snd (probe_read (k_env K) 12 (m_message m) (replicate 12 0))))
           (w\<lparr>k_trace := bpf_printk ''%d'' [sint (m_message m ! 0)] (k_trace w)\<rparr>))"
      by (intro steps_join [OF _ kprobe_copy_found [OF G' F2 prologue_message(1)]])
    have "?msg = m_message m" using Some by (simp add: chosen_message_def)
    then show thesis
      by (intro that [OF run [THEN trans]])
         (use G' F' [OF F2] Some in \<open>simp_all add: sample_def bpf_printk_def\<close>)
  qed
qed

lemma kprobe_exec_object:
  assumes "msg_kernel K" and "probe_helpers (k_env K)" and "probe_wf (k_ops K) s"
    and "globals mm (c s) (g_message s)"
    and "w = \<lparr>k_trace = printed s, k_map = my_config s, k_out = submitted s\<rparr>"
    and "kprobe_exec (k_ops K) (k_env K) s = Inr (r, s')"
  shows "\<exists>v t. runs_to (decode_prog kprobe_exec_code) (kernel_call K) kprobe_relocs (vm_init mm w) v t \<and>
    ucast v = r \<and> globals (mem t) (c s') (g_message s') \<and>
    world t = \<lparr>k_trace = printed s', k_map = my_config s', k_out = submitted s'\<rparr>"
proof -
  let ?env = "k_env K" and ?smp = "sample (k_ops K) (k_env K) s"
  have "c s \<noteq> int_max" using assms(6) by (auto simp: kprobe_exec_overflow)
  then have r: "r = 0" "s' = after_event (k_ops K) ?env s"
    using probe_helpers.kprobe_exec_event [OF assms(2,3)] assms(6) by auto
  let ?d = "(prologue_data ?env (c s))\<lparr>message := message ?smp\<rparr>"
  have com: "length (snd (get_comm ?env 16 (command ?d))) = 16"
    using probe_helpers.comm_length [OF assms(2), of "replicate 16 0"] by (simp add: prologue_message)
  have smp: "?d\<lparr>command := snd (get_comm ?env 16 (command ?d))\<rparr> = ?smp"
    by (simp add: sample_def prologue_data_def data_zero_def)
  have w: "k_map w = my_config s" using assms(5) by simp
  obtain n x y mm' where head: "kprobe_steps K n (vm_init mm w) = Some (copied x y mm' (w\<lparr>k_trace := k_trace w @
       (case map_lookup_elem (k_ops K) (my_config s) (ucast (uid_gid ?env)) of
          Some m \<Rightarrow> [(''%d'', [sint (m_message m ! 0)])] | None \<Rightarrow> [])\<rparr>))"
    and g: "globals mm' (c s + 1) (g_message s)" and f: "frame mm' ?d"
    by (rule kprobe_head [OF assms(1-4) w])
  obtain t where t: "kprobe_runs K (vm_init mm w) 0 t" "globals (mem t) (c s + 1) (g_message s)"
    "world t = w\<lparr>k_trace := (k_trace w @
       (case map_lookup_elem (k_ops K) (my_config s) (ucast (uid_gid ?env)) of
          Some m \<Rightarrow> [(''%d'', [sint (m_message m ! 0)])] | None \<Rightarrow> [])) @
       (if 0 \<le> sint (c s + 1) \<and> sint (c s + 1) < 12
        then [(''%c'', [sint (g_message s ! nat (sint (c s + 1)))]),
              (''%c'', [sint (message ?smp ! nat (sint (c s + 1)))])] else []),
       k_out := k_out w @ [encode_data ?smp]\<rparr>"
    using kprobe_tail [OF g f com] runs_steps [OF head] smp by fastforce
  then show ?thesis
    by (intro exI [of _ 0] exI [of _ t]) (simp add: r after_event_def event_prints_def assms(5))
qed

text \<open>A kernel and a memory for the witness.\<close>

definition probe_kernel :: "probe_env \<Rightarrow> ((u32, msg_t) hmap, u32, msg_t) kernel" where
  "probe_kernel env = \<lparr>k_ops = hmap_ops, key_size = 4, key_of = of_le, value_size = 12,
     value_of = (\<lambda>b. \<lparr>m_message = b\<rparr>), value_bytes = m_message, k_env = env, k_result = 0\<rparr>"

definition probe_mem :: "c_int \<Rightarrow> bytes \<Rightarrow> vmem" where
  "probe_mem k msg = put_bytes (put_bytes (put_bytes (put_bytes (put_bytes (\<lambda>_ _. None)
     Data 0 (le_bytes 4 k)) Data 4 msg) Rodata 0 (str_bytes ''%d'' @ [0]))
     Rodata 3 (str_bytes ''%c'' @ [0])) Rodata 6 (str_bytes ''%c'' @ [0])"

lemma probe_mem_globals: "length msg = 12 \<Longrightarrow> globals (probe_mem k msg) k msg"
  by (simp add: globals_def probe_mem_def read_put_other)

section \<open>Properties\<close>

text \<open>C2: the object code of \<open>kprobe_exec\<close> refines the C program. On every event on which the C
  program is defined, the code ends without an invalid access, returns the same value, leaves
  the same globals and the same map, prints the same text and submits the same sample, byte
  for byte.\<close>

theorem kprobe_exec_bytecode:
  assumes "msg_kernel K" and "probe_helpers (k_env K)" and "probe_wf (k_ops K) s"
    and "globals mm (c s) (g_message s)"
    and "w = \<lparr>k_trace = printed s, k_map = my_config s, k_out = submitted s\<rparr>"
    and "kprobe_exec (k_ops K) (k_env K) s = Inr (r, s')"
  shows "\<exists>v t. runs_to (decode_prog kprobe_exec_code) (kernel_call K) kprobe_relocs (vm_init mm w) v t \<and>
    ucast v = r \<and> globals (mem t) (c s') (g_message s') \<and>
    world t = \<lparr>k_trace = printed s', k_map = my_config s', k_out = submitted s'\<rparr>"
  by (rule kprobe_exec_object [OF assms])

theorem kprobe_exec_bytecode_witness:
  "\<exists>v t. kprobe_runs (probe_kernel (doc_env 7 501 []))
       (vm_init (probe_mem 1 (str_bytes ''Hello World'' @ [0]))
          \<lparr>k_trace = [], k_map = my_config_map, k_out = []\<rparr>) v t \<and>
     ucast v = (0 :: c_int) \<and> length (k_out (world t)) = 1"
proof -
  let ?s = "probe_init my_config_map" and ?K = "probe_kernel (doc_env 7 501 [])"
  have e: "map_lookup_elem hmap_ops my_config_map = Map.empty"
    by (simp add: hmap_ops_def my_config_map_def)
  note wf = probe_wf_init [OF e]
  have k: "kprobe_exec (k_ops ?K) (k_env ?K) ?s = Inr (0, after_event hmap_ops (doc_env 7 501 []) ?s)"
    using probe_helpers.kprobe_exec_event [OF de.probe_helpers_axioms wf]
    by (simp add: probe_kernel_def probe_init_def int_max_def)
  have "globals (probe_mem 1 (str_bytes ''Hello World'' @ [0])) (c ?s) (g_message ?s)"
    by (simp add: probe_init_def probe_mem_globals)
  from kprobe_exec_bytecode [OF _ _ _ this refl k] show ?thesis
    using wf de.probe_helpers_axioms
    by (force simp: msg_kernel_def probe_kernel_def after_event_def probe_init_def)
qed

end
