(* ===== verification/Elf_Program.thy ===== *)
theory Elf_Program
  imports Elf Bytecode_Probe
begin

text \<open>
  What the object file in the skeleton contains: the two programs of the verifier example
  with their relocations, their globals and their format strings.
\<close>

section \<open>Reading the image\<close>

lemma image_slices:
  "slice 5736 1088 elf_image = Some elf_shdrs"
  "slice 64 712 elf_image = Some elf_kprobe"
  "slice 776 64 elf_image = Some elf_xdp"
  "slice 840 16 elf_image = Some elf_data"
  "slice 912 15 elf_image = Some elf_rodata"
  "slice 4040 432 elf_image = Some elf_symtab"
  "slice 4472 144 elf_image = Some elf_rel_kprobe"
  "slice 4616 16 elf_image = Some elf_rel_xdp"
  "slice 5458 273 elf_image = Some (take 273 elf_strtab)"
  by (simp_all add: slice_def elf_image_def)

lemma slice_header: "off + n \<le> 64 \<Longrightarrow> slice off n elf_image = slice off n elf_header"
  by (simp add: slice_def elf_image_def)

lemma take_header: "take 6 elf_image = take 6 elf_header"
  by (simp add: elf_image_def)

lemma header_fields:
  "get_nat 40 8 elf_image = Some 5736" "get_nat 60 2 elf_image = Some 17"
  "get_nat 62 2 elf_image = Some 1" "elf_ident elf_image"
proof -
  have "get_nat 40 8 elf_header = Some 5736" "get_nat 60 2 elf_header = Some 17"
    "get_nat 62 2 elf_header = Some 1" "get_nat 18 2 elf_header = Some 247"
    "take 6 elf_header = [0x7f, 0x45, 0x4c, 0x46, 2, 1]"
    by code_simp+
  then show "get_nat 40 8 elf_image = Some 5736" "get_nat 60 2 elf_image = Some 17"
    "get_nat 62 2 elf_image = Some 1" "elf_ident elf_image"
    by (simp_all add: get_nat_def slice_header elf_ident_def take_header)
qed

section \<open>The tables\<close>

definition image_sections :: "elf_section list" where
  "image_sections = [
     \<lparr>es_name = 0, es_offset = 0, es_size = 0, es_link = 0\<rparr>,
     \<lparr>es_name = 161, es_offset = 5458, es_size = 273, es_link = 0\<rparr>,
     \<lparr>es_name = 1, es_offset = 64, es_size = 0, es_link = 0\<rparr>,
     \<lparr>es_name = 117, es_offset = 64, es_size = 712, es_link = 0\<rparr>,
     \<lparr>es_name = 113, es_offset = 4472, es_size = 144, es_link = 16\<rparr>,
     \<lparr>es_name = 75, es_offset = 776, es_size = 64, es_link = 0\<rparr>,
     \<lparr>es_name = 71, es_offset = 4616, es_size = 16, es_link = 16\<rparr>,
     \<lparr>es_name = 185, es_offset = 840, es_size = 16, es_link = 0\<rparr>,
     \<lparr>es_name = 65, es_offset = 856, es_size = 56, es_link = 0\<rparr>,
     \<lparr>es_name = 177, es_offset = 912, es_size = 15, es_link = 0\<rparr>,
     \<lparr>es_name = 133, es_offset = 927, es_size = 13, es_link = 0\<rparr>,
     \<lparr>es_name = 195, es_offset = 940, es_size = 2353, es_link = 0\<rparr>,
     \<lparr>es_name = 191, es_offset = 4632, es_size = 144, es_link = 16\<rparr>,
     \<lparr>es_name = 11, es_offset = 3296, es_size = 740, es_link = 0\<rparr>,
     \<lparr>es_name = 7, es_offset = 4776, es_size = 672, es_link = 16\<rparr>,
     \<lparr>es_name = 89, es_offset = 5448, es_size = 10, es_link = 0\<rparr>,
     \<lparr>es_name = 169, es_offset = 4040, es_size = 432, es_link = 1\<rparr>]"

definition image_names :: "string list" where
  "image_names = ['''', ''.strtab'', ''.text'', ''ksyscall/execve'', ''.relksyscall/execve'', ''xdp'', ''.relxdp'', ''.data'', ''.maps'', ''.rodata'', ''license'', ''.BTF'', ''.rel.BTF'', ''.BTF.ext'', ''.rel.BTF.ext'', ''.llvm_addrsig'', ''.symtab'']"

definition image_symbols :: "(nat \<times> nat) list" where
  "image_symbols = [(0, 0), (3, 0), (3, 336), (9, 0), (3, 376), (3, 592), (9, 3), (9, 6), (5, 0), (9, 9), (9, 0), (3, 0), (7, 0), (8, 0), (7, 4), (8, 32), (5, 0), (10, 0)]"

lemma sections_entries: "entry_table 0 17 64 section_entry elf_shdrs = Some image_sections"
  unfolding elf_shdrs_def
  by (rule table_rows) (simp_all add: section_entry_def image_sections_def get_nat_def slice_def)

lemma symbols_entries: "entry_table 0 18 24 symbol_entry elf_symtab = Some image_symbols"
  unfolding elf_symtab_def
  by (rule table_rows) (simp_all add: symbol_entry_def image_symbols_def get_nat_def slice_def)

lemma rel_kprobe_entries: "entry_table 0 9 16 reloc_entry elf_rel_kprobe = Some [(8, 12), (200, 13), (264, 10), (360, 14), (384, 12), (416, 14), (464, 10), (560, 10), (648, 15)]"
  unfolding elf_rel_kprobe_def by (rule table_rows) (simp_all add: reloc_entry_def get_nat_def slice_def)

lemma rel_xdp_entries: "entry_table 0 1 16 reloc_entry elf_rel_xdp = Some [(16, 10)]"
  by (simp add: entry_table_def elf_rel_xdp_def reloc_entry_def get_nat_def slice_def)

lemma names_entries: "map (\<lambda>s. name_at (take 273 elf_strtab) (es_name s)) image_sections = image_names"
  by (simp add: image_sections_def image_names_def name_at_def elf_strtab_def, code_simp)

lemma elf_sections_image: "elf_sections elf_image = Some image_sections"
  using table_slice [of 5736 17 64 elf_image elf_shdrs section_entry] sections_entries
  by (simp add: elf_sections_def header_fields image_slices)

lemma section_names_image: "section_names elf_image image_sections = Some image_names"
proof -
  have "nth_opt image_sections 1 = Some \<lparr>es_name = 161, es_offset = 5458, es_size = 273, es_link = 0\<rparr>"
    by (simp add: nth_opt_def image_sections_def)
  then show ?thesis
    by (simp add: section_names_def header_fields section_bytes_def image_slices names_entries)
qed

section \<open>The programs and their data\<close>

lemma image_found:
  "find_section image_names image_sections ''ksyscall/execve'' = Some (image_sections ! 3)"
  "find_section image_names image_sections ''.relksyscall/execve'' = Some (image_sections ! 4)"
  "find_section image_names image_sections ''xdp'' = Some (image_sections ! 5)"
  "find_section image_names image_sections ''.relxdp'' = Some (image_sections ! 6)"
  "find_section image_names image_sections ''.data'' = Some (image_sections ! 7)"
  "find_section image_names image_sections ''.rodata'' = Some (image_sections ! 9)"
  by (simp_all add: find_section_def image_names_def image_sections_def)

lemma image_symtab: "nth_opt image_sections 16 = Some (image_sections ! 16)"
  by (simp add: nth_opt_def image_sections_def)

lemma image_nth:
  "es_offset (image_sections ! 3) = 64" "es_size (image_sections ! 3) = 712"
  "es_offset (image_sections ! 4) = 4472" "es_size (image_sections ! 4) = 144" "es_link (image_sections ! 4) = 16"
  "es_offset (image_sections ! 5) = 776" "es_size (image_sections ! 5) = 64"
  "es_offset (image_sections ! 6) = 4616" "es_size (image_sections ! 6) = 16" "es_link (image_sections ! 6) = 16"
  "es_offset (image_sections ! 7) = 840" "es_size (image_sections ! 7) = 16"
  "es_offset (image_sections ! 9) = 912" "es_size (image_sections ! 9) = 15"
  "es_offset (image_sections ! 16) = 4040" "es_size (image_sections ! 16) = 432"
  by (simp_all add: image_sections_def)

lemma image_tables:
  "entry_table 4040 18 24 symbol_entry elf_image = Some image_symbols"
  "entry_table 4472 9 16 reloc_entry elf_image = Some [(8, 12), (200, 13), (264, 10), (360, 14), (384, 12), (416, 14), (464, 10), (560, 10), (648, 15)]"
  "entry_table 4616 (Suc 0) 16 reloc_entry elf_image = Some [(16, 10)]"
  using table_slice [of 4040 18 24 elf_image elf_symtab symbol_entry] symbols_entries
    table_slice [of 4472 9 16 elf_image elf_rel_kprobe reloc_entry] rel_kprobe_entries
    table_slice [of 4616 "Suc 0" 16 elf_image elf_rel_xdp reloc_entry] rel_xdp_entries
  by (simp_all add: image_slices)

lemma image_relocs:
  "section_relocs elf_image image_names image_sections ''ksyscall/execve'' = Some kprobe_relocs"
  "section_relocs elf_image image_names image_sections ''xdp'' = Some xdp_hello_relocs"
  by (simp_all add: section_relocs_def image_found image_nth image_symtab image_tables)
     (simp_all add: reloc_of_def nth_opt_def image_symbols_def image_names_def region_of_def
        kprobe_relocs_def xdp_hello_relocs_def)

lemma image_code: "elf_kprobe = kprobe_exec_code" "elf_xdp = xdp_hello_code"
  by (simp_all add: elf_kprobe_def elf_xdp_def kprobe_exec_code_def xdp_hello_code_def)

lemma image_programs:
  "elf_program elf_image ''ksyscall/execve'' = Some (kprobe_exec_code, kprobe_relocs)"
  "elf_program elf_image ''xdp'' = Some (xdp_hello_code, xdp_hello_relocs)"
  by (simp_all add: elf_program_def elf_sections_image section_names_image image_found image_relocs
      section_bytes_def image_nth image_slices image_code)

lemma elf_data_bytes: "elf_data = le_bytes 4 (1 :: c_int) @ str_bytes ''Hello World'' @ [0]"
  by code_simp

lemma elf_rodata_bytes: "elf_rodata = str_bytes ''%d'' @ [0] @ str_bytes ''%c'' @ [0] @ str_bytes ''%c'' @ [0]
    @ str_bytes ''%x %x'' @ [0]"
  by code_simp

definition image_mem :: vmem where
  "image_mem = put_bytes (put_bytes (\<lambda>_ _. None) Data 0 elf_data) Rodata 0 elf_rodata"

lemma image_memory: "elf_memory elf_image = Some image_mem"
  by (simp add: elf_memory_def elf_section_named_def elf_sections_image section_names_image image_found
      section_bytes_def image_nth image_slices image_mem_def)

section \<open>The global symbols\<close>

lemma symbols_full: "entry_table 4040 18 24 symbol_full elf_image = Some [
     (0, 0, 0, 0), (0, 3, 3, 0), (222, 0, 3, 336), (45, 1, 9, 0), (215, 0, 3, 376), (208, 0, 3, 592), (251, 1, 9, 3), (229, 1, 9, 6), (0, 3, 5, 0), (27, 1, 9, 9), (0, 3, 9, 0), (149, 18, 3, 0), (159, 17, 7, 0), (103, 17, 8, 0), (141, 17, 7, 4), (20, 17, 8, 32), (79, 18, 5, 0), (200, 17, 10, 0)]"
proof -
  have "entry_table 0 18 24 symbol_full elf_symtab = Some [
     (0, 0, 0, 0), (0, 3, 3, 0), (222, 0, 3, 336), (45, 1, 9, 0), (215, 0, 3, 376), (208, 0, 3, 592), (251, 1, 9, 3), (229, 1, 9, 6), (0, 3, 5, 0), (27, 1, 9, 9), (0, 3, 9, 0), (149, 18, 3, 0), (159, 17, 7, 0), (103, 17, 8, 0), (141, 17, 7, 4), (20, 17, 8, 32), (79, 18, 5, 0), (200, 17, 10, 0)]"
    unfolding elf_symtab_def
    by (rule table_rows) (simp_all add: symbol_full_def symbol_entry_def get_nat_def slice_def)
  then show ?thesis
    using table_slice [of 4040 18 24 elf_image elf_symtab symbol_full] by (simp add: image_slices)
qed

lemma image_symtab_found:
  "find_section image_names image_sections ''.symtab'' = Some (image_sections ! 16)"
  "es_link (image_sections ! 16) = 1" "nth_opt image_sections 1 = Some (image_sections ! 1)"
  "es_offset (image_sections ! 1) = 5458" "es_size (image_sections ! 1) = 273"
  by (simp_all add: find_section_def image_names_def image_sections_def nth_opt_def)

lemma symbol_names:
  "map (name_at (take 273 elf_strtab)) [149, 159, 103, 141, 20, 79, 200] =
     [''kprobe_exec'', ''c'', ''my_config'', ''message'', ''output'', ''xdp_hello'', ''LICENSE'']"
  by (simp add: name_at_def elf_strtab_def, code_simp)

lemma image_globals_table:
  "elf_globals elf_image = Some [(''kprobe_exec'', ''ksyscall/execve'', 0), (''c'', ''.data'', 0),
     (''my_config'', ''.maps'', 0), (''message'', ''.data'', 4), (''output'', ''.maps'', 32),
     (''xdp_hello'', ''xdp'', 0), (''LICENSE'', ''license'', 0)]"
  using symbol_names
  by (simp add: elf_globals_def elf_sections_image section_names_image image_symtab_found section_bytes_def
      image_nth image_slices symbols_full del: One_nat_def)
     (simp add: nth_opt_def image_names_def)

end
