(* ===== verification/Loaded_Object.thy ===== *)
theory Loaded_Object
  imports Elf_Program Skeleton
begin

text \<open>
  The object file of the skeleton, loaded and run: its program for \<open>execve\<close> is executed on one
  event after the other. The globals and the map live on; the stack and the registers are new
  for every event.
\<close>

section \<open>Running an object\<close>

fun run_object :: "insn option list \<Rightarrow> relocs \<Rightarrow> ('m, 'k, 'v) kernel \<Rightarrow> nat \<Rightarrow> vmem \<Rightarrow> 'm kworld
    \<Rightarrow> probe_env list \<Rightarrow> (vmem \<times> 'm kworld) option" where
  "run_object code rel K fuel mm w [] = Some (mm, w)"
| "run_object code rel K fuel mm w (e # es) =
     (case exec code (kernel_call (K\<lparr>k_env := e\<rparr>)) rel fuel (vm_init mm w) of
        Some (Inr (_, t)) \<Rightarrow> run_object code rel K fuel (mem t) (world t) es
      | _ \<Rightarrow> None)"

definition run_image :: "bytes \<Rightarrow> string \<Rightarrow> ('m, 'k, 'v) kernel \<Rightarrow> nat \<Rightarrow> 'm kworld
    \<Rightarrow> probe_env list \<Rightarrow> (vmem \<times> 'm kworld) option" where
  "run_image b nm K fuel w es =
     Option.bind (elf_program b nm) (\<lambda>(code, rel). Option.bind (elf_memory b) (\<lambda>mm.
       run_object (decode_prog code) rel K fuel mm w es))"

lemma run_object_more:
  "run_object code rel K n mm w es = Some r \<Longrightarrow> n \<le> k \<Longrightarrow> run_object code rel K k mm w es = Some r"
proof (induction es arbitrary: mm w)
  case (Cons e es)
  then show ?case
    using exec_more [of code "kernel_call (K\<lparr>k_env := e\<rparr>)" rel n "vm_init mm w" _ k]
    by (auto split: option.splits sum.splits)
qed simp

lemma run_object_step:
  assumes "runs_to code (kernel_call (K\<lparr>k_env := e\<rparr>)) rel (vm_init mm w) v t"
    and "run_object code rel K n (mem t) (world t) es = Some r"
  shows "\<exists>k. run_object code rel K k mm w (e # es) = Some r"
proof -
  obtain m where "exec code (kernel_call (K\<lparr>k_env := e\<rparr>)) rel m (vm_init mm w) = Some (Inr (v, t))"
    using assms(1) by (auto simp: runs_to_def)
  then have "exec code (kernel_call (K\<lparr>k_env := e\<rparr>)) rel (m + n) (vm_init mm w) = Some (Inr (v, t))"
    by (rule exec_more) simp
  moreover have "run_object code rel K (m + n) (mem t) (world t) es = Some r"
    by (rule run_object_more [OF assms(2)]) simp
  ultimately have "run_object code rel K (m + n) mm w (e # es) = Some r" by simp
  then show ?thesis ..
qed

section \<open>The globals of the image\<close>

lemma image_globals: "globals image_mem 1 (str_bytes ''Hello World'' @ [0])"
proof -
  have d: "read_bytes image_mem Data 0 16 = Some elf_data"
    by (simp add: image_mem_def read_put_other)
  have r: "read_bytes image_mem Rodata 0 15 = Some elf_rodata"
    by (simp add: image_mem_def)
  have "read_bytes image_mem Data 0 4 = Some (take 4 elf_data)"
    "read_bytes image_mem Data 4 12 = Some (take 12 (drop 4 elf_data))"
    "read_bytes image_mem Rodata 0 3 = Some (take 3 elf_rodata)"
    "read_bytes image_mem Rodata 3 3 = Some (take 3 (drop 3 elf_rodata))"
    "read_bytes image_mem Rodata 6 3 = Some (take 3 (drop 6 elf_rodata))"
    using read_slice [OF d, of 0 4] read_slice [OF d, of 4 12] read_slice [OF r, of 0 3]
      read_slice [OF r, of 3 3] read_slice [OF r, of 6 3] by simp_all
  then show ?thesis by (simp add: globals_def elf_data_bytes elf_rodata_bytes)
qed

section \<open>The simulation\<close>

abbreviation probe_world :: "'m probe_state \<Rightarrow> 'm kworld" where
  "probe_world s \<equiv> \<lparr>k_trace = printed s, k_map = my_config s, k_out = submitted s\<rparr>"

lemma probe_wf_step:
  assumes "probe_helpers e" and "probe_wf ops s" and "kprobe_exec ops e s = Inr (r, s')"
  shows "probe_wf ops s'"
proof -
  have "c s \<noteq> int_max" using assms(3) by (auto simp: kprobe_exec_overflow)
  then have "s' = after_event ops e s"
    using probe_helpers.kprobe_exec_event [OF assms(1,2)] assms(3) by simp
  then show ?thesis using probe_wf_after [OF assms(2)] by simp
qed

lemma run_object_simulates:
  assumes "msg_kernel K" and "\<forall>e \<in> set es. probe_helpers e" and "probe_wf (k_ops K) s"
    and "globals mm (c s) (g_message s)" and "run_probe (k_ops K) es s = Inr s'"
  shows "\<exists>fuel mm'. run_object (decode_prog kprobe_exec_code) kprobe_relocs K fuel mm (probe_world s) es =
      Some (mm', probe_world s') \<and> globals mm' (c s') (g_message s')"
  using assms
proof (induction es arbitrary: s mm)
  case Nil
  then show ?case by auto
next
  case (Cons e es)
  let ?K = "K\<lparr>k_env := e\<rparr>"
  obtain r s1 where s1: "kprobe_exec (k_ops K) e s = Inr (r, s1)" "run_probe (k_ops K) es s1 = Inr s'"
    using Cons.prems(5) by (auto simp: bindE_def split: sum.splits)
  have "msg_kernel ?K" using Cons.prems(1) by (simp add: msg_kernel_def)
  from kprobe_exec_object [OF this _ _ Cons.prems(4) refl, of r s1] Cons.prems s1
  obtain v t where t: "runs_to (decode_prog kprobe_exec_code) (kernel_call ?K) kprobe_relocs
      (vm_init mm (probe_world s)) v t" "globals (mem t) (c s1) (g_message s1)" "world t = probe_world s1"
    by auto
  have "probe_wf (k_ops K) s1"
    by (rule probe_wf_step [OF _ Cons.prems(3) s1(1)]) (use Cons.prems(2) in simp)
  with Cons.IH [OF Cons.prems(1) _ _ t(2) s1(2)] Cons.prems(2) obtain n mm' where
    "run_object (decode_prog kprobe_exec_code) kprobe_relocs K n (mem t) (world t) es =
      Some (mm', probe_world s')" and g: "globals mm' (c s') (g_message s')"
    using t(3) by auto
  from run_object_step [OF t(1) this(1)] g show ?case by blast
qed

section \<open>Properties\<close>

text \<open>C4: from the bytes of the skeleton to the samples. The object file that \<open>hello-verifier.skel.h\<close>
  embeds, loaded and run on any sequence of events on which the C program is defined, prints
  the same text and submits the same samples, byte for byte, as the C program does from its
  initial state.\<close>

theorem image_refines_kprobe_exec:
  assumes "msg_kernel K" and "\<And>e. e \<in> set es \<Longrightarrow> probe_helpers e" and "probe_wf (k_ops K) (probe_init m)"
    and "run_probe (k_ops K) es (probe_init m) = Inr s'"
  shows "\<exists>fuel mm. run_image (take (snd hello_verifier_bpf__elf_bytes) (fst hello_verifier_bpf__elf_bytes))
      ''ksyscall/execve'' K fuel \<lparr>k_trace = [], k_map = m, k_out = []\<rparr> es =
    Some (mm, \<lparr>k_trace = printed s', k_map = my_config s', k_out = submitted s'\<rparr>)"
proof -
  have "globals image_mem (c (probe_init m)) (g_message (probe_init m))"
    by (simp add: probe_init_def image_globals)
  from run_object_simulates [OF assms(1) _ assms(3) this assms(4)] assms(2) show ?thesis
    by (auto simp: elf_bytes_image run_image_def image_programs image_memory probe_init_def)
qed

theorem image_refines_kprobe_exec_witness:
  "\<exists>fuel mm w. run_image elf_image ''ksyscall/execve'' (probe_kernel (doc_env 0 0 [])) fuel
       \<lparr>k_trace = [], k_map = my_config_map, k_out = []\<rparr> [doc_env 7 501 [], doc_env 8 0 []] = Some (mm, w) \<and>
     length (k_out w) = 2"
proof -
  let ?es = "[doc_env 7 501 [], doc_env 8 0 []]" and ?K = "probe_kernel (doc_env 0 0 [])"
  have e: "map_lookup_elem hmap_ops my_config_map = Map.empty"
    by (simp add: hmap_ops_def my_config_map_def)
  have ph: "probe_helpers e" if "e \<in> set ?es" for e
    using that de.probe_helpers_axioms by auto
  have K: "msg_kernel ?K" "k_ops ?K = hmap_ops" by (simp_all add: msg_kernel_def probe_kernel_def)
  from run_probe_samples [of ?es hmap_ops "probe_init my_config_map"] ph probe_wf_init [OF e]
  obtain s' where s': "run_probe (k_ops ?K) ?es (probe_init my_config_map) = Inr s'" "length (submitted s') = 2"
    by (auto simp: K probe_init_def)
  from image_refines_kprobe_exec [OF K(1) ph _ s'(1)] probe_wf_init [OF e] s'(2) show ?thesis
    by (force simp: K elf_bytes_image)
qed

end
