(* ===== verification/Btf.thy ===== *)
theory Btf
  imports Elf
begin

text \<open>
  Reading the type information of an object (BTF): the header, the types, their names, and the
  definitions of maps that \<open>libbpf\<close> takes from the types of the variables in \<open>.maps\<close>.
\<close>

section \<open>Parsers\<close>

text \<open>A parser takes its fields from the front and returns the rest.\<close>

fun get4 :: "bytes \<Rightarrow> (nat \<times> bytes) option" where
  "get4 (b0 # b1 # b2 # b3 # r) = Some (unat (of_le [b0, b1, b2, b3] :: u32), r)"
| "get4 _ = None"

fun get_word :: "bytes \<Rightarrow> (u32 \<times> bytes) option" where
  "get_word (b0 # b1 # b2 # b3 # r) = Some (of_le [b0, b1, b2, b3], r)"
| "get_word _ = None"

definition get_pair :: "bytes \<Rightarrow> ((nat \<times> nat) \<times> bytes) option" where
  "get_pair b = Option.bind (get4 b) (\<lambda>(x, r). Option.bind (get4 r) (\<lambda>(y, r). Some ((x, y), r)))"

definition get_triple :: "bytes \<Rightarrow> ((nat \<times> nat \<times> nat) \<times> bytes) option" where
  "get_triple b = Option.bind (get4 b) (\<lambda>(x, r). Option.bind (get_pair r) (\<lambda>(yz, r). Some ((x, yz), r)))"

fun get_many :: "nat \<Rightarrow> (bytes \<Rightarrow> ('a \<times> bytes) option) \<Rightarrow> bytes \<Rightarrow> ('a list \<times> bytes) option" where
  "get_many 0 p b = Some ([], b)"
| "get_many (Suc n) p b = Option.bind (p b) (\<lambda>(x, r).
     Option.bind (get_many n p r) (\<lambda>(xs, r). Some (x # xs, r)))"

lemma get_many_numeral [simp]:
  "get_many (numeral k) p b = Option.bind (p b) (\<lambda>(x, r).
     Option.bind (get_many (pred_numeral k) p r) (\<lambda>(xs, r). Some (x # xs, r)))"
  by (simp add: numeral_eq_Suc)

section \<open>Types\<close>

text \<open>
  A type other than a number refers to others by their index, from 1 on; 0 is \<open>void\<close>. Members
  of a structure have a name, a type and an offset in bits; the variables of a section a type,
  an offset and a size.
\<close>

datatype btf_kind =
    BInt nat
  | BPtr nat
  | BArray nat nat
  | BStruct nat "(nat \<times> nat \<times> nat) list"
  | BAlias nat
  | BProto nat "(nat \<times> nat) list"
  | BFunc nat
  | BVar nat
  | BSec "(nat \<times> nat \<times> nat) list"

type_synonym btf_type = "nat \<times> btf_kind"

definition btf_one :: "bytes \<Rightarrow> (btf_type \<times> bytes) option" where
  "btf_one b =
     Option.bind (get4 b) (\<lambda>(nm, r). Option.bind (get_word r) (\<lambda>(info, r). Option.bind (get4 r) (\<lambda>(sz, r).
       let k = drop_bit 24 info AND 31; n = unat (info AND 0xFFFF)
       in if k = 1 then Option.bind (get_word r) (\<lambda>(_, r). Some ((nm, BInt sz), r))
          else if k = 2 then Some ((nm, BPtr sz), r)
          else if k = 3 then Option.bind (get_triple r) (\<lambda>((e, i, m), r). Some ((nm, BArray e m), r))
          else if k = 4 then Option.bind (get_many n get_triple r) (\<lambda>(ms, r). Some ((nm, BStruct sz ms), r))
          else if k = 8 \<or> k = 10 then Some ((nm, BAlias sz), r)
          else if k = 12 then Some ((nm, BFunc sz), r)
          else if k = 13 then Option.bind (get_many n get_pair r) (\<lambda>(ps, r). Some ((nm, BProto sz ps), r))
          else if k = 14 then Option.bind (get_word r) (\<lambda>(_, r). Some ((nm, BVar sz), r))
          else if k = 15 then Option.bind (get_many n get_triple r) (\<lambda>(vs, r). Some ((nm, BSec vs), r))
          else None)))"

text \<open>Every type takes at least 12 bytes, so the number of bytes is enough fuel.\<close>

fun btf_all :: "nat \<Rightarrow> bytes \<Rightarrow> btf_type list option" where
  "btf_all n [] = Some []"
| "btf_all 0 (_ # _) = None"
| "btf_all (Suc n) (x # xs) =
     Option.bind (btf_one (x # xs)) (\<lambda>(t, r). map_option (Cons t) (btf_all n r))"

text \<open>The types and the strings of the section.\<close>

definition btf_parse :: "bytes \<Rightarrow> (btf_type list \<times> bytes) option" where
  "btf_parse b =
     (if get_nat 0 2 b = Some 0xEB9F then
        Option.bind (get_nat 4 4 b) (\<lambda>h.
        Option.bind (get_nat 8 4 b) (\<lambda>toff. Option.bind (get_nat 12 4 b) (\<lambda>tlen.
        Option.bind (get_nat 16 4 b) (\<lambda>soff. Option.bind (get_nat 20 4 b) (\<lambda>slen.
        Option.bind (slice (h + toff) tlen b) (\<lambda>tb.
        Option.bind (slice (h + soff) slen b) (\<lambda>sb.
        map_option (\<lambda>ts. (ts, sb)) (btf_all (length tb) tb))))))))
      else None)"

definition btf_nth :: "btf_type list \<Rightarrow> nat \<Rightarrow> btf_type option" where
  "btf_nth ts i = (if 0 < i then nth_opt ts (i - 1) else None)"

text \<open>The size of a type; the number of types bounds the length of a chain of references.\<close>

fun btf_size :: "nat \<Rightarrow> btf_type list \<Rightarrow> nat \<Rightarrow> nat option" where
  "btf_size 0 ts i = None"
| "btf_size (Suc n) ts i =
     Option.bind (btf_nth ts i) (\<lambda>(_, k). case k of
       BInt sz \<Rightarrow> Some sz | BPtr _ \<Rightarrow> Some 8 | BStruct sz _ \<Rightarrow> Some sz
     | BArray e m \<Rightarrow> map_option (\<lambda>sz. m * sz) (btf_size n ts e)
     | BAlias j \<Rightarrow> btf_size n ts j | _ \<Rightarrow> None)"

lemma btf_size_numeral:
  "btf_size (numeral m) ts i =
     Option.bind (btf_nth ts i) (\<lambda>(_, k). case k of
       BInt sz \<Rightarrow> Some sz | BPtr _ \<Rightarrow> Some 8 | BStruct sz _ \<Rightarrow> Some sz
     | BArray e m' \<Rightarrow> map_option (\<lambda>sz. m' * sz) (btf_size (pred_numeral m) ts e)
     | BAlias j \<Rightarrow> btf_size (pred_numeral m) ts j | _ \<Rightarrow> None)"
  by (simp add: numeral_eq_Suc cong: btf_kind.case_cong)

section \<open>Maps\<close>

record map_def =
  md_type :: nat
  md_key_size :: nat
  md_value_size :: nat
  md_max_entries :: nat

text \<open>
  \<open>__uint (x, n)\<close> declares a pointer to an array of \<open>n\<close> elements, \<open>__type (x, t)\<close> a pointer
  to \<open>t\<close>.
\<close>

definition btf_uint :: "btf_type list \<Rightarrow> nat \<Rightarrow> nat option" where
  "btf_uint ts i = (case btf_nth ts i of
     Some (_, BPtr j) \<Rightarrow> (case btf_nth ts j of Some (_, BArray _ n) \<Rightarrow> Some n | _ \<Rightarrow> None)
   | _ \<Rightarrow> None)"

definition btf_pointee :: "btf_type list \<Rightarrow> nat \<Rightarrow> nat option" where
  "btf_pointee ts i = (case btf_nth ts i of Some (_, BPtr j) \<Rightarrow> btf_size (length ts) ts j | _ \<Rightarrow> None)"

definition map_member :: "btf_type list \<Rightarrow> string \<Rightarrow> nat \<Rightarrow> map_def \<Rightarrow> map_def option" where
  "map_member ts nm i d =
     (if nm = ''type'' then map_option (\<lambda>n. d\<lparr>md_type := n\<rparr>) (btf_uint ts i)
      else if nm = ''max_entries'' then map_option (\<lambda>n. d\<lparr>md_max_entries := n\<rparr>) (btf_uint ts i)
      else if nm = ''key_size'' then map_option (\<lambda>n. d\<lparr>md_key_size := n\<rparr>) (btf_uint ts i)
      else if nm = ''value_size'' then map_option (\<lambda>n. d\<lparr>md_value_size := n\<rparr>) (btf_uint ts i)
      else if nm = ''key'' then map_option (\<lambda>n. d\<lparr>md_key_size := n\<rparr>) (btf_pointee ts i)
      else if nm = ''value'' then map_option (\<lambda>n. d\<lparr>md_value_size := n\<rparr>) (btf_pointee ts i)
      else None)"

fun map_members :: "btf_type list \<Rightarrow> bytes \<Rightarrow> (nat \<times> nat \<times> nat) list \<Rightarrow> map_def \<Rightarrow> map_def option" where
  "map_members ts sb [] d = Some d"
| "map_members ts sb ((nm, i, off) # ms) d =
     Option.bind (map_member ts (name_at sb nm) i d) (map_members ts sb ms)"

definition map_var :: "btf_type list \<Rightarrow> bytes \<Rightarrow> nat \<times> nat \<times> nat \<Rightarrow> (string \<times> map_def) option" where
  "map_var ts sb = (\<lambda>(v, off, sz). case btf_nth ts v of
     Some (nm, BVar i) \<Rightarrow> (case btf_nth ts i of
         Some (_, BStruct _ ms) \<Rightarrow> map_option (\<lambda>d. (name_at sb nm, d))
           (map_members ts sb ms \<lparr>md_type = 0, md_key_size = 0, md_value_size = 0, md_max_entries = 0\<rparr>)
       | _ \<Rightarrow> None)
   | _ \<Rightarrow> None)"

definition btf_section :: "btf_type list \<Rightarrow> bytes \<Rightarrow> string \<Rightarrow> (nat \<times> nat \<times> nat) list option" where
  "btf_section ts sb nm =
     map_of (List.map_filter (\<lambda>(n, k). case k of BSec vs \<Rightarrow> Some (name_at sb n, vs) | _ \<Rightarrow> None) ts) nm"

definition btf_maps :: "bytes \<Rightarrow> (string \<times> map_def) list option" where
  "btf_maps b =
     Option.bind (btf_parse b) (\<lambda>(ts, sb). Option.bind (btf_section ts sb ''.maps'') (\<lambda>vs.
       all_Some (map (map_var ts sb) vs)))"

text \<open>
  The members of a structure: names, offsets and sizes in bytes. The variables of a section:
  names and sizes; their offsets are the values of their symbols.
\<close>

definition btf_structs :: "btf_type list \<Rightarrow> bytes \<Rightarrow> (string \<times> (nat \<times> nat \<times> nat) list) list" where
  "btf_structs ts sb =
     List.map_filter (\<lambda>(n, k). case k of BStruct _ ms \<Rightarrow> Some (name_at sb n, ms) | _ \<Rightarrow> None) ts"

definition btf_struct :: "bytes \<Rightarrow> string \<Rightarrow> (string \<times> nat \<times> nat) list option" where
  "btf_struct b nm =
     Option.bind (btf_parse b) (\<lambda>(ts, sb). Option.bind (map_of (btf_structs ts sb) nm) (\<lambda>ms.
       all_Some (map (\<lambda>(n, i, off). map_option (\<lambda>sz. (name_at sb n, off div 8, sz))
         (btf_size (length ts) ts i)) ms)))"

definition btf_vars :: "bytes \<Rightarrow> string \<Rightarrow> (string \<times> nat) list option" where
  "btf_vars b nm =
     Option.bind (btf_parse b) (\<lambda>(ts, sb). Option.bind (btf_section ts sb nm) (\<lambda>vs.
       all_Some (map (\<lambda>(v, off, sz). map_option (\<lambda>(n, _). (name_at sb n, sz)) (btf_nth ts v)) vs)))"

section \<open>Reading row by row\<close>

definition framed :: "(bytes \<Rightarrow> ('a \<times> bytes) option) \<Rightarrow> bool" where
  "framed p \<longleftrightarrow> (\<forall>b x r post. p b = Some (x, r) \<longrightarrow> p (b @ post) = Some (x, r @ post))"

lemma framedD: "framed p \<Longrightarrow> p b = Some (x, r) \<Longrightarrow> p (b @ post) = Some (x, r @ post)"
  by (simp add: framed_def)

lemma get4_framed [simp]: "framed get4"
  unfolding framed_def
proof (intro allI impI)
  fix b x r post
  assume "get4 b = Some (x, r)"
  then show "get4 (b @ post) = Some (x, r @ post)" by (cases b rule: get4.cases) auto
qed

lemma get_word_framed [simp]: "framed get_word"
  unfolding framed_def
proof (intro allI impI)
  fix b x r post
  assume "get_word b = Some (x, r)"
  then show "get_word (b @ post) = Some (x, r @ post)" by (cases b rule: get_word.cases) auto
qed

lemma framed_return: "framed (\<lambda>r. Some (x, r))"
  by (simp add: framed_def)

lemma framed_None: "framed (\<lambda>r. None)"
  by (simp add: framed_def)

lemma framed_bind:
  assumes p: "framed p" and f: "\<And>x. framed (f x)"
  shows "framed (\<lambda>b. Option.bind (p b) (\<lambda>(x, r). f x r))"
  unfolding framed_def
proof (intro allI impI)
  fix b y r post
  assume "Option.bind (p b) (\<lambda>(x, r). f x r) = Some (y, r)"
  then obtain x q where q: "p b = Some (x, q)" "f x q = Some (y, r)" by (auto simp: bind_eq_Some_conv)
  then show "Option.bind (p (b @ post)) (\<lambda>(x, r). f x r) = Some (y, r @ post)"
    using framedD [OF p q(1)] framedD [OF f q(2)] by simp
qed

lemma framed_prod: "(\<And>x y. framed (f x y)) \<Longrightarrow> framed (case z of (x, y) \<Rightarrow> f x y)"
  by (cases z) simp

lemma framed_if: "framed p \<Longrightarrow> framed q \<Longrightarrow> framed (\<lambda>r. if b then p r else q r)"
  by (cases b) simp_all

lemmas framed_intros = framed_return framed_None framed_bind framed_prod framed_if

lemma get_pair_framed [simp]: "framed get_pair"
  unfolding get_pair_def [abs_def] by (intro framed_intros get4_framed)

lemma get_triple_framed [simp]: "framed get_triple"
  unfolding get_triple_def [abs_def] by (intro framed_intros get4_framed get_pair_framed)

lemma get_many_framed [simp]: "framed p \<Longrightarrow> framed (get_many n p)"
proof (induction n)
  case 0
  have "get_many 0 p = (\<lambda>b. Some ([], b))" by (simp add: fun_eq_iff)
  then show ?case by (simp add: framed_return)
next
  case (Suc n)
  have "get_many (Suc n) p = (\<lambda>b. Option.bind (p b) (\<lambda>(x, r).
      Option.bind (get_many n p r) (\<lambda>(xs, r). Some (x # xs, r))))"
    by (simp add: fun_eq_iff)
  then show ?case
    using framed_bind [OF Suc.prems framed_bind [OF Suc.IH [OF Suc.prems] framed_return]] by simp
qed

lemma btf_one_framed: "framed btf_one"
  unfolding btf_one_def [abs_def] Let_def
  by (intro framed_intros get4_framed get_word_framed get_triple_framed get_many_framed get_pair_framed)

lemma btf_one_Nil [simp]: "btf_one [] = None"
  by (simp add: btf_one_def)

lemma btf_all_rows:
  "map btf_one rows = map (\<lambda>t. Some (t, [])) ts \<Longrightarrow> length rows \<le> n \<Longrightarrow> btf_all n (concat rows) = Some ts"
proof (induction rows arbitrary: n ts)
  case (Cons row rows)
  then obtain t ts' where t: "btf_one row = Some (t, [])" "ts = t # ts'"
      "map btf_one rows = map (\<lambda>t. Some (t, [])) ts'"
    by auto
  obtain m where m: "n = Suc m" "length rows \<le> m" using Cons.prems(2) by (cases n) auto
  obtain x xs where x: "row = x # xs" using t(1) by (cases row) auto
  have "btf_one (row @ concat rows) = Some (t, concat rows)"
    using framedD [OF btf_one_framed t(1)] by simp
  then show ?case using Cons.IH [OF t(3) m(2)] t(2) m(1) x by simp
qed simp

text \<open>A table of strings, one row per string.\<close>

definition row_string :: "bytes \<Rightarrow> string" where
  "row_string r = map (\<lambda>x. char_of (unat x)) (takeWhile (\<lambda>x. x \<noteq> 0) r)"

lemma name_at_row:
  assumes "\<forall>r \<in> set rows. 0 \<in> set r" and "i < length rows"
  shows "name_at (concat rows) (sum_list (take i (map length rows))) = row_string (rows ! i)"
proof -
  have "drop (sum_list (take i (map length rows))) (concat rows) = concat (drop i rows)"
  proof (induction rows arbitrary: i)
    case (Cons r rows)
    then show ?case by (cases i) simp_all
  qed simp
  also have "\<dots> = rows ! i @ concat (drop (Suc i) rows)"
    using assms(2) by (simp add: Cons_nth_drop_Suc [symmetric])
  finally have d: "drop (sum_list (take i (map length rows))) (concat rows) = rows ! i @ concat (drop (Suc i) rows)" .
  have "0 \<in> set (rows ! i)" using assms by simp
  then have "takeWhile (\<lambda>x. x \<noteq> 0) (rows ! i @ concat (drop (Suc i) rows)) = takeWhile (\<lambda>x. x \<noteq> 0) (rows ! i)"
    by (rule takeWhile_append1) simp
  with d show ?thesis by (simp add: name_at_def row_string_def)
qed

end
