(* ===== verification/Bcc_Hello.thy ===== *)
theory Bcc_Hello
  imports Hello_Kernel
begin

text \<open>
  The BCC version of the probe, \<open>bpf_map4/example.bpf.c\<close>. It uses the same helpers as
  \<open>kprobe_exec\<close>, keeps no state besides its map, and sends the process id from the upper
  half of \<open>bpf_get_current_pid_tgid\<close>.
\<close>

section \<open>Data\<close>

record bcc_data_t =
  b_pid :: c_int
  b_uid :: c_int
  b_command :: bytes
  b_message :: bytes

definition bcc_data_zero :: bcc_data_t where
  "bcc_data_zero = \<lparr>b_pid = 0, b_uid = 0, b_command = replicate 16 0, b_message = replicate 12 0\<rparr>"

definition bcc_encode :: "bcc_data_t \<Rightarrow> bytes" where
  "bcc_encode d = le_bytes 4 (b_pid d) @ le_bytes 4 (b_uid d) @ b_command d @ b_message d"

definition bcc_decode :: "bytes \<Rightarrow> bcc_data_t" where
  "bcc_decode b = \<lparr>b_pid = of_le (take 4 b), b_uid = of_le (take 4 (drop 4 b)),
     b_command = take 16 (drop 8 b), b_message = take 12 (drop 24 b)\<rparr>"

text \<open>\<open>BPF_HASH (config, \<dots>)\<close> without a size; BCC's default is 10240 entries.\<close>

definition config_map :: "nat \<Rightarrow> (u32, msg_t) hmap" where
  "config_map default_size = hmap_new default_size"

section \<open>The program\<close>

text \<open>The result and the bytes that are submitted.\<close>

definition bcc_hello :: "('m, u32, msg_t) map_ops \<Rightarrow> probe_env \<Rightarrow> 'm \<Rightarrow> (c_int \<times> bytes) cres" where
  "bcc_hello ops env config =
     (let data = bcc_data_zero;
          msg = str_bytes ''Hello World'' @ [0];
          data = data\<lparr>b_pid := ucast (drop_bit 32 (pid_tgid env))\<rparr>;
          data = data\<lparr>b_uid := ucast (uid_gid env AND 0xFFFFFFFF)\<rparr>;
          data = data\<lparr>b_command := snd (get_comm env 16 (b_command data))\<rparr>;
          p = map_lookup_elem ops config (b_uid data)
      in bindE (if p \<noteq> None then
                  bindE (deref p) (\<lambda>m.
                    Inr (data\<lparr>b_message := snd (probe_read env 12 (m_message m) (b_message data))\<rparr>))
                else Inr (data\<lparr>b_message := snd (probe_read env 12 msg (b_message data))\<rparr>)) (\<lambda>data.
         Inr (0, bcc_encode data)))"

definition bcc_wf :: "('m, u32, msg_t) map_ops \<Rightarrow> 'm \<Rightarrow> bool" where
  "bcc_wf ops config \<longleftrightarrow> (\<forall>k m. map_lookup_elem ops config k = Some m \<longrightarrow> length (m_message m) = 12)"

definition bcc_sample :: "('m, u32, msg_t) map_ops \<Rightarrow> probe_env \<Rightarrow> 'm \<Rightarrow> bcc_data_t" where
  "bcc_sample ops env config = \<lparr>b_pid = ucast (drop_bit 32 (pid_tgid env)), b_uid = ucast (uid_gid env),
     b_command = snd (get_comm env 16 (replicate 16 0)),
     b_message = snd (probe_read env 12
       (case map_lookup_elem ops config (ucast (uid_gid env)) of
          Some m \<Rightarrow> m_message m | None \<Rightarrow> str_bytes ''Hello World'' @ [0]) (replicate 12 0))\<rparr>"

lemma bcc_hello_sample: "bcc_hello ops env config = Inr (0, bcc_encode (bcc_sample ops env config))"
  by (auto simp: bcc_hello_def bcc_sample_def bcc_data_zero_def Let_def low_masked deref_def
      split: option.splits)

lemma bcc_decode_encode:
  "length (b_command d) = 16 \<Longrightarrow> length (b_message d) = 12 \<Longrightarrow> bcc_decode (bcc_encode d) = d"
  by (simp add: bcc_encode_def bcc_decode_def)

lemma bcc_sample_wf:
  assumes "probe_helpers env" and "bcc_wf ops config"
  shows "length (b_command (bcc_sample ops env config)) = 16 \<and>
    length (b_message (bcc_sample ops env config)) = 12"
  using assms(2)
  by (auto simp: bcc_sample_def bcc_wf_def probe_helpers.comm_length [OF assms(1)]
      probe_helpers.read_length [OF assms(1)] split: option.split)

text \<open>The two halves of a 64-bit value are the same 32 bits exactly when they are the same number.\<close>

lemma halves_eq:
  fixes w :: u64
  shows "(ucast w :: u32) = ucast (drop_bit 32 w) \<longleftrightarrow> take_bit 32 w = drop_bit 32 w"
proof -
  have "(ucast w :: u32) = ucast (drop_bit 32 w) \<longleftrightarrow> (\<forall>n < 32. bit w n = bit w (32 + n))"
    by (auto simp: bit_eq_iff bit_simps)
  also have "\<dots> \<longleftrightarrow> take_bit 32 w = drop_bit 32 w"
  proof
    assume eq: "\<forall>n < 32. bit w n = bit w (32 + n)"
    show "take_bit 32 w = drop_bit 32 w"
    proof (rule bit_word_eqI)
      fix n
      show "bit (take_bit 32 w) n = bit (drop_bit 32 w) n"
        using eq bit_imp_le_length [of w "32 + n"]
        by (cases "n < 32") (auto simp: bit_simps)
    qed
  next
    assume eq: "take_bit 32 w = drop_bit 32 w"
    have e: "bit (take_bit 32 w) n = bit (drop_bit 32 w) n" for n by (simp only: eq)
    show "\<forall>n < 32. bit w n = bit w (32 + n)"
    proof (intro allI impI)
      fix n :: nat assume "n < 32"
      then show "bit w n = bit w (32 + n)" using e [of n] by (simp add: bit_take_bit_iff bit_drop_bit_eq)
    qed
  qed
  finally show ?thesis .
qed

section \<open>Properties\<close>

text \<open>One event of the BCC program. It never dereferences a null pointer, returns 0 and submits
  36 bytes, which decode to the upper half of the first helper's result (the process id), the
  user id, and, when the copy succeeds, the configured message of the user or \<open>Hello World\<close>.\<close>

lemma bcc_hello_event:
  assumes "probe_helpers env" and "bcc_wf ops config"
    and "\<And>src. fst (probe_read env 12 src (replicate 12 0)) = 0"
  shows "\<exists>b. bcc_hello ops env config = Inr (0, b) \<and> length b = 36 \<and>
    b_pid (bcc_decode b) = ucast (drop_bit 32 (pid_tgid env)) \<and>
    b_uid (bcc_decode b) = ucast (uid_gid env) \<and> 0 \<in> set (b_command (bcc_decode b)) \<and>
    b_message (bcc_decode b) = (case map_lookup_elem ops config (ucast (uid_gid env)) of
      Some m \<Rightarrow> m_message m | None \<Rightarrow> str_bytes ''Hello World'' @ [0])"
proof -
  let ?src = "case map_lookup_elem ops config (ucast (uid_gid env)) of
      Some m \<Rightarrow> m_message m | None \<Rightarrow> str_bytes ''Hello World'' @ [0]"
  let ?d = "bcc_sample ops env config"
  note wf = bcc_sample_wf [OF assms(1,2)]
  have "length ?src = 12" using assms(2) by (auto simp: bcc_wf_def split: option.split)
  then have "b_message ?d = ?src"
    using probe_helpers.read_ok [OF assms(1), of 12 ?src "replicate 12 0"] assms(3) [of ?src]
    by (simp add: bcc_sample_def prod_eq_iff)
  moreover have "0 \<in> set (b_command ?d)"
    using probe_helpers.comm_nul [OF assms(1), of 16 "replicate 16 0"] by (simp add: bcc_sample_def)
  moreover have "length (bcc_encode ?d) = 36" using wf by (simp add: bcc_encode_def)
  moreover have "bcc_decode (bcc_encode ?d) = ?d" using wf by (intro bcc_decode_encode) simp_all
  ultimately show ?thesis
    by (simp add: bcc_hello_sample bcc_sample_def)
qed

lemma bcc_hello_event_instance:
  "\<exists>b. bcc_hello hmap_ops (doc_env 0x700000009 501 []) (config_map 10240) = Inr (0, b) \<and>
     b_pid (bcc_decode b) = 7 \<and> b_message (bcc_decode b) = str_bytes ''Hello World'' @ [0]"
proof -
  have e: "map_lookup_elem hmap_ops (config_map 10240) = Map.empty"
    by (simp add: hmap_ops_def config_map_def)
  then have "bcc_wf hmap_ops (config_map 10240)" by (simp add: bcc_wf_def)
  from bcc_hello_event [OF de.probe_helpers_axioms this, of "0x700000009" 501 "[]"] e
  show ?thesis by (auto simp: doc_env_def)
qed

text \<open>C38: the BCC program and \<open>kprobe_exec\<close> on the same event and the same configuration: they send
  the same user, command and message, but different halves of the process identifier; the
  process numbers agree exactly when the thread is the first of its process.\<close>

theorem bcc_kprobe_samples:
  assumes "probe_helpers env" and "probe_wf ops s" and "c s \<noteq> int_max"
    and "g_message s = str_bytes ''Hello World'' @ [0]"
  shows "\<exists>s' b. kprobe_exec ops env s = Inr (0, s') \<and> bcc_hello ops env (my_config s) = Inr (0, b) \<and>
    (let k = decode_data (last (submitted s')); d = bcc_decode b
     in uid k = b_uid d \<and> command k = b_command d \<and> message k = b_message d \<and>
        (pid k = b_pid d \<longleftrightarrow> take_bit 32 (pid_tgid env) = drop_bit 32 (pid_tgid env)))"
proof -
  have "bcc_wf ops (my_config s)" using assms(2) by (simp add: bcc_wf_def probe_wf_def)
  then have d: "bcc_decode (bcc_encode (bcc_sample ops env (my_config s))) = bcc_sample ops env (my_config s)"
    using bcc_sample_wf [OF assms(1), of ops "my_config s"] by (intro bcc_decode_encode) simp_all
  have k: "decode_data (encode_data (sample ops env s)) = sample ops env s"
    by (rule decode_encode [OF probe_helpers.sample_wf [OF assms(1,2)]])
  have "(ucast (pid_tgid env) :: u32) = ucast (drop_bit 32 (pid_tgid env)) \<longleftrightarrow>
      take_bit 32 (pid_tgid env) = drop_bit 32 (pid_tgid env)"
    by (rule halves_eq)
  then show ?thesis
    using probe_helpers.kprobe_exec_event [OF assms(1-3)] d k
    by (simp add: after_event_def bcc_hello_sample sample_def bcc_sample_def chosen_message_def assms(4) Let_def
        split: option.split)
qed

theorem bcc_kprobe_samples_witness:
  "\<exists>s' b. kprobe_exec hmap_ops (doc_env 0x700000009 501 []) (probe_init my_config_map) = Inr (0, s') \<and>
     bcc_hello hmap_ops (doc_env 0x700000009 501 []) my_config_map = Inr (0, b)"
proof -
  have e: "map_lookup_elem hmap_ops my_config_map = Map.empty"
    by (simp add: hmap_ops_def my_config_map_def)
  have "c (probe_init my_config_map) \<noteq> int_max"
    "g_message (probe_init my_config_map) = str_bytes ''Hello World'' @ [0]"
    by (simp_all add: probe_init_def int_max_def)
  from bcc_kprobe_samples [OF de.probe_helpers_axioms probe_wf_init [OF e] this, of "0x700000009" 501 "[]"]
  show ?thesis by (auto simp: probe_init_def)
qed

end
