(* ===== verification/Layout.thy ===== *)
theory Layout
  imports Bcc_Hello Xdp_Drop Bytecode_Probe
begin

text \<open>
  The layout of C structures: sizes, alignments and the offsets of fields. The structures of
  the programs are laid out by these rules and compared with the offsets and the byte order
  that the models of the programs and the object code use.
\<close>

section \<open>Types\<close>

text \<open>A base type has its size as alignment.\<close>

datatype cty = Base nat | Array_of cty nat | Struct_of "(string \<times> cty) list" | Union_of "(string \<times> cty) list"

type_synonym fields = "(string \<times> cty) list"

definition round_up :: "nat \<Rightarrow> nat \<Rightarrow> nat" where
  "round_up n a = (n + a - 1) div a * a"

fun align_of :: "cty \<Rightarrow> nat" and align_fields :: "fields \<Rightarrow> nat" where
  "align_of (Base n) = n"
| "align_of (Array_of t k) = align_of t"
| "align_of (Struct_of fs) = align_fields fs"
| "align_of (Union_of fs) = align_fields fs"
| "align_fields [] = 1"
| "align_fields ((x, t) # fs) = max (align_of t) (align_fields fs)"

fun size_of :: "cty \<Rightarrow> nat" and fields_end :: "nat \<Rightarrow> fields \<Rightarrow> nat" and widest :: "fields \<Rightarrow> nat" where
  "size_of (Base n) = n"
| "size_of (Array_of t k) = k * size_of t"
| "size_of (Struct_of fs) = round_up (fields_end 0 fs) (align_fields fs)"
| "size_of (Union_of fs) = round_up (widest fs) (align_fields fs)"
| "fields_end off [] = off"
| "fields_end off ((x, t) # fs) = fields_end (round_up off (align_of t) + size_of t) fs"
| "widest [] = 0"
| "widest ((x, t) # fs) = max (size_of t) (widest fs)"

text \<open>Name, offset and size of each field.\<close>

fun layout :: "nat \<Rightarrow> fields \<Rightarrow> (string \<times> nat \<times> nat) list" where
  "layout off [] = []"
| "layout off ((x, t) # fs) =
     (let z = round_up off (align_of t) in (x, z, size_of t) # layout (z + size_of t) fs)"

text \<open>
  The members that C finds by name in a value of a type, with offset and type. The members of a
  structure or union without a name (here the empty name) are members of the one around it; the
  fields of a named one are not.
\<close>

fun members :: "cty \<Rightarrow> (string \<times> nat \<times> cty) list"
  and struct_members :: "nat \<Rightarrow> fields \<Rightarrow> (string \<times> nat \<times> cty) list"
  and union_members :: "fields \<Rightarrow> (string \<times> nat \<times> cty) list" where
  "members (Struct_of fs) = struct_members 0 fs"
| "members (Union_of fs) = union_members fs"
| "members (Base n) = []"
| "members (Array_of t k) = []"
| "struct_members off [] = []"
| "struct_members off ((x, t) # fs) =
     (let z = round_up off (align_of t) in
      (if x = [] then map (\<lambda>(y, o1, u). (y, z + o1, u)) (members t) else [(x, z, t)]) @
      struct_members (z + size_of t) fs)"
| "union_members [] = []"
| "union_members ((x, t) # fs) = (if x = [] then members t else [(x, 0, t)]) @ union_members fs"

fun wf_ty :: "cty \<Rightarrow> bool" and wf_fields :: "fields \<Rightarrow> bool" where
  "wf_ty (Base n) = (n \<in> {1, 2, 4, 8})"
| "wf_ty (Array_of t k) = wf_ty t"
| "wf_ty (Struct_of fs) = wf_fields fs"
| "wf_ty (Union_of fs) = wf_fields fs"
| "wf_fields [] = True"
| "wf_fields ((x, t) # fs) = (wf_ty t \<and> wf_fields fs)"

section \<open>The fields of a structure are apart, aligned and inside it\<close>

lemma round_up_ge: "0 < a \<Longrightarrow> n \<le> round_up n a"
proof -
  assume a: "0 < a"
  have "n + a - 1 < ((n + a - 1) div a + 1) * a"
    using a by (metis dividend_less_div_times add.commute distrib_right mult_1)
  then show ?thesis using a by (simp add: round_up_def algebra_simps)
qed

lemma round_up_dvd: "a dvd round_up n a"
  by (simp add: round_up_def)

lemma align_cases:
  "wf_ty t \<Longrightarrow> align_of t \<in> {1, 2, 4, 8}" "wf_fields fs \<Longrightarrow> align_fields fs \<in> {1, 2, 4, 8}"
  by (induction t and fs rule: align_of_align_fields.induct) (auto simp: max_def)

lemma align_pos: "wf_ty t \<Longrightarrow> 0 < align_of t" "wf_fields fs \<Longrightarrow> 0 < align_fields fs"
  using align_cases by force+

lemma align_field_dvd: "wf_fields fs \<Longrightarrow> (x, t) \<in> set fs \<Longrightarrow> align_of t dvd align_fields fs"
proof (induction fs)
  case (Cons f fs)
  obtain y u where f: "f = (y, u)" by (cases f)
  have "align_of u \<in> {1, 2, 4, 8}" "align_fields fs \<in> {1, 2, 4, 8}"
    using Cons.prems(1) f align_cases by auto
  then have "align_of u dvd max (align_of u) (align_fields fs)" "align_fields fs dvd max (align_of u) (align_fields fs)"
    by (auto simp: max_def)
  with Cons f show ?case by (auto intro: dvd_trans)
qed simp

lemma fields_end_ge: "wf_fields fs \<Longrightarrow> off \<le> fields_end off fs"
proof (induction fs arbitrary: off)
  case (Cons f fs)
  obtain x t where f: "f = (x, t)" by (cases f)
  have "off \<le> round_up off (align_of t) + size_of t"
    using round_up_ge [of "align_of t" off] align_pos(1) [of t] Cons.prems f by simp
  also have "\<dots> \<le> fields_end (round_up off (align_of t) + size_of t) fs"
    using Cons f by simp
  finally show ?case by (simp add: f)
qed simp

lemma layout_bounds:
  "wf_fields fs \<Longrightarrow> (x, z, n) \<in> set (layout off fs) \<Longrightarrow> off \<le> z \<and> z + n \<le> fields_end off fs"
proof (induction fs arbitrary: off)
  case (Cons f fs)
  obtain y t where f: "f = (y, t)" by (cases f)
  let ?z = "round_up off (align_of t)"
  have le: "off \<le> ?z" "?z + size_of t \<le> fields_end (?z + size_of t) fs"
    using round_up_ge [of "align_of t" off] align_pos(1) [of t] fields_end_ge Cons.prems f by simp_all
  with Cons f show ?case by (fastforce simp: Let_def)
qed simp

lemma layout_sorted:
  "wf_fields fs \<Longrightarrow> sorted_wrt (\<lambda>(_, z, n) (_, z', _). z + n \<le> z') (layout off fs)"
proof (induction fs arbitrary: off)
  case (Cons f fs)
  obtain y t where f: "f = (y, t)" by (cases f)
  with Cons show ?case by (auto simp: Let_def dest: layout_bounds [rotated])
qed simp

lemma layout_aligned:
  "(x, z, n) \<in> set (layout off fs) \<Longrightarrow> \<exists>t. (x, t) \<in> set fs \<and> n = size_of t \<and> align_of t dvd z"
  by (induction off fs rule: layout.induct) (auto simp: Let_def round_up_dvd)

text \<open>All of it, for a structure.\<close>

lemma struct_layout:
  assumes "wf_fields fs" and "(x, z, n) \<in> set (layout 0 fs)"
  shows "z + n \<le> size_of (Struct_of fs)" and "align_fields fs dvd size_of (Struct_of fs)"
    and "\<exists>t. (x, t) \<in> set fs \<and> n = size_of t \<and> align_of t dvd z"
  using layout_bounds [OF assms] round_up_ge [OF align_pos(2) [OF assms(1)], of "fields_end 0 fs"]
    layout_aligned [OF assms(2)]
  by (auto simp: round_up_dvd)

text \<open>A member is inside the value and aligned in it.\<close>

lemma members_inside:
  "wf_ty t \<Longrightarrow> (y, z, u) \<in> set (members t) \<Longrightarrow>
     z + size_of u \<le> size_of t \<and> align_of u dvd z \<and> align_of u dvd align_of t"
  "wf_fields fs \<Longrightarrow> (y, z, u) \<in> set (struct_members off fs) \<Longrightarrow>
     z + size_of u \<le> fields_end off fs \<and> align_of u dvd z \<and> align_of u dvd align_fields fs"
  "wf_fields fs \<Longrightarrow> (y, z, u) \<in> set (union_members fs) \<Longrightarrow>
     z + size_of u \<le> widest fs \<and> align_of u dvd z \<and> align_of u dvd align_fields fs"
proof (induction t and off fs and fs arbitrary: y z u and y z u and y z u rule: members_struct_members_union_members.induct)
  case (1 fs)
  then show ?case using round_up_ge [OF align_pos(2), of fs "fields_end 0 fs"] by fastforce
next
  case (2 fs)
  then show ?case using round_up_ge [OF align_pos(2), of fs "widest fs"] by fastforce
next
  case (6 off x t fs)
  let ?z = "round_up off (align_of t)"
  have wf: "wf_ty t" "wf_fields fs" using "6.prems" by simp_all
  have al: "align_of t dvd align_fields ((x, t) # fs)" "align_fields fs dvd align_fields ((x, t) # fs)"
    using align_cases(1) [OF wf(1)] align_cases(2) [OF wf(2)] by (auto simp: max_def)
  have le: "?z + size_of t \<le> fields_end off ((x, t) # fs)"
    using fields_end_ge [OF wf(2)] by simp
  consider (here) "x \<noteq> []" "(y, z, u) = (x, ?z, t)"
    | (inner) o1 where "x = []" "z = ?z + o1" "(y, o1, u) \<in> set (members t)"
    | (later) "(y, z, u) \<in> set (struct_members (?z + size_of t) fs)"
    using "6.prems"(2) by (auto simp: Let_def split: if_splits)
  then show ?case
  proof cases
    case here
    then show ?thesis using le al by (simp add: round_up_dvd del: fields_end.simps align_fields.simps)
  next
    case inner
    with "6.IH"(1) [OF refl inner(1) wf(1) inner(3)] le al(1)
    show ?thesis by (auto intro: dvd_trans dvd_add round_up_dvd [THEN dvd_trans [rotated]] simp del: align_fields.simps fields_end.simps)
  next
    case later
    with "6.IH"(2) [OF refl wf(2) later] al(2) show ?thesis by (auto intro: dvd_trans)
  qed
next
  case (8 x t fs)
  have wf: "wf_ty t" "wf_fields fs" using "8.prems" by simp_all
  have al: "align_of t dvd align_fields ((x, t) # fs)" "align_fields fs dvd align_fields ((x, t) # fs)"
    using align_cases(1) [OF wf(1)] align_cases(2) [OF wf(2)] by (auto simp: max_def)
  consider (here) "x \<noteq> []" "(y, z, u) = (x, 0, t)" | (inner) "x = []" "(y, z, u) \<in> set (members t)"
    | (later) "(y, z, u) \<in> set (union_members fs)"
    using "8.prems"(2) by (auto split: if_splits)
  then show ?case
  proof cases
    case here
    then show ?thesis using al by simp
  next
    case inner
    with "8.IH"(1) [OF inner(1) wf(1) inner(2)] al(1) show ?thesis by (auto intro: dvd_trans)
  next
    case later
    with "8.IH"(2) [OF wf(2) later] al(2) show ?thesis by (auto intro: dvd_trans)
  qed
qed simp_all

section \<open>Values in memory\<close>

text \<open>Offset and size of a member; the bytes there, of any kind.\<close>

definition member_slot :: "cty \<Rightarrow> string \<Rightarrow> (nat \<times> nat) option" where
  "member_slot t x = map_option (\<lambda>(z, u). (z, size_of u)) (map_of (members t) x)"

definition get_slot :: "nat \<times> nat \<Rightarrow> 'b list \<Rightarrow> 'b list" where
  "get_slot p b = (case p of (z, n) \<Rightarrow> take n (drop z b))"

definition put_slot :: "nat \<times> nat \<Rightarrow> 'b list \<Rightarrow> 'b list \<Rightarrow> 'b list" where
  "put_slot p v b = (case p of (z, n) \<Rightarrow> take z b @ v @ drop (z + n) b)"

definition read_member :: "cty \<Rightarrow> string \<Rightarrow> 'b list \<Rightarrow> 'b list option" where
  "read_member t x b = (case member_slot t x of
     None \<Rightarrow> None | Some (z, n) \<Rightarrow> if z + n \<le> length b then Some (get_slot (z, n) b) else None)"

definition write_member :: "cty \<Rightarrow> string \<Rightarrow> 'b list \<Rightarrow> 'b list \<Rightarrow> 'b list option" where
  "write_member t x v b = (case member_slot t x of
     None \<Rightarrow> None
   | Some (z, n) \<Rightarrow> if length v = n \<and> z + n \<le> length b then Some (put_slot (z, n) v b) else None)"

text \<open>A write is read back, and leaves what is apart from it alone.\<close>

lemma put_slot_length: "length v = n \<Longrightarrow> z + n \<le> length b \<Longrightarrow> length (put_slot (z, n) v b) = length b"
  by (simp add: put_slot_def)

lemma get_put_same: "length v = n \<Longrightarrow> z + n \<le> length b \<Longrightarrow> get_slot (z, n) (put_slot (z, n) v b) = v"
  by (simp add: put_slot_def get_slot_def)

lemma get_put_apart:
  assumes "length v = n" and "z + n \<le> length b" and "z + n \<le> y \<or> y + m \<le> z"
  shows "get_slot (y, m) (put_slot (z, n) v b) = get_slot (y, m) b"
  using assms(3)
proof
  assume "z + n \<le> y"
  with assms(1,2) show ?thesis by (simp add: put_slot_def get_slot_def)
next
  assume y: "y + m \<le> z"
  then have "get_slot (y, m) (put_slot (z, n) v b) = take m (drop y (take z b))"
    using assms(1,2) by (simp add: put_slot_def get_slot_def)
  also have "\<dots> = get_slot (y, m) b"
    using y by (simp add: get_slot_def drop_take min_def)
  finally show ?thesis .
qed

section \<open>The structures of the programs\<close>

abbreviation "c_char_ty \<equiv> Base 1"
abbreviation "c_int_ty \<equiv> Base 4"
abbreviation "c_u32_ty \<equiv> Base 4"

definition data_t_fields :: fields where
  "data_t_fields = [(''pid'', c_int_ty), (''uid'', c_int_ty), (''counter'', c_int_ty),
     (''command'', Array_of c_char_ty 16), (''message'', Array_of c_char_ty 12)]"

definition msg_t_fields :: fields where
  "msg_t_fields = [(''message'', Array_of c_char_ty 12)]"

definition bcc_data_fields :: fields where
  "bcc_data_fields = [(''pid'', c_int_ty), (''uid'', c_int_ty),
     (''command'', Array_of c_char_ty 16), (''message'', Array_of c_char_ty 12)]"

definition xdp_md_fields :: fields where
  "xdp_md_fields = map (\<lambda>x. (x, c_u32_ty)) [''data'', ''data_end'', ''data_meta'', ''ingress_ifindex'',
     ''rx_queue_index'', ''egress_ifindex'']"

definition ethhdr_fields :: fields where
  "ethhdr_fields = [(''h_dest'', Array_of c_char_ty 6), (''h_source'', Array_of c_char_ty 6), (''h_proto'', Base 2)]"

text \<open>The data of the object as the skeleton declares them, and its static assertions.\<close>

definition probe_data_fields :: fields where
  "probe_data_fields = [(''c'', c_int_ty), (''message'', Array_of c_char_ty 12)]"

definition hello_verifier_bpf__assert :: bool where
  "hello_verifier_bpf__assert \<longleftrightarrow>
     map_option size_of (map_of probe_data_fields ''c'') = Some 4 \<and>
     map_option size_of (map_of probe_data_fields ''message'') = Some 12"

text \<open>Offset and size of the loads of a code through a register.\<close>

definition loads_through :: "nat \<Rightarrow> insn option list \<Rightarrow> (nat \<times> nat) list" where
  "loads_through r code =
     concat (map (\<lambda>i. case i of Some (Ldx n d s off) \<Rightarrow> if s = r then [(unat off, n)] else [] | _ \<Rightarrow> []) code)"

text \<open>A field of a structure given as bytes.\<close>

definition field_bytes :: "fields \<Rightarrow> bytes \<Rightarrow> (string \<times> bytes) list" where
  "field_bytes fs b = map (\<lambda>(x, z, n). (x, take n (drop z b))) (layout 0 fs)"

lemma struct_sizes:
  "size_of (Struct_of data_t_fields) = 40" "size_of (Struct_of msg_t_fields) = 12"
  "size_of (Struct_of bcc_data_fields) = 36" "size_of (Struct_of xdp_md_fields) = 24"
  "size_of (Struct_of ethhdr_fields) = 14" "size_of (Struct_of probe_data_fields) = 16"
  by code_simp+

lemma struct_offsets:
  "layout 0 data_t_fields = [(''pid'', 0, 4), (''uid'', 4, 4), (''counter'', 8, 4), (''command'', 12, 16), (''message'', 28, 12)]"
  "layout 0 bcc_data_fields = [(''pid'', 0, 4), (''uid'', 4, 4), (''command'', 8, 16), (''message'', 24, 12)]"
  "layout 0 ethhdr_fields = [(''h_dest'', 0, 6), (''h_source'', 6, 6), (''h_proto'', 12, 2)]"
  "layout 0 probe_data_fields = [(''c'', 0, 4), (''message'', 4, 12)]"
  "layout 0 msg_t_fields = [(''message'', 0, 12)]"
  "layout 0 xdp_md_fields = [(''data'', 0, 4), (''data_end'', 4, 4), (''data_meta'', 8, 4),
     (''ingress_ifindex'', 12, 4), (''rx_queue_index'', 16, 4), (''egress_ifindex'', 20, 4)]"
  by code_simp+

lemma skeleton_assertions: hello_verifier_bpf__assert
  by code_simp

section \<open>Properties\<close>

text \<open>C20: the layout of the structures. The bytes of a sample are those of \<open>struct data_t\<close> laid out by
  the rules of C, field by field, in both versions of the program; the offset and the size
  that the packet filter uses are those of \<open>struct ethhdr\<close>, the loads of the object code of \<open>xdp_hello\<close>
  through its context are those of the first two fields of \<open>struct xdp_md\<close>; the relocations of \<open>kprobe_exec\<close> for its data are the
  offsets of its globals, and the static assertions of the skeleton hold.\<close>

theorem struct_layouts:
  assumes "data_wf d" and "length (b_command e) = 16" and "length (b_message e) = 12"
  shows "field_bytes data_t_fields (encode_data d) = [(''pid'', le_bytes 4 (pid d)), (''uid'', le_bytes 4 (uid d)),
      (''counter'', le_bytes 4 (d_counter d)), (''command'', command d), (''message'', message d)] \<and>
    length (encode_data d) = size_of (Struct_of data_t_fields) \<and>
    field_bytes bcc_data_fields (bcc_encode e) = [(''pid'', le_bytes 4 (b_pid e)), (''uid'', le_bytes 4 (b_uid e)),
      (''command'', b_command e), (''message'', b_message e)] \<and>
    length (bcc_encode e) = size_of (Struct_of bcc_data_fields) \<and>
    sizeof_ethhdr = of_nat (size_of (Struct_of ethhdr_fields)) \<and>
    map_of (layout 0 ethhdr_fields) ''h_proto'' = Some (unat offset_h_proto, 2) \<and>
    rev (loads_through 1 (decode_prog xdp_hello_code)) = map snd (take 2 (layout 0 xdp_md_fields)) \<and>
    map fst (take 2 (layout 0 xdp_md_fields)) = [''data'', ''data_end''] \<and>
    remdups (map snd (filter (\<lambda>(i, r, z). r = Data) kprobe_relocs)) =
      map (\<lambda>(x, z, n). (Data, int z)) (layout 0 probe_data_fields) \<and>
    hello_verifier_bpf__assert"
  using assms
  by (simp add: field_bytes_def struct_sizes struct_offsets skeleton_assertions encode_data_def bcc_encode_def
      data_wf_def sizeof_ethhdr_def offset_h_proto_def kprobe_relocs_def
      xdp_hello_code_decoded loads_through_def del: size_of.simps)

theorem struct_layouts_witness:
  "field_bytes data_t_fields (encode_data data_zero) = [(''pid'', [0, 0, 0, 0]), (''uid'', [0, 0, 0, 0]),
     (''counter'', [0, 0, 0, 0]), (''command'', replicate 16 0), (''message'', replicate 12 0)]"
proof -
  have "data_wf data_zero" by (simp add: data_wf_def data_zero_def)
  from struct_layouts [OF this, of bcc_data_zero] show ?thesis
    by (simp add: data_zero_def bcc_data_zero_def le_bytes_zero numeral_eq_Suc)
qed

end
