(* ===== verification/Elf_Btf.thy ===== *)
theory Elf_Btf
  imports Btf Elf_Program Layout
begin

text \<open>
  The type information in the object file of the skeleton: its maps, the layout of its data and
  of the structures, compared with the models and with the rules of C.
\<close>

section \<open>The types of the image\<close>

definition image_types :: "btf_type list" where
  "image_types = [
     (0, BPtr 3), (1, BInt 4), (0, BArray 2 1), (5, BInt 4), (0, BPtr 6), (0, BArray 2 10240), (0, BPtr 8),
     (25, BAlias 9), (29, BAlias 10), (35, BInt 4), (0, BPtr 12), (48, BStruct 12 [(54, 14, 0)]),
     (62, BInt 1), (0, BArray 13 12), (0, BStruct 32 [(67, 1, 0), (72, 5, 64), (84, 7, 128), (88, 11, 192)]),
     (94, BVar 15), (0, BPtr 18), (0, BArray 2 4),
     (0, BStruct 24 [(67, 17, 0), (104, 17, 64), (113, 17, 128)]), (124, BVar 19), (0, BPtr 0),
     (0, BProto 2 [(131, 21)]), (135, BFunc 22), (0, BPtr 25),
     (1032, BStruct 24 [(1039, 9, 0), (1044, 9, 32), (1053, 9, 64), (1063, 9, 96), (1079, 9, 128), (1094, 9, 160)]),
     (0, BProto 2 [(131, 24)]), (1109, BFunc 26), (1277, BVar 2), (54, BVar 14), (0, BAlias 13),
     (0, BArray 30 3), (1279, BVar 31), (1299, BVar 31), (1321, BVar 31), (0, BArray 30 6), (1343, BVar 35),
     (0, BArray 13 13), (1361, BVar 37), (1369, BSec [(28, 0, 4), (29, 0, 12)]),
     (1375, BSec [(16, 0, 32), (20, 0, 24)]), (1381, BSec [(32, 0, 3), (33, 3, 3), (34, 6, 3), (36, 9, 6)]),
     (1389, BSec [(38, 0, 13)])]"

lemma image_types_rows: "btf_all (length elf_btf_types) elf_btf_types = Some image_types"
  unfolding elf_btf_types_def
  by (rule btf_all_rows) (simp_all add: btf_one_def get_triple_def get_pair_def image_types_def Let_def)

lemma btf_string_lengths: "map length elf_btf_string_rows = [
     1, 4, 20, 4, 6, 13, 6, 8, 5, 5, 12, 4, 6, 10, 9, 11, 7, 4, 12, 16, 81, 27, 22, 9, 29, 42, 49, 19, 46,
     17, 30, 35, 80, 76, 30, 27, 27, 35, 32, 62, 81, 13, 7, 5, 9, 10, 16, 15, 15, 10, 4, 4, 48, 4, 40, 39,
     19, 2, 20, 22, 22, 18, 8, 6, 6, 8, 8]"
  by (simp add: elf_btf_string_rows_def)

lemma btf_strings_end: "\<forall>r \<in> set elf_btf_string_rows. 0 \<in> set r"
  by (simp add: elf_btf_string_rows_def)

lemma btf_name:
  assumes "elf_btf_string_rows ! i = r" and "i < 67" and "sum_list (take i (map length elf_btf_string_rows)) = k"
    and "row_string r = s"
  shows "name_at elf_btf_strings k = s"
proof -
  have "length (map length elf_btf_string_rows) = 67" unfolding btf_string_lengths by simp
  then have "i < length elf_btf_string_rows" using assms(2) by simp
  from name_at_row [OF btf_strings_end this] assms show ?thesis by (simp add: elf_btf_strings_def)
qed

lemma btf_name_0: "name_at elf_btf_strings 0 = ''''"
  by (rule btf_name [of 0 "[0]"], simp add: elf_btf_string_rows_def, simp, simp add: btf_string_lengths, code_simp)

lemma btf_name_48: "name_at elf_btf_strings 48 = ''msg_t''"
  by (rule btf_name [of 6 "[109, 115, 103, 95, 116, 0]"], simp add: elf_btf_string_rows_def, simp, simp add: btf_string_lengths, code_simp)

lemma btf_name_54: "name_at elf_btf_strings 54 = ''message''"
  by (rule btf_name [of 7 "[109, 101, 115, 115, 97, 103, 101, 0]"], simp add: elf_btf_string_rows_def, simp, simp add: btf_string_lengths, code_simp)

lemma btf_name_67: "name_at elf_btf_strings 67 = ''type''"
  by (rule btf_name [of 9 "[116, 121, 112, 101, 0]"], simp add: elf_btf_string_rows_def, simp, simp add: btf_string_lengths, code_simp)

lemma btf_name_72: "name_at elf_btf_strings 72 = ''max_entries''"
  by (rule btf_name [of 10 "[109, 97, 120, 95, 101, 110, 116, 114, 105, 101, 115, 0]"], simp add: elf_btf_string_rows_def, simp, simp add: btf_string_lengths, code_simp)

lemma btf_name_84: "name_at elf_btf_strings 84 = ''key''"
  by (rule btf_name [of 11 "[107, 101, 121, 0]"], simp add: elf_btf_string_rows_def, simp, simp add: btf_string_lengths, code_simp)

lemma btf_name_88: "name_at elf_btf_strings 88 = ''value''"
  by (rule btf_name [of 12 "[118, 97, 108, 117, 101, 0]"], simp add: elf_btf_string_rows_def, simp, simp add: btf_string_lengths, code_simp)

lemma btf_name_94: "name_at elf_btf_strings 94 = ''my_config''"
  by (rule btf_name [of 13 "[109, 121, 95, 99, 111, 110, 102, 105, 103, 0]"], simp add: elf_btf_string_rows_def, simp, simp add: btf_string_lengths, code_simp)

lemma btf_name_104: "name_at elf_btf_strings 104 = ''key_size''"
  by (rule btf_name [of 14 "[107, 101, 121, 95, 115, 105, 122, 101, 0]"], simp add: elf_btf_string_rows_def, simp, simp add: btf_string_lengths, code_simp)

lemma btf_name_113: "name_at elf_btf_strings 113 = ''value_size''"
  by (rule btf_name [of 15 "[118, 97, 108, 117, 101, 95, 115, 105, 122, 101, 0]"], simp add: elf_btf_string_rows_def, simp, simp add: btf_string_lengths, code_simp)

lemma btf_name_124: "name_at elf_btf_strings 124 = ''output''"
  by (rule btf_name [of 16 "[111, 117, 116, 112, 117, 116, 0]"], simp add: elf_btf_string_rows_def, simp, simp add: btf_string_lengths, code_simp)

lemma btf_name_1032: "name_at elf_btf_strings 1032 = ''xdp_md''"
  by (rule btf_name [of 42 "[120, 100, 112, 95, 109, 100, 0]"], simp add: elf_btf_string_rows_def, simp, simp add: btf_string_lengths, code_simp)

lemma btf_name_1039: "name_at elf_btf_strings 1039 = ''data''"
  by (rule btf_name [of 43 "[100, 97, 116, 97, 0]"], simp add: elf_btf_string_rows_def, simp, simp add: btf_string_lengths, code_simp)

lemma btf_name_1044: "name_at elf_btf_strings 1044 = ''data_end''"
  by (rule btf_name [of 44 "[100, 97, 116, 97, 95, 101, 110, 100, 0]"], simp add: elf_btf_string_rows_def, simp, simp add: btf_string_lengths, code_simp)

lemma btf_name_1053: "name_at elf_btf_strings 1053 = ''data_meta''"
  by (rule btf_name [of 45 "[100, 97, 116, 97, 95, 109, 101, 116, 97, 0]"], simp add: elf_btf_string_rows_def, simp, simp add: btf_string_lengths, code_simp)

lemma btf_name_1063: "name_at elf_btf_strings 1063 = ''ingress_ifindex''"
  by (rule btf_name [of 46 "[105, 110, 103, 114, 101, 115, 115, 95, 105, 102, 105, 110, 100, 101, 120, 0]"], simp add: elf_btf_string_rows_def, simp, simp add: btf_string_lengths, code_simp)

lemma btf_name_1079: "name_at elf_btf_strings 1079 = ''rx_queue_index''"
  by (rule btf_name [of 47 "[114, 120, 95, 113, 117, 101, 117, 101, 95, 105, 110, 100, 101, 120, 0]"], simp add: elf_btf_string_rows_def, simp, simp add: btf_string_lengths, code_simp)

lemma btf_name_1094: "name_at elf_btf_strings 1094 = ''egress_ifindex''"
  by (rule btf_name [of 48 "[101, 103, 114, 101, 115, 115, 95, 105, 102, 105, 110, 100, 101, 120, 0]"], simp add: elf_btf_string_rows_def, simp, simp add: btf_string_lengths, code_simp)

lemma btf_name_1277: "name_at elf_btf_strings 1277 = ''c''"
  by (rule btf_name [of 57 "[99, 0]"], simp add: elf_btf_string_rows_def, simp, simp add: btf_string_lengths, code_simp)

lemma btf_name_1369: "name_at elf_btf_strings 1369 = ''.data''"
  by (rule btf_name [of 63 "[46, 100, 97, 116, 97, 0]"], simp add: elf_btf_string_rows_def, simp, simp add: btf_string_lengths, code_simp)

lemma btf_name_1375: "name_at elf_btf_strings 1375 = ''.maps''"
  by (rule btf_name [of 64 "[46, 109, 97, 112, 115, 0]"], simp add: elf_btf_string_rows_def, simp, simp add: btf_string_lengths, code_simp)

lemma btf_name_1381: "name_at elf_btf_strings 1381 = ''.rodata''"
  by (rule btf_name [of 65 "[46, 114, 111, 100, 97, 116, 97, 0]"], simp add: elf_btf_string_rows_def, simp, simp add: btf_string_lengths, code_simp)

lemma btf_name_1389: "name_at elf_btf_strings 1389 = ''license''"
  by (rule btf_name [of 66 "[108, 105, 99, 101, 110, 115, 101, 0]"], simp add: elf_btf_string_rows_def, simp, simp add: btf_string_lengths, code_simp)

lemmas btf_names = btf_name_0 btf_name_48 btf_name_54 btf_name_67 btf_name_72 btf_name_84
  btf_name_88 btf_name_94 btf_name_104 btf_name_113 btf_name_124 btf_name_1032
  btf_name_1039 btf_name_1044 btf_name_1053 btf_name_1063 btf_name_1079 btf_name_1094
  btf_name_1277 btf_name_1369 btf_name_1375 btf_name_1381 btf_name_1389

section \<open>The section\<close>

definition image_btf :: bytes where
  "image_btf = elf_btf_header @ elf_btf_types @ elf_btf_strings"

lemma image_btf_slice: "slice 940 2353 elf_image = Some image_btf"
  by (simp add: slice_def elf_image_def image_btf_def)

lemma image_btf_header:
  "get_nat 0 2 image_btf = Some 0xEB9F" "get_nat 4 4 image_btf = Some 24" "get_nat 8 4 image_btf = Some 0"
  "get_nat 12 4 image_btf = Some 932" "get_nat 16 4 image_btf = Some 932" "get_nat 20 4 image_btf = Some 1397"
  by (simp_all add: get_nat_def slice_def image_btf_def elf_btf_header_def)

lemma image_btf_parse: "btf_parse image_btf = Some (image_types, elf_btf_strings)"
proof -
  have "slice 24 932 image_btf = Some elf_btf_types" "slice 956 1397 image_btf = Some elf_btf_strings"
    by (simp_all add: slice_def image_btf_def)
  then show ?thesis
    using image_types_rows by (simp add: btf_parse_def image_btf_header)
qed

lemma image_length: "length image_types = 42"
  by (simp add: image_types_def)

lemma image_nth_types:
  "btf_nth image_types (Suc 0) = Some (0, BPtr 3)"
  "btf_nth image_types 2 = Some (1, BInt 4)"
  "btf_nth image_types 3 = Some (0, BArray 2 1)"
  "btf_nth image_types 4 = Some (5, BInt 4)"
  "btf_nth image_types 5 = Some (0, BPtr 6)"
  "btf_nth image_types 6 = Some (0, BArray 2 10240)"
  "btf_nth image_types 7 = Some (0, BPtr 8)"
  "btf_nth image_types 8 = Some (25, BAlias 9)"
  "btf_nth image_types 9 = Some (29, BAlias 10)"
  "btf_nth image_types 10 = Some (35, BInt 4)"
  "btf_nth image_types 11 = Some (0, BPtr 12)"
  "btf_nth image_types 12 = Some (48, BStruct 12 [(54, 14, 0)])"
  "btf_nth image_types 13 = Some (62, BInt 1)"
  "btf_nth image_types 14 = Some (0, BArray 13 12)"
  "btf_nth image_types 15 = Some (0, BStruct 32 [(67, 1, 0), (72, 5, 64), (84, 7, 128), (88, 11, 192)])"
  "btf_nth image_types 16 = Some (94, BVar 15)"
  "btf_nth image_types 17 = Some (0, BPtr 18)"
  "btf_nth image_types 18 = Some (0, BArray 2 4)"
  "btf_nth image_types 19 = Some (0, BStruct 24 [(67, 17, 0), (104, 17, 64), (113, 17, 128)])"
  "btf_nth image_types 20 = Some (124, BVar 19)"
  "btf_nth image_types 28 = Some (1277, BVar 2)"
  "btf_nth image_types 29 = Some (54, BVar 14)"
  by (simp_all add: btf_nth_def nth_opt_def image_types_def)

lemma image_btf_sections:
  "btf_section image_types elf_btf_strings ''.maps'' = Some [(16, 0, 32), (20, 0, 24)]"
  "btf_section image_types elf_btf_strings ''.data'' = Some [(28, 0, 4), (29, 0, 12)]"
  by (simp_all add: btf_section_def image_types_def btf_names map_filter_simps)

lemma image_sizes:
  "btf_size 42 image_types 2 = Some 4" "btf_size 42 image_types 8 = Some 4"
  "btf_size 42 image_types 9 = Some 4" "btf_size 42 image_types 12 = Some 12"
  "btf_size 42 image_types 14 = Some 12"
  by (simp_all add: image_nth_types btf_size_numeral)

lemma image_btf_maps:
  "btf_maps image_btf = Some [
     (''my_config'', \<lparr>md_type = 1, md_key_size = 4, md_value_size = 12, md_max_entries = 10240\<rparr>),
     (''output'', \<lparr>md_type = 4, md_key_size = 4, md_value_size = 4, md_max_entries = 0\<rparr>)]"
  by (simp add: btf_maps_def image_btf_parse image_btf_sections map_var_def image_nth_types btf_names
      map_member_def btf_uint_def btf_pointee_def image_length image_sizes)

lemma image_btf_data: "btf_vars image_btf ''.data'' = Some [(''c'', 4), (''message'', 12)]"
  by (simp add: btf_vars_def image_btf_parse image_btf_sections image_nth_types btf_names)

lemma image_btf_structs:
  "btf_struct image_btf ''msg_t'' = Some [(''message'', 0, 12)]"
  "btf_struct image_btf ''xdp_md'' = Some [(''data'', 0, 4), (''data_end'', 4, 4), (''data_meta'', 8, 4),
     (''ingress_ifindex'', 12, 4), (''rx_queue_index'', 16, 4), (''egress_ifindex'', 20, 4)]"
proof -
  have s: "btf_structs image_types elf_btf_strings = [(''msg_t'', [(54, 14, 0)]),
      ([], [(67, 1, 0), (72, 5, 64), (84, 7, 128), (88, 11, 192)]), ([], [(67, 17, 0), (104, 17, 64), (113, 17, 128)]),
      (''xdp_md'', [(1039, 9, 0), (1044, 9, 32), (1053, 9, 64), (1063, 9, 96), (1079, 9, 128), (1094, 9, 160)])]"
    by (simp add: btf_structs_def image_types_def btf_names map_filter_simps)
  show "btf_struct image_btf ''msg_t'' = Some [(''message'', 0, 12)]"
    "btf_struct image_btf ''xdp_md'' = Some [(''data'', 0, 4), (''data_end'', 4, 4), (''data_meta'', 8, 4),
     (''ingress_ifindex'', 12, 4), (''rx_queue_index'', 16, 4), (''egress_ifindex'', 20, 4)]"
    by (simp_all add: btf_struct_def image_btf_parse s image_length image_sizes btf_names)
qed

section \<open>Properties\<close>

text \<open>C18: the type information in the object file of the skeleton agrees with the models. Read as
  \<open>libbpf\<close> reads it, it declares the two maps that the program uses: \<open>my_config\<close>, a hash map
  with the capacity of the model's map and the lengths of its keys and values, and \<open>output\<close>; the
  symbols place them where the helper calls expect them. The globals of the program and
  \<open>struct xdp_md\<close> and \<open>struct msg_t\<close> have the layout that the rules of C give them.\<close>

theorem image_btf_agrees:
  assumes "msg_kernel K"
  shows "slice 940 2353 elf_image = Some image_btf \<and>
    btf_maps image_btf = Some [
      (''my_config'', \<lparr>md_type = 1, md_key_size = key_size K, md_value_size = value_size K,
         md_max_entries = max_entries my_config_map\<rparr>),
      (''output'', \<lparr>md_type = 4, md_key_size = 4, md_value_size = 4, md_max_entries = 0\<rparr>)] \<and>
    map_option (map (\<lambda>(x, s, v). (x, int v)) \<circ> filter (\<lambda>(x, s, v). s = ''.maps'')) (elf_globals elf_image) =
      Some [(''my_config'', hash_map_at), (''output'', perf_map_at)] \<and>
    btf_vars image_btf ''.data'' = Some (map (\<lambda>(x, z, n). (x, n)) (layout 0 probe_data_fields)) \<and>
    map_option (map (\<lambda>(x, s, v). (x, v)) \<circ> filter (\<lambda>(x, s, v). s = ''.data'')) (elf_globals elf_image) =
      Some (map (\<lambda>(x, z, n). (x, z)) (layout 0 probe_data_fields)) \<and>
    btf_struct image_btf ''msg_t'' = Some (layout 0 msg_t_fields) \<and>
    btf_struct image_btf ''xdp_md'' = Some (layout 0 xdp_md_fields)"
  using assms
  by (simp add: image_btf_slice image_btf_maps image_globals_table image_btf_data image_btf_structs struct_offsets
      msg_kernel_def my_config_map_def hmap_new_def hash_map_at_def perf_map_at_def)

theorem image_btf_agrees_witness:
  "btf_maps image_btf = Some [
     (''my_config'', \<lparr>md_type = 1, md_key_size = 4, md_value_size = 12, md_max_entries = 10240\<rparr>),
     (''output'', \<lparr>md_type = 4, md_key_size = 4, md_value_size = 4, md_max_entries = 0\<rparr>)]"
proof -
  have "msg_kernel (probe_kernel (doc_env 0 0 []))" by (simp add: msg_kernel_def probe_kernel_def)
  from image_btf_agrees [OF this] show ?thesis
    by (simp add: probe_kernel_def my_config_map_def hmap_new_def)
qed

end
