(* ===== verification/Bytecode_Types.thy ===== *)
theory Bytecode_Types
  imports Kernel_Calls
begin

text \<open>
  A verifier for the bytecode: it explores every path of a program on abstract values (ranges
  of numbers, pointers into a region with a range of offsets, results of a lookup that may be
  null) and tracks which bytes of the stack are initialised. Its soundness: an accepted
  program ends, within the explored number of instructions and without an invalid access, in
  every memory and for all results of the helpers.
\<close>

section \<open>Abstract values\<close>

text \<open>A number in an unsigned range; a pointer with a range of offsets; the result of a lookup.\<close>

datatype aval = ANum int int | APtr region int int | AMaybe

text \<open>
  What a program may rely on: the size of its frame, the lengths of its context, data, keys and
  values, the content of its read-only data, and whether it may update its map.
\<close>

record tenv =
  frame_len :: int
  ctx_len :: int
  data_len :: int
  ro_bytes :: bytes
  key_len :: nat
  val_len :: nat
  may_update :: bool

record astate =
  a_pc :: int
  a_regs :: "aval option list"
  a_init :: "(int \<times> int) list"

definition a_top :: "nat \<Rightarrow> aval" where
  "a_top n = ANum 0 (2 ^ n - 1)"

definition region_len :: "tenv \<Rightarrow> region \<Rightarrow> int" where
  "region_len T r = (case r of Ctx \<Rightarrow> ctx_len T | Data \<Rightarrow> data_len T
     | Rodata \<Rightarrow> int (length (ro_bytes T)) | Map_value \<Rightarrow> int (val_len T) | _ \<Rightarrow> 0)"

text \<open>The bytes from \<open>lo\<close> up to \<open>hi\<close> lie in the intervals.\<close>

fun covered :: "nat \<Rightarrow> int \<Rightarrow> int \<Rightarrow> (int \<times> int) list \<Rightarrow> bool" where
  "covered fuel lo hi ivs =
     (hi \<le> lo \<or>
      (case fuel of 0 \<Rightarrow> False
       | Suc n \<Rightarrow> (case find (\<lambda>(a, z). a \<le> lo \<and> lo < z) ivs of
                    None \<Rightarrow> False | Some (a, z) \<Rightarrow> covered n z hi ivs)))"

declare covered.simps [simp del]

definition readable :: "tenv \<Rightarrow> astate \<Rightarrow> aval option \<Rightarrow> int \<Rightarrow> nat \<Rightarrow> bool" where
  "readable T a v off n =
     (case v of
        Some (APtr r lo hi) \<Rightarrow>
          (if r = Stack then covered (length (a_init a)) (lo + off) (hi + off + int n) (a_init a)
           else 0 \<le> lo + off \<and> hi + off + int n \<le> region_len T r)
      | _ \<Rightarrow> False)"

definition writeable :: "tenv \<Rightarrow> aval option \<Rightarrow> int \<Rightarrow> nat \<Rightarrow> bool" where
  "writeable T v off n =
     (case v of
        Some (APtr r lo hi) \<Rightarrow>
          (r = Stack \<and> - frame_len T \<le> lo + off \<and> frame_len T \<le> stack_size \<and> hi + off + int n \<le> 0
           \<or> r = Data \<and> 0 \<le> lo + off \<and> hi + off + int n \<le> data_len T)
      | _ \<Rightarrow> False)"

text \<open>A write at a known offset of the stack initialises its bytes.\<close>

definition written :: "aval option \<Rightarrow> int \<Rightarrow> nat \<Rightarrow> (int \<times> int) list \<Rightarrow> (int \<times> int) list" where
  "written v off n ivs =
     (case v of
        Some (APtr Stack lo hi) \<Rightarrow> if lo = hi then (lo + off, lo + off + int n) # ivs else ivs
      | _ \<Rightarrow> ivs)"

section \<open>Instructions\<close>

definition a_get :: "astate \<Rightarrow> nat \<Rightarrow> aval option" where
  "a_get a i = (if i < length (a_regs a) then a_regs a ! i else None)"

definition a_operand :: "astate \<Rightarrow> operand \<Rightarrow> aval option" where
  "a_operand a x = (case x of Reg i \<Rightarrow> a_get a i
     | Imm k \<Rightarrow> Some (ANum (uint (scast k :: u64)) (uint (scast k :: u64))))"

text \<open>The signed range of an unsigned one, when it does not cross \<open>2 ^ 63\<close>.\<close>

definition signed_range :: "int \<Rightarrow> int \<Rightarrow> (int \<times> int) option" where
  "signed_range lo hi =
     (if hi < 2 ^ 63 then Some (lo, hi)
      else if 2 ^ 63 \<le> lo then Some (lo - 2 ^ 64, hi - 2 ^ 64) else None)"

definition a_alu :: "alu \<Rightarrow> aval option \<Rightarrow> aval option \<Rightarrow> aval option" where
  "a_alu op x y =
     (case (op, x, y) of
        (Mov, _, v) \<Rightarrow> v
      | (Add, Some (APtr r lo hi), Some (ANum l h)) \<Rightarrow>
          map_option (\<lambda>(l', h'). APtr r (lo + l') (hi + h')) (signed_range l h)
      | (_, Some (ANum _ _), Some (ANum _ _)) \<Rightarrow> Some (a_top 64)
      | _ \<Rightarrow> None)"

definition a_next :: "astate \<Rightarrow> int \<Rightarrow> nat \<Rightarrow> aval option \<Rightarrow> astate" where
  "a_next a k d v = a\<lparr>a_pc := a_pc a + k, a_regs := (a_regs a)[d := v]\<rparr>"

text \<open>What a comparison with a number leaves of a value: when it holds, and when it does not.\<close>

definition a_branches :: "cond \<Rightarrow> aval \<Rightarrow> int \<times> int \<Rightarrow> (aval option \<times> aval option) option" where
  "a_branches cnd v k =
     (case (cnd, v) of
        (Eq, AMaybe) \<Rightarrow> if k = (0, 0) then Some (Some (ANum 0 0), Some (APtr Map_value 0 0)) else None
      | (Eq, APtr r lo hi) \<Rightarrow> if k = (0, 0) then Some (None, Some v) else None
      | (Eq, ANum l h) \<Rightarrow> Some (Some v, Some v)
      | (Gt, ANum l h) \<Rightarrow>
          Some (if fst k < h then Some (ANum (max l (fst k + 1)) h) else None,
                if l \<le> snd k then Some (ANum l (min h (snd k))) else None)
      | _ \<Rightarrow> None)"

text \<open>The result of a helper. A destination must be initialised before, as the machine asks.\<close>

definition a_exact :: "aval option \<Rightarrow> nat option" where
  "a_exact v = (case v of Some (ANum l h) \<Rightarrow> if l = h \<and> 0 \<le> l then Some (nat l) else None | _ \<Rightarrow> None)"

definition a_is_num :: "aval option \<Rightarrow> bool" where
  "a_is_num v = (case v of Some (ANum _ _) \<Rightarrow> True | _ \<Rightarrow> False)"

definition a_format :: "tenv \<Rightarrow> aval option \<Rightarrow> aval option \<Rightarrow> string option" where
  "a_format T p n =
     (case (p, a_exact n) of
        (Some (APtr Rodata lo hi), Some k) \<Rightarrow>
          if lo = hi \<and> 0 \<le> lo \<and> lo + int k \<le> int (length (ro_bytes T))
          then Some (map (\<lambda>b. char_of (unat b)) (takeWhile (\<lambda>b. b \<noteq> 0) (take k (drop (nat lo) (ro_bytes T)))))
          else None
      | _ \<Rightarrow> None)"

definition a_call :: "tenv \<Rightarrow> astate \<Rightarrow> u32 \<Rightarrow> aval option" where
  "a_call T a n =
     (let r = a_get a; top = a_top 64
      in if n = 1 then
           (if r 1 = Some (APtr Map_object hash_map_at hash_map_at) \<and> readable T a (r 2) 0 (key_len T)
            then Some AMaybe else None)
         else if n = 2 then
           (if r 1 = Some (APtr Map_object hash_map_at hash_map_at) \<and> readable T a (r 2) 0 (key_len T)
              \<and> readable T a (r 3) 0 (val_len T) \<and> a_is_num (r 4) \<and> may_update T
            then Some top else None)
         else if n = 6 then
           (case a_format T (r 1) (r 2) of
              None \<Rightarrow> None
            | Some fmt \<Rightarrow>
                let k = length (conversions fmt)
                in if k \<le> 3 \<and> list_all a_is_num (take k [r 3, r 4, r 5]) then Some top else None)
         else if n = 14 \<or> n = 15 then Some top
         else if n = 16 then
           (case a_exact (r 2) of
              Some k \<Rightarrow> if writeable T (r 1) 0 k \<and> readable T a (r 1) 0 k then Some top else None
            | None \<Rightarrow> None)
         else if n = 25 then
           (case (r 1, a_exact (r 5)) of
              (Some (APtr Ctx _ _), Some k) \<Rightarrow>
                if r 2 = Some (APtr Map_object perf_map_at perf_map_at)
                  \<and> r 3 = Some (ANum 0xFFFFFFFF 0xFFFFFFFF) \<and> readable T a (r 4) 0 k
                then Some top else None
            | _ \<Rightarrow> None)
         else if n = 113 then
           (case a_exact (r 2) of
              Some k \<Rightarrow> if writeable T (r 1) 0 k \<and> readable T a (r 1) 0 k \<and> readable T a (r 3) 0 k
                        then Some top else None
            | None \<Rightarrow> None)
         else None)"

text \<open>The states after an instruction, or \<open>None\<close> when it is refused.\<close>

definition a_step :: "tenv \<Rightarrow> relocs \<Rightarrow> insn \<Rightarrow> astate \<Rightarrow> astate list option" where
  "a_step T rel i a =
     (case i of
        Alu64 op d x \<Rightarrow>
          (case a_alu op (a_get a d) (a_operand a x) of
             Some v \<Rightarrow> if d < 10 then Some [a_next a 1 d (Some v)] else None | None \<Rightarrow> None)
      | Ld_imm64 d k \<Rightarrow>
          (case map_of rel (a_pc a) of
             None \<Rightarrow> if d < 10 then Some [a_next a 2 d (Some (ANum (uint k) (uint k)))] else None
           | Some (r, z) \<Rightarrow> if d < 10 \<and> r \<noteq> Map_value
               then Some [a_next a 2 d (Some (APtr r (z + uint k) (z + uint k)))] else None)
      | Ldx n d x off \<Rightarrow>
          if d < 10 \<and> n \<le> 8 \<and> readable T a (a_get a x) (sint off) n
          then Some [a_next a 1 d (Some (a_top (8 * n)))] else None
      | Stx n d off x \<Rightarrow>
          if writeable T (a_get a d) (sint off) n \<and> a_is_num (a_get a x)
          then Some [a\<lparr>a_pc := a_pc a + 1, a_init := written (a_get a d) (sint off) n (a_init a)\<rparr>] else None
      | Jmp cnd d x off \<Rightarrow>
          (case (a_get a d, a_operand a x) of
             (Some v, Some (ANum l h)) \<Rightarrow>
               (case a_branches cnd v (l, h) of
                  None \<Rightarrow> None
                | Some (t, f) \<Rightarrow> Some (
                    (case t of None \<Rightarrow> [] | Some v \<Rightarrow> [a_next a (1 + sint off) d (Some v)]) @
                    (case f of None \<Rightarrow> [] | Some v \<Rightarrow> [a_next a 1 d (Some v)])))
           | _ \<Rightarrow> None)
      | Ja off \<Rightarrow> Some [a\<lparr>a_pc := a_pc a + 1 + sint off\<rparr>]
      | Call n \<Rightarrow>
          (case a_call T a n of
             None \<Rightarrow> None
           | Some v \<Rightarrow> Some [a\<lparr>a_pc := a_pc a + 1,
               a_regs := Some v # replicate 5 None @ drop 6 (a_regs a)\<rparr>])
      | Exit \<Rightarrow> if a_is_num (a_get a 0) then Some [] else None)"

fun verify :: "insn option list \<Rightarrow> tenv \<Rightarrow> relocs \<Rightarrow> nat \<Rightarrow> astate \<Rightarrow> bool" where
  "verify code T rel 0 a = False"
| "verify code T rel (Suc n) a =
     (0 \<le> a_pc a \<and> nat (a_pc a) < length code \<and>
      (case code ! nat (a_pc a) of None \<Rightarrow> False
       | Some i \<Rightarrow> (case a_step T rel i a of None \<Rightarrow> False
                    | Some as \<Rightarrow> list_all (verify code T rel n) as)))"

definition a_start :: astate where
  "a_start = \<lparr>a_pc = 0, a_regs = [None, Some (APtr Ctx 0 0), None, None, None, None, None, None, None,
     None, Some (APtr Stack 0 0)], a_init = []\<rparr>"

section \<open>What the abstract values mean\<close>

definition defined :: "vmem \<Rightarrow> region \<Rightarrow> int \<Rightarrow> int \<Rightarrow> bool" where
  "defined mm r lo hi \<longleftrightarrow> (\<forall>x. lo \<le> x \<and> x < hi \<longrightarrow> mm r x \<noteq> None)"

fun val_ok :: "tenv \<Rightarrow> vmem \<Rightarrow> aval \<Rightarrow> val \<Rightarrow> bool" where
  "val_ok T mm (ANum l h) v \<longleftrightarrow> (\<exists>w. v = Scalar w \<and> l \<le> uint w \<and> uint w \<le> h)"
| "val_ok T mm (APtr r l h) v \<longleftrightarrow> (\<exists>x. v = Addr r x \<and> l \<le> x \<and> x \<le> h \<and>
     (r = Map_value \<longrightarrow> defined mm Map_value 0 (int (val_len T))))"
| "val_ok T mm AMaybe v \<longleftrightarrow> v = Scalar 0 \<or> v = Addr Map_value 0 \<and> defined mm Map_value 0 (int (val_len T))"

definition regs_ok :: "tenv \<Rightarrow> vmem \<Rightarrow> aval option list \<Rightarrow> val option list \<Rightarrow> bool" where
  "regs_ok T mm ts rs \<longleftrightarrow> length ts = 11 \<and> length rs = 11 \<and>
     (\<forall>i < 11. \<forall>t. ts ! i = Some t \<longrightarrow> (\<exists>v. rs ! i = Some v \<and> val_ok T mm t v))"

definition mem_ok :: "tenv \<Rightarrow> (int \<times> int) list \<Rightarrow> vmem \<Rightarrow> bool" where
  "mem_ok T ivs mm \<longleftrightarrow> defined mm Ctx 0 (ctx_len T) \<and> defined mm Data 0 (data_len T) \<and>
     read_bytes mm Rodata 0 (length (ro_bytes T)) = Some (ro_bytes T) \<and>
     (\<forall>(a, z) \<in> set ivs. defined mm Stack a z)"

text \<open>All that is written to the stack lies in the frame.\<close>

definition stack_within :: "int \<Rightarrow> vmem \<Rightarrow> bool" where
  "stack_within n mm \<longleftrightarrow> (\<forall>x. mm Stack x \<noteq> None \<longrightarrow> - n \<le> x \<and> x < 0)"

lemma stack_within_put:
  "stack_within n mm \<Longrightarrow> r = Stack \<longrightarrow> - n \<le> a \<and> a + int (length bs) \<le> 0 \<Longrightarrow>
   stack_within n (put_bytes mm r a bs)"
  by (auto simp: stack_within_def put_bytes_def split: if_splits)

definition state_ok :: "('m \<Rightarrow> bool) \<Rightarrow> tenv \<Rightarrow> astate \<Rightarrow> 'm kworld vm \<Rightarrow> bool" where
  "state_ok P T a s \<longleftrightarrow> pc s = a_pc a \<and> regs_ok T (mem s) (a_regs a) (regs s) \<and>
     mem_ok T (a_init a) (mem s) \<and> stack_within (frame_len T) (mem s) \<and> P (k_map (world s))"

subsection \<open>Memory that grows\<close>

definition grows :: "vmem \<Rightarrow> vmem \<Rightarrow> bool" where
  "grows mm mm' \<longleftrightarrow> (\<forall>r x. mm r x \<noteq> None \<longrightarrow> mm' r x \<noteq> None) \<and> mm' Rodata = mm Rodata"

lemma grows_refl [simp]: "grows mm mm"
  by (simp add: grows_def)

lemma grows_put [simp]: "r \<noteq> Rodata \<Longrightarrow> grows mm (put_bytes mm r a bs)"
  by (simp add: grows_def put_bytes_def)

lemma defined_grows: "grows mm mm' \<Longrightarrow> defined mm r lo hi \<Longrightarrow> defined mm' r lo hi"
  by (simp add: grows_def defined_def)

lemma val_ok_grows: "grows mm mm' \<Longrightarrow> val_ok T mm t v \<Longrightarrow> val_ok T mm' t v"
  by (cases t) (auto dest: defined_grows)

lemma regs_ok_grows: "grows mm mm' \<Longrightarrow> regs_ok T mm ts rs \<Longrightarrow> regs_ok T mm' ts rs"
  unfolding regs_ok_def by (meson val_ok_grows)

lemma read_bytes_same: "mm' r = mm r \<Longrightarrow> read_bytes mm' r a n = read_bytes mm r a n"
  by (induction n arbitrary: a) (simp_all split: option.split)

lemma mem_ok_grows: "grows mm mm' \<Longrightarrow> mem_ok T ivs mm \<Longrightarrow> mem_ok T ivs mm'"
  using read_bytes_same [of mm' Rodata mm 0 "length (ro_bytes T)"]
  by (auto simp: mem_ok_def grows_def defined_def)

lemma regs_ok_update:
  "regs_ok T mm ts rs \<Longrightarrow> d < 10 \<Longrightarrow> val_ok T mm t v \<Longrightarrow> regs_ok T mm (ts[d := Some t]) (rs[d := Some v])"
  by (auto simp: regs_ok_def nth_list_update)

subsection \<open>Accesses\<close>

lemma defined_empty [simp]: "hi \<le> lo \<Longrightarrow> defined mm r lo hi"
  unfolding defined_def by force

lemma defined_split: "defined mm r lo mid \<Longrightarrow> defined mm r mid hi \<Longrightarrow> defined mm r lo hi"
  unfolding defined_def by (meson linorder_not_le)

lemma defined_one: "mm r a \<noteq> None \<Longrightarrow> defined mm r a (a + 1)"
  unfolding defined_def by (metis order_antisym zless_add1_eq order_less_imp_le linorder_not_less)

lemma read_defined: "defined mm r a (a + int n) \<Longrightarrow> \<exists>bs. read_bytes mm r a n = Some bs"
proof (induction n arbitrary: a)
  case (Suc n)
  obtain b where b: "mm r a = Some b"
    using Suc.prems by (force simp: defined_def)
  have "defined mm r (a + 1) (a + 1 + int n)"
    using Suc.prems by (simp add: defined_def)
  with Suc.IH b show ?case by fastforce
qed simp

lemma defined_read: "read_bytes mm r a n = Some bs \<Longrightarrow> defined mm r a (a + int n)"
proof (induction n arbitrary: a bs)
  case (Suc n)
  then have "defined mm r (a + 1) (a + 1 + int n)" "defined mm r a (a + 1)"
    by (auto split: option.splits intro!: defined_one)
  then show ?case
    using defined_split [of mm r a "a + 1" "a + 1 + int n"] by (simp add: algebra_simps)
qed simp

lemma defined_sub: "defined mm r lo hi \<Longrightarrow> lo \<le> lo' \<Longrightarrow> hi' \<le> hi \<Longrightarrow> defined mm r lo' hi'"
  by (simp add: defined_def)

lemma covered_sound:
  "covered n lo hi ivs \<Longrightarrow> \<forall>(a, z) \<in> set ivs. defined mm Stack a z \<Longrightarrow> defined mm Stack lo hi"
proof (induction n arbitrary: lo)
  case 0
  then show ?case by (simp add: covered.simps [of 0])
next
  case (Suc n)
  show ?case
  proof (cases "hi \<le> lo")
    case True
    then show ?thesis by simp
  next
    case False
    then obtain a z where f: "find (\<lambda>(a, z). a \<le> lo \<and> lo < z) ivs = Some (a, z)" and c: "covered n z hi ivs"
      using Suc.prems(1) by (auto simp: covered.simps [of "Suc n"] split: option.splits)
    from f have "(a, z) \<in> set ivs" "a \<le> lo"
      by (auto simp: find_Some_iff in_set_conv_nth)
    with Suc.prems(2) have "defined mm Stack lo z" by (fastforce simp: defined_def)
    with Suc.IH [OF c Suc.prems(2)] show ?thesis by (blast intro: defined_split)
  qed
qed

lemma readable_sound:
  assumes "readable T a (Some t) off n" and "mem_ok T (a_init a) mm" and "val_ok T mm t v"
  obtains r x bs where "v = Addr r x" "read_bytes mm r (x + off) n = Some bs" "length bs = n"
proof -
  from assms(1) obtain r lo hi where t: "t = APtr r lo hi"
    and acc: "if r = Stack then covered (length (a_init a)) (lo + off) (hi + off + int n) (a_init a)
      else 0 \<le> lo + off \<and> hi + off + int n \<le> region_len T r"
    by (cases t) (auto simp: readable_def)
  with assms(3) obtain x where v: "v = Addr r x" and x: "lo \<le> x" "x \<le> hi"
    and mv: "r = Map_value \<Longrightarrow> defined mm Map_value 0 (int (val_len T))"
    by auto
  have "defined mm r (x + off) (x + off + int n)"
  proof (cases "r = Stack")
    case True
    then show ?thesis
      using covered_sound [of "length (a_init a)" "lo + off" "hi + off + int n" "a_init a" mm] acc assms(2) x
      by (auto simp: mem_ok_def elim!: defined_sub)
  next
    case False
    have z: "0 \<le> x + off" "x + off + int n \<le> region_len T r" using acc x False by simp_all
    have "defined mm Rodata 0 (int (length (ro_bytes T)))"
      using assms(2) defined_read [of mm Rodata 0 "length (ro_bytes T)"] by (simp add: mem_ok_def)
    then have "defined mm r 0 (region_len T r)"
      using False assms(2) mv by (cases r) (simp_all add: mem_ok_def region_len_def)
    with z show ?thesis by (auto elim: defined_sub)
  qed
  from read_defined [OF this] v show thesis using that by (auto dest: read_bytes_length)
qed

lemma writeable_sound:
  assumes "writeable T (Some t) off n" and "mem_ok T ivs mm" and "val_ok T mm t v"
  obtains r x where "v = Addr r x" "writable mm r (x + off) n" "r = Stack \<or> r = Data"
    "r = Stack \<longrightarrow> - frame_len T \<le> x + off \<and> x + off + int n \<le> 0"
proof -
  from assms(1) obtain r lo hi where t: "t = APtr r lo hi"
    and acc: "r = Stack \<and> - frame_len T \<le> lo + off \<and> frame_len T \<le> stack_size \<and> hi + off + int n \<le> 0
      \<or> r = Data \<and> 0 \<le> lo + off \<and> hi + off + int n \<le> data_len T"
    by (cases t) (auto simp: writeable_def)
  with assms(3) obtain x where v: "v = Addr r x" and x: "lo \<le> x" "x \<le> hi" by auto
  have "read_bytes mm Data (x + off) n \<noteq> None" if "r = Data"
  proof -
    have "defined mm Data (x + off) (x + off + int n)"
      using acc x that assms(2) by (auto simp: mem_ok_def elim: defined_sub)
    from read_defined [OF this] show ?thesis by auto
  qed
  with acc x v show thesis
    by (intro that [of r x]) (auto simp: writable_def)
qed

lemma mem_ok_written:
  assumes "mem_ok T ivs mm" and "val_ok T mm t (Addr r x)" and "r \<noteq> Rodata" and "length bs = n"
  shows "mem_ok T (written (Some t) off n ivs) (put_bytes mm r (x + off) bs)"
proof -
  have m: "mem_ok T ivs (put_bytes mm r (x + off) bs)"
    by (rule mem_ok_grows [OF _ assms(1)]) (simp add: assms(3))
  show ?thesis
  proof (cases "\<exists>lo. t = APtr Stack lo lo")
    case True
    then have "r = Stack" "t = APtr Stack x x" using assms(2) by auto
    then show ?thesis
      using m assms(4) by (auto simp: written_def mem_ok_def) (simp add: defined_def put_bytes_def)
  next
    case False
    then have "written (Some t) off n ivs = ivs"
      by (auto simp: written_def split: aval.splits region.splits)
    then show ?thesis using m by simp
  qed
qed

subsection \<open>Registers and operations\<close>

lemma a_get_sound:
  assumes "regs_ok T mm (a_regs a) rs" and "a_get a i = Some t"
  obtains v where "reg_get rs i = Inr v" "val_ok T mm t v"
proof -
  have "i < 11" "a_regs a ! i = Some t"
    using assms by (auto simp: a_get_def regs_ok_def split: if_splits)
  with assms(1) obtain v where "rs ! i = Some v" "val_ok T mm t v" "i < length rs"
    by (auto simp: regs_ok_def)
  then show thesis by (intro that [of v]) (simp_all add: reg_get_def)
qed

lemma a_operand_sound:
  assumes "regs_ok T mm (a_regs a) rs" and "a_operand a x = Some t"
  obtains v where "operand_val rs x = Inr v" "val_ok T mm t v"
proof (cases x)
  case (Reg i)
  then show thesis
    using a_get_sound [OF assms(1), of i t] assms(2) that by (auto simp: a_operand_def operand_val_def)
next
  case (Imm k)
  then show thesis
    using assms(2) by (intro that [of "Scalar (scast k)"]) (auto simp: a_operand_def operand_val_def)
qed

lemma a_top_ok: "val_ok T mm (a_top 64) (Scalar w)"
  using uint_lt2p [of w] by (simp add: a_top_def)

lemma signed_range_sound:
  fixes w :: u64
  assumes "signed_range l h = Some (l', h')" and "l \<le> uint w" and "uint w \<le> h"
  shows "l' \<le> sint w \<and> sint w \<le> h'"
proof -
  have b: "- (2 ^ 63) \<le> sint w" "sint w < 2 ^ 63"
    using sint_ge [of w] sint_lt [of w] by simp_all
  have u: "uint w = sint w mod 2 ^ 64"
    by (simp add: uint_sint take_bit_eq_mod)
  have s: "sint w = (if uint w < 2 ^ 63 then uint w else uint w - 2 ^ 64)"
  proof (cases "0 \<le> sint w")
    case True
    then show ?thesis using u b by simp
  next
    case False
    then have "(sint w + 2 ^ 64) mod 2 ^ 64 = sint w + 2 ^ 64"
      using b by (intro mod_pos_pos_trivial) simp_all
    then show ?thesis using u b False by simp
  qed
  then show ?thesis using assms by (auto simp: signed_range_def split: if_splits)
qed

lemma a_alu_sound:
  assumes "a_alu op x y = Some t" and y: "\<And>u. y = Some u \<Longrightarrow> val_ok T mm u b"
    and x: "\<And>u. x = Some u \<Longrightarrow> op \<noteq> Mov \<Longrightarrow> val_ok T mm u a"
  shows "\<exists>v. alu_op op a b = Inr v \<and> val_ok T mm t v"
proof (cases "op = Mov")
  case True
  then have "alu_op op a b = Inr b" "y = Some t"
    using assms(1) by (auto simp: alu_op_def a_alu_def split: option.splits aval.splits)
  with y show ?thesis by simp
next
  case False
  then obtain u u' where u: "x = Some u" "y = Some u'"
    using assms(1) by (auto simp: a_alu_def split: alu.splits option.splits aval.splits)
  then have ok: "val_ok T mm u a" "val_ok T mm u' b" using x y False by simp_all
  from assms(1) False obtain l h where u': "u' = ANum l h"
    by (auto simp: u a_alu_def split: alu.splits aval.splits)
  then obtain w where w: "b = Scalar w" "l \<le> uint w" "uint w \<le> h" using ok by auto
  show ?thesis
  proof (cases u)
    case (ANum l' h')
    then obtain w' where "a = Scalar w'" using ok by auto
    moreover have "t = a_top 64"
      using assms(1) False by (auto simp: u u' ANum a_alu_def split: alu.splits)
    ultimately show ?thesis
      using w False a_top_ok by (cases op) (simp_all add: alu_op_def)
  next
    case (APtr r lo hi)
    then obtain z where z: "a = Addr r z" "lo \<le> z" "z \<le> hi"
        "r = Map_value \<longrightarrow> defined mm Map_value 0 (int (val_len T))"
      using ok by auto
    obtain l' h' where s: "op = Add" "signed_range l h = Some (l', h')" "t = APtr r (lo + l') (hi + h')"
      using assms(1) False by (auto simp: u u' APtr a_alu_def split: alu.splits)
    from signed_range_sound [OF s(2) w(2,3)] z w(1) s show ?thesis
      by (simp add: alu_op_def)
  next
    case AMaybe
    then show ?thesis
      using assms(1) False by (auto simp: u u' a_alu_def split: alu.splits)
  qed
qed

lemma a_branches_sound:
  assumes "a_branches cnd u (l, h) = Some (tr, fl)" and "val_ok T mm u a" and "val_ok T mm (ANum l h) b"
  obtains q u' where "cond_holds cnd a b = Inr q" "(if q then tr else fl) = Some u'" "val_ok T mm u' a"
proof -
  from assms(3) obtain w where w: "b = Scalar w" "l \<le> uint w" "uint w \<le> h" by auto
  have z: "w = 0" if "l = 0" "h = 0"
    using w that by (simp add: uint_0_iff)
  show thesis
  proof (cases u)
    case (ANum l' h')
    then obtain w' where w': "a = Scalar w'" "l' \<le> uint w'" "uint w' \<le> h'" using assms(2) by auto
    show thesis
    proof (cases cnd)
      case Eq
      then show thesis
        using assms(1) w w' ANum that [of "w' = w" u] assms(2)
        by (auto simp: a_branches_def cond_holds_def)
    next
      case Gt
      have "val_ok T mm (ANum (max l' (l + 1)) h') a" "l < h'" if "w < w'"
        using that w w' by (simp_all add: word_less_def)
      moreover have "val_ok T mm (ANum l' (min h' h)) a" "l' \<le> h" if "\<not> w < w'"
        using that w w' by (simp_all add: word_less_def)
      ultimately show thesis
        using assms(1) w w' ANum Gt that [of "w < w'" "if w < w' then ANum (max l' (l + 1)) h' else ANum l' (min h' h)"]
        by (cases "w < w'") (auto simp: a_branches_def cond_holds_def)
    qed
  next
    case (APtr r lo hi)
    with assms(1) have e: "cnd = Eq" "l = 0" "h = 0" "fl = Some u"
      by (auto simp: a_branches_def split: cond.splits if_splits)
    obtain x where "a = Addr r x" using assms(2) APtr by auto
    then show thesis using that [of False u] e z w assms(2) by (simp add: cond_holds_def)
  next
    case AMaybe
    with assms(1) have e: "cnd = Eq" "l = 0" "h = 0" "tr = Some (ANum 0 0)" "fl = Some (APtr Map_value 0 0)"
      by (auto simp: a_branches_def split: cond.splits if_splits)
    from assms(2) AMaybe consider "a = Scalar 0" | "a = Addr Map_value 0" "defined mm Map_value 0 (int (val_len T))"
      by auto
    then show thesis
    proof cases
      case 1
      then show thesis using that [of True "ANum 0 0"] e z w by (simp add: cond_holds_def)
    next
      case 2
      then show thesis using that [of False "APtr Map_value 0 0"] e z w by (simp add: cond_holds_def)
    qed
  qed
qed

subsection \<open>Arguments of a helper\<close>

lemma five_args: "length rs = 11 \<Longrightarrow> take 5 (tl rs) = [rs ! 1, rs ! 2, rs ! 3, rs ! 4, rs ! 5]"
proof -
  assume "length rs = 11"
  then have "take 5 (tl rs) = map (\<lambda>i. rs ! (i + 1)) [0..<5]"
    by (intro nth_equalityI) (simp_all add: nth_tl del: upt_rec_numeral)
  also have "[0..<5] = [0, 1, 2, 3, 4 :: nat]" by code_simp
  finally show ?thesis by (simp add: eval_nat_numeral)
qed

lemma args_eq: "regs_ok T mm ts rs \<Longrightarrow> take 5 (tl rs) = [rs ! 1, rs ! 2, rs ! 3, rs ! 4, rs ! 5]"
  by (rule five_args) (simp add: regs_ok_def)

lemma arg_sound:
  assumes "regs_ok T mm (a_regs a) rs" and "a_get a i = Some t"
  obtains v where "rs ! i = Some v" "val_ok T mm t v"
  using assms by (auto simp: a_get_def regs_ok_def split: if_splits)

lemma num_sound:
  assumes "regs_ok T mm (a_regs a) rs" and "a_is_num (a_get a i)"
  obtains w where "rs ! i = Some (Scalar w)"
proof -
  obtain l h where "a_get a i = Some (ANum l h)"
    using assms(2) by (auto simp: a_is_num_def split: option.splits aval.splits)
  from arg_sound [OF assms(1) this] show thesis using that by auto
qed

lemma exact_sound:
  assumes "regs_ok T mm (a_regs a) rs" and "a_exact (a_get a i) = Some k"
  obtains w where "rs ! i = Some (Scalar w)" "unat w = k"
proof -
  obtain u where u: "a_get a i = Some u" using assms(2) by (cases "a_get a i") (simp_all add: a_exact_def)
  then obtain l where l: "a_get a i = Some (ANum l l)" "0 \<le> l" "nat l = k"
    using assms(2) by (cases u) (simp_all add: a_exact_def split: if_splits)
  obtain v where "rs ! i = Some v" "val_ok T mm (ANum l l) v" by (rule arg_sound [OF assms(1) l(1)])
  then obtain w where w: "rs ! i = Some (Scalar w)" "l \<le> uint w" "uint w \<le> l"
    unfolding val_ok.simps by blast
  from w(2,3) have "uint w = l" by simp
  with l w show thesis using that [of w] by (simp add: unat_eq_nat_uint)
qed

lemma ptr_sound:
  assumes "regs_ok T mm (a_regs a) rs" and "a_get a i = Some (APtr r z z)"
  shows "rs ! i = Some (Addr r z)"
  using arg_sound [OF assms] by force

lemma readable_arg:
  assumes "regs_ok T mm (a_regs a) rs" and "mem_ok T (a_init a) mm" and "readable T a (a_get a i) 0 n"
  obtains r x bs where "rs ! i = Some (Addr r x)" "read_bytes mm r x n = Some bs" "length bs = n"
proof -
  obtain t where t: "a_get a i = Some t" using assms(3) by (auto simp: readable_def split: option.splits)
  from arg_sound [OF assms(1) t] obtain v where v: "rs ! i = Some v" "val_ok T mm t v" .
  from readable_sound [OF _ assms(2) v(2), of 0 n] assms(3) obtain r x bs where
    "v = Addr r x" "read_bytes mm r (x + 0) n = Some bs" "length bs = n" by (auto simp: t)
  with v show thesis using that by simp
qed

lemma writeable_arg:
  assumes "regs_ok T mm (a_regs a) rs" and "mem_ok T (a_init a) mm" and "writeable T (a_get a i) 0 n"
    and "rs ! i = Some (Addr r x)"
  shows "writable mm r x n \<and> r \<noteq> Rodata \<and> (r = Stack \<longrightarrow> - frame_len T \<le> x \<and> x + int n \<le> 0)"
proof -
  obtain t where t: "a_get a i = Some t" using assms(3) by (auto simp: writeable_def split: option.splits)
  from arg_sound [OF assms(1) t] have "val_ok T mm t (Addr r x)" using assms(4) by auto
  from writeable_sound [OF _ assms(2) this, of 0 n] assms(3) show ?thesis by (auto simp: t)
qed

lemma print_args_defined:
  "length xs \<le> length rs \<Longrightarrow> \<forall>i < length xs. \<exists>w. rs ! i = Some (Scalar w) \<Longrightarrow> \<exists>ys. print_args xs rs = Some ys"
proof (induction xs arbitrary: rs)
  case (Cons x xs)
  then obtain r rs' where rs: "rs = r # rs'" by (cases rs) auto
  with Cons.prems have "\<exists>w. r = Some (Scalar w)" by force
  moreover have "\<exists>ys. print_args xs rs' = Some ys"
    using Cons.prems rs by (intro Cons.IH) auto
  ultimately show ?case by (auto simp: rs)
qed simp

lemma format_sound:
  assumes "regs_ok T mm (a_regs a) rs" and "mem_ok T ivs mm" and "a_format T (a_get a 1) (a_get a 2) = Some fmt"
  obtains z w bs where "rs ! 1 = Some (Addr Rodata z)" "rs ! 2 = Some (Scalar w)"
    "read_bytes mm Rodata z (unat w) = Some bs"
    "fmt = map (\<lambda>b. char_of (unat b)) (takeWhile (\<lambda>b. b \<noteq> 0) bs)"
proof -
  obtain z k where z: "a_get a 1 = Some (APtr Rodata z z)" "a_exact (a_get a 2) = Some k" "0 \<le> z"
      "z + int k \<le> int (length (ro_bytes T))"
      "fmt = map (\<lambda>b. char_of (unat b)) (takeWhile (\<lambda>b. b \<noteq> 0) (take k (drop (nat z) (ro_bytes T))))"
    using assms(3) by (auto simp: a_format_def split: option.splits aval.splits region.splits if_splits)
  obtain w where w: "rs ! 2 = Some (Scalar w)" "unat w = k" by (rule exact_sound [OF assms(1) z(2)])
  have "read_bytes mm Rodata 0 (length (ro_bytes T)) = Some (ro_bytes T)"
    using assms(2) by (simp add: mem_ok_def)
  from read_slice [OF this, of "nat z" k] z(3,4) w(2)
  have "read_bytes mm Rodata z (unat w) = Some (take k (drop (nat z) (ro_bytes T)))" by simp
  with ptr_sound [OF assms(1) z(1)] w(1) z(5) show thesis using that by blast
qed

text \<open>A load of \<open>n\<close> bytes gives a number below \<open>2 ^ (8 * n)\<close>.\<close>

lemma bit_of_le: "bit (of_le bs :: 'a::len word) i \<Longrightarrow> i < 8 * length bs"
proof (induction bs arbitrary: i)
  case (Cons b bs)
  then consider "bit b i" | "8 \<le> i" "bit (of_le bs :: 'a word) (i - 8)"
    by (auto simp: bit_simps)
  then show ?case
  proof cases
    case 1
    then have "i < 8" using bit_imp_le_length [of b i] by simp
    then show ?thesis by simp
  next
    case 2
    with Cons.IH have "i - 8 < 8 * length bs" by blast
    with 2(1) show ?thesis by simp
  qed
qed simp

lemma of_le_bound: "uint (of_le bs :: u64) \<le> 2 ^ (8 * length bs) - 1"
proof -
  have "take_bit (8 * length bs) (of_le bs :: u64) = of_le bs"
    by (rule bit_word_eqI) (auto simp: bit_simps dest: bit_of_le)
  then have "uint (of_le bs :: u64) = take_bit (8 * length bs) (uint (of_le bs :: u64))"
    by (metis unsigned_take_bit_eq)
  also have "\<dots> < 2 ^ (8 * length bs)" by simp
  finally show ?thesis by simp
qed

section \<open>Soundness\<close>

text \<open>What a kernel promises: the lengths of what its helpers write and of the values in its map.\<close>

locale typed_kernel =
  fixes K :: "('m, 'k, 'v) kernel" and T :: tenv and P :: "'m \<Rightarrow> bool"
  assumes key_size: "key_size K = key_len T"
    and value_size: "value_size K = val_len T"
    and lookup_length: "P m \<Longrightarrow> map_lookup_elem (k_ops K) m k = Some v \<Longrightarrow> length (value_bytes K v) = val_len T"
    and update_keeps: "may_update T \<Longrightarrow> P m \<Longrightarrow> length b = val_len T \<Longrightarrow>
      P (snd (map_update_elem (k_ops K) m k (value_of K b) fl))"
    and read_length: "length src = n \<Longrightarrow> length dst = n \<Longrightarrow> length (snd (probe_read (k_env K) n src dst)) = n"
    and comm_length: "length dst = n \<Longrightarrow> length (snd (get_comm (k_env K) n dst)) = n"
begin

definition helper_ok :: "aval \<Rightarrow> vmem \<Rightarrow> vm_error + val \<times> vmem \<times> 'm kworld \<Rightarrow> bool" where
  "helper_ok t mm r \<longleftrightarrow> (\<exists>v mm' w. r = Inr (v, mm', w) \<and> val_ok T mm' t v \<and> grows mm mm' \<and>
    (stack_within (frame_len T) mm \<longrightarrow> stack_within (frame_len T) mm') \<and> P (k_map w))"

lemma lookup_sound:
  assumes s: "regs_ok T mm (a_regs a) rs" "mem_ok T (a_init a) mm" "P (k_map w)"
    and "a_get a 1 = Some (APtr Map_object hash_map_at hash_map_at)" and "readable T a (a_get a 2) 0 (key_len T)"
  shows "helper_ok AMaybe mm (call_lookup K n [rs ! 1, rs ! 2, x, y, z] mm w)"
proof -
  obtain r x' bs where r: "rs ! 2 = Some (Addr r x')" "read_bytes mm r x' (key_size K) = Some bs"
    "length bs = key_len T"
    unfolding key_size by (rule readable_arg [OF s(1,2) assms(5)])
  show ?thesis
  proof (cases "map_lookup_elem (k_ops K) (k_map w) (key_of K bs)")
    case None
    then show ?thesis
      using r ptr_sound [OF s(1) assms(4)] s(3) by (simp add: helper_ok_def call_lookup_def)
  next
    case (Some v)
    then have "length (value_bytes K v) = val_len T" by (rule lookup_length [OF s(3)])
    then have "defined (put_bytes mm Map_value 0 (value_bytes K v)) Map_value 0 (int (val_len T))"
      by (simp add: defined_def put_bytes_def)
    with Some show ?thesis
      using r ptr_sound [OF s(1) assms(4)] s(3) by (simp add: helper_ok_def call_lookup_def stack_within_put)
  qed
qed

lemma update_sound:
  assumes s: "regs_ok T mm (a_regs a) rs" "mem_ok T (a_init a) mm" "P (k_map w)"
    and "a_get a 1 = Some (APtr Map_object hash_map_at hash_map_at)" and "readable T a (a_get a 2) 0 (key_len T)"
    and "readable T a (a_get a 3) 0 (val_len T)" and "a_is_num (a_get a 4)" and "may_update T"
  shows "helper_ok (a_top 64) mm (call_update K n [rs ! 1, rs ! 2, rs ! 3, rs ! 4, z] mm w)"
proof -
  obtain r x bs where r: "rs ! 2 = Some (Addr r x)" "read_bytes mm r x (key_size K) = Some bs"
    "length bs = key_len T"
    unfolding key_size by (rule readable_arg [OF s(1,2) assms(5)])
  obtain r' x' bs' where r': "rs ! 3 = Some (Addr r' x')" "read_bytes mm r' x' (value_size K) = Some bs'"
    "length bs' = val_len T"
    unfolding value_size by (rule readable_arg [OF s(1,2) assms(6)])
  obtain fl where fl: "rs ! 4 = Some (Scalar fl)" by (rule num_sound [OF s(1) assms(7)])
  obtain e m where u: "map_update_elem (k_ops K) (k_map w) (key_of K bs) (value_of K bs') fl = (e, m)" by fastforce
  then have "P m" using update_keeps [OF assms(8) s(3) r'(3), of "key_of K bs" fl] by simp
  then show ?thesis
    using r r' fl u ptr_sound [OF s(1) assms(4)] a_top_ok by (simp add: helper_ok_def call_update_def)
qed

lemma printk_sound:
  assumes s: "regs_ok T mm (a_regs a) rs" "mem_ok T (a_init a) mm" "P (k_map w)"
    and f: "a_format T (a_get a 1) (a_get a 2) = Some fmt" and k: "length (conversions fmt) \<le> 3"
    and nums: "list_all a_is_num (take (length (conversions fmt)) [a_get a 3, a_get a 4, a_get a 5])"
  shows "helper_ok (a_top 64) mm (call_printk K n [rs ! 1, rs ! 2, rs ! 3, rs ! 4, rs ! 5] mm w)"
proof -
  obtain z x bs where p: "rs ! 1 = Some (Addr Rodata z)" "rs ! 2 = Some (Scalar x)"
    "read_bytes mm Rodata z (unat x) = Some bs"
    "fmt = map (\<lambda>b. char_of (unat b)) (takeWhile (\<lambda>b. b \<noteq> 0) bs)"
    by (rule format_sound [OF s(1,2) f])
  have "\<exists>w. [rs ! 3, rs ! 4, rs ! 5] ! i = Some (Scalar w)" if "i < length (conversions fmt)" for i
  proof -
    have "a_is_num ([a_get a 3, a_get a 4, a_get a 5] ! i)"
      using nums that k by (auto simp: list_all_length)
    moreover have "i = 0 \<or> i = 1 \<or> i = 2" using that k by auto
    moreover have "\<exists>w. rs ! j = Some (Scalar w)" if "a_is_num (a_get a j)" for j
      using num_sound [OF s(1) that] by blast
    ultimately show ?thesis by auto
  qed
  with print_args_defined [of "conversions fmt" "[rs ! 3, rs ! 4, rs ! 5]"] k obtain ys where
    "print_args (conversions fmt) [rs ! 3, rs ! 4, rs ! 5] = Some ys" by auto
  then show ?thesis
    using p s(3) a_top_ok by (simp add: helper_ok_def call_printk_def Let_def)
qed

lemma comm_sound:
  assumes s: "regs_ok T mm (a_regs a) rs" "mem_ok T (a_init a) mm" "P (k_map w)"
    and k: "a_exact (a_get a 2) = Some k" and "writeable T (a_get a 1) 0 k" and "readable T a (a_get a 1) 0 k"
  shows "helper_ok (a_top 64) mm (call_comm K n [rs ! 1, rs ! 2, x, y, z] mm w)"
proof -
  obtain i where i: "rs ! 2 = Some (Scalar i)" "unat i = k" by (rule exact_sound [OF s(1) k])
  obtain r o' bs where r: "rs ! 1 = Some (Addr r o')" "read_bytes mm r o' k = Some bs" "length bs = k"
    by (rule readable_arg [OF s(1,2) assms(6)])
  note w = writeable_arg [OF s(1,2) assms(5) r(1)]
  show ?thesis
    using i r w s(3) a_top_ok comm_length [OF r(3)]
    by (auto simp: helper_ok_def call_comm_def stack_within_put split: prod.split)
qed

lemma probe_read_sound:
  assumes s: "regs_ok T mm (a_regs a) rs" "mem_ok T (a_init a) mm" "P (k_map w)"
    and k: "a_exact (a_get a 2) = Some k" and "writeable T (a_get a 1) 0 k" and "readable T a (a_get a 1) 0 k"
    and "readable T a (a_get a 3) 0 k"
  shows "helper_ok (a_top 64) mm (call_probe_read K n [rs ! 1, rs ! 2, rs ! 3, y, z] mm w)"
proof -
  obtain i where i: "rs ! 2 = Some (Scalar i)" "unat i = k" by (rule exact_sound [OF s(1) k])
  obtain r o' bs where r: "rs ! 1 = Some (Addr r o')" "read_bytes mm r o' k = Some bs" "length bs = k"
    by (rule readable_arg [OF s(1,2) assms(6)])
  obtain r' x' bs' where r': "rs ! 3 = Some (Addr r' x')" "read_bytes mm r' x' k = Some bs'" "length bs' = k"
    by (rule readable_arg [OF s(1,2) assms(7)])
  note w = writeable_arg [OF s(1,2) assms(5) r(1)]
  show ?thesis
    using i r r' w s(3) a_top_ok read_length [OF r'(3) r(3)]
    by (auto simp: helper_ok_def call_probe_read_def stack_within_put split: prod.split)
qed

lemma perf_sound:
  assumes s: "regs_ok T mm (a_regs a) rs" "mem_ok T (a_init a) mm" "P (k_map w)"
    and c: "a_get a 1 = Some (APtr Ctx l h)" and m: "a_get a 2 = Some (APtr Map_object perf_map_at perf_map_at)"
    and f: "a_get a 3 = Some (ANum 0xFFFFFFFF 0xFFFFFFFF)" and k: "a_exact (a_get a 5) = Some k"
    and d: "readable T a (a_get a 4) 0 k"
  shows "helper_ok (a_top 64) mm (call_perf_output K n [rs ! 1, rs ! 2, rs ! 3, rs ! 4, rs ! 5] mm w)"
proof -
  obtain x where x: "rs ! 1 = Some (Addr Ctx x)" using arg_sound [OF s(1) c] by auto
  obtain v where "rs ! 3 = Some (Scalar v)" "uint v = 0xFFFFFFFF"
    using arg_sound [OF s(1) f] by force
  then have v: "rs ! 3 = Some (Scalar BPF_F_CURRENT_CPU)"
    by (simp add: BPF_F_CURRENT_CPU_def word_uint_eq_iff)
  obtain i where i: "rs ! 5 = Some (Scalar i)" "unat i = k" by (rule exact_sound [OF s(1) k])
  obtain r o' bs where r: "rs ! 4 = Some (Addr r o')" "read_bytes mm r o' k = Some bs" "length bs = k"
    by (rule readable_arg [OF s(1,2) d])
  show ?thesis
    using x v i r ptr_sound [OF s(1) m] s(3) a_top_ok by (simp add: helper_ok_def call_perf_output_def)
qed

lemma call_sound:
  assumes s: "regs_ok T mm (a_regs a) rs" "mem_ok T (a_init a) mm" "P (k_map w)" and c: "a_call T a n = Some t"
  shows "helper_ok t mm (kernel_call K n (take 5 (tl rs)) mm w)"
proof -
  note lookup_sound [OF s] update_sound [OF s] printk_sound [OF s] comm_sound [OF s] probe_read_sound [OF s]
    perf_sound [OF s]
  note sound = this
  have top: "helper_ok (a_top 64) mm (Inr (Scalar x, mm, w))" for x
    using s(3) a_top_ok by (simp add: helper_ok_def)
  show ?thesis
    using c unfolding args_eq [OF s(1)] kernel_call_def a_call_def Let_def
    by (auto split: if_splits option.splits aval.splits region.splits simp: sound top simp del: One_nat_def)
qed

lemma state_okD:
  assumes "state_ok P T a s"
  shows "pc s = a_pc a" "regs_ok T (mem s) (a_regs a) (regs s)" "mem_ok T (a_init a) (mem s)" "P (k_map (world s))"
    "stack_within (frame_len T) (mem s)"
  using assms by (simp_all add: state_ok_def)

lemma next_ok:
  assumes "state_ok P T a s" and "d < 10" and "val_ok T (mem s) t v"
  shows "state_ok P T (a_next a k d (Some t)) (s\<lparr>regs := (regs s)[d := Some v], pc := pc s + k\<rparr>)"
  using assms regs_ok_update [of T "mem s" "a_regs a" "regs s" d t v] by (simp add: state_ok_def a_next_def)

lemma set_ok: "regs_ok T mm ts rs \<Longrightarrow> d < 10 \<Longrightarrow> reg_set rs d v = Inr (rs[d := Some v])"
  by (simp add: reg_set_def regs_ok_def)

text \<open>Progress and preservation for one instruction other than \<open>exit\<close>.\<close>

lemma alu_step:
  assumes s: "state_ok P T a s" and i: "a_step T rel (Alu64 op d x) a = Some as"
  shows "\<exists>t b. exec_insn h rel (Alu64 op d x) s = Next t \<and> b \<in> set as \<and> state_ok P T b t"
proof -
  note r = state_okD [OF s]
  obtain u where u: "a_alu op (a_get a d) (a_operand a x) = Some u" "d < 10" "as = [a_next a 1 d (Some u)]"
    using i by (auto simp: a_step_def split: option.splits if_splits)
  obtain ty where ty: "a_operand a x = Some ty"
    using u(1) by (cases "a_operand a x") (auto simp: a_alu_def split: alu.splits option.splits aval.splits)
  obtain b where b: "operand_val (regs s) x = Inr b" "val_ok T (mem s) ty b"
    by (rule a_operand_sound [OF r(2) ty])
  have "\<exists>va. (if op = Mov then Inr (Scalar 0) else reg_get (regs s) d) = Inr va \<and>
      (\<forall>w. a_get a d = Some w \<longrightarrow> op \<noteq> Mov \<longrightarrow> val_ok T (mem s) w va)"
  proof (cases "op = Mov")
    case False
    then obtain w where "a_get a d = Some w"
      using u(1) by (auto simp: a_alu_def split: alu.splits option.splits)
    then show ?thesis using a_get_sound [OF r(2), of d w] False by (metis option.inject)
  qed simp
  then obtain va where va: "(if op = Mov then Inr (Scalar 0) else reg_get (regs s) d) = Inr va"
    "\<And>w. a_get a d = Some w \<Longrightarrow> op \<noteq> Mov \<Longrightarrow> val_ok T (mem s) w va" by blast
  obtain v where "alu_op op va b = Inr v" "val_ok T (mem s) u v"
    using a_alu_sound [OF u(1) _ va(2), where b = b] b(2) ty by auto
  then show ?thesis
    using next_ok [OF s u(2), of u v 1] u(2,3) b(1) set_ok [OF r(2) u(2)]
    by (simp add: exec_insn_def continue_with_def va(1))
qed

lemma ld_imm_step:
  assumes s: "state_ok P T a s" and i: "a_step T rel (Ld_imm64 d k) a = Some as"
  shows "\<exists>t b. exec_insn h rel (Ld_imm64 d k) s = Next t \<and> b \<in> set as \<and> state_ok P T b t"
proof -
  note r = state_okD [OF s]
  obtain u where u: "d < 10" "as = [a_next a 2 d (Some u)]" "val_ok T (mem s) u (ld_imm rel (pc s) k)"
    using i r(1) by (auto simp: a_step_def ld_imm_def split: option.splits if_splits)
  then show ?thesis
    using next_ok [OF s u(1,3), of 2] set_ok [OF r(2) u(1)]
    by (simp add: exec_insn_def continue_with_def)
qed

lemma ldx_step:
  assumes s: "state_ok P T a s" and i: "a_step T rel (Ldx n d x off) a = Some as"
  shows "\<exists>t b. exec_insn h rel (Ldx n d x off) s = Next t \<and> b \<in> set as \<and> state_ok P T b t"
proof -
  note r = state_okD [OF s]
  have d: "d < 10" "n \<le> 8" "readable T a (a_get a x) (sint off) n" "as = [a_next a 1 d (Some (a_top (8 * n)))]"
    using i by (auto simp: a_step_def split: if_splits)
  obtain ty where ty: "a_get a x = Some ty" using d(3) by (auto simp: readable_def split: option.splits)
  obtain p where p: "reg_get (regs s) x = Inr p" "val_ok T (mem s) ty p" by (rule a_get_sound [OF r(2) ty])
  obtain rg z bs where l: "p = Addr rg z" "read_bytes (mem s) rg (z + sint off) n = Some bs" "length bs = n"
    using readable_sound [OF _ r(3) p(2)] d(3) ty by metis
  have "val_ok T (mem s) (a_top (8 * n)) (Scalar (of_le bs))"
    using of_le_bound [of bs] l(3) by (simp add: a_top_def)
  then show ?thesis
    using next_ok [OF s d(1), of "a_top (8 * n)" "Scalar (of_le bs)" 1] d(4) set_ok [OF r(2) d(1)] p(1) l
    by (simp add: exec_insn_def continue_with_def load_def)
qed

lemma stx_step:
  assumes s: "state_ok P T a s" and i: "a_step T rel (Stx n d off x) a = Some as"
  shows "\<exists>t b. exec_insn h rel (Stx n d off x) s = Next t \<and> b \<in> set as \<and> state_ok P T b t"
proof -
  note r = state_okD [OF s]
  let ?b = "a\<lparr>a_pc := a_pc a + 1, a_init := written (a_get a d) (sint off) n (a_init a)\<rparr>"
  have d: "writeable T (a_get a d) (sint off) n" "a_is_num (a_get a x)" "as = [?b]"
    using i by (auto simp: a_step_def split: if_splits)
  obtain ty where ty: "a_get a d = Some ty" using d(1) by (auto simp: writeable_def split: option.splits)
  obtain p where p: "reg_get (regs s) d = Inr p" "val_ok T (mem s) ty p" by (rule a_get_sound [OF r(2) ty])
  obtain rg z where l: "p = Addr rg z" "writable (mem s) rg (z + sint off) n" "rg = Stack \<or> rg = Data"
    "rg = Stack \<longrightarrow> - frame_len T \<le> z + sint off \<and> z + sint off + int n \<le> 0"
    using writeable_sound [OF _ r(3) p(2)] d(1) ty by metis
  obtain w where "regs s ! x = Some (Scalar w)" by (rule num_sound [OF r(2) d(2)])
  moreover have "x < length (regs s)"
    using d(2) r(2) by (auto simp: a_is_num_def a_get_def regs_ok_def split: if_splits)
  ultimately have w: "reg_get (regs s) x = Inr (Scalar w)" by (simp add: reg_get_def)
  let ?mm = "put_bytes (mem s) rg (z + sint off) (le_bytes n w)"
  have "mem_ok T (a_init ?b) ?mm"
    using mem_ok_written [OF r(3) p(2)[unfolded l(1)], of "le_bytes n w" n "sint off"] l(3) ty by auto
  moreover have "regs_ok T ?mm (a_regs a) (regs s)"
    using l(3) by (intro regs_ok_grows [OF _ r(2)] grows_put) auto
  moreover have "stack_within (frame_len T) ?mm"
    using l(4) by (intro stack_within_put [OF r(5)]) simp
  ultimately have "state_ok P T ?b (s\<lparr>mem := ?mm, pc := pc s + 1\<rparr>)"
    using r(1,4) by (simp add: state_ok_def)
  then show ?thesis
    using d(3) p(1) l w by (simp add: exec_insn_def continue_with_def store_def)
qed

lemma jmp_step:
  assumes s: "state_ok P T a s" and i: "a_step T rel (Jmp cnd d x off) a = Some as"
  shows "\<exists>t b. exec_insn h rel (Jmp cnd d x off) s = Next t \<and> b \<in> set as \<and> state_ok P T b t"
proof -
  note r = state_okD [OF s]
  obtain u l k tr fl where u: "a_get a d = Some u" "a_operand a x = Some (ANum l k)"
    "a_branches cnd u (l, k) = Some (tr, fl)"
    and as: "as = (case tr of None \<Rightarrow> [] | Some v \<Rightarrow> [a_next a (1 + sint off) d (Some v)]) @
      (case fl of None \<Rightarrow> [] | Some v \<Rightarrow> [a_next a 1 d (Some v)])"
    using i by (auto simp: a_step_def split: option.splits aval.splits prod.splits)
  obtain p where p: "reg_get (regs s) d = Inr p" "val_ok T (mem s) u p" by (rule a_get_sound [OF r(2) u(1)])
  obtain q where q: "operand_val (regs s) x = Inr q" "val_ok T (mem s) (ANum l k) q"
    by (rule a_operand_sound [OF r(2) u(2)])
  obtain e u' where e: "cond_holds cnd p q = Inr e" "(if e then tr else fl) = Some u'" "val_ok T (mem s) u' p"
    by (rule a_branches_sound [OF u(3) p(2) q(2)])
  let ?k = "1 + (if e then sint off else 0)"
  have d: "d < 11" "regs s ! d = Some p"
    using p(1) r(2) by (auto simp: reg_get_def regs_ok_def split: if_splits option.splits)
  then have "(regs s)[d := Some p] = regs s" by (metis list_update_id)
  moreover have "regs_ok T (mem s) ((a_regs a)[d := Some u']) ((regs s)[d := Some p])"
    using r(2) d(1) e(3) by (auto simp: regs_ok_def nth_list_update)
  ultimately have "state_ok P T (a_next a ?k d (Some u')) (s\<lparr>pc := pc s + ?k\<rparr>)"
    using r by (simp add: state_ok_def a_next_def)
  moreover have "a_next a ?k d (Some u') \<in> set as"
    using e(2) by (cases e) (simp_all add: as)
  ultimately show ?thesis
    using p(1) q(1) e(1) by (intro exI conjI) (auto simp: exec_insn_def continue_with_def add.assoc)
qed

lemma call_step:
  assumes s: "state_ok P T a s" and i: "a_step T rel (Call n) a = Some as"
  shows "\<exists>t b. exec_insn (kernel_call K) rel (Call n) s = Next t \<and> b \<in> set as \<and> state_ok P T b t"
proof -
  note r = state_okD [OF s]
  obtain u where u: "a_call T a n = Some u"
    "as = [a\<lparr>a_pc := a_pc a + 1, a_regs := Some u # replicate 5 None @ drop 6 (a_regs a)\<rparr>]"
    using i by (auto simp: a_step_def split: option.splits)
  obtain v mm w where c: "kernel_call K n (take 5 (tl (regs s))) (mem s) (world s) = Inr (v, mm, w)"
    "val_ok T mm u v" "grows (mem s) mm" "P (k_map w)"
    "stack_within (frame_len T) mm"
    using call_sound [OF r(2-4) u(1)] r(5) by (auto simp: helper_ok_def)
  have "regs_ok T mm (Some u # replicate 5 None @ drop 6 (a_regs a)) (Some v # replicate 5 None @ drop 6 (regs s))"
    using regs_ok_grows [OF c(3) r(2)] c(2)
    by (auto simp: regs_ok_def nth_Cons nth_append split: nat.split)
  then show ?thesis
    using c mem_ok_grows [OF c(3) r(3)] r(1) by (simp add: exec_insn_def continue_with_def state_ok_def u(2))
qed

lemma step_sound:
  assumes "state_ok P T a s" and "a_step T rel i a = Some as" and "i \<noteq> Exit"
  shows "\<exists>t b. exec_insn (kernel_call K) rel i s = Next t \<and> b \<in> set as \<and> state_ok P T b t"
proof (cases i)
  case (Ja off)
  then show ?thesis using assms by (auto simp: a_step_def exec_insn_def state_ok_def)
next
  case (Alu64 op d x)
  then show ?thesis using alu_step [OF assms(1)] assms(2) by simp
next
  case (Ld_imm64 d k)
  then show ?thesis using ld_imm_step [OF assms(1)] assms(2) by simp
next
  case (Ldx n d x off)
  then show ?thesis using ldx_step [OF assms(1)] assms(2) by simp
next
  case (Stx n d off x)
  then show ?thesis using stx_step [OF assms(1)] assms(2) by simp
next
  case (Jmp cnd d x off)
  then show ?thesis using jmp_step [OF assms(1)] assms(2) by simp
next
  case (Call n)
  then show ?thesis using call_step [OF assms(1)] assms(2) by simp
qed (use assms(3) in simp)

lemma verify_sound:
  "verify code T rel n a \<Longrightarrow> state_ok P T a s \<Longrightarrow>
   \<exists>w t. exec code (kernel_call K) rel n s = Some (Inr (w, t)) \<and> mem_ok T [] (mem t) \<and>
     P (k_map (world t)) \<and> stack_within (frame_len T) (mem t)"
proof (induction n arbitrary: a s)
  case 0
  then show ?case by simp
next
  case (Suc n)
  obtain i as where i: "0 \<le> a_pc a" "nat (a_pc a) < length code" "code ! nat (a_pc a) = Some i"
    "a_step T rel i a = Some as" and as: "\<forall>b \<in> set as. verify code T rel n b"
    using Suc.prems(1) by (auto simp: list_all_iff split: option.splits)
  note r = state_okD [OF Suc.prems(2)]
  have st: "step code (kernel_call K) rel s = exec_insn (kernel_call K) rel i s"
    using i(1-3) r(1) by (simp add: step_def)
  show ?case
  proof (cases "i = Exit")
    case True
    then have "a_is_num (a_get a 0)" using i(4) by (simp add: a_step_def split: if_splits)
    then obtain w where "regs s ! 0 = Some (Scalar w)" by (rule num_sound [OF r(2)])
    then have "exec_insn (kernel_call K) rel i s = Halt w s"
      using True r(2) by (simp add: exec_insn_def reg_get_def regs_ok_def)
    then show ?thesis using st r(3-5) by (simp add: mem_ok_def)
  next
    case False
    from step_sound [OF Suc.prems(2) i(4) False] obtain t b where
      "exec_insn (kernel_call K) rel i s = Next t" "b \<in> set as" "state_ok P T b t" by blast
    with Suc.IH [of b t] as st show ?thesis by simp
  qed
qed

text \<open>A run from the start: the stack and the registers are not initialised.\<close>

lemma verify_init:
  assumes "verify code T rel n a_start" and "mem_ok T [] mm" and "P (k_map w)"
  shows "\<exists>v t. exec code (kernel_call K) rel n (vm_init mm w) = Some (Inr (v, t)) \<and> mem_ok T [] (mem t) \<and>
    P (k_map (world t)) \<and> stack_within (frame_len T) (mem t)"
proof -
  have "state_ok P T a_start (vm_init mm w)"
    using assms(2,3)
    by (auto simp: state_ok_def a_start_def vm_init_def regs_ok_def mem_ok_def defined_def stack_within_def nth_Cons
        split: nat.splits)
  from verify_sound [OF assms(1) this] show ?thesis .
qed

end

end
