(* ===== verification/Bytecode_Safety.thy ===== *)
theory Bytecode_Safety
  imports Bytecode_Types Bytecode_Probe
begin

text \<open>
  The object codes of the programs pass the verifier, with the lengths of their maps, data and
  read-only data; so they end without an invalid access also where the C program has no
  defined behaviour.
\<close>

section \<open>What the programs rely on\<close>

definition hello_tenv :: tenv where
  "hello_tenv = \<lparr>frame_len = 16, ctx_len = 0, data_len = 0, ro_bytes = [], key_len = 8, val_len = 8, may_update = True\<rparr>"

definition probe_tenv :: tenv where
  "probe_tenv = \<lparr>frame_len = 48, ctx_len = 0, data_len = 16,
     ro_bytes = str_bytes ''%d'' @ [0] @ str_bytes ''%c'' @ [0] @ str_bytes ''%c'' @ [0] @ str_bytes ''%x %x'' @ [0],
     key_len = 4, val_len = 12, may_update = False\<rparr>"

text \<open>\<open>xdp_hello\<close> is in the same object and reads the first two fields of its context.\<close>

definition xdp_tenv :: tenv where
  "xdp_tenv = probe_tenv\<lparr>frame_len := 0, ctx_len := 8\<rparr>"

definition packet_tenv :: tenv where
  "packet_tenv = \<lparr>frame_len = 0, ctx_len = 0, data_len = 4, ro_bytes = str_bytes ''%d'' @ [0],
     key_len = 4, val_len = 12, may_update = False\<rparr>"

definition msgs_ok :: "('m, u32, msg_t) map_ops \<Rightarrow> 'm \<Rightarrow> bool" where
  "msgs_ok ops m \<longleftrightarrow> (\<forall>k v. map_lookup_elem ops m k = Some v \<longrightarrow> length (m_message v) = 12)"

lemma msg_kernel_typed:
  assumes "msg_kernel K" and "probe_helpers (k_env K)" and "key_len T = 4" "val_len T = 12" "\<not> may_update T"
  shows "typed_kernel K T (msgs_ok (k_ops K))"
  using assms probe_helpers.read_length [OF assms(2)] probe_helpers.comm_length [OF assms(2)]
  by unfold_locales (auto simp: msg_kernel_def msgs_ok_def)

lemma u64_kernel_typed:
  assumes "u64_kernel K" and "probe_helpers (k_env K)" and "key_len T = 8" "val_len T = 8"
  shows "typed_kernel K T (\<lambda>_. True)"
  using assms probe_helpers.read_length [OF assms(2)] probe_helpers.comm_length [OF assms(2)]
  by unfold_locales (auto simp: u64_kernel_def)

interpretation pk: typed_kernel "probe_kernel (doc_env pt ug comm)" probe_tenv "msgs_ok hmap_ops"
  using msg_kernel_typed [of "probe_kernel (doc_env pt ug comm)" probe_tenv] de.probe_helpers_axioms
  by (simp add: msg_kernel_def probe_kernel_def probe_tenv_def)

interpretation uk: typed_kernel "doc_kernel ug" hello_tenv "\<lambda>_. True"
  using de.probe_helpers_axioms
  by (intro u64_kernel_typed) (simp_all add: u64_kernel_def doc_kernel_def hello_tenv_def)

section \<open>The programs are accepted\<close>

lemma hello_accepted: "verify (decode_prog hello_code) hello_tenv hello_relocs 22 a_start"
  unfolding hello_code_decoded by code_simp

lemma packet_count_accepted:
  "verify (decode_prog packet_count_code) packet_tenv packet_relocs 10 a_start"
  "verify (decode_prog packet_count_float_code) packet_tenv packet_relocs 10 a_start"
  unfolding packet_count_code_decoded packet_count_float_code_decoded by code_simp+

lemma xdp_hello_accepted: "verify (decode_prog xdp_hello_code) xdp_tenv xdp_hello_relocs 7 a_start"
  unfolding xdp_hello_code_decoded by code_simp

lemma kprobe_exec_accepted: "verify (decode_prog kprobe_exec_code) probe_tenv kprobe_relocs 75 a_start"
  unfolding kprobe_exec_code_decoded by code_simp

text \<open>The object codes, with what they rely on, their relocations and the longest path.\<close>

definition object_codes :: "(bytes \<times> tenv \<times> relocs \<times> nat) list" where
  "object_codes = [(hello_code, hello_tenv, hello_relocs, 22), (packet_count_code, packet_tenv, packet_relocs, 10),
     (packet_count_float_code, packet_tenv, packet_relocs, 10), (xdp_hello_code, xdp_tenv, xdp_hello_relocs, 7),
     (kprobe_exec_code, probe_tenv, kprobe_relocs, 75)]"

lemma object_codes_accepted:
  "(code, T, rel, n) \<in> set object_codes \<Longrightarrow> verify (decode_prog code) T rel n a_start"
  using hello_accepted packet_count_accepted xdp_hello_accepted kprobe_exec_accepted
  by (auto simp: object_codes_def)

lemma codes_forward:
  "forward (decode_prog hello_code)" "forward (decode_prog packet_count_code)"
  "forward (decode_prog packet_count_float_code)" "forward (decode_prog xdp_hello_code)"
  "forward (decode_prog kprobe_exec_code)"
  unfolding hello_code_decoded packet_count_code_decoded packet_count_float_code_decoded
    xdp_hello_code_decoded kprobe_exec_code_decoded by code_simp+

lemma object_codes_forward: "(code, T, rel, n) \<in> set object_codes \<Longrightarrow> forward (decode_prog code)"
  using codes_forward by (auto simp: object_codes_def)

section \<open>A memory\<close>

text \<open>The data and the formats of the probe, and nothing else.\<close>

definition data_mem :: "c_int \<Rightarrow> bytes \<Rightarrow> vmem" where
  "data_mem k msg = put_bytes (put_bytes (\<lambda>_ _. None) Data 0 (le_bytes 4 k @ msg)) Rodata 0 (ro_bytes probe_tenv)"

lemma data_mem_ok: "length msg = 12 \<Longrightarrow> mem_ok probe_tenv [] (data_mem k msg)"
  by (simp add: mem_ok_def data_mem_def) (simp add: probe_tenv_def defined_def put_bytes_def)

lemma data_mem_globals:
  assumes "length msg = 12"
  shows "globals (data_mem k msg) k msg"
proof -
  have d: "read_bytes (data_mem k msg) Data 0 16 = Some (le_bytes 4 k @ msg)"
    using assms by (simp add: data_mem_def)
  have r: "read_bytes (data_mem k msg) Rodata 0 15 = Some (ro_bytes probe_tenv)"
    by (simp add: data_mem_def probe_tenv_def)
  show ?thesis
    using read_slice [OF d, of 0 4] read_slice [OF d, of 4 12] read_slice [OF r, of 0 3] read_slice [OF r, of 3 3]
      read_slice [OF r, of 6 3] assms
    by (simp add: globals_def probe_tenv_def)
qed

section \<open>Properties\<close>

text \<open>C5: type soundness of the object code. On a kernel that keeps the lengths of its keys and
  values, and in every memory with the program's data, each of the five object codes ends
  within the length of its longest path and without an invalid access, whatever the helpers
  return and whatever the counters hold, so also where the C program overflows; it writes to
  its stack only within its frame; and it leaves a memory and a map in which it can run again.\<close>

theorem object_code_type_safe:
  assumes "typed_kernel K T P" and "(code, T, rel, n) \<in> set object_codes" and "mem_ok T [] mm"
    and "P (k_map w)"
  shows "\<exists>v t. exec (decode_prog code) (kernel_call K) rel n (vm_init mm w) = Some (Inr (v, t)) \<and>
    mem_ok T [] (mem t) \<and> P (k_map (world t)) \<and> stack_within (frame_len T) (mem t)"
  by (rule typed_kernel.verify_init [OF assms(1) object_codes_accepted [OF assms(2)] assms(3,4)])

theorem object_code_type_safe_witness:
  "\<exists>v t. exec (decode_prog kprobe_exec_code) (kernel_call (probe_kernel (doc_env 7 501 []))) kprobe_relocs 75
      (vm_init (data_mem int_max (str_bytes ''Hello World'' @ [0]))
         \<lparr>k_trace = [], k_map = my_config_map, k_out = []\<rparr>) = Some (Inr (v, t))"
proof -
  have "msgs_ok hmap_ops (k_map \<lparr>k_trace = [], k_map = my_config_map, k_out = []\<rparr>)"
    by (simp add: msgs_ok_def hmap_ops_def my_config_map_def)
  from object_code_type_safe [OF pk.typed_kernel_axioms _ _ this, of kprobe_exec_code kprobe_relocs 75]
  show ?thesis by (force simp: object_codes_def data_mem_ok)
qed

text \<open>C21: termination of the object code. None of the five object codes jumps back, so with any
  helpers, any relocations and any memory, each ends within as many instructions as it has
  slots: regularly, or with an invalid access.\<close>

theorem object_code_terminates:
  assumes "(code, T, rel, n) \<in> set object_codes"
  shows "\<exists>r. exec (decode_prog code) h rel' (length (decode_prog code) + 1) (vm_init mm w) = Some r"
  using forward_exec [OF object_codes_forward [OF assms], of "vm_init mm w" "length (decode_prog code) + 1" h rel']
  by (simp add: vm_init_def del: exec.simps)

theorem object_code_terminates_witness:
  "exec (decode_prog kprobe_exec_code) (kernel_call (doc_kernel 0)) [] (length (decode_prog kprobe_exec_code) + 1)
     (vm_init (\<lambda>_ _. None) world_init) \<noteq> None"
  using object_code_terminates [of kprobe_exec_code probe_tenv kprobe_relocs 75 "kernel_call (doc_kernel 0)" "[]"
      "\<lambda>_ _. None" world_init]
  by (auto simp: object_codes_def simp del: exec.simps)

end
