(* ===== verification/C_Types.thy ===== *)
theory C_Types
  imports Layout
begin

text \<open>
  C types with bit-fields, as the declarations of \<open>vmlinux.h\<close> have them, and their layout in bits by the
  rules of the ABI. Without bit-fields it is the layout of \<open>Layout\<close>. The members of a structure
  are in order, apart, aligned and inside it; a bit-field is inside one unit of its type.
\<close>

section \<open>Types\<close>

text \<open>
  An integer type has its size as alignment; what a pointer points to does not matter. A member is a
  field or a bit-field; it may have no name. A bit-field of width 0 only moves on to the next
  unit of its type.
\<close>

datatype kty =
    Int_ty nat
  | Pointer
  | Enum_ty "(string \<times> int) list"
  | Array_ty kty nat
  | Struct_ty "kmember list"
  | Union_ty "kmember list"
  and kmember = Fld string kty | Bits string kty nat

fun k_align :: "kty \<Rightarrow> nat" and k_aligns :: "kmember list \<Rightarrow> nat" where
  "k_align (Int_ty n) = n"
| "k_align Pointer = 8"
| "k_align (Enum_ty vs) = 4"
| "k_align (Array_ty t k) = k_align t"
| "k_align (Struct_ty ms) = k_aligns ms"
| "k_align (Union_ty ms) = k_aligns ms"
| "k_aligns [] = 1"
| "k_aligns (Fld x t # ms) = max (k_align t) (k_aligns ms)"
| "k_aligns (Bits x t w # ms) = (if x = [] then k_aligns ms else max (k_align t) (k_aligns ms))"

text \<open>
  Where a member starts that comes after \<open>off\<close> bits. A bit-field of \<open>w\<close> bits stays where it is unless it
  would cross the end of a unit of its type, of \<open>u\<close> bits.
\<close>

definition bit_field_at :: "nat \<Rightarrow> nat \<Rightarrow> nat \<Rightarrow> nat" where
  "bit_field_at off u w =
     (if w = 0 then round_up off u else if off div u = (off + w - 1) div u then off else round_up off u)"

fun k_size :: "kty \<Rightarrow> nat" and k_end :: "nat \<Rightarrow> kmember list \<Rightarrow> nat" and k_widest :: "kmember list \<Rightarrow> nat" where
  "k_size (Int_ty n) = n"
| "k_size Pointer = 8"
| "k_size (Enum_ty vs) = 4"
| "k_size (Array_ty t k) = k * k_size t"
| "k_size (Struct_ty ms) = round_up (k_end 0 ms) (8 * k_aligns ms) div 8"
| "k_size (Union_ty ms) = round_up (k_widest ms) (8 * k_aligns ms) div 8"
| "k_end off [] = off"
| "k_end off (Fld x t # ms) = k_end (round_up off (8 * k_align t) + 8 * k_size t) ms"
| "k_end off (Bits x t w # ms) = k_end (bit_field_at off (8 * k_size t) w + w) ms"
| "k_widest [] = 0"
| "k_widest (Fld x t # ms) = max (8 * k_size t) (k_widest ms)"
| "k_widest (Bits x t w # ms) = max w (k_widest ms)"

text \<open>Name, first bit and number of bits of each member.\<close>

fun k_layout :: "nat \<Rightarrow> kmember list \<Rightarrow> (string \<times> nat \<times> nat) list" where
  "k_layout off [] = []"
| "k_layout off (Fld x t # ms) =
     (let z = round_up off (8 * k_align t) in (x, z, 8 * k_size t) # k_layout (z + 8 * k_size t) ms)"
| "k_layout off (Bits x t w # ms) =
     (let z = bit_field_at off (8 * k_size t) w in (x, z, w) # k_layout (z + w) ms)"

text \<open>Integers have 1, 2, 4 or 8 bytes, and a bit-field is not wider than its type, an integer.\<close>

fun k_wf :: "kty \<Rightarrow> bool" and k_wfs :: "kmember list \<Rightarrow> bool" where
  "k_wf (Int_ty n) = (n \<in> {1, 2, 4, 8})"
| "k_wf Pointer = True"
| "k_wf (Enum_ty vs) = True"
| "k_wf (Array_ty t k) = k_wf t"
| "k_wf (Struct_ty ms) = k_wfs ms"
| "k_wf (Union_ty ms) = k_wfs ms"
| "k_wfs [] = True"
| "k_wfs (Fld x t # ms) = (k_wf t \<and> k_wfs ms)"
| "k_wfs (Bits x t w # ms) = ((case t of Int_ty n \<Rightarrow> n \<in> {1, 2, 4, 8} \<and> w \<le> 8 * n | _ \<Rightarrow> False) \<and> k_wfs ms)"

section \<open>Lemmas\<close>

lemma k_align_pos: "k_wf t \<Longrightarrow> 0 < k_align t" "k_wfs ms \<Longrightarrow> 0 < k_aligns ms"
  by (induction t and ms rule: k_align_k_aligns.induct) (auto split: kty.splits)

lemma bit_field_at_ge: "0 < u \<Longrightarrow> off \<le> bit_field_at off u w"
  by (simp add: bit_field_at_def round_up_ge)

lemma bit_field_at_unit:
  assumes "0 < w" and "w \<le> u"
  shows "bit_field_at off u w div u = (bit_field_at off u w + w - 1) div u"
proof (cases "off div u = (off + w - 1) div u")
  case False
  define k where "k = (off + u - 1) div u"
  have k: "round_up off u = k * u" by (simp add: round_up_def k_def)
  have "(k * u + w - 1) div u = k"
    using assms by (intro div_nat_eqI) (auto simp: algebra_simps)
  with False assms k show ?thesis by (simp add: bit_field_at_def)
qed (use assms in \<open>simp add: bit_field_at_def\<close>)

lemma k_end_ge: "k_wfs ms \<Longrightarrow> off \<le> k_end off ms"
proof (induction off ms rule: k_layout.induct)
  case (2 off x t ms)
  then have "off \<le> round_up off (8 * k_align t)" using k_align_pos(1) [of t] by (simp add: round_up_ge)
  with 2 show ?case by (force simp: Let_def)
next
  case (3 off x t w ms)
  then have "off \<le> bit_field_at off (8 * k_size t) w"
    by (intro bit_field_at_ge) (auto split: kty.splits)
  with 3 show ?case by (force simp: Let_def)
qed simp

lemma k_layout_bounds:
  "k_wfs ms \<Longrightarrow> (x, z, n) \<in> set (k_layout off ms) \<Longrightarrow> off \<le> z \<and> z + n \<le> k_end off ms"
proof (induction off ms rule: k_layout.induct)
  case (2 off y t ms)
  let ?z = "round_up off (8 * k_align t)"
  have "off \<le> ?z" "?z + 8 * k_size t \<le> k_end (?z + 8 * k_size t) ms"
    using 2(2) k_align_pos(1) [of t] by (simp_all add: round_up_ge k_end_ge)
  with 2 show ?case by (fastforce simp: Let_def)
next
  case (3 off y t w ms)
  let ?z = "bit_field_at off (8 * k_size t) w"
  have "off \<le> ?z" using 3(2) by (intro bit_field_at_ge) (auto split: kty.splits)
  moreover have "?z + w \<le> k_end (?z + w) ms" using 3(2) by (simp add: k_end_ge)
  ultimately show ?case using 3 by (fastforce simp: Let_def)
qed simp

lemma k_layout_sorted:
  "k_wfs ms \<Longrightarrow> sorted_wrt (\<lambda>(_, z, n) (_, z', _). z + n \<le> z') (k_layout off ms)"
  by (induction off ms rule: k_layout.induct) (auto simp: Let_def dest: k_layout_bounds [rotated])

text \<open>A member is where its type may be: a field aligned, a bit-field inside a unit.\<close>

definition k_placed :: "kmember list \<Rightarrow> string \<times> nat \<times> nat \<Rightarrow> bool" where
  "k_placed ms = (\<lambda>(x, z, n).
     (\<exists>t. Fld x t \<in> set ms \<and> n = 8 * k_size t \<and> 8 * k_align t dvd z) \<or>
     (\<exists>t. Bits x t n \<in> set ms \<and> (n = 0 \<or> z div (8 * k_size t) = (z + n - 1) div (8 * k_size t))))"

lemma k_layout_placed: "k_wfs ms \<Longrightarrow> m \<in> set (k_layout off ms) \<Longrightarrow> k_placed ms m"
proof (induction off ms rule: k_layout.induct)
  case (2 off x t ms)
  then show ?case by (auto simp: k_placed_def Let_def round_up_dvd)
next
  case (3 off x t w ms)
  have "w = 0 \<or> bit_field_at off (8 * k_size t) w div (8 * k_size t) =
      (bit_field_at off (8 * k_size t) w + w - 1) div (8 * k_size t)"
    using 3(2) bit_field_at_unit [of w "8 * k_size t" off] by (auto split: kty.splits)
  with 3 show ?case by (auto simp: k_placed_def Let_def)
qed simp

text \<open>
  All of it, for a structure: its members are in order and apart, inside the structure, and each is
  where its type may be.
\<close>

definition laid_out :: "kmember list \<Rightarrow> bool" where
  "laid_out ms \<longleftrightarrow> sorted_wrt (\<lambda>(_, z, n) (_, z', _). z + n \<le> z') (k_layout 0 ms) \<and>
     (\<forall>(x, z, n) \<in> set (k_layout 0 ms). z + n \<le> 8 * k_size (Struct_ty ms) \<and> k_placed ms (x, z, n))"

lemma wf_laid_out:
  assumes "k_wfs ms"
  shows "laid_out ms"
proof -
  have "8 dvd round_up (k_end 0 ms) (8 * k_aligns ms)"
    by (rule dvd_trans [OF _ round_up_dvd]) simp
  then have "8 * k_size (Struct_ty ms) = round_up (k_end 0 ms) (8 * k_aligns ms)" by simp
  moreover have "k_end 0 ms \<le> round_up (k_end 0 ms) (8 * k_aligns ms)"
    using k_align_pos(2) [OF assms] by (simp add: round_up_ge)
  ultimately have "z + n \<le> 8 * k_size (Struct_ty ms)" if "(x, z, n) \<in> set (k_layout 0 ms)" for x z n
    using k_layout_bounds [OF assms that] by (simp del: k_size.simps)
  then show ?thesis
    using k_layout_sorted [OF assms] k_layout_placed [OF assms] by (auto simp: laid_out_def simp del: k_size.simps)
qed

section \<open>Types without bit-fields\<close>

fun embed :: "cty \<Rightarrow> kty" and embeds :: "fields \<Rightarrow> kmember list" where
  "embed (Base n) = Int_ty n"
| "embed (Array_of t k) = Array_ty (embed t) k"
| "embed (Struct_of fs) = Struct_ty (embeds fs)"
| "embed (Union_of fs) = Union_ty (embeds fs)"
| "embeds [] = []"
| "embeds ((x, t) # fs) = Fld x (embed t) # embeds fs"

lemma round_up_bits: "0 < a \<Longrightarrow> round_up (8 * n) (8 * a) = 8 * round_up n a"
proof -
  assume a: "0 < a"
  have "(8 * n + 8 * a - 1) div (8 * a) = (n + a - 1) div a"
  proof -
    have "(8 * n + 8 * a - 1) div (8 * a) = (8 * n + 8 * a - 1) div 8 div a" by (simp add: div_mult2_eq)
    also have "(8 * n + 8 * a - 1) div 8 = n + a - 1" using a by simp
    finally show ?thesis .
  qed
  then show ?thesis by (simp add: round_up_def)
qed

lemma embed_align: "k_align (embed t) = align_of t" "k_aligns (embeds fs) = align_fields fs"
  by (induction t and fs rule: align_of_align_fields.induct) simp_all

lemma embed_size:
  "wf_ty t \<Longrightarrow> k_size (embed t) = size_of t"
  "wf_fields fs \<Longrightarrow> k_end (8 * off) (embeds fs) = 8 * fields_end off fs"
  "wf_fields fs \<Longrightarrow> k_widest (embeds fs) = 8 * widest fs"
proof (induction t and off fs and fs rule: size_of_fields_end_widest.induct)
  case (3 fs)
  then have "k_end 0 (embeds fs) = 8 * fields_end 0 fs" "0 < align_fields fs"
    using align_pos(2) by simp_all
  then show ?case by (simp add: embed_align round_up_bits)
next
  case (4 fs)
  then have "k_widest (embeds fs) = 8 * widest fs" "0 < align_fields fs"
    using align_pos(2) by simp_all
  then show ?case by (simp add: embed_align round_up_bits)
next
  case (6 off x t fs)
  then have "k_size (embed t) = size_of t" "0 < align_of t"
    using align_pos(1) by simp_all
  then have "round_up (8 * off) (8 * k_align (embed t)) + 8 * k_size (embed t) = 8 * (round_up off (align_of t) + size_of t)"
    by (simp add: embed_align round_up_bits)
  with 6 show ?case by simp
qed simp_all

lemma embed_layout:
  "wf_fields fs \<Longrightarrow> k_layout (8 * off) (embeds fs) = map (\<lambda>(x, z, n). (x, 8 * z, 8 * n)) (layout off fs)"
proof (induction off fs rule: layout.induct)
  case (2 off x t fs)
  let ?z = "round_up off (align_of t)"
  have z: "round_up (8 * off) (8 * k_align (embed t)) = 8 * ?z" and sz: "k_size (embed t) = size_of t"
    using 2(2) align_pos(1) by (simp_all add: embed_align round_up_bits embed_size(1))
  have "k_layout (8 * (?z + size_of t)) (embeds fs) = map (\<lambda>(x, z, n). (x, 8 * z, 8 * n)) (layout (?z + size_of t) fs)"
    using 2 by (simp add: Let_def)
  then show ?case by (simp add: Let_def z sz distrib_left)
qed simp

end
