(* ===== verification/Kernel_Contexts.thy ===== *)
theory Kernel_Contexts
  imports C_Types
begin

text \<open>
  Declarations of \<open>vmlinux.h\<close>. The structures that programs pass to helpers or get from them: those of the user-space API of BPF, and
  of the kernel the registers, a program being executed, files that are written in sequence, packet headers.
\<close>

definition ty___u8 :: kty where
  "ty___u8 = Int_ty 1"

definition ty___u16 :: kty where
  "ty___u16 = Int_ty 2"

definition ty___be16 :: kty where
  "ty___be16 = ty___u16"

definition ty___u32 :: kty where
  "ty___u32 = Int_ty 4"

definition ty___be32 :: kty where
  "ty___be32 = ty___u32"

definition struct_bpf_fib_lookup :: kty where
  "struct_bpf_fib_lookup =
     Struct_ty [Fld ''family'' ty___u8, Fld ''l4_protocol'' ty___u8, Fld ''sport'' ty___be16, Fld ''dport'' ty___be16,
     Fld '''' (Union_ty [Fld ''tot_len'' ty___u16, Fld ''mtu_result'' ty___u16]), Fld ''ifindex'' ty___u32,
     Fld '''' (Union_ty [Fld ''tos'' ty___u8, Fld ''flowinfo'' ty___be32, Fld ''rt_metric'' ty___u32]),
     Fld '''' (Union_ty [Fld ''ipv4_src'' ty___be32, Fld ''ipv6_src'' (Array_ty ty___u32 4)]),
     Fld '''' (Union_ty [Fld ''ipv4_dst'' ty___be32, Fld ''ipv6_dst'' (Array_ty ty___u32 4)]),
     Fld '''' (Union_ty [Fld '''' (Struct_ty [Fld ''h_vlan_proto'' ty___be16, Fld ''h_vlan_TCI'' ty___be16]),
     Fld ''tbid'' ty___u32]), Fld ''smac'' (Array_ty ty___u8 6), Fld ''dmac'' (Array_ty ty___u8 6)]"

definition ty___u64 :: kty where
  "ty___u64 = Int_ty 8"

definition struct_bpf_sk_lookup :: kty where
  "struct_bpf_sk_lookup =
     Struct_ty [Fld '''' (Union_ty [Fld '''' (Union_ty [Fld ''sk'' Pointer]), Fld ''cookie'' ty___u64]),
     Fld ''family'' ty___u32, Fld ''protocol'' ty___u32, Fld ''remote_ip4'' ty___u32,
     Fld ''remote_ip6'' (Array_ty ty___u32 4), Fld ''remote_port'' ty___be16, Fld ''local_ip4'' ty___u32,
     Fld ''local_ip6'' (Array_ty ty___u32 4), Fld ''local_port'' ty___u32, Fld ''ingress_ifindex'' ty___u32]"

definition struct_pt_regs :: kty where
  "struct_pt_regs =
     Struct_ty [Fld ''r15'' (Int_ty 8), Fld ''r14'' (Int_ty 8), Fld ''r13'' (Int_ty 8), Fld ''r12'' (Int_ty 8),
     Fld ''bp'' (Int_ty 8), Fld ''bx'' (Int_ty 8), Fld ''r11'' (Int_ty 8), Fld ''r10'' (Int_ty 8),
     Fld ''r9'' (Int_ty 8), Fld ''r8'' (Int_ty 8), Fld ''ax'' (Int_ty 8), Fld ''cx'' (Int_ty 8),
     Fld ''dx'' (Int_ty 8), Fld ''si'' (Int_ty 8), Fld ''di'' (Int_ty 8), Fld ''orig_ax'' (Int_ty 8),
     Fld ''ip'' (Int_ty 8), Fld ''cs'' (Int_ty 8), Fld ''flags'' (Int_ty 8), Fld ''sp'' (Int_ty 8),
     Fld ''ss'' (Int_ty 8)]"

definition ty_bpf_user_pt_regs_t :: kty where
  "ty_bpf_user_pt_regs_t = struct_pt_regs"

definition struct_bpf_perf_event_data :: kty where
  "struct_bpf_perf_event_data =
     Struct_ty [Fld ''regs'' ty_bpf_user_pt_regs_t, Fld ''sample_period'' ty___u64, Fld ''addr'' ty___u64]"

definition struct_bpf_perf_event_value :: kty where
  "struct_bpf_perf_event_value =
     Struct_ty [Fld ''counter'' ty___u64, Fld ''enabled'' ty___u64, Fld ''running'' ty___u64]"

definition struct_bpf_pidns_info :: kty where
  "struct_bpf_pidns_info = Struct_ty [Fld ''pid'' ty___u32, Fld ''tgid'' ty___u32]"

definition struct_bpf_redir_neigh :: kty where
  "struct_bpf_redir_neigh =
     Struct_ty [Fld ''nh_family'' ty___u32, Fld '''' (Union_ty [Fld ''ipv4_nh'' ty___be32,
     Fld ''ipv6_nh'' (Array_ty ty___u32 4)])]"

definition ty___s32 :: kty where
  "ty___s32 = Int_ty 4"

definition struct_bpf_sock :: kty where
  "struct_bpf_sock =
     Struct_ty [Fld ''bound_dev_if'' ty___u32, Fld ''family'' ty___u32, Fld ''type'' ty___u32,
     Fld ''protocol'' ty___u32, Fld ''mark'' ty___u32, Fld ''priority'' ty___u32, Fld ''src_ip4'' ty___u32,
     Fld ''src_ip6'' (Array_ty ty___u32 4), Fld ''src_port'' ty___u32, Fld ''dst_port'' ty___be16,
     Fld ''dst_ip4'' ty___u32, Fld ''dst_ip6'' (Array_ty ty___u32 4), Fld ''state'' ty___u32,
     Fld ''rx_queue_mapping'' ty___s32]"

definition struct_bpf_sock_addr :: kty where
  "struct_bpf_sock_addr =
     Struct_ty [Fld ''user_family'' ty___u32, Fld ''user_ip4'' ty___u32, Fld ''user_ip6'' (Array_ty ty___u32 4),
     Fld ''user_port'' ty___u32, Fld ''family'' ty___u32, Fld ''type'' ty___u32, Fld ''protocol'' ty___u32,
     Fld ''msg_src_ip4'' ty___u32, Fld ''msg_src_ip6'' (Array_ty ty___u32 4),
     Fld '''' (Union_ty [Fld ''sk'' Pointer])]"

definition struct_bpf_sock_ops :: kty where
  "struct_bpf_sock_ops =
     Struct_ty [Fld ''op'' ty___u32, Fld '''' (Union_ty [Fld ''args'' (Array_ty ty___u32 4), Fld ''reply'' ty___u32,
     Fld ''replylong'' (Array_ty ty___u32 4)]), Fld ''family'' ty___u32, Fld ''remote_ip4'' ty___u32,
     Fld ''local_ip4'' ty___u32, Fld ''remote_ip6'' (Array_ty ty___u32 4), Fld ''local_ip6'' (Array_ty ty___u32 4),
     Fld ''remote_port'' ty___u32, Fld ''local_port'' ty___u32, Fld ''is_fullsock'' ty___u32,
     Fld ''snd_cwnd'' ty___u32, Fld ''srtt_us'' ty___u32, Fld ''bpf_sock_ops_cb_flags'' ty___u32,
     Fld ''state'' ty___u32, Fld ''rtt_min'' ty___u32, Fld ''snd_ssthresh'' ty___u32, Fld ''rcv_nxt'' ty___u32,
     Fld ''snd_nxt'' ty___u32, Fld ''snd_una'' ty___u32, Fld ''mss_cache'' ty___u32, Fld ''ecn_flags'' ty___u32,
     Fld ''rate_delivered'' ty___u32, Fld ''rate_interval_us'' ty___u32, Fld ''packets_out'' ty___u32,
     Fld ''retrans_out'' ty___u32, Fld ''total_retrans'' ty___u32, Fld ''segs_in'' ty___u32,
     Fld ''data_segs_in'' ty___u32, Fld ''segs_out'' ty___u32, Fld ''data_segs_out'' ty___u32,
     Fld ''lost_out'' ty___u32, Fld ''sacked_out'' ty___u32, Fld ''sk_txhash'' ty___u32,
     Fld ''bytes_received'' ty___u64, Fld ''bytes_acked'' ty___u64, Fld '''' (Union_ty [Fld ''sk'' Pointer]),
     Fld '''' (Union_ty [Fld ''skb_data'' Pointer]), Fld '''' (Union_ty [Fld ''skb_data_end'' Pointer]),
     Fld ''skb_len'' ty___u32, Fld ''skb_tcp_flags'' ty___u32, Fld ''skb_hwtstamp'' ty___u64]"

definition struct_bpf_sock_tuple :: kty where
  "struct_bpf_sock_tuple =
     Struct_ty [Fld '''' (Union_ty [Fld ''ipv4'' (Struct_ty [Fld ''saddr'' ty___be32, Fld ''daddr'' ty___be32,
     Fld ''sport'' ty___be16, Fld ''dport'' ty___be16]),
     Fld ''ipv6'' (Struct_ty [Fld ''saddr'' (Array_ty ty___be32 4), Fld ''daddr'' (Array_ty ty___be32 4),
     Fld ''sport'' ty___be16, Fld ''dport'' ty___be16])])]"

definition struct_bpf_spin_lock :: kty where
  "struct_bpf_spin_lock = Struct_ty [Fld ''val'' ty___u32]"

definition struct_bpf_sysctl :: kty where
  "struct_bpf_sysctl = Struct_ty [Fld ''write'' ty___u32, Fld ''file_pos'' ty___u32]"

definition struct_bpf_tcp_sock :: kty where
  "struct_bpf_tcp_sock =
     Struct_ty [Fld ''snd_cwnd'' ty___u32, Fld ''srtt_us'' ty___u32, Fld ''rtt_min'' ty___u32,
     Fld ''snd_ssthresh'' ty___u32, Fld ''rcv_nxt'' ty___u32, Fld ''snd_nxt'' ty___u32, Fld ''snd_una'' ty___u32,
     Fld ''mss_cache'' ty___u32, Fld ''ecn_flags'' ty___u32, Fld ''rate_delivered'' ty___u32,
     Fld ''rate_interval_us'' ty___u32, Fld ''packets_out'' ty___u32, Fld ''retrans_out'' ty___u32,
     Fld ''total_retrans'' ty___u32, Fld ''segs_in'' ty___u32, Fld ''data_segs_in'' ty___u32,
     Fld ''segs_out'' ty___u32, Fld ''data_segs_out'' ty___u32, Fld ''lost_out'' ty___u32,
     Fld ''sacked_out'' ty___u32, Fld ''bytes_received'' ty___u64, Fld ''bytes_acked'' ty___u64,
     Fld ''dsack_dups'' ty___u32, Fld ''delivered'' ty___u32, Fld ''delivered_ce'' ty___u32,
     Fld ''icsk_retransmits'' ty___u32]"

definition struct_bpf_tunnel_key :: kty where
  "struct_bpf_tunnel_key =
     Struct_ty [Fld ''tunnel_id'' ty___u32, Fld '''' (Union_ty [Fld ''remote_ipv4'' ty___u32,
     Fld ''remote_ipv6'' (Array_ty ty___u32 4)]), Fld ''tunnel_tos'' ty___u8, Fld ''tunnel_ttl'' ty___u8,
     Fld '''' (Union_ty [Fld ''tunnel_ext'' ty___u16, Fld ''tunnel_flags'' ty___be16]), Fld ''tunnel_label'' ty___u32,
     Fld '''' (Union_ty [Fld ''local_ipv4'' ty___u32, Fld ''local_ipv6'' (Array_ty ty___u32 4)])]"

definition struct_bpf_xfrm_state :: kty where
  "struct_bpf_xfrm_state =
     Struct_ty [Fld ''reqid'' ty___u32, Fld ''spi'' ty___u32, Fld ''family'' ty___u16, Fld ''ext'' ty___u16,
     Fld '''' (Union_ty [Fld ''remote_ipv4'' ty___u32, Fld ''remote_ipv6'' (Array_ty ty___u32 4)])]"

definition ty___kernel_ulong_t :: kty where
  "ty___kernel_ulong_t = Int_ty 8"

definition struct_rlimit :: kty where
  "struct_rlimit = Struct_ty [Fld ''rlim_cur'' ty___kernel_ulong_t, Fld ''rlim_max'' ty___kernel_ulong_t]"

definition struct_linux_binprm :: kty where
  "struct_linux_binprm =
     Struct_ty [Fld ''vma'' Pointer, Fld ''vma_pages'' (Int_ty 8), Fld ''mm'' Pointer, Fld ''p'' (Int_ty 8),
     Fld ''argmin'' (Int_ty 8), Bits ''have_execfd'' (Int_ty 4) 1, Bits ''execfd_creds'' (Int_ty 4) 1,
     Bits ''secureexec'' (Int_ty 4) 1, Bits ''point_of_no_return'' (Int_ty 4) 1, Fld ''executable'' Pointer,
     Fld ''interpreter'' Pointer, Fld ''file'' Pointer, Fld ''cred'' Pointer, Fld ''unsafe'' (Int_ty 4),
     Fld ''per_clear'' (Int_ty 4), Fld ''argc'' (Int_ty 4), Fld ''envc'' (Int_ty 4), Fld ''filename'' Pointer,
     Fld ''interp'' Pointer, Fld ''fdpath'' Pointer, Fld ''interp_flags'' (Int_ty 4), Fld ''execfd'' (Int_ty 4),
     Fld ''loader'' (Int_ty 8), Fld ''exec'' (Int_ty 8), Fld ''rlim_stack'' struct_rlimit,
     Fld ''buf'' (Array_ty (Int_ty 1) 256)]"

definition struct_sk_reuseport_md :: kty where
  "struct_sk_reuseport_md =
     Struct_ty [Fld '''' (Union_ty [Fld ''data'' Pointer]), Fld '''' (Union_ty [Fld ''data_end'' Pointer]),
     Fld ''len'' ty___u32, Fld ''eth_protocol'' ty___u32, Fld ''ip_protocol'' ty___u32, Fld ''bind_inany'' ty___u32,
     Fld ''hash'' ty___u32, Fld '''' (Union_ty [Fld ''sk'' Pointer]),
     Fld '''' (Union_ty [Fld ''migrating_sk'' Pointer])]"

definition ty___kernel_sa_family_t :: kty where
  "ty___kernel_sa_family_t = Int_ty 2"

definition ty_sa_family_t :: kty where
  "ty_sa_family_t = ty___kernel_sa_family_t"

definition struct_sockaddr :: kty where
  "struct_sockaddr =
     Struct_ty [Fld ''sa_family'' ty_sa_family_t, Fld '''' (Union_ty [Fld ''sa_data_min'' (Array_ty (Int_ty 1) 14),
     Fld '''' (Struct_ty [Fld ''__empty_sa_data'' (Struct_ty []), Fld ''sa_data'' (Array_ty (Int_ty 1) 0)])])]"

definition ty___sum16 :: kty where
  "ty___sum16 = ty___u16"

definition struct_tcphdr :: kty where
  "struct_tcphdr =
     Struct_ty [Fld ''source'' ty___be16, Fld ''dest'' ty___be16, Fld ''seq'' ty___be32, Fld ''ack_seq'' ty___be32,
     Bits ''res1'' ty___u16 4, Bits ''doff'' ty___u16 4, Bits ''fin'' ty___u16 1, Bits ''syn'' ty___u16 1,
     Bits ''rst'' ty___u16 1, Bits ''psh'' ty___u16 1, Bits ''ack'' ty___u16 1, Bits ''urg'' ty___u16 1,
     Bits ''ece'' ty___u16 1, Bits ''cwr'' ty___u16 1, Fld ''window'' ty___be16, Fld ''check'' ty___sum16,
     Fld ''urg_ptr'' ty___be16]"

definition ty___kernel_size_t :: kty where
  "ty___kernel_size_t = ty___kernel_ulong_t"

definition ty_size_t :: kty where
  "ty_size_t = ty___kernel_size_t"

definition ty___kernel_loff_t :: kty where
  "ty___kernel_loff_t = Int_ty 8"

definition ty_loff_t :: kty where
  "ty_loff_t = ty___kernel_loff_t"

definition ty___s64 :: kty where
  "ty___s64 = Int_ty 8"

definition ty_s64 :: kty where
  "ty_s64 = ty___s64"

definition ty_atomic64_t :: kty where
  "ty_atomic64_t = Struct_ty [Fld ''counter'' ty_s64]"

definition ty_atomic_long_t :: kty where
  "ty_atomic_long_t = ty_atomic64_t"

definition ty_atomic_t :: kty where
  "ty_atomic_t = Struct_ty [Fld ''counter'' (Int_ty 4)]"

definition ty_u8 :: kty where
  "ty_u8 = ty___u8"

definition ty_u16 :: kty where
  "ty_u16 = ty___u16"

definition struct_qspinlock :: kty where
  "struct_qspinlock =
     Struct_ty [Fld '''' (Union_ty [Fld ''val'' ty_atomic_t, Fld '''' (Struct_ty [Fld ''locked'' ty_u8,
     Fld ''pending'' ty_u8]), Fld '''' (Struct_ty [Fld ''locked_pending'' ty_u16, Fld ''tail'' ty_u16])])]"

definition ty_arch_spinlock_t :: kty where
  "ty_arch_spinlock_t = struct_qspinlock"

definition struct_raw_spinlock :: kty where
  "struct_raw_spinlock = Struct_ty [Fld ''raw_lock'' ty_arch_spinlock_t]"

definition ty_raw_spinlock_t :: kty where
  "ty_raw_spinlock_t = struct_raw_spinlock"

definition struct_optimistic_spin_queue :: kty where
  "struct_optimistic_spin_queue = Struct_ty [Fld ''tail'' ty_atomic_t]"

definition struct_list_head :: kty where
  "struct_list_head = Struct_ty [Fld ''next'' Pointer, Fld ''prev'' Pointer]"

definition struct_mutex :: kty where
  "struct_mutex =
     Struct_ty [Fld ''owner'' ty_atomic_long_t, Fld ''wait_lock'' ty_raw_spinlock_t,
     Fld ''osq'' struct_optimistic_spin_queue, Fld ''wait_list'' struct_list_head]"

definition struct_seq_file :: kty where
  "struct_seq_file =
     Struct_ty [Fld ''buf'' Pointer, Fld ''size'' ty_size_t, Fld ''from'' ty_size_t, Fld ''count'' ty_size_t,
     Fld ''pad_until'' ty_size_t, Fld ''index'' ty_loff_t, Fld ''read_pos'' ty_loff_t, Fld ''lock'' struct_mutex,
     Fld ''op'' Pointer, Fld ''poll_event'' (Int_ty 4), Fld ''file'' Pointer, Fld ''private'' Pointer]"

lemmas contexts_defs =
  ty___u8_def ty___u16_def ty___be16_def ty___u32_def ty___be32_def struct_bpf_fib_lookup_def ty___u64_def
  struct_bpf_sk_lookup_def struct_pt_regs_def ty_bpf_user_pt_regs_t_def struct_bpf_perf_event_data_def
  struct_bpf_perf_event_value_def struct_bpf_pidns_info_def struct_bpf_redir_neigh_def ty___s32_def
  struct_bpf_sock_def struct_bpf_sock_addr_def struct_bpf_sock_ops_def struct_bpf_sock_tuple_def
  struct_bpf_spin_lock_def struct_bpf_sysctl_def struct_bpf_tcp_sock_def struct_bpf_tunnel_key_def
  struct_bpf_xfrm_state_def ty___kernel_ulong_t_def struct_rlimit_def struct_linux_binprm_def
  struct_sk_reuseport_md_def ty___kernel_sa_family_t_def ty_sa_family_t_def struct_sockaddr_def ty___sum16_def
  struct_tcphdr_def ty___kernel_size_t_def ty_size_t_def ty___kernel_loff_t_def ty_loff_t_def ty___s64_def ty_s64_def
  ty_atomic64_t_def ty_atomic_long_t_def ty_atomic_t_def ty_u8_def ty_u16_def struct_qspinlock_def
  ty_arch_spinlock_t_def struct_raw_spinlock_def ty_raw_spinlock_t_def struct_optimistic_spin_queue_def
  struct_list_head_def struct_mutex_def struct_seq_file_def

end
