(* ===== verification/Kernel_Sockets.thy ===== *)
theory Kernel_Sockets
  imports Kernel_Contexts
begin

text \<open>
  Declarations of \<open>vmlinux.h\<close>. The sockets of the kernel, with what they contain: TCP, UDP, Unix and multipath TCP.
\<close>

definition ty___addrpair :: kty where
  "ty___addrpair = ty___u64"

definition ty___portpair :: kty where
  "ty___portpair = ty___u32"

definition struct_hlist_node :: kty where
  "struct_hlist_node = Struct_ty [Fld ''next'' Pointer, Fld ''pprev'' Pointer]"

definition ty_possible_net_t :: kty where
  "ty_possible_net_t = Struct_ty [Fld ''net'' Pointer]"

definition struct_in6_addr :: kty where
  "struct_in6_addr =
     Struct_ty [Fld ''in6_u'' (Union_ty [Fld ''u6_addr8'' (Array_ty ty___u8 16),
     Fld ''u6_addr16'' (Array_ty ty___be16 8), Fld ''u6_addr32'' (Array_ty ty___be32 4)])]"

definition struct_hlist_nulls_node :: kty where
  "struct_hlist_nulls_node = Struct_ty [Fld ''next'' Pointer, Fld ''pprev'' Pointer]"

definition ty_u32 :: kty where
  "ty_u32 = ty___u32"

definition struct_refcount_struct :: kty where
  "struct_refcount_struct = Struct_ty [Fld ''refs'' ty_atomic_t]"

definition ty_refcount_t :: kty where
  "ty_refcount_t = struct_refcount_struct"

definition struct_sock_common :: kty where
  "struct_sock_common =
     Struct_ty [Fld '''' (Union_ty [Fld ''skc_addrpair'' ty___addrpair,
     Fld '''' (Struct_ty [Fld ''skc_daddr'' ty___be32, Fld ''skc_rcv_saddr'' ty___be32])]),
     Fld '''' (Union_ty [Fld ''skc_hash'' (Int_ty 4), Fld ''skc_u16hashes'' (Array_ty ty___u16 2)]),
     Fld '''' (Union_ty [Fld ''skc_portpair'' ty___portpair, Fld '''' (Struct_ty [Fld ''skc_dport'' ty___be16,
     Fld ''skc_num'' ty___u16])]), Fld ''skc_family'' (Int_ty 2), Fld ''skc_state'' (Int_ty 1),
     Bits ''skc_reuse'' (Int_ty 1) 4, Bits ''skc_reuseport'' (Int_ty 1) 1, Bits ''skc_ipv6only'' (Int_ty 1) 1,
     Bits ''skc_net_refcnt'' (Int_ty 1) 1, Fld ''skc_bound_dev_if'' (Int_ty 4),
     Fld '''' (Union_ty [Fld ''skc_bind_node'' struct_hlist_node, Fld ''skc_portaddr_node'' struct_hlist_node]),
     Fld ''skc_prot'' Pointer, Fld ''skc_net'' ty_possible_net_t, Fld ''skc_v6_daddr'' struct_in6_addr,
     Fld ''skc_v6_rcv_saddr'' struct_in6_addr, Fld ''skc_cookie'' ty_atomic64_t,
     Fld '''' (Union_ty [Fld ''skc_flags'' (Int_ty 8), Fld ''skc_listener'' Pointer, Fld ''skc_tw_dr'' Pointer]),
     Fld ''skc_dontcopy_begin'' (Array_ty (Int_ty 4) 0), Fld '''' (Union_ty [Fld ''skc_node'' struct_hlist_node,
     Fld ''skc_nulls_node'' struct_hlist_nulls_node]), Fld ''skc_tx_queue_mapping'' (Int_ty 2),
     Fld ''skc_rx_queue_mapping'' (Int_ty 2), Fld '''' (Union_ty [Fld ''skc_incoming_cpu'' (Int_ty 4),
     Fld ''skc_rcv_wnd'' ty_u32, Fld ''skc_tw_rcv_nxt'' ty_u32]), Fld ''skc_refcnt'' ty_refcount_t,
     Fld ''skc_dontcopy_end'' (Array_ty (Int_ty 4) 0), Fld '''' (Union_ty [Fld ''skc_rxhash'' ty_u32,
     Fld ''skc_window_clamp'' ty_u32, Fld ''skc_tw_snd_nxt'' ty_u32])]"

definition struct_spinlock :: kty where
  "struct_spinlock = Struct_ty [Fld '''' (Union_ty [Fld ''rlock'' struct_raw_spinlock])]"

definition ty_spinlock_t :: kty where
  "ty_spinlock_t = struct_spinlock"

definition struct_wait_queue_head :: kty where
  "struct_wait_queue_head = Struct_ty [Fld ''lock'' ty_spinlock_t, Fld ''head'' struct_list_head]"

definition ty_wait_queue_head_t :: kty where
  "ty_wait_queue_head_t = struct_wait_queue_head"

definition ty_socket_lock_t :: kty where
  "ty_socket_lock_t =
     Struct_ty [Fld ''slock'' ty_spinlock_t, Fld ''owned'' (Int_ty 4), Fld ''wq'' ty_wait_queue_head_t]"

definition struct_sk_buff_list :: kty where
  "struct_sk_buff_list = Struct_ty [Fld ''next'' Pointer, Fld ''prev'' Pointer]"

definition struct_sk_buff_head :: kty where
  "struct_sk_buff_head =
     Struct_ty [Fld '''' (Union_ty [Fld '''' (Struct_ty [Fld ''next'' Pointer, Fld ''prev'' Pointer]),
     Fld ''list'' struct_sk_buff_list]), Fld ''qlen'' ty___u32, Fld ''lock'' ty_spinlock_t]"

definition struct_rb_root :: kty where
  "struct_rb_root = Struct_ty [Fld ''rb_node'' Pointer]"

definition struct_timer_list :: kty where
  "struct_timer_list =
     Struct_ty [Fld ''entry'' struct_hlist_node, Fld ''expires'' (Int_ty 8), Fld ''function'' Pointer,
     Fld ''flags'' ty_u32]"

definition struct_page_frag :: kty where
  "struct_page_frag = Struct_ty [Fld ''page'' Pointer, Fld ''offset'' ty___u32, Fld ''size'' ty___u32]"

definition ty_u64 :: kty where
  "ty_u64 = ty___u64"

definition ty_netdev_features_t :: kty where
  "ty_netdev_features_t = ty_u64"

definition ty_gfp_t :: kty where
  "ty_gfp_t = Int_ty 4"

definition struct_qrwlock :: kty where
  "struct_qrwlock =
     Struct_ty [Fld '''' (Union_ty [Fld ''cnts'' ty_atomic_t, Fld '''' (Struct_ty [Fld ''wlocked'' ty_u8,
     Fld ''__lstate'' (Array_ty ty_u8 3)])]), Fld ''wait_lock'' ty_arch_spinlock_t]"

definition ty_arch_rwlock_t :: kty where
  "ty_arch_rwlock_t = struct_qrwlock"

definition ty_rwlock_t :: kty where
  "ty_rwlock_t = Struct_ty [Fld ''raw_lock'' ty_arch_rwlock_t]"

definition ty___kernel_uid32_t :: kty where
  "ty___kernel_uid32_t = Int_ty 4"

definition ty_uid_t :: kty where
  "ty_uid_t = ty___kernel_uid32_t"

definition ty_kuid_t :: kty where
  "ty_kuid_t = Struct_ty [Fld ''val'' ty_uid_t]"

definition ty_ktime_t :: kty where
  "ty_ktime_t = ty_s64"

definition ty_bool :: kty where
  "ty_bool = Int_ty 1"

definition struct_sock_cgroup_data :: kty where
  "struct_sock_cgroup_data = Struct_ty [Fld ''cgroup'' Pointer, Fld ''classid'' ty_u32, Fld ''prioidx'' ty_u16]"

definition struct_callback_head :: kty where
  "struct_callback_head = Struct_ty [Fld ''next'' Pointer, Fld ''func'' Pointer]"

definition ty_netns_tracker :: kty where
  "ty_netns_tracker = Struct_ty []"

definition struct_sock :: kty where
  "struct_sock =
     Struct_ty [Fld ''__sk_common'' struct_sock_common, Fld ''sk_rx_dst'' Pointer,
     Fld ''sk_rx_dst_ifindex'' (Int_ty 4), Fld ''sk_rx_dst_cookie'' ty_u32, Fld ''sk_lock'' ty_socket_lock_t,
     Fld ''sk_drops'' ty_atomic_t, Fld ''sk_rcvlowat'' (Int_ty 4), Fld ''sk_error_queue'' struct_sk_buff_head,
     Fld ''sk_receive_queue'' struct_sk_buff_head, Fld ''sk_backlog'' (Struct_ty [Fld ''rmem_alloc'' ty_atomic_t,
     Fld ''len'' (Int_ty 4), Fld ''head'' Pointer, Fld ''tail'' Pointer]), Fld ''sk_forward_alloc'' (Int_ty 4),
     Fld ''sk_reserved_mem'' ty_u32, Fld ''sk_ll_usec'' (Int_ty 4), Fld ''sk_napi_id'' (Int_ty 4),
     Fld ''sk_rcvbuf'' (Int_ty 4), Fld ''sk_disconnects'' (Int_ty 4), Fld ''sk_filter'' Pointer,
     Fld '''' (Union_ty [Fld ''sk_wq'' Pointer, Fld ''sk_wq_raw'' Pointer]), Fld ''sk_policy'' (Array_ty Pointer 2),
     Fld ''sk_dst_cache'' Pointer, Fld ''sk_omem_alloc'' ty_atomic_t, Fld ''sk_sndbuf'' (Int_ty 4),
     Fld ''sk_wmem_queued'' (Int_ty 4), Fld ''sk_wmem_alloc'' ty_refcount_t, Fld ''sk_tsq_flags'' (Int_ty 8),
     Fld '''' (Union_ty [Fld ''sk_send_head'' Pointer, Fld ''tcp_rtx_queue'' struct_rb_root]),
     Fld ''sk_write_queue'' struct_sk_buff_head, Fld ''sk_peek_off'' ty___s32, Fld ''sk_write_pending'' (Int_ty 4),
     Fld ''sk_dst_pending_confirm'' ty___u32, Fld ''sk_pacing_status'' ty_u32, Fld ''sk_sndtimeo'' (Int_ty 8),
     Fld ''sk_timer'' struct_timer_list, Fld ''sk_priority'' ty___u32, Fld ''sk_mark'' ty___u32,
     Fld ''sk_pacing_rate'' (Int_ty 8), Fld ''sk_max_pacing_rate'' (Int_ty 8), Fld ''sk_frag'' struct_page_frag,
     Fld ''sk_route_caps'' ty_netdev_features_t, Fld ''sk_gso_type'' (Int_ty 4), Fld ''sk_gso_max_size'' (Int_ty 4),
     Fld ''sk_allocation'' ty_gfp_t, Fld ''sk_txhash'' ty___u32, Bits ''sk_gso_disabled'' ty_u8 1,
     Bits ''sk_kern_sock'' ty_u8 1, Bits ''sk_no_check_tx'' ty_u8 1, Bits ''sk_no_check_rx'' ty_u8 1,
     Bits ''sk_userlocks'' ty_u8 4, Fld ''sk_pacing_shift'' ty_u8, Fld ''sk_type'' ty_u16, Fld ''sk_protocol'' ty_u16,
     Fld ''sk_gso_max_segs'' ty_u16, Fld ''sk_lingertime'' (Int_ty 8), Fld ''sk_prot_creator'' Pointer,
     Fld ''sk_callback_lock'' ty_rwlock_t, Fld ''sk_err'' (Int_ty 4), Fld ''sk_err_soft'' (Int_ty 4),
     Fld ''sk_ack_backlog'' ty_u32, Fld ''sk_max_ack_backlog'' ty_u32, Fld ''sk_uid'' ty_kuid_t,
     Fld ''sk_txrehash'' ty_u8, Fld ''sk_prefer_busy_poll'' ty_u8, Fld ''sk_busy_poll_budget'' ty_u16,
     Fld ''sk_peer_lock'' ty_spinlock_t, Fld ''sk_bind_phc'' (Int_ty 4), Fld ''sk_peer_pid'' Pointer,
     Fld ''sk_peer_cred'' Pointer, Fld ''sk_rcvtimeo'' (Int_ty 8), Fld ''sk_stamp'' ty_ktime_t,
     Fld ''sk_tskey'' ty_atomic_t, Fld ''sk_zckey'' ty_atomic_t, Fld ''sk_tsflags'' ty_u32, Fld ''sk_shutdown'' ty_u8,
     Fld ''sk_clockid'' ty_u8, Bits ''sk_txtime_deadline_mode'' ty_u8 1, Bits ''sk_txtime_report_errors'' ty_u8 1,
     Bits ''sk_txtime_unused'' ty_u8 6, Fld ''sk_use_task_frag'' ty_bool, Fld ''sk_socket'' Pointer,
     Fld ''sk_user_data'' Pointer, Fld ''sk_security'' Pointer, Fld ''sk_cgrp_data'' struct_sock_cgroup_data,
     Fld ''sk_memcg'' Pointer, Fld ''sk_state_change'' Pointer, Fld ''sk_data_ready'' Pointer,
     Fld ''sk_write_space'' Pointer, Fld ''sk_error_report'' Pointer, Fld ''sk_backlog_rcv'' Pointer,
     Fld ''sk_validate_xmit_skb'' Pointer, Fld ''sk_destruct'' Pointer, Fld ''sk_reuseport_cb'' Pointer,
     Fld ''sk_bpf_storage'' Pointer, Fld ''sk_rcu'' struct_callback_head, Fld ''ns_tracker'' ty_netns_tracker,
     Fld ''sk_bind2_node'' struct_hlist_node]"

definition ty___s16 :: kty where
  "ty___s16 = Int_ty 2"

definition struct_inet_cork :: kty where
  "struct_inet_cork =
     Struct_ty [Fld ''flags'' (Int_ty 4), Fld ''addr'' ty___be32, Fld ''opt'' Pointer, Fld ''fragsize'' (Int_ty 4),
     Fld ''length'' (Int_ty 4), Fld ''dst'' Pointer, Fld ''tx_flags'' ty_u8, Fld ''ttl'' ty___u8,
     Fld ''tos'' ty___s16, Fld ''priority'' (Int_ty 1), Fld ''gso_size'' ty___u16, Fld ''transmit_time'' ty_u64,
     Fld ''mark'' ty_u32]"

definition ty___be64 :: kty where
  "ty___be64 = ty___u64"

definition struct_flowi_tunnel :: kty where
  "struct_flowi_tunnel = Struct_ty [Fld ''tun_id'' ty___be64]"

definition struct_flowi_common :: kty where
  "struct_flowi_common =
     Struct_ty [Fld ''flowic_oif'' (Int_ty 4), Fld ''flowic_iif'' (Int_ty 4), Fld ''flowic_l3mdev'' (Int_ty 4),
     Fld ''flowic_mark'' ty___u32, Fld ''flowic_tos'' ty___u8, Fld ''flowic_scope'' ty___u8,
     Fld ''flowic_proto'' ty___u8, Fld ''flowic_flags'' ty___u8, Fld ''flowic_secid'' ty___u32,
     Fld ''flowic_uid'' ty_kuid_t, Fld ''flowic_multipath_hash'' ty___u32, Fld ''flowic_tun_key'' struct_flowi_tunnel]"

definition union_flowi_uli :: kty where
  "union_flowi_uli =
     Union_ty [Fld ''ports'' (Struct_ty [Fld ''dport'' ty___be16, Fld ''sport'' ty___be16]),
     Fld ''icmpt'' (Struct_ty [Fld ''type'' ty___u8, Fld ''code'' ty___u8]), Fld ''gre_key'' ty___be32,
     Fld ''mht'' (Struct_ty [Fld ''type'' ty___u8])]"

definition struct_flowi4 :: kty where
  "struct_flowi4 =
     Struct_ty [Fld ''__fl_common'' struct_flowi_common, Fld ''saddr'' ty___be32, Fld ''daddr'' ty___be32,
     Fld ''uli'' union_flowi_uli]"

definition struct_flowi6 :: kty where
  "struct_flowi6 =
     Struct_ty [Fld ''__fl_common'' struct_flowi_common, Fld ''daddr'' struct_in6_addr, Fld ''saddr'' struct_in6_addr,
     Fld ''flowlabel'' ty___be32, Fld ''uli'' union_flowi_uli, Fld ''mp_hash'' ty___u32]"

definition struct_flowi :: kty where
  "struct_flowi =
     Struct_ty [Fld ''u'' (Union_ty [Fld ''__fl_common'' struct_flowi_common, Fld ''ip4'' struct_flowi4,
     Fld ''ip6'' struct_flowi6])]"

definition struct_inet_cork_full :: kty where
  "struct_inet_cork_full = Struct_ty [Fld ''base'' struct_inet_cork, Fld ''fl'' struct_flowi]"

definition struct_inet_sock :: kty where
  "struct_inet_sock =
     Struct_ty [Fld ''sk'' struct_sock, Fld ''pinet6'' Pointer, Fld ''inet_saddr'' ty___be32, Fld ''uc_ttl'' ty___s16,
     Fld ''cmsg_flags'' ty___u16, Fld ''inet_opt'' Pointer, Fld ''inet_id'' ty_atomic_t, Fld ''inet_sport'' ty___be16,
     Fld ''tos'' ty___u8, Fld ''min_ttl'' ty___u8, Fld ''mc_ttl'' ty___u8, Fld ''pmtudisc'' ty___u8,
     Bits ''recverr'' ty___u8 1, Bits ''is_icsk'' ty___u8 1, Bits ''freebind'' ty___u8 1, Bits ''hdrincl'' ty___u8 1,
     Bits ''mc_loop'' ty___u8 1, Bits ''transparent'' ty___u8 1, Bits ''mc_all'' ty___u8 1,
     Bits ''nodefrag'' ty___u8 1, Bits ''bind_address_no_port'' ty___u8 1, Bits ''recverr_rfc4884'' ty___u8 1,
     Bits ''defer_connect'' ty___u8 1, Fld ''rcv_tos'' ty___u8, Fld ''convert_csum'' ty___u8,
     Fld ''uc_index'' (Int_ty 4), Fld ''mc_index'' (Int_ty 4), Fld ''mc_addr'' ty___be32, Fld ''mc_list'' Pointer,
     Fld ''cork'' struct_inet_cork_full, Fld ''local_port_range'' (Struct_ty [Fld ''lo'' ty___u16,
     Fld ''hi'' ty___u16])]"

definition struct_fastopen_queue :: kty where
  "struct_fastopen_queue =
     Struct_ty [Fld ''rskq_rst_head'' Pointer, Fld ''rskq_rst_tail'' Pointer, Fld ''lock'' ty_spinlock_t,
     Fld ''qlen'' (Int_ty 4), Fld ''max_qlen'' (Int_ty 4), Fld ''ctx'' Pointer]"

definition struct_request_sock_queue :: kty where
  "struct_request_sock_queue =
     Struct_ty [Fld ''rskq_lock'' ty_spinlock_t, Fld ''rskq_defer_accept'' ty_u8, Fld ''synflood_warned'' ty_u32,
     Fld ''qlen'' ty_atomic_t, Fld ''young'' ty_atomic_t, Fld ''rskq_accept_head'' Pointer,
     Fld ''rskq_accept_tail'' Pointer, Fld ''fastopenq'' struct_fastopen_queue]"

definition struct_inet_connection_sock :: kty where
  "struct_inet_connection_sock =
     Struct_ty [Fld ''icsk_inet'' struct_inet_sock, Fld ''icsk_accept_queue'' struct_request_sock_queue,
     Fld ''icsk_bind_hash'' Pointer, Fld ''icsk_bind2_hash'' Pointer, Fld ''icsk_timeout'' (Int_ty 8),
     Fld ''icsk_retransmit_timer'' struct_timer_list, Fld ''icsk_delack_timer'' struct_timer_list,
     Fld ''icsk_rto'' ty___u32, Fld ''icsk_rto_min'' ty___u32, Fld ''icsk_delack_max'' ty___u32,
     Fld ''icsk_pmtu_cookie'' ty___u32, Fld ''icsk_ca_ops'' Pointer, Fld ''icsk_af_ops'' Pointer,
     Fld ''icsk_ulp_ops'' Pointer, Fld ''icsk_ulp_data'' Pointer, Fld ''icsk_clean_acked'' Pointer,
     Fld ''icsk_sync_mss'' Pointer, Bits ''icsk_ca_state'' ty___u8 5, Bits ''icsk_ca_initialized'' ty___u8 1,
     Bits ''icsk_ca_setsockopt'' ty___u8 1, Bits ''icsk_ca_dst_locked'' ty___u8 1, Fld ''icsk_retransmits'' ty___u8,
     Fld ''icsk_pending'' ty___u8, Fld ''icsk_backoff'' ty___u8, Fld ''icsk_syn_retries'' ty___u8,
     Fld ''icsk_probes_out'' ty___u8, Fld ''icsk_ext_hdr_len'' ty___u16,
     Fld ''icsk_ack'' (Struct_ty [Fld ''pending'' ty___u8, Fld ''quick'' ty___u8, Fld ''pingpong'' ty___u8,
     Fld ''retry'' ty___u8, Fld ''ato'' ty___u32, Fld ''timeout'' (Int_ty 8), Fld ''lrcvtime'' ty___u32,
     Fld ''last_seg_size'' ty___u16, Fld ''rcv_mss'' ty___u16]),
     Fld ''icsk_mtup'' (Struct_ty [Fld ''search_high'' (Int_ty 4), Fld ''search_low'' (Int_ty 4),
     Bits ''probe_size'' ty_u32 31, Bits ''enabled'' ty_u32 1, Fld ''probe_timestamp'' ty_u32]),
     Fld ''icsk_probes_tstamp'' ty_u32, Fld ''icsk_user_timeout'' ty_u32, Fld ''icsk_ca_priv'' (Array_ty ty_u64 13)]"

definition struct_tcp_rack :: kty where
  "struct_tcp_rack =
     Struct_ty [Fld ''mstamp'' ty_u64, Fld ''rtt_us'' ty_u32, Fld ''end_seq'' ty_u32, Fld ''last_delivered'' ty_u32,
     Fld ''reo_wnd_steps'' ty_u8, Bits ''reo_wnd_persist'' ty_u8 5, Bits ''dsack_seen'' ty_u8 1,
     Bits ''advanced'' ty_u8 1]"

definition struct_minmax_sample :: kty where
  "struct_minmax_sample = Struct_ty [Fld ''t'' ty_u32, Fld ''v'' ty_u32]"

definition struct_minmax :: kty where
  "struct_minmax = Struct_ty [Fld ''s'' (Array_ty struct_minmax_sample 3)]"

definition struct_tcp_options_received :: kty where
  "struct_tcp_options_received =
     Struct_ty [Fld ''ts_recent_stamp'' (Int_ty 4), Fld ''ts_recent'' ty_u32, Fld ''rcv_tsval'' ty_u32,
     Fld ''rcv_tsecr'' ty_u32, Bits ''saw_tstamp'' ty_u16 1, Bits ''tstamp_ok'' ty_u16 1, Bits ''dsack'' ty_u16 1,
     Bits ''wscale_ok'' ty_u16 1, Bits ''sack_ok'' ty_u16 3, Bits ''smc_ok'' ty_u16 1, Bits ''snd_wscale'' ty_u16 4,
     Bits ''rcv_wscale'' ty_u16 4, Bits ''saw_unknown'' ty_u8 1, Bits ''unused'' ty_u8 7, Fld ''num_sacks'' ty_u8,
     Fld ''user_mss'' ty_u16, Fld ''mss_clamp'' ty_u16]"

definition struct_rb_node :: kty where
  "struct_rb_node =
     Struct_ty [Fld ''__rb_parent_color'' (Int_ty 8), Fld ''rb_right'' Pointer, Fld ''rb_left'' Pointer]"

definition struct_timerqueue_node :: kty where
  "struct_timerqueue_node = Struct_ty [Fld ''node'' struct_rb_node, Fld ''expires'' ty_ktime_t]"

definition struct_hrtimer :: kty where
  "struct_hrtimer =
     Struct_ty [Fld ''node'' struct_timerqueue_node, Fld ''_softexpires'' ty_ktime_t, Fld ''function'' Pointer,
     Fld ''base'' Pointer, Fld ''state'' ty_u8, Fld ''is_rel'' ty_u8, Fld ''is_soft'' ty_u8, Fld ''is_hard'' ty_u8]"

definition struct_tcp_sack_block :: kty where
  "struct_tcp_sack_block = Struct_ty [Fld ''start_seq'' ty_u32, Fld ''end_seq'' ty_u32]"

definition tcp_sock_members_1 :: "kmember list" where
  "tcp_sock_members_1 = [
     Fld ''inet_conn'' struct_inet_connection_sock, Fld ''tcp_header_len'' ty_u16, Fld ''gso_segs'' ty_u16,
     Fld ''pred_flags'' ty___be32, Fld ''bytes_received'' ty_u64, Fld ''segs_in'' ty_u32, Fld ''data_segs_in'' ty_u32,
     Fld ''rcv_nxt'' ty_u32, Fld ''copied_seq'' ty_u32, Fld ''rcv_wup'' ty_u32, Fld ''snd_nxt'' ty_u32,
     Fld ''segs_out'' ty_u32, Fld ''data_segs_out'' ty_u32, Fld ''bytes_sent'' ty_u64, Fld ''bytes_acked'' ty_u64,
     Fld ''dsack_dups'' ty_u32, Fld ''snd_una'' ty_u32, Fld ''snd_sml'' ty_u32, Fld ''rcv_tstamp'' ty_u32,
     Fld ''lsndtime'' ty_u32, Fld ''last_oow_ack_time'' ty_u32, Fld ''compressed_ack_rcv_nxt'' ty_u32,
     Fld ''tsoffset'' ty_u32, Fld ''tsq_node'' struct_list_head, Fld ''tsorted_sent_queue'' struct_list_head,
     Fld ''snd_wl1'' ty_u32, Fld ''snd_wnd'' ty_u32, Fld ''max_window'' ty_u32, Fld ''mss_cache'' ty_u32,
     Fld ''window_clamp'' ty_u32, Fld ''rcv_ssthresh'' ty_u32, Fld ''rack'' struct_tcp_rack, Fld ''advmss'' ty_u16,
     Fld ''compressed_ack'' ty_u8, Bits ''dup_ack_counter'' ty_u8 2, Bits ''tlp_retrans'' ty_u8 1,
     Bits ''unused'' ty_u8 5, Fld ''chrono_start'' ty_u32, Fld ''chrono_stat'' (Array_ty ty_u32 3),
     Bits ''chrono_type'' ty_u8 2, Bits ''rate_app_limited'' ty_u8 1, Bits ''fastopen_connect'' ty_u8 1,
     Bits ''fastopen_no_cookie'' ty_u8 1, Bits ''is_sack_reneg'' ty_u8 1, Bits ''fastopen_client_fail'' ty_u8 2,
     Bits ''nonagle'' ty_u8 4, Bits ''thin_lto'' ty_u8 1, Bits ''recvmsg_inq'' ty_u8 1, Bits ''repair'' ty_u8 1,
     Bits ''frto'' ty_u8 1, Fld ''repair_queue'' ty_u8, Bits ''save_syn'' ty_u8 2, Bits ''syn_data'' ty_u8 1,
     Bits ''syn_fastopen'' ty_u8 1, Bits ''syn_fastopen_exp'' ty_u8 1, Bits ''syn_fastopen_ch'' ty_u8 1,
     Bits ''syn_data_acked'' ty_u8 1, Bits ''is_cwnd_limited'' ty_u8 1, Fld ''tlp_high_seq'' ty_u32,
     Fld ''tcp_tx_delay'' ty_u32, Fld ''tcp_wstamp_ns'' ty_u64, Fld ''tcp_clock_cache'' ty_u64,
     Fld ''tcp_mstamp'' ty_u64, Fld ''srtt_us'' ty_u32, Fld ''mdev_us'' ty_u32, Fld ''mdev_max_us'' ty_u32,
     Fld ''rttvar_us'' ty_u32, Fld ''rtt_seq'' ty_u32, Fld ''rtt_min'' struct_minmax, Fld ''packets_out'' ty_u32,
     Fld ''retrans_out'' ty_u32]"

definition tcp_sock_members_2 :: "kmember list" where
  "tcp_sock_members_2 = [
     Fld ''max_packets_out'' ty_u32, Fld ''cwnd_usage_seq'' ty_u32, Fld ''urg_data'' ty_u16, Fld ''ecn_flags'' ty_u8,
     Fld ''keepalive_probes'' ty_u8, Fld ''reordering'' ty_u32, Fld ''reord_seen'' ty_u32, Fld ''snd_up'' ty_u32,
     Fld ''rx_opt'' struct_tcp_options_received, Fld ''snd_ssthresh'' ty_u32, Fld ''snd_cwnd'' ty_u32,
     Fld ''snd_cwnd_cnt'' ty_u32, Fld ''snd_cwnd_clamp'' ty_u32, Fld ''snd_cwnd_used'' ty_u32,
     Fld ''snd_cwnd_stamp'' ty_u32, Fld ''prior_cwnd'' ty_u32, Fld ''prr_delivered'' ty_u32, Fld ''prr_out'' ty_u32,
     Fld ''delivered'' ty_u32, Fld ''delivered_ce'' ty_u32, Fld ''lost'' ty_u32, Fld ''app_limited'' ty_u32,
     Fld ''first_tx_mstamp'' ty_u64, Fld ''delivered_mstamp'' ty_u64, Fld ''rate_delivered'' ty_u32,
     Fld ''rate_interval_us'' ty_u32, Fld ''rcv_wnd'' ty_u32, Fld ''write_seq'' ty_u32, Fld ''notsent_lowat'' ty_u32,
     Fld ''pushed_seq'' ty_u32, Fld ''lost_out'' ty_u32, Fld ''sacked_out'' ty_u32,
     Fld ''pacing_timer'' struct_hrtimer, Fld ''compressed_ack_timer'' struct_hrtimer, Fld ''lost_skb_hint'' Pointer,
     Fld ''retransmit_skb_hint'' Pointer, Fld ''out_of_order_queue'' struct_rb_root, Fld ''ooo_last_skb'' Pointer,
     Fld ''duplicate_sack'' (Array_ty struct_tcp_sack_block 1),
     Fld ''selective_acks'' (Array_ty struct_tcp_sack_block 4),
     Fld ''recv_sack_cache'' (Array_ty struct_tcp_sack_block 4), Fld ''highest_sack'' Pointer,
     Fld ''lost_cnt_hint'' (Int_ty 4), Fld ''prior_ssthresh'' ty_u32, Fld ''high_seq'' ty_u32,
     Fld ''retrans_stamp'' ty_u32, Fld ''undo_marker'' ty_u32, Fld ''undo_retrans'' (Int_ty 4),
     Fld ''bytes_retrans'' ty_u64, Fld ''total_retrans'' ty_u32, Fld ''urg_seq'' ty_u32,
     Fld ''keepalive_time'' (Int_ty 4), Fld ''keepalive_intvl'' (Int_ty 4), Fld ''linger2'' (Int_ty 4),
     Fld ''bpf_sock_ops_cb_flags'' ty_u8, Bits ''bpf_chg_cc_inprogress'' ty_u8 1, Fld ''timeout_rehash'' ty_u16,
     Fld ''rcv_ooopack'' ty_u32, Fld ''rcv_rtt_last_tsecr'' ty_u32,
     Fld ''rcv_rtt_est'' (Struct_ty [Fld ''rtt_us'' ty_u32, Fld ''seq'' ty_u32, Fld ''time'' ty_u64]),
     Fld ''rcvq_space'' (Struct_ty [Fld ''space'' ty_u32, Fld ''seq'' ty_u32, Fld ''time'' ty_u64]),
     Fld ''mtu_probe'' (Struct_ty [Fld ''probe_seq_start'' ty_u32, Fld ''probe_seq_end'' ty_u32]),
     Fld ''plb_rehash'' ty_u32, Fld ''mtu_info'' ty_u32, Fld ''is_mptcp'' ty_bool, Fld ''smc_hs_congested'' Pointer,
     Fld ''syn_smc'' ty_bool, Fld ''af_specific'' Pointer, Fld ''md5sig_info'' Pointer, Fld ''fastopen_req'' Pointer,
     Fld ''fastopen_rsk'' Pointer, Fld ''saved_syn'' Pointer]"

definition struct_tcp_sock :: kty where
  "struct_tcp_sock = Struct_ty (tcp_sock_members_1 @ tcp_sock_members_2)"

definition struct_in6_pktinfo :: kty where
  "struct_in6_pktinfo = Struct_ty [Fld ''ipi6_addr'' struct_in6_addr, Fld ''ipi6_ifindex'' (Int_ty 4)]"

definition struct_inet6_cork :: kty where
  "struct_inet6_cork = Struct_ty [Fld ''opt'' Pointer, Fld ''hop_limit'' ty_u8, Fld ''tclass'' ty_u8]"

definition struct_ipv6_pinfo :: kty where
  "struct_ipv6_pinfo =
     Struct_ty [Fld ''saddr'' struct_in6_addr, Fld ''sticky_pktinfo'' struct_in6_pktinfo, Fld ''daddr_cache'' Pointer,
     Fld ''saddr_cache'' Pointer, Fld ''flow_label'' ty___be32, Fld ''frag_size'' ty___u32,
     Bits ''__unused_1'' ty___u16 7, Bits ''hop_limit'' ty___s16 9, Bits ''mc_loop'' ty___u16 1,
     Bits ''__unused_2'' ty___u16 6, Bits ''mcast_hops'' ty___s16 9, Fld ''ucast_oif'' (Int_ty 4),
     Fld ''mcast_oif'' (Int_ty 4), Fld ''rxopt'' (Union_ty [Fld ''bits'' (Struct_ty [Bits ''srcrt'' ty___u16 1,
     Bits ''osrcrt'' ty___u16 1, Bits ''rxinfo'' ty___u16 1, Bits ''rxoinfo'' ty___u16 1, Bits ''rxhlim'' ty___u16 1,
     Bits ''rxohlim'' ty___u16 1, Bits ''hopopts'' ty___u16 1, Bits ''ohopopts'' ty___u16 1,
     Bits ''dstopts'' ty___u16 1, Bits ''odstopts'' ty___u16 1, Bits ''rxflow'' ty___u16 1,
     Bits ''rxtclass'' ty___u16 1, Bits ''rxpmtu'' ty___u16 1, Bits ''rxorigdstaddr'' ty___u16 1,
     Bits ''recvfragsize'' ty___u16 1]), Fld ''all'' ty___u16]), Bits ''recverr'' ty___u16 1,
     Bits ''sndflow'' ty___u16 1, Bits ''repflow'' ty___u16 1, Bits ''pmtudisc'' ty___u16 3,
     Bits ''padding'' ty___u16 1, Bits ''srcprefs'' ty___u16 3, Bits ''dontfrag'' ty___u16 1,
     Bits ''autoflowlabel'' ty___u16 1, Bits ''autoflowlabel_set'' ty___u16 1, Bits ''mc_all'' ty___u16 1,
     Bits ''recverr_rfc4884'' ty___u16 1, Bits ''rtalert_isolate'' ty___u16 1, Fld ''min_hopcount'' ty___u8,
     Fld ''tclass'' ty___u8, Fld ''rcv_flowinfo'' ty___be32, Fld ''dst_cookie'' ty___u32,
     Fld ''ipv6_mc_list'' Pointer, Fld ''ipv6_ac_list'' Pointer, Fld ''ipv6_fl_list'' Pointer, Fld ''opt'' Pointer,
     Fld ''pktoptions'' Pointer, Fld ''rxpmtu'' Pointer, Fld ''cork'' struct_inet6_cork]"

definition struct_tcp6_sock :: kty where
  "struct_tcp6_sock = Struct_ty [Fld ''tcp'' struct_tcp_sock, Fld ''inet6'' struct_ipv6_pinfo]"

definition struct_inet_timewait_sock :: kty where
  "struct_inet_timewait_sock =
     Struct_ty [Fld ''__tw_common'' struct_sock_common, Fld ''tw_mark'' ty___u32, Fld ''tw_substate'' (Int_ty 1),
     Fld ''tw_rcv_wscale'' (Int_ty 1), Fld ''tw_sport'' ty___be16, Bits ''tw_transparent'' (Int_ty 4) 1,
     Bits ''tw_flowlabel'' (Int_ty 4) 20, Bits ''tw_pad'' (Int_ty 4) 3, Bits ''tw_tos'' (Int_ty 4) 8,
     Fld ''tw_txhash'' ty_u32, Fld ''tw_priority'' ty_u32, Fld ''tw_timer'' struct_timer_list, Fld ''tw_tb'' Pointer,
     Fld ''tw_tb2'' Pointer, Fld ''tw_bind2_node'' struct_hlist_node]"

definition struct_tcp_timewait_sock :: kty where
  "struct_tcp_timewait_sock =
     Struct_ty [Fld ''tw_sk'' struct_inet_timewait_sock, Fld ''tw_rcv_wnd'' ty_u32, Fld ''tw_ts_offset'' ty_u32,
     Fld ''tw_ts_recent'' ty_u32, Fld ''tw_last_oow_ack_time'' ty_u32, Fld ''tw_ts_recent_stamp'' (Int_ty 4),
     Fld ''tw_tx_delay'' ty_u32, Fld ''tw_md5_key'' Pointer]"

definition struct_request_sock :: kty where
  "struct_request_sock =
     Struct_ty [Fld ''__req_common'' struct_sock_common, Fld ''dl_next'' Pointer, Fld ''mss'' ty_u16,
     Fld ''num_retrans'' ty_u8, Bits ''syncookie'' ty_u8 1, Bits ''num_timeout'' ty_u8 7, Fld ''ts_recent'' ty_u32,
     Fld ''rsk_timer'' struct_timer_list, Fld ''rsk_ops'' Pointer, Fld ''sk'' Pointer, Fld ''saved_syn'' Pointer,
     Fld ''secid'' ty_u32, Fld ''peer_secid'' ty_u32, Fld ''timeout'' ty_u32]"

definition struct_inet_request_sock :: kty where
  "struct_inet_request_sock =
     Struct_ty [Fld ''req'' struct_request_sock, Bits ''snd_wscale'' ty_u16 4, Bits ''rcv_wscale'' ty_u16 4,
     Bits ''tstamp_ok'' ty_u16 1, Bits ''sack_ok'' ty_u16 1, Bits ''wscale_ok'' ty_u16 1, Bits ''ecn_ok'' ty_u16 1,
     Bits ''acked'' ty_u16 1, Bits ''no_srccheck'' ty_u16 1, Bits ''smc_ok'' ty_u16 1, Fld ''ir_mark'' ty_u32,
     Fld '''' (Union_ty [Fld ''ireq_opt'' Pointer, Fld '''' (Struct_ty [Fld ''ipv6_opt'' Pointer,
     Fld ''pktopts'' Pointer])])]"

definition struct_tcp_request_sock :: kty where
  "struct_tcp_request_sock =
     Struct_ty [Fld ''req'' struct_inet_request_sock, Fld ''af_specific'' Pointer, Fld ''snt_synack'' ty_u64,
     Fld ''tfo_listener'' ty_bool, Fld ''is_mptcp'' ty_bool, Fld ''drop_req'' ty_bool, Fld ''txhash'' ty_u32,
     Fld ''rcv_isn'' ty_u32, Fld ''snt_isn'' ty_u32, Fld ''ts_off'' ty_u32, Fld ''last_oow_ack_time'' ty_u32,
     Fld ''rcv_nxt'' ty_u32, Fld ''syn_tos'' ty_u8]"

definition struct_udp_sock :: kty where
  "struct_udp_sock =
     Struct_ty [Fld ''inet'' struct_inet_sock, Fld ''udp_flags'' (Int_ty 8), Fld ''pending'' (Int_ty 4),
     Fld ''encap_type'' ty___u8, Fld ''len'' ty___u16, Fld ''gso_size'' ty___u16, Fld ''pcslen'' ty___u16,
     Fld ''pcrlen'' ty___u16, Fld ''encap_rcv'' Pointer, Fld ''encap_err_rcv'' Pointer,
     Fld ''encap_err_lookup'' Pointer, Fld ''encap_destroy'' Pointer, Fld ''gro_receive'' Pointer,
     Fld ''gro_complete'' Pointer, Bits '''' (Int_ty 8) 64, Bits '''' (Int_ty 8) 64, Bits '''' (Int_ty 8) 64,
     Fld ''reader_queue'' struct_sk_buff_head, Fld ''forward_deficit'' (Int_ty 4),
     Fld ''forward_threshold'' (Int_ty 4), Bits '''' (Int_ty 8) 64, Bits '''' (Int_ty 8) 64, Bits '''' (Int_ty 8) 64,
     Bits '''' (Int_ty 8) 64]"

definition struct_udp6_sock :: kty where
  "struct_udp6_sock =
     Struct_ty [Fld ''udp'' struct_udp_sock, Fld ''inet6'' struct_ipv6_pinfo, Bits '''' (Int_ty 8) 64,
     Bits '''' (Int_ty 8) 64, Bits '''' (Int_ty 8) 64, Bits '''' (Int_ty 8) 64]"

definition struct_path :: kty where
  "struct_path = Struct_ty [Fld ''mnt'' Pointer, Fld ''dentry'' Pointer]"

definition struct_socket_wq :: kty where
  "struct_socket_wq =
     Struct_ty [Fld ''wait'' ty_wait_queue_head_t, Fld ''fasync_list'' Pointer, Fld ''flags'' (Int_ty 8),
     Fld ''rcu'' struct_callback_head, Bits '''' (Int_ty 8) 64]"

definition ty_wait_queue_func_t :: kty where
  "ty_wait_queue_func_t = Pointer"

definition struct_wait_queue_entry :: kty where
  "struct_wait_queue_entry =
     Struct_ty [Fld ''flags'' (Int_ty 4), Fld ''private'' Pointer, Fld ''func'' ty_wait_queue_func_t,
     Fld ''entry'' struct_list_head]"

definition ty_wait_queue_entry_t :: kty where
  "ty_wait_queue_entry_t = struct_wait_queue_entry"

definition struct_scm_stat :: kty where
  "struct_scm_stat = Struct_ty [Fld ''nr_fds'' ty_atomic_t]"

definition struct_unix_sock :: kty where
  "struct_unix_sock =
     Struct_ty [Fld ''sk'' struct_sock, Fld ''addr'' Pointer, Fld ''path'' struct_path, Fld ''iolock'' struct_mutex,
     Fld ''bindlock'' struct_mutex, Fld ''peer'' Pointer, Fld ''link'' struct_list_head,
     Fld ''inflight'' ty_atomic_long_t, Fld ''lock'' ty_spinlock_t, Fld ''gc_flags'' (Int_ty 8),
     Bits '''' (Int_ty 8) 64, Bits '''' (Int_ty 8) 64, Bits '''' (Int_ty 8) 64, Bits '''' (Int_ty 8) 64,
     Bits '''' (Int_ty 8) 64, Bits '''' (Int_ty 8) 64, Fld ''peer_wq'' struct_socket_wq,
     Fld ''peer_wake'' ty_wait_queue_entry_t, Fld ''scm_stat'' struct_scm_stat, Fld ''oob_skb'' Pointer,
     Bits '''' (Int_ty 8) 64]"

lemmas sockets_defs =
  ty___addrpair_def ty___portpair_def struct_hlist_node_def ty_possible_net_t_def struct_in6_addr_def
  struct_hlist_nulls_node_def ty_u32_def struct_refcount_struct_def ty_refcount_t_def struct_sock_common_def
  struct_spinlock_def ty_spinlock_t_def struct_wait_queue_head_def ty_wait_queue_head_t_def ty_socket_lock_t_def
  struct_sk_buff_list_def struct_sk_buff_head_def struct_rb_root_def struct_timer_list_def struct_page_frag_def
  ty_u64_def ty_netdev_features_t_def ty_gfp_t_def struct_qrwlock_def ty_arch_rwlock_t_def ty_rwlock_t_def
  ty___kernel_uid32_t_def ty_uid_t_def ty_kuid_t_def ty_ktime_t_def ty_bool_def struct_sock_cgroup_data_def
  struct_callback_head_def ty_netns_tracker_def struct_sock_def ty___s16_def struct_inet_cork_def ty___be64_def
  struct_flowi_tunnel_def struct_flowi_common_def union_flowi_uli_def struct_flowi4_def struct_flowi6_def
  struct_flowi_def struct_inet_cork_full_def struct_inet_sock_def struct_fastopen_queue_def
  struct_request_sock_queue_def struct_inet_connection_sock_def struct_tcp_rack_def struct_minmax_sample_def
  struct_minmax_def struct_tcp_options_received_def struct_rb_node_def struct_timerqueue_node_def struct_hrtimer_def
  struct_tcp_sack_block_def tcp_sock_members_1_def tcp_sock_members_2_def struct_tcp_sock_def struct_in6_pktinfo_def
  struct_inet6_cork_def struct_ipv6_pinfo_def struct_tcp6_sock_def struct_inet_timewait_sock_def
  struct_tcp_timewait_sock_def struct_request_sock_def struct_inet_request_sock_def struct_tcp_request_sock_def
  struct_udp_sock_def struct_udp6_sock_def struct_path_def struct_socket_wq_def ty_wait_queue_func_t_def
  struct_wait_queue_entry_def ty_wait_queue_entry_t_def struct_scm_stat_def struct_unix_sock_def

end
