(* ===== verification/Kernel_Objects.thy ===== *)
theory Kernel_Objects
  imports Kernel_Sockets
begin

text \<open>
  Declarations of \<open>vmlinux.h\<close>. Tasks, files and inodes of the kernel, and hash maps with their elements.
\<close>

definition struct_thread_info :: kty where
  "struct_thread_info =
     Struct_ty [Fld ''flags'' (Int_ty 8), Fld ''syscall_work'' (Int_ty 8), Fld ''status'' ty_u32, Fld ''cpu'' ty_u32]"

definition struct_llist_node :: kty where
  "struct_llist_node = Struct_ty [Fld ''next'' Pointer]"

definition struct___call_single_node :: kty where
  "struct___call_single_node =
     Struct_ty [Fld ''llist'' struct_llist_node, Fld '''' (Union_ty [Fld ''u_flags'' (Int_ty 4),
     Fld ''a_flags'' ty_atomic_t]), Fld ''src'' ty_u16, Fld ''dst'' ty_u16]"

definition struct_load_weight :: kty where
  "struct_load_weight = Struct_ty [Fld ''weight'' (Int_ty 8), Fld ''inv_weight'' ty_u32]"

definition struct_util_est :: kty where
  "struct_util_est = Struct_ty [Fld ''enqueued'' (Int_ty 4), Fld ''ewma'' (Int_ty 4)]"

definition struct_sched_avg :: kty where
  "struct_sched_avg =
     Struct_ty [Fld ''last_update_time'' ty_u64, Fld ''load_sum'' ty_u64, Fld ''runnable_sum'' ty_u64,
     Fld ''util_sum'' ty_u32, Fld ''period_contrib'' ty_u32, Fld ''load_avg'' (Int_ty 8),
     Fld ''runnable_avg'' (Int_ty 8), Fld ''util_avg'' (Int_ty 8), Fld ''util_est'' struct_util_est]"

definition struct_sched_entity :: kty where
  "struct_sched_entity =
     Struct_ty [Fld ''load'' struct_load_weight, Fld ''run_node'' struct_rb_node, Fld ''group_node'' struct_list_head,
     Fld ''on_rq'' (Int_ty 4), Fld ''exec_start'' ty_u64, Fld ''sum_exec_runtime'' ty_u64, Fld ''vruntime'' ty_u64,
     Fld ''prev_sum_exec_runtime'' ty_u64, Fld ''nr_migrations'' ty_u64, Fld ''depth'' (Int_ty 4),
     Fld ''parent'' Pointer, Fld ''cfs_rq'' Pointer, Fld ''my_q'' Pointer, Fld ''runnable_weight'' (Int_ty 8),
     Bits '''' (Int_ty 8) 64, Bits '''' (Int_ty 8) 64, Bits '''' (Int_ty 8) 64, Bits '''' (Int_ty 8) 64,
     Bits '''' (Int_ty 8) 64, Bits '''' (Int_ty 8) 64, Fld ''avg'' struct_sched_avg]"

definition struct_sched_rt_entity :: kty where
  "struct_sched_rt_entity =
     Struct_ty [Fld ''run_list'' struct_list_head, Fld ''timeout'' (Int_ty 8), Fld ''watchdog_stamp'' (Int_ty 8),
     Fld ''time_slice'' (Int_ty 4), Fld ''on_rq'' (Int_ty 2), Fld ''on_list'' (Int_ty 2), Fld ''back'' Pointer]"

definition struct_sched_dl_entity :: kty where
  "struct_sched_dl_entity =
     Struct_ty [Fld ''rb_node'' struct_rb_node, Fld ''dl_runtime'' ty_u64, Fld ''dl_deadline'' ty_u64,
     Fld ''dl_period'' ty_u64, Fld ''dl_bw'' ty_u64, Fld ''dl_density'' ty_u64, Fld ''runtime'' ty_s64,
     Fld ''deadline'' ty_u64, Fld ''flags'' (Int_ty 4), Bits ''dl_throttled'' (Int_ty 4) 1,
     Bits ''dl_yielded'' (Int_ty 4) 1, Bits ''dl_non_contending'' (Int_ty 4) 1, Bits ''dl_overrun'' (Int_ty 4) 1,
     Fld ''dl_timer'' struct_hrtimer, Fld ''inactive_timer'' struct_hrtimer, Fld ''pi_se'' Pointer]"

definition struct_uclamp_se :: kty where
  "struct_uclamp_se =
     Struct_ty [Bits ''value'' (Int_ty 4) 11, Bits ''bucket_id'' (Int_ty 4) 3, Bits ''active'' (Int_ty 4) 1,
     Bits ''user_defined'' (Int_ty 4) 1]"

definition struct_sched_statistics :: kty where
  "struct_sched_statistics =
     Struct_ty [Fld ''wait_start'' ty_u64, Fld ''wait_max'' ty_u64, Fld ''wait_count'' ty_u64,
     Fld ''wait_sum'' ty_u64, Fld ''iowait_count'' ty_u64, Fld ''iowait_sum'' ty_u64, Fld ''sleep_start'' ty_u64,
     Fld ''sleep_max'' ty_u64, Fld ''sum_sleep_runtime'' ty_s64, Fld ''block_start'' ty_u64, Fld ''block_max'' ty_u64,
     Fld ''sum_block_runtime'' ty_s64, Fld ''exec_max'' ty_u64, Fld ''slice_max'' ty_u64,
     Fld ''nr_migrations_cold'' ty_u64, Fld ''nr_failed_migrations_affine'' ty_u64,
     Fld ''nr_failed_migrations_running'' ty_u64, Fld ''nr_failed_migrations_hot'' ty_u64,
     Fld ''nr_forced_migrations'' ty_u64, Fld ''nr_wakeups'' ty_u64, Fld ''nr_wakeups_sync'' ty_u64,
     Fld ''nr_wakeups_migrate'' ty_u64, Fld ''nr_wakeups_local'' ty_u64, Fld ''nr_wakeups_remote'' ty_u64,
     Fld ''nr_wakeups_affine'' ty_u64, Fld ''nr_wakeups_affine_attempts'' ty_u64, Fld ''nr_wakeups_passive'' ty_u64,
     Fld ''nr_wakeups_idle'' ty_u64, Fld ''core_forceidle_sum'' ty_u64, Bits '''' (Int_ty 8) 64,
     Bits '''' (Int_ty 8) 64, Bits '''' (Int_ty 8) 64]"

definition struct_hlist_head :: kty where
  "struct_hlist_head = Struct_ty [Fld ''first'' Pointer]"

definition struct_cpumask :: kty where
  "struct_cpumask = Struct_ty [Fld ''bits'' (Array_ty (Int_ty 8) 128)]"

definition ty_cpumask_t :: kty where
  "ty_cpumask_t = struct_cpumask"

definition union_rcu_special :: kty where
  "union_rcu_special =
     Union_ty [Fld ''b'' (Struct_ty [Fld ''blocked'' ty_u8, Fld ''need_qs'' ty_u8, Fld ''exp_hint'' ty_u8,
     Fld ''need_mb'' ty_u8]), Fld ''s'' ty_u32]"

definition struct_sched_info :: kty where
  "struct_sched_info =
     Struct_ty [Fld ''pcount'' (Int_ty 8), Fld ''run_delay'' (Int_ty 8), Fld ''last_arrival'' (Int_ty 8),
     Fld ''last_queued'' (Int_ty 8)]"

definition struct_plist_node :: kty where
  "struct_plist_node =
     Struct_ty [Fld ''prio'' (Int_ty 4), Fld ''prio_list'' struct_list_head, Fld ''node_list'' struct_list_head]"

definition ty___kernel_clockid_t :: kty where
  "ty___kernel_clockid_t = Int_ty 4"

definition ty_clockid_t :: kty where
  "ty_clockid_t = ty___kernel_clockid_t"

definition enum_timespec_type :: kty where
  "enum_timespec_type = Enum_ty [(''TT_NONE'', 0), (''TT_NATIVE'', 1), (''TT_COMPAT'', 2)]"

definition struct_restart_block :: kty where
  "struct_restart_block =
     Struct_ty [Fld ''arch_data'' (Int_ty 8), Fld ''fn'' Pointer,
     Fld '''' (Union_ty [Fld ''futex'' (Struct_ty [Fld ''uaddr'' Pointer, Fld ''val'' ty_u32, Fld ''flags'' ty_u32,
     Fld ''bitset'' ty_u32, Fld ''time'' ty_u64, Fld ''uaddr2'' Pointer]),
     Fld ''nanosleep'' (Struct_ty [Fld ''clockid'' ty_clockid_t, Fld ''type'' enum_timespec_type,
     Fld '''' (Union_ty [Fld ''rmtp'' Pointer, Fld ''compat_rmtp'' Pointer]), Fld ''expires'' ty_u64]),
     Fld ''poll'' (Struct_ty [Fld ''ufds'' Pointer, Fld ''nfds'' (Int_ty 4), Fld ''has_timeout'' (Int_ty 4),
     Fld ''tv_sec'' (Int_ty 8), Fld ''tv_nsec'' (Int_ty 8)])])]"

definition ty___kernel_pid_t :: kty where
  "ty___kernel_pid_t = Int_ty 4"

definition ty_pid_t :: kty where
  "ty_pid_t = ty___kernel_pid_t"

definition struct_prev_cputime :: kty where
  "struct_prev_cputime = Struct_ty [Fld ''utime'' ty_u64, Fld ''stime'' ty_u64, Fld ''lock'' ty_raw_spinlock_t]"

definition struct_rb_root_cached :: kty where
  "struct_rb_root_cached = Struct_ty [Fld ''rb_root'' struct_rb_root, Fld ''rb_leftmost'' Pointer]"

definition struct_timerqueue_head :: kty where
  "struct_timerqueue_head = Struct_ty [Fld ''rb_root'' struct_rb_root_cached]"

definition struct_posix_cputimer_base :: kty where
  "struct_posix_cputimer_base = Struct_ty [Fld ''nextevt'' ty_u64, Fld ''tqhead'' struct_timerqueue_head]"

definition struct_posix_cputimers :: kty where
  "struct_posix_cputimers =
     Struct_ty [Fld ''bases'' (Array_ty struct_posix_cputimer_base 3), Fld ''timers_active'' (Int_ty 4),
     Fld ''expiry_active'' (Int_ty 4)]"

definition struct_posix_cputimers_work :: kty where
  "struct_posix_cputimers_work =
     Struct_ty [Fld ''work'' struct_callback_head, Fld ''mutex'' struct_mutex, Fld ''scheduled'' (Int_ty 4)]"

definition struct_sysv_sem :: kty where
  "struct_sysv_sem = Struct_ty [Fld ''undo_list'' Pointer]"

definition struct_sysv_shm :: kty where
  "struct_sysv_shm = Struct_ty [Fld ''shm_clist'' struct_list_head]"

definition ty_sigset_t :: kty where
  "ty_sigset_t = Struct_ty [Fld ''sig'' (Array_ty (Int_ty 8) 1)]"

definition struct_sigpending :: kty where
  "struct_sigpending = Struct_ty [Fld ''list'' struct_list_head, Fld ''signal'' ty_sigset_t]"

definition struct_seccomp :: kty where
  "struct_seccomp =
     Struct_ty [Fld ''mode'' (Int_ty 4), Fld ''filter_count'' ty_atomic_t, Fld ''filter'' Pointer]"

definition struct_syscall_user_dispatch :: kty where
  "struct_syscall_user_dispatch =
     Struct_ty [Fld ''selector'' Pointer, Fld ''offset'' (Int_ty 8), Fld ''len'' (Int_ty 8),
     Fld ''on_dispatch'' ty_bool]"

definition struct_wake_q_node :: kty where
  "struct_wake_q_node = Struct_ty [Fld ''next'' Pointer]"

definition struct_task_io_accounting :: kty where
  "struct_task_io_accounting =
     Struct_ty [Fld ''rchar'' ty_u64, Fld ''wchar'' ty_u64, Fld ''syscr'' ty_u64, Fld ''syscw'' ty_u64,
     Fld ''read_bytes'' ty_u64, Fld ''write_bytes'' ty_u64, Fld ''cancelled_write_bytes'' ty_u64]"

definition ty_nodemask_t :: kty where
  "ty_nodemask_t = Struct_ty [Fld ''bits'' (Array_ty (Int_ty 8) 16)]"

definition struct_seqcount :: kty where
  "struct_seqcount = Struct_ty [Fld ''sequence'' (Int_ty 4)]"

definition ty_seqcount_t :: kty where
  "ty_seqcount_t = struct_seqcount"

definition struct_seqcount_spinlock :: kty where
  "struct_seqcount_spinlock = Struct_ty [Fld ''seqcount'' ty_seqcount_t]"

definition ty_seqcount_spinlock_t :: kty where
  "ty_seqcount_spinlock_t = struct_seqcount_spinlock"

definition struct_arch_tlbflush_unmap_batch :: kty where
  "struct_arch_tlbflush_unmap_batch = Struct_ty [Fld ''cpumask'' struct_cpumask]"

definition struct_tlbflush_unmap_batch :: kty where
  "struct_tlbflush_unmap_batch =
     Struct_ty [Fld ''arch'' struct_arch_tlbflush_unmap_batch, Fld ''flush_required'' ty_bool,
     Fld ''writable'' ty_bool]"

definition struct_kmap_ctrl :: kty where
  "struct_kmap_ctrl = Struct_ty []"

definition struct_llist_head :: kty where
  "struct_llist_head = Struct_ty [Fld ''first'' Pointer]"

definition struct_da_monitor :: kty where
  "struct_da_monitor = Struct_ty [Fld ''monitoring'' ty_bool, Fld ''curr_state'' (Int_ty 4)]"

definition union_rv_task_monitor :: kty where
  "union_rv_task_monitor = Union_ty [Fld ''da_mon'' struct_da_monitor]"

definition struct_desc_struct :: kty where
  "struct_desc_struct =
     Struct_ty [Fld ''limit0'' ty_u16, Fld ''base0'' ty_u16, Bits ''base1'' ty_u16 8, Bits ''type'' ty_u16 4,
     Bits ''s'' ty_u16 1, Bits ''dpl'' ty_u16 2, Bits ''p'' ty_u16 1, Bits ''limit1'' ty_u16 4, Bits ''avl'' ty_u16 1,
     Bits ''l'' ty_u16 1, Bits ''d'' ty_u16 1, Bits ''g'' ty_u16 1, Bits ''base2'' ty_u16 8]"

definition struct_fpu_state_perm :: kty where
  "struct_fpu_state_perm =
     Struct_ty [Fld ''__state_perm'' ty_u64, Fld ''__state_size'' (Int_ty 4), Fld ''__user_state_size'' (Int_ty 4)]"

definition struct_fregs_state :: kty where
  "struct_fregs_state =
     Struct_ty [Fld ''cwd'' ty_u32, Fld ''swd'' ty_u32, Fld ''twd'' ty_u32, Fld ''fip'' ty_u32, Fld ''fcs'' ty_u32,
     Fld ''foo'' ty_u32, Fld ''fos'' ty_u32, Fld ''st_space'' (Array_ty ty_u32 20), Fld ''status'' ty_u32]"

definition struct_fxregs_state :: kty where
  "struct_fxregs_state =
     Struct_ty [Fld ''cwd'' ty_u16, Fld ''swd'' ty_u16, Fld ''twd'' ty_u16, Fld ''fop'' ty_u16,
     Fld '''' (Union_ty [Fld '''' (Struct_ty [Fld ''rip'' ty_u64, Fld ''rdp'' ty_u64]),
     Fld '''' (Struct_ty [Fld ''fip'' ty_u32, Fld ''fcs'' ty_u32, Fld ''foo'' ty_u32, Fld ''fos'' ty_u32])]),
     Fld ''mxcsr'' ty_u32, Fld ''mxcsr_mask'' ty_u32, Fld ''st_space'' (Array_ty ty_u32 32),
     Fld ''xmm_space'' (Array_ty ty_u32 64), Fld ''padding'' (Array_ty ty_u32 12),
     Fld '''' (Union_ty [Fld ''padding1'' (Array_ty ty_u32 12), Fld ''sw_reserved'' (Array_ty ty_u32 12)])]"

definition struct_swregs_state :: kty where
  "struct_swregs_state =
     Struct_ty [Fld ''cwd'' ty_u32, Fld ''swd'' ty_u32, Fld ''twd'' ty_u32, Fld ''fip'' ty_u32, Fld ''fcs'' ty_u32,
     Fld ''foo'' ty_u32, Fld ''fos'' ty_u32, Fld ''st_space'' (Array_ty ty_u32 20), Fld ''ftop'' ty_u8,
     Fld ''changed'' ty_u8, Fld ''lookahead'' ty_u8, Fld ''no_update'' ty_u8, Fld ''rm'' ty_u8, Fld ''alimit'' ty_u8,
     Fld ''info'' Pointer, Fld ''entry_eip'' ty_u32]"

definition struct_xstate_header :: kty where
  "struct_xstate_header =
     Struct_ty [Fld ''xfeatures'' ty_u64, Fld ''xcomp_bv'' ty_u64, Fld ''reserved'' (Array_ty ty_u64 6)]"

definition struct_xregs_state :: kty where
  "struct_xregs_state =
     Struct_ty [Fld ''i387'' struct_fxregs_state, Fld ''header'' struct_xstate_header,
     Fld ''extended_state_area'' (Array_ty ty_u8 0)]"

definition union_fpregs_state :: kty where
  "union_fpregs_state =
     Union_ty [Fld ''fsave'' struct_fregs_state, Fld ''fxsave'' struct_fxregs_state, Fld ''soft'' struct_swregs_state,
     Fld ''xsave'' struct_xregs_state, Fld ''__padding'' (Array_ty ty_u8 4096)]"

definition struct_fpstate :: kty where
  "struct_fpstate =
     Struct_ty [Fld ''size'' (Int_ty 4), Fld ''user_size'' (Int_ty 4), Fld ''xfeatures'' ty_u64,
     Fld ''user_xfeatures'' ty_u64, Fld ''xfd'' ty_u64, Bits ''is_valloc'' (Int_ty 4) 1,
     Bits ''is_guest'' (Int_ty 4) 1, Bits ''is_confidential'' (Int_ty 4) 1, Bits ''in_use'' (Int_ty 4) 1,
     Bits '''' (Int_ty 8) 64, Bits '''' (Int_ty 8) 64, Bits '''' (Int_ty 8) 64, Fld ''regs'' union_fpregs_state]"

definition struct_fpu :: kty where
  "struct_fpu =
     Struct_ty [Fld ''last_cpu'' (Int_ty 4), Fld ''avx512_timestamp'' (Int_ty 8), Fld ''fpstate'' Pointer,
     Fld ''__task_fpstate'' Pointer, Fld ''perm'' struct_fpu_state_perm, Fld ''guest_perm'' struct_fpu_state_perm,
     Fld ''__fpstate'' struct_fpstate]"

definition struct_thread_struct :: kty where
  "struct_thread_struct =
     Struct_ty [Fld ''tls_array'' (Array_ty struct_desc_struct 3), Fld ''sp'' (Int_ty 8), Fld ''es'' (Int_ty 2),
     Fld ''ds'' (Int_ty 2), Fld ''fsindex'' (Int_ty 2), Fld ''gsindex'' (Int_ty 2), Fld ''fsbase'' (Int_ty 8),
     Fld ''gsbase'' (Int_ty 8), Fld ''ptrace_bps'' (Array_ty Pointer 4), Fld ''virtual_dr6'' (Int_ty 8),
     Fld ''ptrace_dr7'' (Int_ty 8), Fld ''cr2'' (Int_ty 8), Fld ''trap_nr'' (Int_ty 8), Fld ''error_code'' (Int_ty 8),
     Fld ''io_bitmap'' Pointer, Fld ''iopl_emul'' (Int_ty 8), Bits ''iopl_warn'' (Int_ty 4) 1,
     Bits ''sig_on_uaccess_err'' (Int_ty 4) 1, Fld ''pkru'' ty_u32, Bits '''' (Int_ty 8) 64, Bits '''' (Int_ty 8) 64,
     Bits '''' (Int_ty 8) 64, Bits '''' (Int_ty 8) 64, Bits '''' (Int_ty 8) 64, Fld ''fpu'' struct_fpu]"

definition task_struct_members_1 :: "kmember list" where
  "task_struct_members_1 = [
     Fld ''thread_info'' struct_thread_info, Fld ''__state'' (Int_ty 4), Fld ''stack'' Pointer,
     Fld ''usage'' ty_refcount_t, Fld ''flags'' (Int_ty 4), Fld ''ptrace'' (Int_ty 4), Fld ''on_cpu'' (Int_ty 4),
     Fld ''wake_entry'' struct___call_single_node, Fld ''wakee_flips'' (Int_ty 4),
     Fld ''wakee_flip_decay_ts'' (Int_ty 8), Fld ''last_wakee'' Pointer, Fld ''recent_used_cpu'' (Int_ty 4),
     Fld ''wake_cpu'' (Int_ty 4), Fld ''on_rq'' (Int_ty 4), Fld ''prio'' (Int_ty 4), Fld ''static_prio'' (Int_ty 4),
     Fld ''normal_prio'' (Int_ty 4), Fld ''rt_priority'' (Int_ty 4), Fld ''se'' struct_sched_entity,
     Fld ''rt'' struct_sched_rt_entity, Fld ''dl'' struct_sched_dl_entity, Fld ''sched_class'' Pointer,
     Fld ''core_node'' struct_rb_node, Fld ''core_cookie'' (Int_ty 8), Fld ''core_occupation'' (Int_ty 4),
     Fld ''sched_task_group'' Pointer, Fld ''uclamp_req'' (Array_ty struct_uclamp_se 2),
     Fld ''uclamp'' (Array_ty struct_uclamp_se 2), Bits '''' (Int_ty 8) 64, Bits '''' (Int_ty 8) 64,
     Bits '''' (Int_ty 8) 64, Bits '''' (Int_ty 8) 64, Bits '''' (Int_ty 8) 64, Fld ''stats'' struct_sched_statistics,
     Fld ''preempt_notifiers'' struct_hlist_head, Fld ''btrace_seq'' (Int_ty 4), Fld ''policy'' (Int_ty 4),
     Fld ''nr_cpus_allowed'' (Int_ty 4), Fld ''cpus_ptr'' Pointer, Fld ''user_cpus_ptr'' Pointer,
     Fld ''cpus_mask'' ty_cpumask_t, Fld ''migration_pending'' Pointer, Fld ''migration_disabled'' (Int_ty 2),
     Fld ''migration_flags'' (Int_ty 2), Fld ''rcu_read_lock_nesting'' (Int_ty 4),
     Fld ''rcu_read_unlock_special'' union_rcu_special, Fld ''rcu_node_entry'' struct_list_head,
     Fld ''rcu_blocked_node'' Pointer, Fld ''rcu_tasks_nvcsw'' (Int_ty 8), Fld ''rcu_tasks_holdout'' ty_u8,
     Fld ''rcu_tasks_idx'' ty_u8, Fld ''rcu_tasks_idle_cpu'' (Int_ty 4),
     Fld ''rcu_tasks_holdout_list'' struct_list_head, Fld ''trc_reader_nesting'' (Int_ty 4),
     Fld ''trc_ipi_to_cpu'' (Int_ty 4), Fld ''trc_reader_special'' union_rcu_special,
     Fld ''trc_holdout_list'' struct_list_head, Fld ''trc_blkd_node'' struct_list_head,
     Fld ''trc_blkd_cpu'' (Int_ty 4), Fld ''sched_info'' struct_sched_info, Fld ''tasks'' struct_list_head,
     Fld ''pushable_tasks'' struct_plist_node, Fld ''pushable_dl_tasks'' struct_rb_node, Fld ''mm'' Pointer,
     Fld ''active_mm'' Pointer, Fld ''exit_state'' (Int_ty 4), Fld ''exit_code'' (Int_ty 4),
     Fld ''exit_signal'' (Int_ty 4), Fld ''pdeath_signal'' (Int_ty 4), Fld ''jobctl'' (Int_ty 8),
     Fld ''personality'' (Int_ty 4), Bits ''sched_reset_on_fork'' (Int_ty 4) 1,
     Bits ''sched_contributes_to_load'' (Int_ty 4) 1, Bits ''sched_migrated'' (Int_ty 4) 1, Bits '''' (Int_ty 8) 29,
     Bits ''sched_remote_wakeup'' (Int_ty 4) 1, Bits ''in_execve'' (Int_ty 4) 1, Bits ''in_iowait'' (Int_ty 4) 1,
     Bits ''restore_sigmask'' (Int_ty 4) 1, Bits ''in_user_fault'' (Int_ty 4) 1, Bits ''in_lru_fault'' (Int_ty 4) 1,
     Bits ''no_cgroup_migration'' (Int_ty 4) 1, Bits ''frozen'' (Int_ty 4) 1, Bits ''use_memdelay'' (Int_ty 4) 1,
     Bits ''in_memstall'' (Int_ty 4) 1, Bits ''in_eventfd'' (Int_ty 4) 1, Bits ''pasid_activated'' (Int_ty 4) 1,
     Bits ''reported_split_lock'' (Int_ty 4) 1, Bits ''in_thrashing'' (Int_ty 4) 1, Fld ''atomic_flags'' (Int_ty 8),
     Fld ''restart_block'' struct_restart_block, Fld ''pid'' ty_pid_t, Fld ''tgid'' ty_pid_t,
     Fld ''stack_canary'' (Int_ty 8), Fld ''real_parent'' Pointer, Fld ''parent'' Pointer,
     Fld ''children'' struct_list_head, Fld ''sibling'' struct_list_head, Fld ''group_leader'' Pointer,
     Fld ''ptraced'' struct_list_head, Fld ''ptrace_entry'' struct_list_head, Fld ''thread_pid'' Pointer,
     Fld ''pid_links'' (Array_ty struct_hlist_node 4), Fld ''thread_group'' struct_list_head,
     Fld ''thread_node'' struct_list_head, Fld ''vfork_done'' Pointer, Fld ''set_child_tid'' Pointer,
     Fld ''clear_child_tid'' Pointer, Fld ''worker_private'' Pointer, Fld ''utime'' ty_u64, Fld ''stime'' ty_u64,
     Fld ''gtime'' ty_u64, Fld ''prev_cputime'' struct_prev_cputime, Fld ''nvcsw'' (Int_ty 8),
     Fld ''nivcsw'' (Int_ty 8), Fld ''start_time'' ty_u64, Fld ''start_boottime'' ty_u64, Fld ''min_flt'' (Int_ty 8),
     Fld ''maj_flt'' (Int_ty 8), Fld ''posix_cputimers'' struct_posix_cputimers,
     Fld ''posix_cputimers_work'' struct_posix_cputimers_work, Fld ''ptracer_cred'' Pointer,
     Fld ''real_cred'' Pointer, Fld ''cred'' Pointer, Fld ''cached_requested_key'' Pointer,
     Fld ''comm'' (Array_ty (Int_ty 1) 16), Fld ''nameidata'' Pointer, Fld ''sysvsem'' struct_sysv_sem,
     Fld ''sysvshm'' struct_sysv_shm, Fld ''last_switch_count'' (Int_ty 8), Fld ''last_switch_time'' (Int_ty 8),
     Fld ''fs'' Pointer, Fld ''files'' Pointer, Fld ''io_uring'' Pointer]"

definition task_struct_members_2 :: "kmember list" where
  "task_struct_members_2 = [
     Fld ''nsproxy'' Pointer, Fld ''signal'' Pointer, Fld ''sighand'' Pointer, Fld ''blocked'' ty_sigset_t,
     Fld ''real_blocked'' ty_sigset_t, Fld ''saved_sigmask'' ty_sigset_t, Fld ''pending'' struct_sigpending,
     Fld ''sas_ss_sp'' (Int_ty 8), Fld ''sas_ss_size'' ty_size_t, Fld ''sas_ss_flags'' (Int_ty 4),
     Fld ''task_works'' Pointer, Fld ''audit_context'' Pointer, Fld ''loginuid'' ty_kuid_t,
     Fld ''sessionid'' (Int_ty 4), Fld ''seccomp'' struct_seccomp,
     Fld ''syscall_dispatch'' struct_syscall_user_dispatch, Fld ''parent_exec_id'' ty_u64,
     Fld ''self_exec_id'' ty_u64, Fld ''alloc_lock'' ty_spinlock_t, Fld ''pi_lock'' ty_raw_spinlock_t,
     Fld ''wake_q'' struct_wake_q_node, Fld ''pi_waiters'' struct_rb_root_cached, Fld ''pi_top_task'' Pointer,
     Fld ''pi_blocked_on'' Pointer, Fld ''in_ubsan'' (Int_ty 4), Fld ''journal_info'' Pointer,
     Fld ''bio_list'' Pointer, Fld ''plug'' Pointer, Fld ''reclaim_state'' Pointer, Fld ''io_context'' Pointer,
     Fld ''capture_control'' Pointer, Fld ''ptrace_message'' (Int_ty 8), Fld ''last_siginfo'' Pointer,
     Fld ''ioac'' struct_task_io_accounting, Fld ''psi_flags'' (Int_ty 4), Fld ''acct_rss_mem1'' ty_u64,
     Fld ''acct_vm_mem1'' ty_u64, Fld ''acct_timexpd'' ty_u64, Fld ''mems_allowed'' ty_nodemask_t,
     Fld ''mems_allowed_seq'' ty_seqcount_spinlock_t, Fld ''cpuset_mem_spread_rotor'' (Int_ty 4),
     Fld ''cpuset_slab_spread_rotor'' (Int_ty 4), Fld ''cgroups'' Pointer, Fld ''cg_list'' struct_list_head,
     Fld ''closid'' ty_u32, Fld ''rmid'' ty_u32, Fld ''robust_list'' Pointer, Fld ''compat_robust_list'' Pointer,
     Fld ''pi_state_list'' struct_list_head, Fld ''pi_state_cache'' Pointer, Fld ''futex_exit_mutex'' struct_mutex,
     Fld ''futex_state'' (Int_ty 4), Fld ''perf_event_ctxp'' Pointer, Fld ''perf_event_mutex'' struct_mutex,
     Fld ''perf_event_list'' struct_list_head, Fld ''mempolicy'' Pointer, Fld ''il_prev'' (Int_ty 2),
     Fld ''pref_node_fork'' (Int_ty 2), Fld ''numa_scan_seq'' (Int_ty 4), Fld ''numa_scan_period'' (Int_ty 4),
     Fld ''numa_scan_period_max'' (Int_ty 4), Fld ''numa_preferred_nid'' (Int_ty 4),
     Fld ''numa_migrate_retry'' (Int_ty 8), Fld ''node_stamp'' ty_u64, Fld ''last_task_numa_placement'' ty_u64,
     Fld ''last_sum_exec_runtime'' ty_u64, Fld ''numa_work'' struct_callback_head, Fld ''numa_group'' Pointer,
     Fld ''numa_faults'' Pointer, Fld ''total_numa_faults'' (Int_ty 8),
     Fld ''numa_faults_locality'' (Array_ty (Int_ty 8) 3), Fld ''numa_pages_migrated'' (Int_ty 8),
     Fld ''rseq'' Pointer, Fld ''rseq_len'' ty_u32, Fld ''rseq_sig'' ty_u32, Fld ''rseq_event_mask'' (Int_ty 8),
     Fld ''mm_cid'' (Int_ty 4), Fld ''last_mm_cid'' (Int_ty 4), Fld ''migrate_from_cpu'' (Int_ty 4),
     Fld ''mm_cid_active'' (Int_ty 4), Fld ''cid_work'' struct_callback_head,
     Fld ''tlb_ubc'' struct_tlbflush_unmap_batch, Fld ''splice_pipe'' Pointer, Fld ''task_frag'' struct_page_frag,
     Fld ''delays'' Pointer, Fld ''nr_dirtied'' (Int_ty 4), Fld ''nr_dirtied_pause'' (Int_ty 4),
     Fld ''dirty_paused_when'' (Int_ty 8), Fld ''timer_slack_ns'' ty_u64, Fld ''default_timer_slack_ns'' ty_u64,
     Fld ''curr_ret_stack'' (Int_ty 4), Fld ''curr_ret_depth'' (Int_ty 4), Fld ''ret_stack'' Pointer,
     Fld ''ftrace_timestamp'' (Int_ty 8), Fld ''trace_overrun'' ty_atomic_t, Fld ''tracing_graph_pause'' ty_atomic_t,
     Fld ''trace_recursion'' (Int_ty 8), Fld ''memcg_in_oom'' Pointer, Fld ''memcg_oom_gfp_mask'' ty_gfp_t,
     Fld ''memcg_oom_order'' (Int_ty 4), Fld ''memcg_nr_pages_over_high'' (Int_ty 4), Fld ''active_memcg'' Pointer,
     Fld ''throttle_disk'' Pointer, Fld ''utask'' Pointer, Fld ''sequential_io'' (Int_ty 4),
     Fld ''sequential_io_avg'' (Int_ty 4), Fld ''kmap_ctrl'' struct_kmap_ctrl, Fld ''rcu'' struct_callback_head,
     Fld ''rcu_users'' ty_refcount_t, Fld ''pagefault_disabled'' (Int_ty 4), Fld ''oom_reaper_list'' Pointer,
     Fld ''oom_reaper_timer'' struct_timer_list, Fld ''stack_vm_area'' Pointer, Fld ''stack_refcount'' ty_refcount_t,
     Fld ''patch_state'' (Int_ty 4), Fld ''security'' Pointer, Fld ''bpf_storage'' Pointer, Fld ''bpf_ctx'' Pointer,
     Fld ''mce_vaddr'' Pointer, Fld ''mce_kflags'' ty___u64, Fld ''mce_addr'' ty_u64, Bits ''mce_ripv'' ty___u64 1,
     Bits ''mce_whole_page'' ty___u64 1, Bits ''__mce_reserved'' ty___u64 62,
     Fld ''mce_kill_me'' struct_callback_head, Fld ''mce_count'' (Int_ty 4),
     Fld ''kretprobe_instances'' struct_llist_head, Fld ''rethooks'' struct_llist_head,
     Fld ''l1d_flush_kill'' struct_callback_head, Fld ''rv'' (Array_ty union_rv_task_monitor 1),
     Fld ''user_event_mm'' Pointer, Bits '''' (Int_ty 8) 64, Bits '''' (Int_ty 8) 64, Bits '''' (Int_ty 8) 64,
     Fld ''thread'' struct_thread_struct]"

definition struct_task_struct :: kty where
  "struct_task_struct = Struct_ty (task_struct_members_1 @ task_struct_members_2)"

definition struct___sk_buff :: kty where
  "struct___sk_buff =
     Struct_ty [Fld ''len'' ty___u32, Fld ''pkt_type'' ty___u32, Fld ''mark'' ty___u32,
     Fld ''queue_mapping'' ty___u32, Fld ''protocol'' ty___u32, Fld ''vlan_present'' ty___u32,
     Fld ''vlan_tci'' ty___u32, Fld ''vlan_proto'' ty___u32, Fld ''priority'' ty___u32,
     Fld ''ingress_ifindex'' ty___u32, Fld ''ifindex'' ty___u32, Fld ''tc_index'' ty___u32,
     Fld ''cb'' (Array_ty ty___u32 5), Fld ''hash'' ty___u32, Fld ''tc_classid'' ty___u32, Fld ''data'' ty___u32,
     Fld ''data_end'' ty___u32, Fld ''napi_id'' ty___u32, Fld ''family'' ty___u32, Fld ''remote_ip4'' ty___u32,
     Fld ''local_ip4'' ty___u32, Fld ''remote_ip6'' (Array_ty ty___u32 4), Fld ''local_ip6'' (Array_ty ty___u32 4),
     Fld ''remote_port'' ty___u32, Fld ''local_port'' ty___u32, Fld ''data_meta'' ty___u32,
     Fld '''' (Union_ty [Fld ''flow_keys'' Pointer]), Fld ''tstamp'' ty___u64, Fld ''wire_len'' ty___u32,
     Fld ''gso_segs'' ty___u32, Fld '''' (Union_ty [Fld ''sk'' Pointer]), Fld ''gso_size'' ty___u32,
     Fld ''tstamp_type'' ty___u8, Fld ''hwtstamp'' ty___u64]"

definition struct_sk_msg_md :: kty where
  "struct_sk_msg_md =
     Struct_ty [Fld '''' (Union_ty [Fld ''data'' Pointer]), Fld '''' (Union_ty [Fld ''data_end'' Pointer]),
     Fld ''family'' ty___u32, Fld ''remote_ip4'' ty___u32, Fld ''local_ip4'' ty___u32,
     Fld ''remote_ip6'' (Array_ty ty___u32 4), Fld ''local_ip6'' (Array_ty ty___u32 4), Fld ''remote_port'' ty___u32,
     Fld ''local_port'' ty___u32, Fld ''size'' ty___u32, Fld '''' (Union_ty [Fld ''sk'' Pointer])]"

definition struct_xdp_md :: kty where
  "struct_xdp_md =
     Struct_ty [Fld ''data'' ty___u32, Fld ''data_end'' ty___u32, Fld ''data_meta'' ty___u32,
     Fld ''ingress_ifindex'' ty___u32, Fld ''rx_queue_index'' ty___u32, Fld ''egress_ifindex'' ty___u32]"

definition struct_btf_ptr :: kty where
  "struct_btf_ptr = Struct_ty [Fld ''ptr'' Pointer, Fld ''type_id'' ty___u32, Fld ''flags'' ty___u32]"

definition ty_umode_t :: kty where
  "ty_umode_t = Int_ty 2"

definition ty___kernel_gid32_t :: kty where
  "ty___kernel_gid32_t = Int_ty 4"

definition ty_gid_t :: kty where
  "ty_gid_t = ty___kernel_gid32_t"

definition ty_kgid_t :: kty where
  "ty_kgid_t = Struct_ty [Fld ''val'' ty_gid_t]"

definition ty___kernel_dev_t :: kty where
  "ty___kernel_dev_t = ty_u32"

definition ty_dev_t :: kty where
  "ty_dev_t = ty___kernel_dev_t"

definition ty_time64_t :: kty where
  "ty_time64_t = ty___s64"

definition struct_timespec64 :: kty where
  "struct_timespec64 = Struct_ty [Fld ''tv_sec'' ty_time64_t, Fld ''tv_nsec'' (Int_ty 8)]"

definition ty_blkcnt_t :: kty where
  "ty_blkcnt_t = ty_u64"

definition struct_rw_semaphore :: kty where
  "struct_rw_semaphore =
     Struct_ty [Fld ''count'' ty_atomic_long_t, Fld ''owner'' ty_atomic_long_t,
     Fld ''osq'' struct_optimistic_spin_queue, Fld ''wait_lock'' ty_raw_spinlock_t,
     Fld ''wait_list'' struct_list_head]"

definition struct_xarray :: kty where
  "struct_xarray = Struct_ty [Fld ''xa_lock'' ty_spinlock_t, Fld ''xa_flags'' ty_gfp_t, Fld ''xa_head'' Pointer]"

definition ty_errseq_t :: kty where
  "ty_errseq_t = ty_u32"

definition struct_address_space :: kty where
  "struct_address_space =
     Struct_ty [Fld ''host'' Pointer, Fld ''i_pages'' struct_xarray, Fld ''invalidate_lock'' struct_rw_semaphore,
     Fld ''gfp_mask'' ty_gfp_t, Fld ''i_mmap_writable'' ty_atomic_t, Fld ''i_mmap'' struct_rb_root_cached,
     Fld ''nrpages'' (Int_ty 8), Fld ''writeback_index'' (Int_ty 8), Fld ''a_ops'' Pointer, Fld ''flags'' (Int_ty 8),
     Fld ''i_mmap_rwsem'' struct_rw_semaphore, Fld ''wb_err'' ty_errseq_t, Fld ''private_lock'' ty_spinlock_t,
     Fld ''private_list'' struct_list_head, Fld ''private_data'' Pointer]"

definition struct_inode :: kty where
  "struct_inode =
     Struct_ty [Fld ''i_mode'' ty_umode_t, Fld ''i_opflags'' (Int_ty 2), Fld ''i_uid'' ty_kuid_t,
     Fld ''i_gid'' ty_kgid_t, Fld ''i_flags'' (Int_ty 4), Fld ''i_acl'' Pointer, Fld ''i_default_acl'' Pointer,
     Fld ''i_op'' Pointer, Fld ''i_sb'' Pointer, Fld ''i_mapping'' Pointer, Fld ''i_security'' Pointer,
     Fld ''i_ino'' (Int_ty 8), Fld '''' (Union_ty [Fld ''i_nlink'' (Int_ty 4), Fld ''__i_nlink'' (Int_ty 4)]),
     Fld ''i_rdev'' ty_dev_t, Fld ''i_size'' ty_loff_t, Fld ''i_atime'' struct_timespec64,
     Fld ''i_mtime'' struct_timespec64, Fld ''i_ctime'' struct_timespec64, Fld ''i_lock'' ty_spinlock_t,
     Fld ''i_bytes'' (Int_ty 2), Fld ''i_blkbits'' ty_u8, Fld ''i_write_hint'' ty_u8, Fld ''i_blocks'' ty_blkcnt_t,
     Fld ''i_state'' (Int_ty 8), Fld ''i_rwsem'' struct_rw_semaphore, Fld ''dirtied_when'' (Int_ty 8),
     Fld ''dirtied_time_when'' (Int_ty 8), Fld ''i_hash'' struct_hlist_node, Fld ''i_io_list'' struct_list_head,
     Fld ''i_wb'' Pointer, Fld ''i_wb_frn_winner'' (Int_ty 4), Fld ''i_wb_frn_avg_time'' ty_u16,
     Fld ''i_wb_frn_history'' ty_u16, Fld ''i_lru'' struct_list_head, Fld ''i_sb_list'' struct_list_head,
     Fld ''i_wb_list'' struct_list_head, Fld '''' (Union_ty [Fld ''i_dentry'' struct_hlist_head,
     Fld ''i_rcu'' struct_callback_head]), Fld ''i_version'' ty_atomic64_t, Fld ''i_sequence'' ty_atomic64_t,
     Fld ''i_count'' ty_atomic_t, Fld ''i_dio_count'' ty_atomic_t, Fld ''i_writecount'' ty_atomic_t,
     Fld ''i_readcount'' ty_atomic_t, Fld '''' (Union_ty [Fld ''i_fop'' Pointer, Fld ''free_inode'' Pointer]),
     Fld ''i_flctx'' Pointer, Fld ''i_data'' struct_address_space, Fld ''i_devices'' struct_list_head,
     Fld '''' (Union_ty [Fld ''i_pipe'' Pointer, Fld ''i_cdev'' Pointer, Fld ''i_link'' Pointer,
     Fld ''i_dir_seq'' (Int_ty 4)]), Fld ''i_generation'' ty___u32, Fld ''i_fsnotify_mask'' ty___u32,
     Fld ''i_fsnotify_marks'' Pointer, Fld ''i_crypt_info'' Pointer, Fld ''i_verity_info'' Pointer,
     Fld ''i_private'' Pointer]"

definition ty_socket_state :: kty where
  "ty_socket_state =
     Enum_ty [(''SS_FREE'', 0), (''SS_UNCONNECTED'', 1), (''SS_CONNECTING'', 2), (''SS_CONNECTED'', 3),
     (''SS_DISCONNECTING'', 4)]"

definition struct_socket :: kty where
  "struct_socket =
     Struct_ty [Fld ''state'' ty_socket_state, Fld ''type'' (Int_ty 2), Fld ''flags'' (Int_ty 8),
     Fld ''file'' Pointer, Fld ''sk'' Pointer, Fld ''ops'' Pointer, Bits '''' (Int_ty 8) 64, Bits '''' (Int_ty 8) 64,
     Bits '''' (Int_ty 8) 64, Fld ''wq'' struct_socket_wq]"

definition ty_fmode_t :: kty where
  "ty_fmode_t = Int_ty 4"

definition enum_pid_type :: kty where
  "enum_pid_type =
     Enum_ty [(''PIDTYPE_PID'', 0), (''PIDTYPE_TGID'', 1), (''PIDTYPE_PGID'', 2), (''PIDTYPE_SID'', 3),
     (''PIDTYPE_MAX'', 4)]"

definition struct_fown_struct :: kty where
  "struct_fown_struct =
     Struct_ty [Fld ''lock'' ty_rwlock_t, Fld ''pid'' Pointer, Fld ''pid_type'' enum_pid_type, Fld ''uid'' ty_kuid_t,
     Fld ''euid'' ty_kuid_t, Fld ''signum'' (Int_ty 4)]"

definition struct_file_ra_state :: kty where
  "struct_file_ra_state =
     Struct_ty [Fld ''start'' (Int_ty 8), Fld ''size'' (Int_ty 4), Fld ''async_size'' (Int_ty 4),
     Fld ''ra_pages'' (Int_ty 4), Fld ''mmap_miss'' (Int_ty 4), Fld ''prev_pos'' ty_loff_t]"

definition struct_file :: kty where
  "struct_file =
     Struct_ty [Fld '''' (Union_ty [Fld ''f_llist'' struct_llist_node, Fld ''f_rcuhead'' struct_callback_head,
     Fld ''f_iocb_flags'' (Int_ty 4)]), Fld ''f_lock'' ty_spinlock_t, Fld ''f_mode'' ty_fmode_t,
     Fld ''f_count'' ty_atomic_long_t, Fld ''f_pos_lock'' struct_mutex, Fld ''f_pos'' ty_loff_t,
     Fld ''f_flags'' (Int_ty 4), Fld ''f_owner'' struct_fown_struct, Fld ''f_cred'' Pointer,
     Fld ''f_ra'' struct_file_ra_state, Fld ''f_path'' struct_path, Fld ''f_inode'' Pointer, Fld ''f_op'' Pointer,
     Fld ''f_version'' ty_u64, Fld ''f_security'' Pointer, Fld ''private_data'' Pointer, Fld ''f_ep'' Pointer,
     Fld ''f_mapping'' Pointer, Fld ''f_wb_err'' ty_errseq_t, Fld ''f_sb_err'' ty_errseq_t]"

definition struct_bpf_timer :: kty where
  "struct_bpf_timer = Struct_ty [Bits '''' (Int_ty 8) 64, Bits '''' (Int_ty 8) 64]"

definition ty_work_func_t :: kty where
  "ty_work_func_t = Pointer"

definition struct_work_struct :: kty where
  "struct_work_struct =
     Struct_ty [Fld ''data'' ty_atomic_long_t, Fld ''entry'' struct_list_head, Fld ''func'' ty_work_func_t]"

definition struct_in_addr :: kty where
  "struct_in_addr = Struct_ty [Fld ''s_addr'' ty___be32]"

definition struct_mptcp_addr_info :: kty where
  "struct_mptcp_addr_info =
     Struct_ty [Fld ''id'' ty_u8, Fld ''family'' ty_sa_family_t, Fld ''port'' ty___be16,
     Fld '''' (Union_ty [Fld ''addr'' struct_in_addr, Fld ''addr6'' struct_in6_addr])]"

definition struct_mptcp_rm_list :: kty where
  "struct_mptcp_rm_list = Struct_ty [Fld ''ids'' (Array_ty ty_u8 8), Fld ''nr'' ty_u8]"

definition struct_mptcp_pm_data :: kty where
  "struct_mptcp_pm_data =
     Struct_ty [Fld ''local'' struct_mptcp_addr_info, Fld ''remote'' struct_mptcp_addr_info,
     Fld ''anno_list'' struct_list_head, Fld ''userspace_pm_local_addr_list'' struct_list_head,
     Fld ''lock'' ty_spinlock_t, Fld ''addr_signal'' ty_u8, Fld ''server_side'' ty_bool, Fld ''work_pending'' ty_bool,
     Fld ''accept_addr'' ty_bool, Fld ''accept_subflow'' ty_bool, Fld ''remote_deny_join_id0'' ty_bool,
     Fld ''add_addr_signaled'' ty_u8, Fld ''add_addr_accepted'' ty_u8, Fld ''local_addr_used'' ty_u8,
     Fld ''pm_type'' ty_u8, Fld ''subflows'' ty_u8, Fld ''status'' ty_u8,
     Fld ''id_avail_bitmap'' (Array_ty (Int_ty 8) 4), Fld ''rm_list_tx'' struct_mptcp_rm_list,
     Fld ''rm_list_rx'' struct_mptcp_rm_list]"

definition struct_mptcp_sock :: kty where
  "struct_mptcp_sock =
     Struct_ty [Fld ''sk'' struct_inet_connection_sock, Fld ''local_key'' ty_u64, Fld ''remote_key'' ty_u64,
     Fld ''write_seq'' ty_u64, Fld ''bytes_sent'' ty_u64, Fld ''snd_nxt'' ty_u64, Fld ''bytes_received'' ty_u64,
     Fld ''ack_seq'' ty_u64, Fld ''rcv_wnd_sent'' ty_atomic64_t, Fld ''rcv_data_fin_seq'' ty_u64,
     Fld ''bytes_retrans'' ty_u64, Fld ''rmem_fwd_alloc'' (Int_ty 4), Fld ''last_snd'' Pointer,
     Fld ''snd_burst'' (Int_ty 4), Fld ''old_wspace'' (Int_ty 4), Fld ''recovery_snd_nxt'' ty_u64,
     Fld ''bytes_acked'' ty_u64, Fld ''snd_una'' ty_u64, Fld ''wnd_end'' ty_u64, Fld ''timer_ival'' (Int_ty 8),
     Fld ''token'' ty_u32, Fld ''rmem_released'' (Int_ty 4), Fld ''flags'' (Int_ty 8), Fld ''cb_flags'' (Int_ty 8),
     Fld ''push_pending'' (Int_ty 8), Fld ''recovery'' ty_bool, Fld ''can_ack'' ty_bool,
     Fld ''fully_established'' ty_bool, Fld ''rcv_data_fin'' ty_bool, Fld ''snd_data_fin_enable'' ty_bool,
     Fld ''rcv_fastclose'' ty_bool, Fld ''use_64bit_ack'' ty_bool, Fld ''csum_enabled'' ty_bool,
     Fld ''allow_infinite_fallback'' ty_bool, Fld ''pending_state'' ty_u8, Fld ''mpc_endpoint_id'' ty_u8,
     Bits ''recvmsg_inq'' ty_u8 1, Bits ''cork'' ty_u8 1, Bits ''nodelay'' ty_u8 1, Bits ''fastopening'' ty_u8 1,
     Bits ''in_accept_queue'' ty_u8 1, Fld ''work'' struct_work_struct, Fld ''ooo_last_skb'' Pointer,
     Fld ''out_of_order_queue'' struct_rb_root, Fld ''receive_queue'' struct_sk_buff_head,
     Fld ''conn_list'' struct_list_head, Fld ''rtx_queue'' struct_list_head, Fld ''first_pending'' Pointer,
     Fld ''join_list'' struct_list_head, Fld ''subflow'' Pointer, Fld ''first'' Pointer,
     Fld ''pm'' struct_mptcp_pm_data, Fld ''rcvq_space'' (Struct_ty [Fld ''space'' ty_u32, Fld ''copied'' ty_u32,
     Fld ''time'' ty_u64, Fld ''rtt_us'' ty_u64]), Fld ''subflow_id'' ty_u32, Fld ''setsockopt_seq'' ty_u32,
     Fld ''ca_name'' (Array_ty (Int_ty 1) 16)]"

definition struct_bpf_dynptr :: kty where
  "struct_bpf_dynptr = Struct_ty [Bits '''' (Int_ty 8) 64, Bits '''' (Int_ty 8) 64]"

definition struct_iphdr :: kty where
  "struct_iphdr =
     Struct_ty [Bits ''ihl'' ty___u8 4, Bits ''version'' ty___u8 4, Fld ''tos'' ty___u8, Fld ''tot_len'' ty___be16,
     Fld ''id'' ty___be16, Fld ''frag_off'' ty___be16, Fld ''ttl'' ty___u8, Fld ''protocol'' ty___u8,
     Fld ''check'' ty___sum16, Fld '''' (Union_ty [Fld '''' (Struct_ty [Fld ''saddr'' ty___be32,
     Fld ''daddr'' ty___be32]), Fld ''addrs'' (Struct_ty [Fld ''saddr'' ty___be32, Fld ''daddr'' ty___be32])])]"

definition struct_ipv6hdr :: kty where
  "struct_ipv6hdr =
     Struct_ty [Bits ''priority'' ty___u8 4, Bits ''version'' ty___u8 4, Fld ''flow_lbl'' (Array_ty ty___u8 3),
     Fld ''payload_len'' ty___be16, Fld ''nexthdr'' ty___u8, Fld ''hop_limit'' ty___u8,
     Fld '''' (Union_ty [Fld '''' (Struct_ty [Fld ''saddr'' struct_in6_addr, Fld ''daddr'' struct_in6_addr]),
     Fld ''addrs'' (Struct_ty [Fld ''saddr'' struct_in6_addr, Fld ''daddr'' struct_in6_addr])])]"

definition struct_pcpu_freelist_node :: kty where
  "struct_pcpu_freelist_node = Struct_ty [Fld ''next'' Pointer]"

definition struct_bpf_lru_node :: kty where
  "struct_bpf_lru_node =
     Struct_ty [Fld ''list'' struct_list_head, Fld ''cpu'' ty_u16, Fld ''type'' ty_u8, Fld ''ref'' ty_u8]"

definition struct_htab_elem :: kty where
  "struct_htab_elem =
     Struct_ty [Fld '''' (Union_ty [Fld ''hash_node'' struct_hlist_nulls_node,
     Fld '''' (Struct_ty [Fld ''padding'' Pointer, Fld '''' (Union_ty [Fld ''fnode'' struct_pcpu_freelist_node,
     Fld ''batch_flink'' Pointer])])]), Fld '''' (Union_ty [Fld ''ptr_to_pptr'' Pointer,
     Fld ''lru_node'' struct_bpf_lru_node]), Fld ''hash'' ty_u32, Bits '''' (Int_ty 8) 0,
     Fld ''key'' (Array_ty (Int_ty 1) 0)]"

definition enum_bpf_map_type :: kty where
  "enum_bpf_map_type =
     Enum_ty [(''BPF_MAP_TYPE_UNSPEC'', 0), (''BPF_MAP_TYPE_HASH'', 1), (''BPF_MAP_TYPE_ARRAY'', 2),
     (''BPF_MAP_TYPE_PROG_ARRAY'', 3), (''BPF_MAP_TYPE_PERF_EVENT_ARRAY'', 4), (''BPF_MAP_TYPE_PERCPU_HASH'', 5),
     (''BPF_MAP_TYPE_PERCPU_ARRAY'', 6), (''BPF_MAP_TYPE_STACK_TRACE'', 7), (''BPF_MAP_TYPE_CGROUP_ARRAY'', 8),
     (''BPF_MAP_TYPE_LRU_HASH'', 9), (''BPF_MAP_TYPE_LRU_PERCPU_HASH'', 10), (''BPF_MAP_TYPE_LPM_TRIE'', 11),
     (''BPF_MAP_TYPE_ARRAY_OF_MAPS'', 12), (''BPF_MAP_TYPE_HASH_OF_MAPS'', 13), (''BPF_MAP_TYPE_DEVMAP'', 14),
     (''BPF_MAP_TYPE_SOCKMAP'', 15), (''BPF_MAP_TYPE_CPUMAP'', 16), (''BPF_MAP_TYPE_XSKMAP'', 17),
     (''BPF_MAP_TYPE_SOCKHASH'', 18), (''BPF_MAP_TYPE_CGROUP_STORAGE_DEPRECATED'', 19),
     (''BPF_MAP_TYPE_CGROUP_STORAGE'', 19), (''BPF_MAP_TYPE_REUSEPORT_SOCKARRAY'', 20),
     (''BPF_MAP_TYPE_PERCPU_CGROUP_STORAGE'', 21), (''BPF_MAP_TYPE_QUEUE'', 22), (''BPF_MAP_TYPE_STACK'', 23),
     (''BPF_MAP_TYPE_SK_STORAGE'', 24), (''BPF_MAP_TYPE_DEVMAP_HASH'', 25), (''BPF_MAP_TYPE_STRUCT_OPS'', 26),
     (''BPF_MAP_TYPE_RINGBUF'', 27), (''BPF_MAP_TYPE_INODE_STORAGE'', 28), (''BPF_MAP_TYPE_TASK_STORAGE'', 29),
     (''BPF_MAP_TYPE_BLOOM_FILTER'', 30), (''BPF_MAP_TYPE_USER_RINGBUF'', 31), (''BPF_MAP_TYPE_CGRP_STORAGE'', 32)]"

definition enum_bpf_prog_type :: kty where
  "enum_bpf_prog_type =
     Enum_ty [(''BPF_PROG_TYPE_UNSPEC'', 0), (''BPF_PROG_TYPE_SOCKET_FILTER'', 1), (''BPF_PROG_TYPE_KPROBE'', 2),
     (''BPF_PROG_TYPE_SCHED_CLS'', 3), (''BPF_PROG_TYPE_SCHED_ACT'', 4), (''BPF_PROG_TYPE_TRACEPOINT'', 5),
     (''BPF_PROG_TYPE_XDP'', 6), (''BPF_PROG_TYPE_PERF_EVENT'', 7), (''BPF_PROG_TYPE_CGROUP_SKB'', 8),
     (''BPF_PROG_TYPE_CGROUP_SOCK'', 9), (''BPF_PROG_TYPE_LWT_IN'', 10), (''BPF_PROG_TYPE_LWT_OUT'', 11),
     (''BPF_PROG_TYPE_LWT_XMIT'', 12), (''BPF_PROG_TYPE_SOCK_OPS'', 13), (''BPF_PROG_TYPE_SK_SKB'', 14),
     (''BPF_PROG_TYPE_CGROUP_DEVICE'', 15), (''BPF_PROG_TYPE_SK_MSG'', 16), (''BPF_PROG_TYPE_RAW_TRACEPOINT'', 17),
     (''BPF_PROG_TYPE_CGROUP_SOCK_ADDR'', 18), (''BPF_PROG_TYPE_LWT_SEG6LOCAL'', 19),
     (''BPF_PROG_TYPE_LIRC_MODE2'', 20), (''BPF_PROG_TYPE_SK_REUSEPORT'', 21), (''BPF_PROG_TYPE_FLOW_DISSECTOR'', 22),
     (''BPF_PROG_TYPE_CGROUP_SYSCTL'', 23), (''BPF_PROG_TYPE_RAW_TRACEPOINT_WRITABLE'', 24),
     (''BPF_PROG_TYPE_CGROUP_SOCKOPT'', 25), (''BPF_PROG_TYPE_TRACING'', 26), (''BPF_PROG_TYPE_STRUCT_OPS'', 27),
     (''BPF_PROG_TYPE_EXT'', 28), (''BPF_PROG_TYPE_LSM'', 29), (''BPF_PROG_TYPE_SK_LOOKUP'', 30),
     (''BPF_PROG_TYPE_SYSCALL'', 31), (''BPF_PROG_TYPE_NETFILTER'', 32)]"

definition struct_bpf_map :: kty where
  "struct_bpf_map =
     Struct_ty [Fld ''ops'' Pointer, Fld ''inner_map_meta'' Pointer, Fld ''security'' Pointer,
     Fld ''map_type'' enum_bpf_map_type, Fld ''key_size'' ty_u32, Fld ''value_size'' ty_u32,
     Fld ''max_entries'' ty_u32, Fld ''map_extra'' ty_u64, Fld ''map_flags'' ty_u32, Fld ''id'' ty_u32,
     Fld ''record'' Pointer, Fld ''numa_node'' (Int_ty 4), Fld ''btf_key_type_id'' ty_u32,
     Fld ''btf_value_type_id'' ty_u32, Fld ''btf_vmlinux_value_type_id'' ty_u32, Fld ''btf'' Pointer,
     Fld ''objcg'' Pointer, Fld ''name'' (Array_ty (Int_ty 1) 16), Bits '''' (Int_ty 8) 64, Bits '''' (Int_ty 8) 64,
     Fld ''refcnt'' ty_atomic64_t, Fld ''usercnt'' ty_atomic64_t, Fld ''work'' struct_work_struct,
     Fld ''freeze_mutex'' struct_mutex, Fld ''writecnt'' ty_atomic64_t,
     Fld ''owner'' (Struct_ty [Fld ''lock'' ty_spinlock_t, Fld ''type'' enum_bpf_prog_type, Fld ''jited'' ty_bool,
     Fld ''xdp_has_frags'' ty_bool]), Fld ''bypass_spec_v1'' ty_bool, Fld ''frozen'' ty_bool, Bits '''' (Int_ty 8) 64,
     Bits '''' (Int_ty 8) 64, Bits '''' (Int_ty 8) 64]"

definition struct_bpf_mem_alloc :: kty where
  "struct_bpf_mem_alloc =
     Struct_ty [Fld ''caches'' Pointer, Fld ''cache'' Pointer, Fld ''work'' struct_work_struct]"

definition struct_pcpu_freelist_head :: kty where
  "struct_pcpu_freelist_head = Struct_ty [Fld ''first'' Pointer, Fld ''lock'' ty_raw_spinlock_t]"

definition struct_pcpu_freelist :: kty where
  "struct_pcpu_freelist = Struct_ty [Fld ''freelist'' Pointer, Fld ''extralist'' struct_pcpu_freelist_head]"

definition struct_bpf_lru_list :: kty where
  "struct_bpf_lru_list =
     Struct_ty [Fld ''lists'' (Array_ty struct_list_head 3), Fld ''counts'' (Array_ty (Int_ty 4) 2),
     Fld ''next_inactive_rotation'' Pointer, Fld ''lock'' ty_raw_spinlock_t, Bits '''' (Int_ty 8) 64,
     Bits '''' (Int_ty 8) 64, Bits '''' (Int_ty 8) 64, Bits '''' (Int_ty 8) 64, Bits '''' (Int_ty 8) 64,
     Bits '''' (Int_ty 8) 64, Bits '''' (Int_ty 8) 64]"

definition struct_bpf_common_lru :: kty where
  "struct_bpf_common_lru =
     Struct_ty [Fld ''lru_list'' struct_bpf_lru_list, Fld ''local_list'' Pointer, Bits '''' (Int_ty 8) 64,
     Bits '''' (Int_ty 8) 64, Bits '''' (Int_ty 8) 64, Bits '''' (Int_ty 8) 64, Bits '''' (Int_ty 8) 64,
     Bits '''' (Int_ty 8) 64, Bits '''' (Int_ty 8) 64]"

definition ty_del_from_htab_func :: kty where
  "ty_del_from_htab_func = Pointer"

definition struct_bpf_lru :: kty where
  "struct_bpf_lru =
     Struct_ty [Fld '''' (Union_ty [Fld ''common_lru'' struct_bpf_common_lru, Fld ''percpu_lru'' Pointer]),
     Fld ''del_from_htab'' ty_del_from_htab_func, Fld ''del_arg'' Pointer, Fld ''hash_offset'' (Int_ty 4),
     Fld ''nr_scans'' (Int_ty 4), Fld ''percpu'' ty_bool, Bits '''' (Int_ty 8) 64, Bits '''' (Int_ty 8) 64,
     Bits '''' (Int_ty 8) 64, Bits '''' (Int_ty 8) 64]"

definition struct_percpu_counter :: kty where
  "struct_percpu_counter =
     Struct_ty [Fld ''lock'' ty_raw_spinlock_t, Fld ''count'' ty_s64, Fld ''list'' struct_list_head,
     Fld ''counters'' Pointer]"

definition struct_lock_class_key :: kty where
  "struct_lock_class_key = Struct_ty []"

definition struct_bpf_htab :: kty where
  "struct_bpf_htab =
     Struct_ty [Fld ''map'' struct_bpf_map, Fld ''ma'' struct_bpf_mem_alloc, Fld ''pcpu_ma'' struct_bpf_mem_alloc,
     Fld ''buckets'' Pointer, Fld ''elems'' Pointer, Bits '''' (Int_ty 8) 64, Bits '''' (Int_ty 8) 64,
     Fld '''' (Union_ty [Fld ''freelist'' struct_pcpu_freelist, Fld ''lru'' struct_bpf_lru]),
     Fld ''extra_elems'' Pointer, Fld ''pcount'' struct_percpu_counter, Fld ''count'' ty_atomic_t,
     Fld ''use_percpu_counter'' ty_bool, Fld ''n_buckets'' ty_u32, Fld ''elem_size'' ty_u32, Fld ''hashrnd'' ty_u32,
     Fld ''lockdep_key'' struct_lock_class_key, Fld ''map_locked'' (Array_ty Pointer 8), Bits '''' (Int_ty 8) 64,
     Bits '''' (Int_ty 8) 64, Bits '''' (Int_ty 8) 64, Bits '''' (Int_ty 8) 64, Bits '''' (Int_ty 8) 64,
     Bits '''' (Int_ty 8) 64, Bits '''' (Int_ty 8) 64]"

definition struct_hlist_nulls_head :: kty where
  "struct_hlist_nulls_head = Struct_ty [Fld ''first'' Pointer]"

definition struct_bucket :: kty where
  "struct_bucket = Struct_ty [Fld ''head'' struct_hlist_nulls_head, Fld ''raw_lock'' ty_raw_spinlock_t]"

definition struct_bpf_insn :: kty where
  "struct_bpf_insn =
     Struct_ty [Fld ''code'' ty___u8, Bits ''dst_reg'' ty___u8 4, Bits ''src_reg'' ty___u8 4, Fld ''off'' ty___s16,
     Fld ''imm'' ty___s32]"

definition struct_ethhdr :: kty where
  "struct_ethhdr =
     Struct_ty [Fld ''h_dest'' (Array_ty (Int_ty 1) 6), Fld ''h_source'' (Array_ty (Int_ty 1) 6),
     Fld ''h_proto'' ty___be16]"

lemmas objects_defs =
  struct_thread_info_def struct_llist_node_def struct___call_single_node_def struct_load_weight_def
  struct_util_est_def struct_sched_avg_def struct_sched_entity_def struct_sched_rt_entity_def
  struct_sched_dl_entity_def struct_uclamp_se_def struct_sched_statistics_def struct_hlist_head_def struct_cpumask_def
  ty_cpumask_t_def union_rcu_special_def struct_sched_info_def struct_plist_node_def ty___kernel_clockid_t_def
  ty_clockid_t_def enum_timespec_type_def struct_restart_block_def ty___kernel_pid_t_def ty_pid_t_def
  struct_prev_cputime_def struct_rb_root_cached_def struct_timerqueue_head_def struct_posix_cputimer_base_def
  struct_posix_cputimers_def struct_posix_cputimers_work_def struct_sysv_sem_def struct_sysv_shm_def ty_sigset_t_def
  struct_sigpending_def struct_seccomp_def struct_syscall_user_dispatch_def struct_wake_q_node_def
  struct_task_io_accounting_def ty_nodemask_t_def struct_seqcount_def ty_seqcount_t_def struct_seqcount_spinlock_def
  ty_seqcount_spinlock_t_def struct_arch_tlbflush_unmap_batch_def struct_tlbflush_unmap_batch_def struct_kmap_ctrl_def
  struct_llist_head_def struct_da_monitor_def union_rv_task_monitor_def struct_desc_struct_def
  struct_fpu_state_perm_def struct_fregs_state_def struct_fxregs_state_def struct_swregs_state_def
  struct_xstate_header_def struct_xregs_state_def union_fpregs_state_def struct_fpstate_def struct_fpu_def
  struct_thread_struct_def task_struct_members_1_def task_struct_members_2_def struct_task_struct_def
  struct___sk_buff_def struct_sk_msg_md_def struct_xdp_md_def struct_btf_ptr_def ty_umode_t_def
  ty___kernel_gid32_t_def ty_gid_t_def ty_kgid_t_def ty___kernel_dev_t_def ty_dev_t_def ty_time64_t_def
  struct_timespec64_def ty_blkcnt_t_def struct_rw_semaphore_def struct_xarray_def ty_errseq_t_def
  struct_address_space_def struct_inode_def ty_socket_state_def struct_socket_def ty_fmode_t_def enum_pid_type_def
  struct_fown_struct_def struct_file_ra_state_def struct_file_def struct_bpf_timer_def ty_work_func_t_def
  struct_work_struct_def struct_in_addr_def struct_mptcp_addr_info_def struct_mptcp_rm_list_def
  struct_mptcp_pm_data_def struct_mptcp_sock_def struct_bpf_dynptr_def struct_iphdr_def struct_ipv6hdr_def
  struct_pcpu_freelist_node_def struct_bpf_lru_node_def struct_htab_elem_def enum_bpf_map_type_def
  enum_bpf_prog_type_def struct_bpf_map_def struct_bpf_mem_alloc_def struct_pcpu_freelist_head_def
  struct_pcpu_freelist_def struct_bpf_lru_list_def struct_bpf_common_lru_def ty_del_from_htab_func_def
  struct_bpf_lru_def struct_percpu_counter_def struct_lock_class_key_def struct_bpf_htab_def
  struct_hlist_nulls_head_def struct_bucket_def struct_bpf_insn_def struct_ethhdr_def

end
