(* ===== verification/Translated.thy ===== *)
theory Translated
  imports Bytecode_Safety
begin

text \<open>
  The translated programs that \<open>bpftool prog dump xlated\<close> shows in the repository's notes:
  the object code after loading. References to maps and globals carry the number of a map,
  calls name a kernel function and its distance in the kernel, and a lookup in a hash map is
  the call of the function of that map type, which gives the address of the element; the
  value lies 56 bytes behind it. A translated program runs like its object code.
\<close>

section \<open>The kernel functions of a translated program\<close>

definition htab_elem_size :: int where "htab_elem_size = 56"

text \<open>The lookup of a hash map returns its element, the helper returns the value in it.\<close>

definition htab_lookup :: "'w helper_fn \<Rightarrow> val option list \<Rightarrow> vmem \<Rightarrow> 'w \<Rightarrow> vm_error + val \<times> vmem \<times> 'w" where
  "htab_lookup h args mm w = bindE (h 1 args mm w) (\<lambda>(v, mm', w').
     Inr (case v of Addr r a \<Rightarrow> Addr r (a - htab_elem_size) | Scalar k \<Rightarrow> Scalar k, mm', w'))"

text \<open>The helper that a kernel function implements, by the table of \<open>bpf_helper_defs.h\<close>.\<close>

definition helper_number :: "string \<Rightarrow> u32 option" where
  "helper_number nm = (if nm = ''htab_map_update_elem'' then Some 2
     else map_option (\<lambda>p. of_nat (hp_id p)) (helper_by_name nm))"

definition translated_call :: "(u32 \<times> string) list \<Rightarrow> 'w helper_fn \<Rightarrow> 'w helper_fn" where
  "translated_call calls h n args mm w =
     (case map_of calls n of
        None \<Rightarrow> Inl Bad_call
      | Some nm \<Rightarrow> if nm = ''__htab_map_lookup_elem'' then htab_lookup h args mm w
          else (case helper_number nm of None \<Rightarrow> Inl Bad_call | Some k \<Rightarrow> h k args mm w))"

text \<open>
  A reference is the slot of an instruction, a map number and an offset; a map number stands
  for the place where the loader has put what it holds: a section of the object, or a map.
\<close>

definition map_refs :: "(nat \<times> region \<times> int) list \<Rightarrow> (int \<times> nat \<times> int) list \<Rightarrow> relocs" where
  "map_refs maps refs = concat (map (\<lambda>(i, n, k). case map_of maps n of
     None \<Rightarrow> [] | Some (r, a) \<Rightarrow> [(i, r, a + k)]) refs)"

section \<open>The interface of the helpers\<close>

text \<open>
  What the translation relies on: no helper takes a byte of the stack away or looks at an
  argument it does not need, and a lookup gives null or an address.
\<close>

definition less_defined :: "'a option \<Rightarrow> 'a option \<Rightarrow> bool" where
  "less_defined x y \<longleftrightarrow> x = None \<or> x = y"

locale called_functions =
  fixes h :: "'w helper_fn"
  assumes stack_kept: "h n args mm w = Inr (v, mm', w') \<Longrightarrow> mm Stack x \<noteq> None \<Longrightarrow> mm' Stack x \<noteq> None"
    and more_args: "h n args mm w = Inr z \<Longrightarrow> list_all2 less_defined args args' \<Longrightarrow> h n args' mm w = Inr z"

locale kernel_helpers = called_functions h for h :: "'w helper_fn" +
  assumes lookup_result: "h 1 args mm w = Inr (v, mm', w') \<Longrightarrow> v = Scalar 0 \<or> (\<exists>r a. v = Addr r a)"

lemma less_defined_Some [simp]: "less_defined (Some x) y \<longleftrightarrow> y = Some x"
  by (auto simp: less_defined_def)

lemma print_args_Cons:
  assumes "print_args (x # xs) rs = Some ys"
  obtains w rest zs where "rs = Some (Scalar w) # rest" "print_args xs rest = Some zs"
    "ys = conv_value x w # zs"
  using assms by (cases rs; cases "hd rs"; cases "the (hd rs)") auto

lemma more_print_args:
  "print_args xs rs = Some ys \<Longrightarrow> list_all2 less_defined rs rs' \<Longrightarrow> print_args xs rs' = Some ys"
proof (induction xs arbitrary: ys rs rs')
  case (Cons x xs)
  obtain w rest zs where rs: "rs = Some (Scalar w) # rest" "print_args xs rest = Some zs"
    "ys = conv_value x w # zs" by (rule print_args_Cons [OF Cons.prems(1)])
  obtain rest' where "rs' = Some (Scalar w) # rest'" "list_all2 less_defined rest rest'"
    using Cons.prems(2) unfolding rs(1) list_all2_Cons1 less_defined_Some by blast
  with Cons.IH [OF rs(2)] rs show ?case by simp
qed simp

lemma put_keeps: "mm r x = Some y \<Longrightarrow> \<exists>z. put_bytes mm r' a bs r x = Some z"
  by (auto simp: put_bytes_def)

lemmas kernel_call_defs = call_lookup_def call_update_def call_printk_def call_probe_read_def call_comm_def
  call_perf_output_def
lemmas call_splits = list.splits option.splits val.splits region.splits if_splits prod.splits

lemma call_results:
  assumes "kernel_call K n args mm w = Inr (v, mm', w')"
  shows "n = 1 \<Longrightarrow> v = Scalar 0 \<or> (\<exists>r a. v = Addr r a)"
    and "mm Stack x \<noteq> None \<Longrightarrow> mm' Stack x \<noteq> None"
  using assms by (auto simp: kernel_call_def kernel_call_defs Let_def put_keeps split: call_splits)

text \<open>Each helper looks at the first of its arguments, which must be defined.\<close>

lemma call_more_args:
  assumes "list_all2 less_defined args args'"
  shows "call_lookup K n args mm w = Inr z \<Longrightarrow> call_lookup K n args' mm w = Inr z"
    and "call_update K n args mm w = Inr z \<Longrightarrow> call_update K n args' mm w = Inr z"
    and "call_printk K n args mm w = Inr z \<Longrightarrow> call_printk K n args' mm w = Inr z"
    and "call_probe_read K n args mm w = Inr z \<Longrightarrow> call_probe_read K n args' mm w = Inr z"
    and "call_comm K n args mm w = Inr z \<Longrightarrow> call_comm K n args' mm w = Inr z"
    and "call_perf_output K n args mm w = Inr z \<Longrightarrow> call_perf_output K n args' mm w = Inr z"
proof -
  show "call_lookup K n args' mm w = Inr z" if c: "call_lookup K n args mm w = Inr z"
  proof -
    obtain j r a rest where "args = Some (Addr Map_object j) # Some (Addr r a) # rest"
      using c by (auto simp: call_lookup_def split: list.split_asm option.split_asm val.split_asm region.split_asm)
    with assms c show ?thesis by (auto simp: call_lookup_def list_all2_Cons1)
  qed
  show "call_comm K n args' mm w = Inr z" if c: "call_comm K n args mm w = Inr z"
  proof -
    obtain r a k rest where "args = Some (Addr r a) # Some (Scalar k) # rest"
      using c by (auto simp: call_comm_def split: list.split_asm option.split_asm val.split_asm)
    with assms c show ?thesis by (auto simp: call_comm_def list_all2_Cons1)
  qed
  show "call_probe_read K n args' mm w = Inr z" if c: "call_probe_read K n args mm w = Inr z"
  proof -
    obtain r a k r' a' rest where "args = Some (Addr r a) # Some (Scalar k) # Some (Addr r' a') # rest"
      using c by (auto simp: call_probe_read_def split: list.split_asm option.split_asm val.split_asm)
    with assms c show ?thesis by (auto simp: call_probe_read_def list_all2_Cons1)
  qed
  show "call_update K n args' mm w = Inr z" if c: "call_update K n args mm w = Inr z"
  proof -
    obtain j r a r' a' k rest where
      "args = Some (Addr Map_object j) # Some (Addr r a) # Some (Addr r' a') # Some (Scalar k) # rest"
      using c by (auto simp: call_update_def split: list.split_asm option.split_asm val.split_asm region.split_asm)
    with assms c show ?thesis by (auto simp: call_update_def list_all2_Cons1)
  qed
  show "call_perf_output K n args' mm w = Inr z" if c: "call_perf_output K n args mm w = Inr z"
  proof -
    obtain i j r a k l where
      "args = [Some (Addr Ctx i), Some (Addr Map_object j), Some (Scalar l), Some (Addr r a), Some (Scalar k)]"
      using c by (auto simp: call_perf_output_def split: list.split_asm option.split_asm val.split_asm region.split_asm)
    with assms c show ?thesis by (auto simp: call_perf_output_def list_all2_Cons1)
  qed
  show "call_printk K n args' mm w = Inr z" if c: "call_printk K n args mm w = Inr z"
  proof -
    obtain r a k rest where p: "args = Some (Addr r a) # Some (Scalar k) # rest"
      using c by (auto simp: call_printk_def split: list.split_asm option.split_asm val.split_asm)
    then obtain rest' where p': "args' = Some (Addr r a) # Some (Scalar k) # rest'" "list_all2 less_defined rest rest'"
      using assms by (auto simp: list_all2_Cons1)
    show ?thesis
      using c more_print_args [OF _ p'(2)] by (auto simp: call_printk_def p p'(1) Let_def split: option.split_asm)
  qed
qed

interpretation kc: kernel_helpers "kernel_call K" for K
proof
  show "kernel_call K n args mm w = Inr z \<Longrightarrow> list_all2 less_defined args args' \<Longrightarrow>
      kernel_call K n args' mm w = Inr z" for n args args' mm w z
    by (auto simp: kernel_call_def call_more_args split: if_splits)
qed (use call_results in blast)+

text \<open>The functions of a translated program keep the same promises.\<close>

sublocale kernel_helpers \<subseteq> tc: called_functions "translated_call calls h" for calls
proof
  show "translated_call calls h n args mm w = Inr (v, mm', w') \<Longrightarrow> mm Stack x \<noteq> None \<Longrightarrow> mm' Stack x \<noteq> None"
    for n args mm w v mm' w' x
    using stack_kept by (auto simp: translated_call_def htab_lookup_def bindE_eq_Inr split: option.splits if_splits)
next
  fix n args args' mm w z
  assume c: "translated_call calls h n args mm w = Inr z" and l: "list_all2 less_defined args args'"
  have m: "h k args mm w = Inr y \<Longrightarrow> h k args' mm w = Inr y" for k y by (rule more_args [OF _ l])
  obtain nm where nm: "map_of calls n = Some nm"
    using c by (cases "map_of calls n") (simp_all add: translated_call_def)
  show "translated_call calls h n args' mm w = Inr z"
  proof (cases "nm = ''__htab_map_lookup_elem''")
    case True
    then obtain y where "h 1 args mm w = Inr y"
      using c nm by (auto simp: translated_call_def htab_lookup_def bindE_eq_Inr)
    with m [OF this] c nm True show ?thesis by (simp add: translated_call_def htab_lookup_def)
  next
    case False
    then obtain k where "helper_number nm = Some k"
      using c nm by (cases "helper_number nm") (simp_all add: translated_call_def)
    with m c nm False show ?thesis by (simp add: translated_call_def)
  qed
qed

section \<open>Slot by slot\<close>

text \<open>
  A list gives each slot of the object code its place in the translated program. At every slot,
  the translated program has the same instruction, with the distance of a jump adjusted; a
  reference to the same place; or the call of a function that implements the helper, which
  for a lookup is followed by the step from the element to its value.
\<close>

definition insn_at :: "insn option list \<Rightarrow> int \<Rightarrow> insn option" where
  "insn_at Q q = (if 0 \<le> q \<and> nat q < length Q then Q ! nat q else None)"

definition placed :: "int list \<Rightarrow> int \<Rightarrow> int \<Rightarrow> bool" where
  "placed f p q \<longleftrightarrow> 0 \<le> p \<and> nat p < length f \<and> f ! nat p = q"

text \<open>What a number calls: the lookup of an element, or a helper.\<close>

definition resolves :: "(u32 \<times> string) list \<Rightarrow> (u32 \<times> u32 option) list \<Rightarrow> bool" where
  "resolves calls nums \<longleftrightarrow> list_all2 (\<lambda>(k, nm) (k', x). k' = k \<and>
     (case x of None \<Rightarrow> nm = ''__htab_map_lookup_elem''
      | Some n \<Rightarrow> nm \<noteq> ''__htab_map_lookup_elem'' \<and> helper_number nm = Some n)) calls nums"

definition call_translates :: "(u32 \<times> u32 option) list \<Rightarrow> u32 \<Rightarrow> insn option list \<Rightarrow> int list \<Rightarrow> int \<Rightarrow> int \<Rightarrow> bool" where
  "call_translates nums n Q f p q =
     (case insn_at Q q of
        Some (Call k) \<Rightarrow> (case map_of nums k of
            None \<Rightarrow> False
          | Some None \<Rightarrow> n = 1 \<and> insn_at Q (q + 1) = Some (Jmp Eq 0 (Imm 0) 1) \<and>
                insn_at Q (q + 2) = Some (Alu64 Add 0 (Imm 56)) \<and> placed f (p + 1) (q + 3)
          | Some (Some m) \<Rightarrow> m = n \<and> placed f (p + 1) (q + 1))
      | _ \<Rightarrow> False)"

definition insn_translates ::
    "(u32 \<times> u32 option) list \<Rightarrow> relocs \<Rightarrow> relocs \<Rightarrow> insn option list \<Rightarrow> int list \<Rightarrow> int \<Rightarrow> int \<Rightarrow> insn \<Rightarrow> bool" where
  "insn_translates nums rel rel' Q f p q i =
     (case i of
        Ld_imm64 d k \<Rightarrow> (case insn_at Q q of
            Some (Ld_imm64 d' k') \<Rightarrow> d' = d \<and> ld_imm rel' q k' = ld_imm rel p k \<and> placed f (p + 2) (q + 2)
          | _ \<Rightarrow> False)
      | Jmp cnd d x off \<Rightarrow> (case insn_at Q q of
            Some (Jmp cnd' d' x' off') \<Rightarrow> cnd' = cnd \<and> d' = d \<and> x' = x \<and> placed f (p + 1) (q + 1) \<and>
              placed f (p + 1 + sint off) (q + 1 + sint off')
          | _ \<Rightarrow> False)
      | Ja off \<Rightarrow> (case insn_at Q q of
            Some (Ja off') \<Rightarrow> placed f (p + 1 + sint off) (q + 1 + sint off') | _ \<Rightarrow> False)
      | Call n \<Rightarrow> call_translates nums n Q f p q
      | Exit \<Rightarrow> insn_at Q q = Some Exit
      | _ \<Rightarrow> insn_at Q q = Some i \<and> placed f (p + 1) (q + 1))"

definition translates ::
    "(u32 \<times> u32 option) list \<Rightarrow> relocs \<Rightarrow> relocs \<Rightarrow> insn option list \<Rightarrow> insn option list \<Rightarrow> int list \<Rightarrow> bool" where
  "translates nums rel rel' code Q f \<longleftrightarrow> placed f 0 0 \<and> length f = length code \<and>
     list_all (\<lambda>p. case code ! p of None \<Rightarrow> True
       | Some i \<Rightarrow> insn_translates nums rel rel' Q f (int p) (f ! p) i) [0..<length code]"

definition moved :: "int list \<Rightarrow> 'w vm \<Rightarrow> 'w vm" where
  "moved f s = s\<lparr>pc := f ! nat (pc s)\<rparr>"

lemma moved_simps [simp]:
  "regs (moved f s) = regs s" "mem (moved f s) = mem s" "world (moved f s) = world s"
  "pc (moved f s) = f ! nat (pc s)"
  by (simp_all add: moved_def)

lemma step_at: "insn_at Q (pc s) = Some i \<Longrightarrow> step Q h rel s = exec_insn h rel i s"
  by (auto simp: step_def insn_at_def split: if_splits)

lemma resolved:
  "resolves calls nums \<Longrightarrow> map_of nums k = Some x \<Longrightarrow> (\<exists>nm. map_of calls k = Some nm \<and>
     (case x of None \<Rightarrow> nm = ''__htab_map_lookup_elem''
      | Some n \<Rightarrow> nm \<noteq> ''__htab_map_lookup_elem'' \<and> helper_number nm = Some n))"
proof (induction nums arbitrary: calls)
  case (Cons y nums)
  then obtain k' nm calls' where "calls = (k', nm) # calls'" by (cases calls) (auto simp: resolves_def)
  with Cons show ?case by (cases y) (auto simp: resolves_def split: if_splits)
qed simp

text \<open>Instructions that do not look at the program counter.\<close>

lemma exec_plain:
  assumes "exec_insn h rel i s = Next t" and "(\<exists>op d x. i = Alu64 op d x) \<or> (\<exists>n d x off. i = Ldx n d x off) \<or>
      (\<exists>n d off x. i = Stx n d off x)"
  shows "pc t = pc s + 1" and "exec_insn h' rel' i (s\<lparr>pc := q\<rparr>) = Next (t\<lparr>pc := q + 1\<rparr>)"
  using assms by (auto simp: exec_insn_def continue_with_def bindE_def split: sum.splits if_splits)
lemma add_back: "alu_op Add (Addr r (a - htab_elem_size)) (Scalar (scast (56 :: u32))) = Inr (Addr r a)"
  by (simp add: alu_op_def htab_elem_size_def)

context kernel_helpers
begin

text \<open>The call, the test of its result, and the step to the value.\<close>

lemma lookup_steps:
  assumes nm: "map_of calls k = Some ''__htab_map_lookup_elem''"
    and Q: "insn_at Q (pc s) = Some (Call k)" "insn_at Q (pc s + 1) = Some (Jmp Eq 0 (Imm 0) 1)"
      "insn_at Q (pc s + 2) = Some (Alu64 Add 0 (Imm 56))"
    and c: "h 1 (take 5 (tl (regs s))) (mem s) (world s) = Inr (v, mm, w)"
  shows "\<exists>n. steps Q (translated_call calls h) rel n s = Some (s\<lparr>regs := Some v # replicate 5 None @ drop 6 (regs s),
    mem := mm, world := w, pc := pc s + 3\<rparr>)"
proof -
  let ?rs = "\<lambda>v. Some v # replicate 5 None @ drop 6 (regs s)"
  let ?h = "translated_call calls h"
  let ?v = "case v of Addr r a \<Rightarrow> Addr r (a - htab_elem_size) | Scalar k \<Rightarrow> Scalar k"
  let ?s1 = "s\<lparr>regs := ?rs ?v, mem := mm, world := w, pc := pc s + 1\<rparr>"
  have 1: "step Q ?h rel s = Next ?s1"
    using step_at [OF Q(1)] c nm
    by (simp add: exec_insn_def continue_with_def translated_call_def htab_lookup_def)
  have 2: "step Q ?h rel ?s1 = exec_insn ?h rel (Jmp Eq 0 (Imm 0) 1) ?s1"
    by (rule step_at) (simp add: Q(2))
  from lookup_result [OF c] show ?thesis
  proof
    assume "v = Scalar 0"
    then show ?thesis using 1 2
      by (intro exI [of _ 2]) (simp add: numeral_2_eq_2 exec_insn_def continue_with_def reg_get_def operand_val_def cond_holds_def)
  next
    assume "\<exists>r a. v = Addr r a"
    then obtain r a where v: "v = Addr r a" by blast
    let ?s2 = "?s1\<lparr>pc := pc s + 2\<rparr>"
    have "step Q ?h rel ?s1 = Next ?s2" using 2
      by (simp add: v exec_insn_def continue_with_def reg_get_def operand_val_def cond_holds_def)
    moreover have "step Q ?h rel ?s2 = exec_insn ?h rel (Alu64 Add 0 (Imm 56)) ?s2"
      by (rule step_at) (simp add: Q(3))
    ultimately show ?thesis using 1 add_back [of r a]
      by (intro exI [of _ 3]) (simp add: v numeral_3_eq_3 exec_insn_def continue_with_def reg_get_def reg_set_def operand_val_def)
  qed
qed

lemma call_translated:
  assumes N: "resolves calls nums" and "call_translates nums n Q f (pc s) q" and "exec_insn h rel (Call n) s = Next t"
  shows "\<exists>k. steps Q (translated_call calls h) rel' k (s\<lparr>pc := q\<rparr>) = Some (moved f t)"
proof -
  obtain v mm w where c: "h n (take 5 (tl (regs s))) (mem s) (world s) = Inr (v, mm, w)"
    and t: "t = s\<lparr>regs := Some v # replicate 5 None @ drop 6 (regs s), mem := mm, world := w, pc := pc s + 1\<rparr>"
    using assms(3) by (auto simp: exec_insn_def continue_Next bindE_eq_Inr)
  obtain k x where k: "insn_at Q q = Some (Call k)" "map_of nums k = Some x"
    using assms(2) by (auto simp: call_translates_def split: option.splits insn.splits)
  obtain nm where nm: "map_of calls k = Some nm" "case x of None \<Rightarrow> nm = ''__htab_map_lookup_elem''
      | Some n \<Rightarrow> nm \<noteq> ''__htab_map_lookup_elem'' \<and> helper_number nm = Some n"
    using resolved [OF N k(2)] by blast
  show ?thesis
  proof (cases x)
    case None
    with assms(2) k have "n = 1" "insn_at Q (q + 1) = Some (Jmp Eq 0 (Imm 0) 1)"
      "insn_at Q (q + 2) = Some (Alu64 Add 0 (Imm 56))" "placed f (pc s + 1) (q + 3)"
      by (simp_all add: call_translates_def)
    with lookup_steps [of calls k Q "s\<lparr>pc := q\<rparr>" v mm w rel'] k nm None c show ?thesis
      by (auto simp: t moved_def placed_def)
  next
    case (Some m)
    with assms(2) k have "m = n" "placed f (pc s + 1) (q + 1)"
      by (simp_all add: call_translates_def)
    with step_at [of Q "s\<lparr>pc := q\<rparr>" "Call k"] nm Some k c show ?thesis
      by (intro exI [of _ "Suc 0"])
         (simp add: exec_insn_def continue_with_def translated_call_def t moved_def placed_def)
  qed
qed

lemma step_translated:
  assumes N: "resolves calls nums" and T: "translates nums rel rel' code Q f" and s: "step code h rel s = Next t"
  shows "\<exists>k. steps Q (translated_call calls h) rel' k (moved f s) = Some (moved f t)"
proof -
  let ?q = "f ! nat (pc s)" and ?h = "translated_call calls h"
  obtain i where i: "0 \<le> pc s" "nat (pc s) < length code" "code ! nat (pc s) = Some i"
    and e: "exec_insn h rel i s = Next t"
    using s by (auto simp: step_def split: if_splits option.splits)
  have tr: "insn_translates nums rel rel' Q f (pc s) ?q i"
    using T i by (auto simp: translates_def list_all_iff dest!: bspec [of _ _ "nat (pc s)"])
  have one: "\<exists>k. steps Q ?h rel' k (moved f s) = Some (moved f t)"
    if "insn_at Q ?q = Some j" "exec_insn ?h rel' j (s\<lparr>pc := ?q\<rparr>) = Next (moved f t)" for j
    using step_at [of Q "moved f s" j] that by (intro exI [of _ "Suc 0"]) (simp add: moved_def)
  have plain: ?thesis if "(\<exists>op d x. i = Alu64 op d x) \<or> (\<exists>n d x off. i = Ldx n d x off) \<or> (\<exists>n d off x. i = Stx n d off x)"
    using one [of i] exec_plain(1) [OF e that] exec_plain(2) [OF e that, of ?h rel' ?q] tr that
    by (auto simp: insn_translates_def moved_def placed_def)
  show ?thesis
  proof (cases i)
    case (Ld_imm64 d k)
    then obtain k' where "insn_at Q ?q = Some (Ld_imm64 d k')" "ld_imm rel' ?q k' = ld_imm rel (pc s) k"
      "placed f (pc s + 2) (?q + 2)"
      using tr by (auto simp: insn_translates_def split: option.splits insn.splits)
    with e Ld_imm64 show ?thesis
      by (intro one) (auto simp: exec_insn_def continue_with_def bindE_def placed_def moved_def split: sum.splits)
  next
    case (Jmp cnd d x off)
    then obtain off' where "insn_at Q ?q = Some (Jmp cnd d x off')" "placed f (pc s + 1) (?q + 1)"
      "placed f (pc s + 1 + sint off) (?q + 1 + sint off')"
      using tr by (auto simp: insn_translates_def split: option.splits insn.splits)
    with e Jmp show ?thesis
      by (intro one)
         (auto simp: exec_insn_def continue_with_def bindE_def placed_def moved_def split: sum.splits if_splits)
  next
    case (Ja off)
    then obtain off' where "insn_at Q ?q = Some (Ja off')" "placed f (pc s + 1 + sint off) (?q + 1 + sint off')"
      using tr by (auto simp: insn_translates_def split: option.splits insn.splits)
    with e Ja show ?thesis by (intro one) (auto simp: exec_insn_def placed_def moved_def)
  next
    case (Call n)
    with tr have "call_translates nums n Q f (pc s) ?q" by (simp add: insn_translates_def)
    from call_translated [OF N this] e Call show ?thesis by (simp add: moved_def)
  next
    case Exit
    then show ?thesis using e by (auto simp: exec_insn_def split: sum.splits val.splits)
  qed (use plain in blast)+
qed

lemma halt_translated:
  assumes T: "translates nums rel rel' code Q f" and s: "step code h rel s = Halt w t"
  shows "step Q (translated_call calls h) rel' (moved f s) = Halt w (moved f t)"
proof -
  obtain i where i: "0 \<le> pc s" "nat (pc s) < length code" "code ! nat (pc s) = Some i"
    and e: "exec_insn h rel i s = Halt w t"
    using s by (auto simp: step_def split: if_splits option.splits)
  have x: "i = Exit" "reg_get (regs s) 0 = Inr (Scalar w)" "t = s"
    using e by (auto simp: exec_insn_def continue_with_def split: insn.splits sum.splits val.splits)
  have "insn_at Q (pc (moved f s)) = Some Exit"
    using T i x by (auto simp: translates_def list_all_iff insn_translates_def dest!: bspec [of _ _ "nat (pc s)"])
  with x show ?thesis by (simp add: step_at exec_insn_def)
qed

lemma runs_translated:
  assumes N: "resolves calls nums" and T: "translates nums rel rel' code Q f"
  shows "exec code h rel n s = Some (Inr (w, t)) \<Longrightarrow> runs_to Q (translated_call calls h) rel' (moved f s) w (moved f t)"
proof (induction n arbitrary: s)
  case (Suc n)
  show ?case
  proof (cases "step code h rel s")
    case (Halt w' t')
    then show ?thesis using Suc.prems halt_translated [OF T] by (auto intro!: runs_halt)
  next
    case (Next u)
    with Suc have "runs_to Q (translated_call calls h) rel' (moved f u) w (moved f t)" by simp
    with step_translated [OF N T Next] show ?thesis by (blast intro: runs_steps)
  next
    case (Fault e)
    then show ?thesis using Suc.prems by simp
  qed
qed simp

text \<open>The program and its translation start in the same state.\<close>

lemma translated_from_start:
  assumes "resolves calls nums" and "translates nums rel rel' code Q f" and "runs_to code h rel (vm_init mm w) v t"
  shows "runs_to Q (translated_call calls h) rel' (vm_init mm w) v (moved f t)"
proof -
  have "moved f (vm_init mm w) = vm_init mm w"
    using assms(2) by (simp add: moved_def vm_init_def translates_def placed_def)
  with runs_translated [OF assms(1,2)] assms(3) show ?thesis by (metis runs_to_def)
qed

end

section \<open>The listings\<close>

definition packet_count_xlated :: "insn option list" where
  "packet_count_xlated = [
     Some (Ld_imm64 6 0), None, Some (Ldx 4 3 6 0), Some (Ld_imm64 1 0), None,
     Some (Alu64 Mov 2 (Imm 3)), Some (Call (- 108416)), Some (Ldx 4 1 6 0),
     Some (Alu64 Add 1 (Imm 1)), Some (Stx 4 6 0 1), Some (Alu64 Mov 0 (Imm 2)), Some Exit]"

definition packet_count_refs :: "(int \<times> nat \<times> int) list" where
  "packet_count_refs = [(0, 87, 0), (3, 88, 0)]"

definition packet_count_calls :: "(u32 \<times> string) list" where
  "packet_count_calls = [
     ((- 108416), ''bpf_trace_printk'')]"

definition hello_xlated :: "insn option list" where
  "hello_xlated = [
     Some (Call 235744), Some (Alu64 Lsh 0 (Imm 32)), Some (Alu64 Rsh 0 (Imm 32)),
     Some (Stx 8 10 (- 8) 0), Some (Alu64 Mov 2 (Reg 10)), Some (Alu64 Add 2 (Imm (- 8))),
     Some (Ld_imm64 1 0), None, Some (Call 267632), Some (Jmp Eq 0 (Imm 0) 1),
     Some (Alu64 Add 0 (Imm 56)), Some (Alu64 Mov 1 (Imm 1)), Some (Jmp Eq 0 (Imm 0) 2),
     Some (Ldx 8 1 0 0), Some (Alu64 Add 1 (Imm 1)), Some (Stx 8 10 (- 16) 1),
     Some (Alu64 Mov 2 (Reg 10)), Some (Alu64 Add 2 (Imm (- 8))), Some (Alu64 Mov 3 (Reg 10)),
     Some (Alu64 Add 3 (Imm (- 16))), Some (Ld_imm64 1 0), None, Some (Alu64 Mov 4 (Imm 0)),
     Some (Call 280992), Some (Alu64 Mov 0 (Imm 0)), Some Exit]"

definition hello_refs :: "(int \<times> nat \<times> int) list" where
  "hello_refs = [(6, 19, 0), (20, 19, 0)]"

definition hello_calls :: "(u32 \<times> string) list" where
  "hello_calls = [
     (235744, ''bpf_get_current_uid_gid''), (267632, ''__htab_map_lookup_elem''),
     (280992, ''htab_map_update_elem'')]"

definition kprobe_exec_xlated :: "insn option list" where
  "kprobe_exec_xlated = [
     Some (Alu64 Mov 6 (Reg 1)), Some (Ld_imm64 1 0), None, Some (Ldx 4 2 1 0),
     Some (Alu64 Mov 3 (Reg 2)), Some (Alu64 Add 3 (Imm 1)), Some (Stx 4 1 0 3),
     Some (Alu64 Mov 1 (Imm 0)), Some (Stx 4 10 (- 8) 1), Some (Stx 4 10 (- 12) 1),
     Some (Stx 4 10 (- 16) 1), Some (Stx 4 10 (- 20) 1), Some (Stx 4 10 (- 24) 1),
     Some (Stx 4 10 (- 28) 1), Some (Stx 4 10 (- 4) 1), Some (Stx 4 10 (- 32) 2),
     Some (Call 235360), Some (Stx 4 10 (- 40) 0), Some (Call 235920), Some (Stx 4 10 (- 36) 0),
     Some (Alu64 Lsh 0 (Imm 32)), Some (Alu64 Rsh 0 (Imm 32)), Some (Stx 8 10 (- 48) 0),
     Some (Alu64 Mov 2 (Reg 10)), Some (Alu64 Add 2 (Imm (- 48))), Some (Ld_imm64 1 0), None,
     Some (Call 267808), Some (Jmp Eq 0 (Imm 0) 1), Some (Alu64 Add 0 (Imm 56)),
     Some (Alu64 Mov 7 (Reg 0)), Some (Jmp Eq 7 (Imm 0) 12), Some (Ldx 1 3 7 0),
     Some (Alu64 Lsh 3 (Imm 56)), Some (Alu64 Arsh 3 (Imm 56)), Some (Ld_imm64 1 0), None,
     Some (Alu64 Mov 2 (Imm 3)), Some (Call (- 108752)), Some (Alu64 Mov 1 (Reg 10)),
     Some (Alu64 Add 1 (Imm (- 12))), Some (Alu64 Mov 2 (Imm 12)), Some (Alu64 Mov 3 (Reg 7)),
     Some (Ja 5), Some (Alu64 Mov 1 (Reg 10)), Some (Alu64 Add 1 (Imm (- 12))),
     Some (Alu64 Mov 2 (Imm 12)), Some (Ld_imm64 3 0), None, Some (Call (- 120192)),
     Some (Ld_imm64 7 0), None, Some (Ldx 4 1 7 0), Some (Jmp Gt 1 (Imm 11) 22),
     Some (Ld_imm64 2 0), None, Some (Alu64 Add 2 (Reg 1)), Some (Ldx 1 3 2 0),
     Some (Alu64 Lsh 3 (Imm 56)), Some (Alu64 Arsh 3 (Imm 56)), Some (Ld_imm64 1 0), None,
     Some (Alu64 Mov 2 (Imm 3)), Some (Call (- 108752)), Some (Ldx 4 1 7 0),
     Some (Jmp Gt 1 (Imm 11) 10), Some (Alu64 Mov 2 (Reg 10)), Some (Alu64 Add 2 (Imm (- 40))),
     Some (Alu64 Add 2 (Reg 1)), Some (Ldx 1 3 2 28), Some (Alu64 Lsh 3 (Imm 56)),
     Some (Alu64 Arsh 3 (Imm 56)), Some (Ld_imm64 1 0), None, Some (Alu64 Mov 2 (Imm 3)),
     Some (Call (- 108752)), Some (Alu64 Mov 1 (Reg 10)), Some (Alu64 Add 1 (Imm (- 28))),
     Some (Alu64 Mov 2 (Imm 16)), Some (Call 236064), Some (Alu64 Mov 4 (Reg 10)),
     Some (Alu64 Add 4 (Imm (- 40))), Some (Alu64 Mov 1 (Reg 6)), Some (Ld_imm64 2 0), None,
     Some (Ld_imm64 3 0xffffffff), None, Some (Alu64 Mov 5 (Imm 40)), Some (Call (- 109808)),
     Some (Alu64 Mov 0 (Imm 0)), Some Exit]"

definition kprobe_exec_refs :: "(int \<times> nat \<times> int) list" where
  "kprobe_exec_refs = [(1, 115, 0), (25, 112, 0), (35, 116, 0), (47, 115, 4), (50, 115, 0), (54, 115, 4), (60, 116, 3), (72, 116, 6), (83, 113, 0)]"

definition kprobe_exec_calls :: "(u32 \<times> string) list" where
  "kprobe_exec_calls = [
     (235360, ''bpf_get_current_pid_tgid''), (235920, ''bpf_get_current_uid_gid''),
     (267808, ''__htab_map_lookup_elem''), ((- 108752), ''bpf_trace_printk''),
     ((- 120192), ''bpf_probe_read_kernel''), (236064, ''bpf_get_current_comm''),
     ((- 109808), ''bpf_perf_event_output'')]"

text \<open>What the map numbers of the listings stand for.\<close>

definition packet_count_maps :: "(nat \<times> region \<times> int) list" where
  "packet_count_maps = [(87, Data, 0), (88, Rodata, 0)]"

definition hello_maps :: "(nat \<times> region \<times> int) list" where
  "hello_maps = [(19, Map_object, hash_map_at)]"

definition kprobe_exec_maps :: "(nat \<times> region \<times> int) list" where
  "kprobe_exec_maps = [(115, Data, 0), (116, Rodata, 0), (112, Map_object, hash_map_at), (113, Map_object, perf_map_at)]"

text \<open>The places of the slots: the two instructions behind a lookup are new.\<close>

definition packet_count_places :: "int list" where
  "packet_count_places = [0..11]"

definition hello_places :: "int list" where
  "hello_places = [0..8] @ [11..25]"

definition kprobe_exec_places :: "int list" where
  "kprobe_exec_places = [0..27] @ [30..90]"

text \<open>The numbers of the helpers they call.\<close>

definition called_helpers :: "(string \<times> u32) list" where
  "called_helpers = [(''bpf_trace_printk'', 6), (''bpf_get_current_pid_tgid'', 14), (''bpf_get_current_uid_gid'', 15),
     (''bpf_get_current_comm'', 16), (''bpf_perf_event_output'', 25), (''bpf_probe_read_kernel'', 113)]"

lemma called_protos:
  "map (\<lambda>p. (hp_name p, of_nat (hp_id p))) (filter (\<lambda>p. hp_name p \<in> set (map fst called_helpers)) helper_protos) =
     called_helpers"
  by code_simp

lemma find_by_filter:
  "find (\<lambda>x. f x = y) xs = (case filter (\<lambda>x. f x = y) (filter (\<lambda>x. f x \<in> A) xs) of [] \<Rightarrow> None | z # _ \<Rightarrow> Some z)"
  if "y \<in> A"
  using that by (induction xs) auto

lemma filter_map_of: "(case filter (\<lambda>x. f x = y) xs of [] \<Rightarrow> None | z # _ \<Rightarrow> Some (g z)) = map_of (map (\<lambda>x. (f x, g x)) xs) y"
  by (induction xs) auto

lemma called_number:
  assumes "nm \<in> set (map fst called_helpers)" and "nm \<noteq> ''htab_map_update_elem''"
  shows "helper_number nm = map_of called_helpers nm"
proof -
  have "helper_number nm = map_option (\<lambda>p. of_nat (hp_id p)) (helper_by_name nm)"
    using assms(2) by (simp add: helper_number_def)
  also have "\<dots> = map_of (map (\<lambda>p. (hp_name p, of_nat (hp_id p)))
      (filter (\<lambda>p. hp_name p \<in> set (map fst called_helpers)) helper_protos)) nm"
    unfolding helper_by_name_def find_by_filter [OF assms(1)]
    by (subst filter_map_of [symmetric]) (simp split: list.split)
  finally show ?thesis unfolding called_protos .
qed

definition packet_count_nums :: "(u32 \<times> u32 option) list" where
  "packet_count_nums = [(- 108416, Some 6)]"

definition hello_nums :: "(u32 \<times> u32 option) list" where
  "hello_nums = [(235744, Some 15), (267632, None), (280992, Some 2)]"

definition kprobe_exec_nums :: "(u32 \<times> u32 option) list" where
  "kprobe_exec_nums = [(235360, Some 14), (235920, Some 15), (267808, None), (- 108752, Some 6), (- 120192, Some 113),
     (236064, Some 16), (- 109808, Some 25)]"

lemma nums_resolve:
  "resolves packet_count_calls packet_count_nums" "resolves hello_calls hello_nums"
  "resolves kprobe_exec_calls kprobe_exec_nums"
  by (simp_all add: resolves_def packet_count_calls_def packet_count_nums_def hello_calls_def hello_nums_def
      kprobe_exec_calls_def kprobe_exec_nums_def called_number called_helpers_def helper_number_def [of "''htab_map_update_elem''"])

lemma packet_count_translates:
  "translates packet_count_nums packet_relocs (map_refs packet_count_maps packet_count_refs)
     (decode_prog packet_count_code) packet_count_xlated packet_count_places"
  unfolding packet_count_code_decoded by code_simp

lemma hello_translates:
  "translates hello_nums hello_relocs (map_refs hello_maps hello_refs)
     (decode_prog hello_code) hello_xlated hello_places"
  unfolding hello_code_decoded by code_simp

lemma kprobe_exec_translates:
  "translates kprobe_exec_nums kprobe_relocs (map_refs kprobe_exec_maps kprobe_exec_refs)
     (decode_prog kprobe_exec_code) kprobe_exec_xlated kprobe_exec_places"
  unfolding kprobe_exec_code_decoded by code_simp

section \<open>Properties\<close>

text \<open>The programs: object code and relocations, translated program, its calls and references.\<close>

definition loaded_programs :: "(bytes \<times> relocs \<times> insn option list \<times> (u32 \<times> string) list \<times> relocs) list" where
  "loaded_programs = [
     (packet_count_code, packet_relocs, packet_count_xlated, packet_count_calls, map_refs packet_count_maps packet_count_refs),
     (hello_code, hello_relocs, hello_xlated, hello_calls, map_refs hello_maps hello_refs),
     (kprobe_exec_code, kprobe_relocs, kprobe_exec_xlated, kprobe_exec_calls, map_refs kprobe_exec_maps kprobe_exec_refs)]"

lemma loaded_translates:
  assumes "(code, rel, Q, calls, rel') \<in> set loaded_programs"
  obtains nums f where "resolves calls nums" "translates nums rel rel' (decode_prog code) Q f"
proof -
  consider
    "code = packet_count_code" "rel = packet_relocs" "Q = packet_count_xlated" "calls = packet_count_calls"
      "rel' = map_refs packet_count_maps packet_count_refs"
    | "code = hello_code" "rel = hello_relocs" "Q = hello_xlated" "calls = hello_calls" "rel' = map_refs hello_maps hello_refs"
    | "code = kprobe_exec_code" "rel = kprobe_relocs" "Q = kprobe_exec_xlated" "calls = kprobe_exec_calls"
      "rel' = map_refs kprobe_exec_maps kprobe_exec_refs"
    using assms unfolding loaded_programs_def by auto
  then show thesis
    using that nums_resolve packet_count_translates hello_translates kprobe_exec_translates by cases blast+
qed

lemma loaded_runs:
  assumes "(code, rel, Q, calls, rel') \<in> set loaded_programs"
    and "runs_to (decode_prog code) (kernel_call K) rel (vm_init mm w) v t"
  obtains t' where "runs_to Q (translated_call calls (kernel_call K)) rel' (vm_init mm w) v t'"
    "regs t' = regs t" "mem t' = mem t" "world t' = world t"
proof -
  obtain nums f where n: "resolves calls nums" "translates nums rel rel' (decode_prog code) Q f"
    by (rule loaded_translates [OF assms(1)])
  show thesis by (rule that [OF kc.translated_from_start [OF n assms(2)]]) simp_all
qed

text \<open>C17: the translated programs of the notes behave like their object code. Whenever the object code
  of \<open>packet_count\<close>, \<open>hello\<close> or \<open>kprobe_exec\<close> ends, the program that the kernel has
  made of it, with its lookups inlined, its jumps adjusted and its maps and helpers bound, ends
  with the same result, the same memory and the same map, trace and samples.\<close>

theorem translated_program_runs:
  assumes "(code, rel, Q, calls, rel') \<in> set loaded_programs"
    and "runs_to (decode_prog code) (kernel_call K) rel (vm_init mm w) v t"
  shows "\<exists>t'. runs_to Q (translated_call calls (kernel_call K)) rel' (vm_init mm w) v t' \<and>
    regs t' = regs t \<and> mem t' = mem t \<and> world t' = world t"
  by (rule loaded_runs [OF assms]) blast

theorem translated_program_runs_witness:
  "\<exists>v t. runs_to hello_xlated (translated_call hello_calls (kernel_call (doc_kernel 501)))
      (map_refs hello_maps hello_refs) (vm_init (\<lambda>_ _. None) world_init) v t \<and>
    hello hmap_ops 501 counter_table = (ucast v, k_map (world t))"
proof -
  have "u64_kernel (doc_kernel 501)" by (simp add: u64_kernel_def doc_kernel_def)
  from hello_object [OF this, of "\<lambda>_ _. None" world_init] obtain v t where
    r: "runs_to (decode_prog hello_code) (kernel_call (doc_kernel 501)) hello_relocs
      (vm_init (\<lambda>_ _. None) world_init) v t" and
    h: "hello hmap_ops 501 counter_table = (ucast v, k_map (world t))"
    by (auto simp: doc_kernel_def doc_env_def world_init_def)
  have "(hello_code, hello_relocs, hello_xlated, hello_calls, map_refs hello_maps hello_refs) \<in> set loaded_programs"
    by (simp add: loaded_programs_def)
  from translated_program_runs [OF this r] h show ?thesis by metis
qed

end
