(* ===== verification/Kernel_Layouts.thy ===== *)
theory Kernel_Layouts
  imports Kernel_Objects Helper_Table Translated
begin

unbundle bit_operations_syntax

text \<open>
  What the models rely on of the structures of \<open>vmlinux.h\<close>: the layout of those that helpers take and
  return, the fields of an instruction, and the place of the value in an element of a hash map.
\<close>

section \<open>The structures by name\<close>

definition kernel_structs :: "(string \<times> kty) list" where
  "kernel_structs = [
    (''bpf_fib_lookup'', struct_bpf_fib_lookup), (''bpf_sk_lookup'', struct_bpf_sk_lookup),
    (''bpf_perf_event_data'', struct_bpf_perf_event_data),
    (''bpf_perf_event_value'', struct_bpf_perf_event_value), (''bpf_pidns_info'', struct_bpf_pidns_info),
    (''bpf_redir_neigh'', struct_bpf_redir_neigh), (''bpf_sock'', struct_bpf_sock),
    (''bpf_sock_addr'', struct_bpf_sock_addr), (''bpf_sock_ops'', struct_bpf_sock_ops),
    (''bpf_sock_tuple'', struct_bpf_sock_tuple), (''bpf_spin_lock'', struct_bpf_spin_lock),
    (''bpf_sysctl'', struct_bpf_sysctl), (''bpf_tcp_sock'', struct_bpf_tcp_sock),
    (''bpf_tunnel_key'', struct_bpf_tunnel_key), (''bpf_xfrm_state'', struct_bpf_xfrm_state),
    (''linux_binprm'', struct_linux_binprm), (''pt_regs'', struct_pt_regs),
    (''sk_reuseport_md'', struct_sk_reuseport_md), (''sockaddr'', struct_sockaddr), (''tcphdr'', struct_tcphdr),
    (''seq_file'', struct_seq_file), (''tcp6_sock'', struct_tcp6_sock), (''tcp_sock'', struct_tcp_sock),
    (''tcp_timewait_sock'', struct_tcp_timewait_sock), (''tcp_request_sock'', struct_tcp_request_sock),
    (''udp6_sock'', struct_udp6_sock), (''unix_sock'', struct_unix_sock), (''task_struct'', struct_task_struct),
    (''__sk_buff'', struct___sk_buff), (''sk_msg_md'', struct_sk_msg_md), (''xdp_md'', struct_xdp_md),
    (''path'', struct_path), (''btf_ptr'', struct_btf_ptr), (''inode'', struct_inode),
    (''socket'', struct_socket), (''file'', struct_file), (''bpf_timer'', struct_bpf_timer),
    (''mptcp_sock'', struct_mptcp_sock), (''bpf_dynptr'', struct_bpf_dynptr), (''iphdr'', struct_iphdr),
    (''ipv6hdr'', struct_ipv6hdr), (''bpf_insn'', struct_bpf_insn), (''htab_elem'', struct_htab_elem),
    (''bpf_htab'', struct_bpf_htab), (''bucket'', struct_bucket), (''ethhdr'', struct_ethhdr)]"

text \<open>The structures a prototype names.\<close>

fun ctype_structs :: "ctype \<Rightarrow> string list" where
  "ctype_structs (Struct s) = [s]"
| "ctype_structs (Const t) = ctype_structs t"
| "ctype_structs (Ptr t) = ctype_structs t"
| "ctype_structs _ = []"

definition proto_structs :: "helper_proto \<Rightarrow> string list" where
  "proto_structs p = ctype_structs (hp_ret p) @ concat (map (ctype_structs \<circ> snd) (hp_args p))"

definition struct_members :: "kty \<Rightarrow> kmember list option" where
  "struct_members t = (case t of Struct_ty ms \<Rightarrow> Some ms | _ \<Rightarrow> None)"

lemma kernel_structs_wf: "list_all (\<lambda>(s, t). struct_members t \<noteq> None \<and> k_wf t) kernel_structs"
  by (simp add: kernel_structs_def struct_members_def contexts_defs sockets_defs objects_defs)

lemma kernel_structs_names: "map fst (take 41 kernel_structs) = helper_structs"
  by (simp add: kernel_structs_def helper_structs_def)

lemma helpers_declared: "list_all (\<lambda>p. set (proto_structs p) \<subseteq> set helper_structs) helper_protos"
  by (simp add: helper_protos_def helpers_defs proto_structs_def helper_structs_def)

section \<open>Instructions and elements of hash maps\<close>

text \<open>The value of a member in the little-endian bytes of a structure, and its offset in bytes.\<close>

definition member_bits :: "kty \<Rightarrow> string \<Rightarrow> (nat \<times> nat) option" where
  "member_bits t x = (case struct_members t of None \<Rightarrow> None | Some ms \<Rightarrow> map_of (k_layout 0 ms) x)"

definition member_value :: "kty \<Rightarrow> bytes \<Rightarrow> string \<Rightarrow> u64 option" where
  "member_value t b x = map_option (\<lambda>(z, w). take_bit w (drop_bit z (of_le b))) (member_bits t x)"

definition member_offset :: "kty \<Rightarrow> string \<Rightarrow> nat option" where
  "member_offset t x = map_option (\<lambda>(z, w). z div 8) (member_bits t x)"

lemma insn_members:
  "map (member_bits struct_bpf_insn) [''code'', ''dst_reg'', ''src_reg'', ''off'', ''imm''] =
     [Some (0, 8), Some (8, 4), Some (12, 4), Some (16, 16), Some (32, 32)]"
  by (simp add: member_bits_def struct_members_def struct_bpf_insn_def contexts_defs objects_defs sockets_defs
      bit_field_at_def round_up_def)

lemma insn_size: "k_size struct_bpf_insn = 8"
  by (simp add: struct_bpf_insn_def contexts_defs objects_defs sockets_defs bit_field_at_def round_up_def)

lemma htab_key_offset: "member_offset struct_htab_elem ''key'' = Some 48"
  by (simp add: member_offset_def member_bits_def struct_members_def struct_htab_elem_def contexts_defs objects_defs
      sockets_defs bit_field_at_def round_up_def)

lemma program_structs:
  "struct_xdp_md = embed (Struct_of xdp_md_fields)" "struct_ethhdr = embed (Struct_of ethhdr_fields)"
  by (simp_all add: struct_xdp_md_def struct_ethhdr_def xdp_md_fields_def ethhdr_fields_def contexts_defs objects_defs
      sockets_defs)

text \<open>These structures, and so those that helpers take and return, have places for all their members.\<close>

lemma kernel_struct_laid_out:
  assumes "map_of kernel_structs s = Some t"
  shows "\<exists>ms. t = Struct_ty ms \<and> laid_out ms"
proof -
  have "struct_members t \<noteq> None \<and> k_wf t"
    using assms kernel_structs_wf by (auto simp: list_all_iff dest: map_of_SomeD)
  then obtain ms where "t = Struct_ty ms" "k_wfs ms"
    by (cases t) (simp_all add: struct_members_def)
  then show ?thesis using wf_laid_out by blast
qed

lemma helper_struct_laid_out:
  assumes "p \<in> set helper_protos" and "s \<in> set (proto_structs p)"
  shows "s \<in> set helper_structs \<and> (\<exists>ms. map_of kernel_structs s = Some (Struct_ty ms) \<and> laid_out ms)"
proof -
  have s: "s \<in> set helper_structs" using assms helpers_declared by (auto simp: list_all_iff)
  then have "s \<in> fst ` set kernel_structs"
    by (auto simp flip: kernel_structs_names dest: in_set_takeD)
  then obtain t where "map_of kernel_structs s = Some t"
    by (metis not_None_eq map_of_eq_None_iff)
  with s show ?thesis using kernel_struct_laid_out by blast
qed

text \<open>The bits of eight bytes.\<close>

lemma bit_of_le_nth:
  "bit (of_le bs :: 'a::len word) i \<longleftrightarrow> i < LENGTH('a) \<and> i div 8 < length bs \<and> bit (bs ! (i div 8)) (i mod 8)"
proof (induction bs arbitrary: i)
  case (Cons b bs)
  show ?case
  proof (cases "i < 8")
    case True
    then show ?thesis by (simp add: bit_simps)
  next
    case False
    then have "i div 8 = Suc ((i - 8) div 8)" "i mod 8 = (i - 8) mod 8"
      by (simp_all add: div_if mod_if)
    with False show ?thesis by (auto simp: bit_simps Cons.IH dest: bit_imp_le_length)
  qed
qed simp

lemma length_8: "length b = 8 \<Longrightarrow> \<exists>b0 b1 b2 b3 b4 b5 b6 b7. b = [b0, b1, b2, b3, b4, b5, b6, b7]"
  by (simp add: length_Suc_conv numeral_eq_Suc) blast

lemma slot_bits:
  fixes b0 b1 b2 b3 b4 b5 b6 b7 :: u8
  defines "w \<equiv> of_le [b0, b1, b2, b3, b4, b5, b6, b7] :: u64"
  shows "take_bit 8 w = ucast b0"
    and "take_bit 4 (drop_bit 8 w) = ucast (b1 AND 15)"
    and "take_bit 4 (drop_bit 12 w) = ucast (drop_bit 4 b1)"
    and "take_bit 16 (drop_bit 16 w) = ucast (of_le [b2, b3] :: u16)"
    and "take_bit 32 (drop_bit 32 w) = ucast (of_le [b4, b5, b6, b7] :: u32)"
proof -
  have w: "bit w i \<longleftrightarrow> i < 64 \<and> bit ([b0, b1, b2, b3, b4, b5, b6, b7] ! (i div 8)) (i mod 8)" for i
    by (auto simp: w_def bit_of_le_nth simp del: of_le.simps)
  have u8: "\<not> n < 8 \<Longrightarrow> \<not> bit (b :: u8) n" for b n
    by (auto dest: bit_imp_le_length)
  have fifteen: "(15 :: u8) = mask 4" by (simp add: mask_eq_exp_minus_1)
  show "take_bit 8 w = ucast b0"
    by (rule bit_word_eqI, rename_tac n, case_tac "n < 8") (simp_all add: bit_simps w u8)
  show "take_bit 4 (drop_bit 8 w) = ucast (b1 AND 15)"
    by (rule bit_word_eqI, rename_tac n, case_tac "n < 4") (simp_all add: bit_simps w fifteen)
  show "take_bit 4 (drop_bit 12 w) = ucast (drop_bit 4 b1)"
  proof (rule bit_word_eqI)
    fix n :: nat
    have "(12 + n) div 8 = 1" "(12 + n) mod 8 = 4 + n" if "n < 4" using that by presburger+
    then show "bit (take_bit 4 (drop_bit 12 w)) n \<longleftrightarrow> bit (ucast (drop_bit 4 b1) :: u64) n"
      by (cases "n < 4") (simp_all add: bit_simps w u8)
  qed
  show "take_bit 16 (drop_bit 16 w) = ucast (of_le [b2, b3] :: u16)"
  proof (rule bit_word_eqI)
    fix n :: nat
    have "(16 + n) div 8 = Suc (Suc (n div 8))" "(16 + n) mod 8 = n mod 8" "n < 16 \<longleftrightarrow> n div 8 < 2"
      using mod_mult_self3 [of 2 8 n] by auto
    then show "bit (take_bit 16 (drop_bit 16 w)) n \<longleftrightarrow> bit (ucast (of_le [b2, b3] :: u16) :: u64) n"
      by (cases "n < 16") (auto simp: bit_simps w bit_of_le_nth nth_Cons' simp del: of_le.simps)
  qed
  show "take_bit 32 (drop_bit 32 w) = ucast (of_le [b4, b5, b6, b7] :: u32)"
  proof (rule bit_word_eqI)
    fix n :: nat
    have "(32 + n) div 8 = Suc (Suc (Suc (Suc (n div 8))))" "(32 + n) mod 8 = n mod 8" "n < 32 \<longleftrightarrow> n div 8 < 4"
      using mod_mult_self3 [of 4 8 n] by auto
    then show "bit (take_bit 32 (drop_bit 32 w)) n \<longleftrightarrow> bit (ucast (of_le [b4, b5, b6, b7] :: u32) :: u64) n"
      by (cases "n < 32") (auto simp: bit_simps w bit_of_le_nth nth_Cons' simp del: of_le.simps)
  qed
qed
section \<open>Property\<close>

text \<open>C39: the structures of the kernel that the models of programs read by their bytes are those of
  \<open>vmlinux.h\<close>. The decoder of the object code reads every instruction as the kernel declares it,
  \<open>struct bpf_insn\<close>: from the eight bytes of a slot, whatever follows them, it takes the opcode, the
  two registers, the offset and the immediate from the bits at which the C layout puts \<open>code\<close>, the
  bit-fields \<open>dst_reg\<close> and \<open>src_reg\<close>, \<open>off\<close> and \<open>imm\<close>, and these are all eight bytes. In an element of a
  hash map the value begins where the translated programs expect it: 56 is the place of the first
  8-byte boundary behind a key of 4 or of 8 bytes in \<open>struct htab_elem\<close>. And the context and the
  header that the packet programs read are \<open>struct xdp_md\<close> and \<open>struct ethhdr\<close>.\<close>

theorem kernel_structs_read:
  assumes "length b = 8"
  shows "\<exists>op dst src off imm. slots (b @ rest) = (op, dst, src, off, imm) # slots rest \<and>
    map (member_value struct_bpf_insn b) [''code'', ''dst_reg'', ''src_reg'', ''off'', ''imm''] =
      [Some (ucast op), Some (of_nat dst), Some (of_nat src), Some (ucast off), Some (ucast imm)] \<and>
    k_size struct_bpf_insn = 8 \<and>
    map_option (\<lambda>z. int (round_up (z + 4) 8)) (member_offset struct_htab_elem ''key'') = Some htab_elem_size \<and>
    map_option (\<lambda>z. int (round_up (z + 8) 8)) (member_offset struct_htab_elem ''key'') = Some htab_elem_size \<and>
    struct_xdp_md = embed (Struct_of xdp_md_fields) \<and> struct_ethhdr = embed (Struct_of ethhdr_fields)"
proof -
  obtain b0 b1 b2 b3 b4 b5 b6 b7 where b: "b = [b0, b1, b2, b3, b4, b5, b6, b7]"
    using length_8 [OF assms] by blast
  have "slots (b @ rest) =
      (b0, unat (b1 AND 15), unat (drop_bit 4 b1), of_le [b2, b3], of_le [b4, b5, b6, b7]) # slots rest"
    by (simp add: b)
  moreover have "map (member_value struct_bpf_insn b) [''code'', ''dst_reg'', ''src_reg'', ''off'', ''imm''] =
      [Some (ucast b0), Some (of_nat (unat (b1 AND 15))), Some (of_nat (unat (drop_bit 4 b1))),
       Some (ucast (of_le [b2, b3] :: u16)), Some (ucast (of_le [b4, b5, b6, b7] :: u32))]"
    using insn_members by (simp add: member_value_def b slot_bits del: of_le.simps)
  ultimately show ?thesis
    by (simp add: insn_size htab_key_offset htab_elem_size_def round_up_def program_structs del: slots.simps)
qed

theorem kernel_structs_read_witness:
  "slots [0x7b, 0x1a, 0xf8, 0xff, 0, 0, 0, 0] = [(0x7b, 10, 1, 0xfff8, 0)] \<and>
   member_value struct_bpf_insn [0x7b, 0x1a, 0xf8, 0xff, 0, 0, 0, 0] ''src_reg'' = Some 1"
proof -
  have "length [0x7b :: u8, 0x1a, 0xf8, 0xff, 0, 0, 0, 0] = 8" by simp
  from kernel_structs_read [OF this, of "[]"] show ?thesis by auto
qed

end
