(* ===== verification/X86.thy ===== *)
theory X86
  imports Bytecode
begin

text \<open>
  A machine for the x86 instructions in the listings of \<open>bpftool prog dump jited\<close>, in the
  syntax and operand order of the listings. Registers hold the values of the bytecode machine;
  the memory is that of the bytecode machine, with the frame of the function and what it saves
  on the stack below and above. Code is a list of addresses and instructions.
\<close>

section \<open>Instructions\<close>

datatype xreg = RAX | RCX | RDX | RBX | RSP | RBP | RSI | RDI | R8 | R9 | R10 | R11 | R12 | R13 | R14 | R15

text \<open>
  Sources come before destinations. Loads and stores have a displacement and a base; \<open>movl\<close>
  and \<open>movzbq\<close> extend with zeros. Immediates of 32 bits are sign-extended, except in \<open>movl\<close>.
\<close>

datatype xinsn =
    NOP | INT3
  | PUSHQ xreg | POPQ xreg
  | MOVQ xreg xreg | MOVABSQ u64 xreg | MOVL u32 xreg | XORL xreg xreg
  | MOVL_LD u16 xreg xreg | MOVQ_LD u16 xreg xreg | MOVZBQ_LD u16 xreg xreg
  | MOVL_ST xreg u16 xreg | MOVQ_ST xreg u16 xreg
  | ADDQ xreg xreg | ADDQ_I u32 xreg | SUBQ_I u32 xreg
  | SHLQ nat xreg | SHRQ nat xreg | SARQ nat xreg
  | TESTQ xreg xreg | CMPQ_I u32 xreg
  | JE int | JA int | JMP int
  | CALLQ u64 | LEAVE | RETQ

text \<open>
  \<open>saved\<close> holds the 8-byte slots that \<open>push\<close> has written, by their address; a register
  need not hold a value that the machine knows. Instructions other than comparisons leave the
  flags unknown.
\<close>

record 'w xstate =
  xpc :: int
  xregs :: "xreg \<Rightarrow> val option"
  saved :: "int \<Rightarrow> val option option"
  zero_flag :: "bool option"
  carry_flag :: "bool option"
  xmem :: vmem
  xworld :: 'w

text \<open>
  What surrounds the code: the addresses of maps and data (base, length, region, offset), the
  functions it calls, and the return thunk of the kernel, a jump to which is a return.
\<close>

type_synonym places = "(u64 \<times> u64 \<times> region \<times> int) list"

type_synonym 'w xcalls = "u64 \<Rightarrow> val option list \<Rightarrow> vmem \<Rightarrow> 'w \<Rightarrow> vm_error + val \<times> vmem \<times> 'w"

definition place_of :: "places \<Rightarrow> u64 \<Rightarrow> val" where
  "place_of ls k = (case find (\<lambda>(b, n, r, a). b \<le> k \<and> k - b < n) ls of
     None \<Rightarrow> Scalar k | Some (b, n, r, a) \<Rightarrow> Addr r (a + uint (k - b)))"

section \<open>Operations\<close>

datatype 'w xoutcome = Returned u64 "'w xstate" | Running "'w xstate" | Trap vm_error

definition get_reg :: "'w xstate \<Rightarrow> xreg \<Rightarrow> vm_error + val" where
  "get_reg s r = (case xregs s r of None \<Rightarrow> Inl Bad_reg | Some v \<Rightarrow> Inr v)"

definition set_reg :: "xreg \<Rightarrow> val option \<Rightarrow> 'w xstate \<Rightarrow> 'w xstate" where
  "set_reg r v s = s\<lparr>xregs := (xregs s)(r := v)\<rparr>"

definition set_flags :: "bool option \<Rightarrow> bool option \<Rightarrow> 'w xstate \<Rightarrow> 'w xstate" where
  "set_flags z k s = s\<lparr>zero_flag := z, carry_flag := k\<rparr>"

definition go :: "int \<Rightarrow> vm_error + 'w xstate \<Rightarrow> 'w xoutcome" where
  "go a r = (case r of Inl e \<Rightarrow> Trap e | Inr s \<Rightarrow> Running (s\<lparr>xpc := a\<rparr>))"

definition stack_top :: "'w xstate \<Rightarrow> vm_error + int" where
  "stack_top s = (case xregs s RSP of Some (Addr Stack a) \<Rightarrow> Inr a | _ \<Rightarrow> Inl Bad_reg)"

text \<open>Pushing overwrites what the memory and older slots hold at the place of the new slot.\<close>

definition push :: "val option \<Rightarrow> 'w xstate \<Rightarrow> vm_error + 'w xstate" where
  "push v s = bindE (stack_top s) (\<lambda>t. let a = t - 8 in
     Inr (s\<lparr>xregs := (xregs s)(RSP := Some (Addr Stack a)),
       saved := (\<lambda>b. if b = a then Some v else if a - 8 < b \<and> b < a + 8 then None else saved s b),
       xmem := (xmem s)(Stack := (\<lambda>b. if a \<le> b \<and> b < a + 8 then None else xmem s Stack b))\<rparr>))"

text \<open>A slot can be popped while none of its bytes has been overwritten.\<close>

definition intact :: "vmem \<Rightarrow> int \<Rightarrow> bool" where
  "intact mm a = list_all (\<lambda>b. mm Stack b = None) [a..a + 7]"

definition pop :: "'w xstate \<Rightarrow> vm_error + val option \<times> 'w xstate" where
  "pop s = bindE (stack_top s) (\<lambda>a. case saved s a of
     None \<Rightarrow> Inl Bad_mem
   | Some v \<Rightarrow> if intact (xmem s) a
       then Inr (v, s\<lparr>xregs := (xregs s)(RSP := Some (Addr Stack (a + 8)))\<rparr>) else Inl Bad_mem)"

definition binop :: "alu \<Rightarrow> vm_error + val \<Rightarrow> xreg \<Rightarrow> 'w xstate \<Rightarrow> vm_error + 'w xstate" where
  "binop op v r s = bindE (get_reg s r) (\<lambda>x. bindE v (\<lambda>y. bindE (alu_op op x y) (\<lambda>z.
     Inr (set_flags None None (set_reg r (Some z) s)))))"

definition load_reg :: "nat \<Rightarrow> u16 \<Rightarrow> xreg \<Rightarrow> xreg \<Rightarrow> 'w xstate \<Rightarrow> vm_error + 'w xstate" where
  "load_reg n d b r s = bindE (get_reg s b) (\<lambda>p. bindE (load (xmem s) n p d) (\<lambda>w.
     Inr (set_reg r (Some (Scalar w)) s)))"

definition store_reg :: "nat \<Rightarrow> xreg \<Rightarrow> u16 \<Rightarrow> xreg \<Rightarrow> 'w xstate \<Rightarrow> vm_error + 'w xstate" where
  "store_reg n r d b s = bindE (get_reg s b) (\<lambda>p. bindE (get_reg s r) (\<lambda>v.
     bindE (store (xmem s) n p d v) (\<lambda>mm. Inr (s\<lparr>xmem := mm\<rparr>))))"

text \<open>An address is never null; otherwise only numbers are tested and compared.\<close>

definition test_regs :: "xreg \<Rightarrow> xreg \<Rightarrow> 'w xstate \<Rightarrow> vm_error + 'w xstate" where
  "test_regs r r' s = bindE (get_reg s r) (\<lambda>x. bindE (get_reg s r') (\<lambda>y. case (x, y) of
     (Scalar a, Scalar b) \<Rightarrow> Inr (set_flags (Some (a AND b = 0)) (Some False) s)
   | (Addr _ _, Addr _ _) \<Rightarrow> if x = y then Inr (set_flags (Some False) (Some False) s) else Inl Bad_op
   | _ \<Rightarrow> Inl Bad_op))"

definition compare_imm :: "u32 \<Rightarrow> xreg \<Rightarrow> 'w xstate \<Rightarrow> vm_error + 'w xstate" where
  "compare_imm k r s = bindE (get_reg s r) (\<lambda>x. case x of
     Scalar a \<Rightarrow> Inr (set_flags (Some (a = scast k)) (Some (a < scast k)) s) | _ \<Rightarrow> Inl Bad_op)"

text \<open>
  A call pushes a return address and runs the function, which takes its arguments in registers,
  may use the stack below, and keeps \<open>rbx\<close>, \<open>rsp\<close>, \<open>rbp\<close> and \<open>r12\<close> to \<open>r15\<close>.
\<close>

definition kept_by_calls :: "xreg \<Rightarrow> bool" where
  "kept_by_calls r = (r \<in> {RBX, RSP, RBP, R12, R13, R14, R15})"

definition call_regs :: "xreg list" where
  "call_regs = [RDI, RSI, RDX, RCX, R8]"

definition do_call :: "'w xcalls \<Rightarrow> u64 \<Rightarrow> 'w xstate \<Rightarrow> vm_error + 'w xstate" where
  "do_call fns f s = bindE (stack_top s) (\<lambda>t.
     bindE (fns f (map (xregs s) call_regs) (xmem s) (xworld s)) (\<lambda>(v, mm, w).
       Inr (s\<lparr>xregs := (\<lambda>r. if r = RAX then Some v else if kept_by_calls r then xregs s r else None),
         saved := (\<lambda>a. if a < t then None else saved s a), zero_flag := None, carry_flag := None,
         xmem := mm(Stack := (\<lambda>b. if b < t then None else mm Stack b)), xworld := w\<rparr>)))"

definition return_from :: "'w xstate \<Rightarrow> 'w xoutcome" where
  "return_from s = (case pop s of Inl e \<Rightarrow> Trap e
     | Inr (_, t) \<Rightarrow> (case xregs t RAX of Some (Scalar w) \<Rightarrow> Returned w t | _ \<Rightarrow> Trap Bad_reg))"

section \<open>Execution\<close>

text \<open>One instruction; \<open>nxt\<close> is the address of the next one.\<close>

definition x_exec :: "places \<Rightarrow> 'w xcalls \<Rightarrow> int \<Rightarrow> xinsn \<Rightarrow> int \<Rightarrow> 'w xstate \<Rightarrow> 'w xoutcome" where
  "x_exec ls fns thunk i nxt s =
     (case i of
        NOP \<Rightarrow> go nxt (Inr s)
      | INT3 \<Rightarrow> Trap Bad_insn
      | PUSHQ r \<Rightarrow> go nxt (push (xregs s r) s)
      | POPQ r \<Rightarrow> go nxt (bindE (pop s) (\<lambda>(v, t). Inr (set_reg r v t)))
      | MOVQ r r' \<Rightarrow> go nxt (Inr (set_reg r' (xregs s r) s))
      | MOVABSQ k r \<Rightarrow> go nxt (Inr (set_reg r (Some (place_of ls k)) s))
      | MOVL k r \<Rightarrow> go nxt (Inr (set_reg r (Some (Scalar (ucast k))) s))
      | XORL r r' \<Rightarrow> if r = r' then go nxt (Inr (set_flags None None (set_reg r (Some (Scalar 0)) s)))
          else Trap Bad_op
      | MOVL_LD d b r \<Rightarrow> go nxt (load_reg 4 d b r s)
      | MOVQ_LD d b r \<Rightarrow> go nxt (load_reg 8 d b r s)
      | MOVZBQ_LD d b r \<Rightarrow> go nxt (load_reg 1 d b r s)
      | MOVL_ST r d b \<Rightarrow> go nxt (store_reg 4 r d b s)
      | MOVQ_ST r d b \<Rightarrow> go nxt (store_reg 8 r d b s)
      | ADDQ r r' \<Rightarrow> go nxt (binop Add (get_reg s r) r' s)
      | ADDQ_I k r \<Rightarrow> go nxt (binop Add (Inr (Scalar (scast k))) r s)
      | SUBQ_I k r \<Rightarrow> go nxt (binop Add (Inr (Scalar (- scast k))) r s)
      | SHLQ n r \<Rightarrow> go nxt (binop Lsh (Inr (Scalar (of_nat n))) r s)
      | SHRQ n r \<Rightarrow> go nxt (binop Rsh (Inr (Scalar (of_nat n))) r s)
      | SARQ n r \<Rightarrow> go nxt (binop Arsh (Inr (Scalar (of_nat n))) r s)
      | TESTQ r r' \<Rightarrow> go nxt (test_regs r r' s)
      | CMPQ_I k r \<Rightarrow> go nxt (compare_imm k r s)
      | JE a \<Rightarrow> (case zero_flag s of None \<Rightarrow> Trap Bad_op | Some z \<Rightarrow> go (if z then a else nxt) (Inr s))
      | JA a \<Rightarrow> (case (zero_flag s, carry_flag s) of
            (Some z, Some k) \<Rightarrow> go (if \<not> z \<and> \<not> k then a else nxt) (Inr s) | _ \<Rightarrow> Trap Bad_op)
      | JMP a \<Rightarrow> if a = thunk then return_from s else go a (Inr s)
      | CALLQ f \<Rightarrow> go nxt (do_call fns f s)
      | LEAVE \<Rightarrow> go nxt (bindE (pop (set_reg RSP (xregs s RBP) s)) (\<lambda>(v, t). Inr (set_reg RBP v t)))
      | RETQ \<Rightarrow> return_from s)"

fun fetch :: "(int \<times> xinsn) list \<Rightarrow> int \<Rightarrow> (xinsn \<times> int) option" where
  "fetch [] a = None"
| "fetch [(b, i)] a = (if a = b then Some (i, b + 1) else None)"
| "fetch ((b, i) # (b', i') # rest) a = (if a = b then Some (i, b') else fetch ((b', i') # rest) a)"

definition x_step :: "(int \<times> xinsn) list \<Rightarrow> places \<Rightarrow> 'w xcalls \<Rightarrow> int \<Rightarrow> 'w xstate \<Rightarrow> 'w xoutcome" where
  "x_step code ls fns thunk s =
     (case fetch code (xpc s) of None \<Rightarrow> Trap Bad_insn | Some (i, nxt) \<Rightarrow> x_exec ls fns thunk i nxt s)"

fun x_run :: "(int \<times> xinsn) list \<Rightarrow> places \<Rightarrow> 'w xcalls \<Rightarrow> int \<Rightarrow> nat \<Rightarrow> 'w xstate
    \<Rightarrow> (vm_error + u64 \<times> 'w xstate) option" where
  "x_run code ls fns thunk 0 s = None"
| "x_run code ls fns thunk (Suc n) s =
     (case x_step code ls fns thunk s of
        Returned w t \<Rightarrow> Some (Inr (w, t)) | Trap e \<Rightarrow> Some (Inl e) | Running t \<Rightarrow> x_run code ls fns thunk n t)"

definition x_returns :: "(int \<times> xinsn) list \<Rightarrow> places \<Rightarrow> 'w xcalls \<Rightarrow> int \<Rightarrow> 'w xstate \<Rightarrow> u64 \<Rightarrow> 'w xstate \<Rightarrow> bool" where
  "x_returns code ls fns thunk s w t \<longleftrightarrow> (\<exists>n. x_run code ls fns thunk n s = Some (Inr (w, t)))"

text \<open>A call of the code: the context in \<open>rdi\<close>, the return address on the stack.\<close>

definition x_entry :: "(xreg \<Rightarrow> val option) \<Rightarrow> (int \<Rightarrow> val option option) \<Rightarrow> vmem \<Rightarrow> 'w \<Rightarrow> 'w xstate" where
  "x_entry V S mm w = \<lparr>xpc = 0, xregs = V(RDI := Some (Addr Ctx 0), RSP := Some (Addr Stack 8)),
     saved = S(8 := Some None), zero_flag = None, carry_flag = None, xmem = mm(Stack := (\<lambda>_. None)), xworld = w\<rparr>"

lemma x_returns_step:
  "x_step code ls fns th s = Running t \<Longrightarrow> x_returns code ls fns th t w u \<Longrightarrow> x_returns code ls fns th s w u"
  unfolding x_returns_def by (metis x_run.simps(2) xoutcome.simps(11))

lemma x_returns_ret: "x_step code ls fns th s = Returned w t \<Longrightarrow> x_returns code ls fns th s w t"
  unfolding x_returns_def by (rule exI [of _ 1]) simp

end
