(* ===== verification/Jit.thy ===== *)
theory Jit
  imports Translated X86
begin

text \<open>
  The machine code of a translated program, instruction by instruction: which x86 instructions
  stand for which instruction of the bytecode, the prologue and the epilogue around them, and
  the proof that code of this shape returns what the translated program returns, to its caller
  as the calling convention asks.
\<close>

section \<open>The shape of the machine code\<close>

text \<open>The host register of a bytecode register.\<close>

definition host_regs :: "xreg list" where
  "host_regs = [RAX, RDI, RSI, RDX, RCX, R8, RBX, R13, R14, R15, RBP]"

abbreviation hr :: "nat \<Rightarrow> xreg" where
  "hr i \<equiv> host_regs ! i"

definition alu_code :: "alu \<Rightarrow> nat \<Rightarrow> operand \<Rightarrow> xinsn option" where
  "alu_code op d x =
     (case x of
        Reg y \<Rightarrow> (case op of Mov \<Rightarrow> Some (MOVQ (hr y) (hr d)) | Add \<Rightarrow> Some (ADDQ (hr y) (hr d)) | _ \<Rightarrow> None)
      | Imm k \<Rightarrow> (case op of
          Mov \<Rightarrow> if k = 0 then Some (XORL (hr d) (hr d)) else if 0 \<le> sint k then Some (MOVL k (hr d)) else None
        | Add \<Rightarrow> Some (ADDQ_I k (hr d))
        | Lsh \<Rightarrow> if 0 \<le> sint k then Some (SHLQ (unat k) (hr d)) else None
        | Rsh \<Rightarrow> if 0 \<le> sint k then Some (SHRQ (unat k) (hr d)) else None
        | Arsh \<Rightarrow> if 0 \<le> sint k then Some (SARQ (unat k) (hr d)) else None
        | Or \<Rightarrow> None))"

definition load_code :: "nat \<Rightarrow> nat \<Rightarrow> nat \<Rightarrow> u16 \<Rightarrow> xinsn option" where
  "load_code n d x off = (if n = 4 then Some (MOVL_LD off (hr x) (hr d)) else if n = 8 then Some (MOVQ_LD off (hr x) (hr d))
     else if n = 1 then Some (MOVZBQ_LD off (hr x) (hr d)) else None)"

definition store_code :: "nat \<Rightarrow> nat \<Rightarrow> u16 \<Rightarrow> nat \<Rightarrow> xinsn option" where
  "store_code n d off x = (if n = 4 then Some (MOVL_ST (hr x) off (hr d))
     else if n = 8 then Some (MOVQ_ST (hr x) off (hr d)) else None)"

definition jump_code :: "cond \<Rightarrow> nat \<Rightarrow> operand \<Rightarrow> int \<Rightarrow> xinsn list option" where
  "jump_code cnd d x a =
     (case (cnd, x) of
        (Eq, Imm k) \<Rightarrow> if k = 0 then Some [TESTQ (hr d) (hr d), JE a] else None
      | (Gt, Imm k) \<Rightarrow> Some [CMPQ_I k (hr d), JA a]
      | _ \<Rightarrow> None)"

text \<open>The address behind instructions that stand at an address.\<close>

fun behind :: "(int \<times> xinsn) list \<Rightarrow> int \<Rightarrow> xinsn list \<Rightarrow> int option" where
  "behind code a [] = Some a"
| "behind code a (x # xs) = (case fetch code a of
     Some (y, b) \<Rightarrow> if y = x then behind code b xs else None | None \<Rightarrow> None)"

definition prologue :: "nat \<Rightarrow> xreg list \<Rightarrow> xinsn list" where
  "prologue n pushed = [NOP, NOP, PUSHQ RBP, MOVQ RSP RBP] @
     (if n = 0 then [] else [SUBQ_I (of_nat n) RSP]) @ map PUSHQ pushed"

definition epilogue :: "xreg list \<Rightarrow> xinsn list" where
  "epilogue pushed = map POPQ (rev pushed) @ [LEAVE]"

text \<open>
  What is known of machine code: its instructions, the addresses of its maps and data, the
  address from which calls are measured, the return thunk, the size of the frame, the registers
  it saves, and the address of the code of each slot.
\<close>

record jited =
  j_code :: "(int \<times> xinsn) list"
  j_places :: places
  j_base :: u64
  j_thunk :: int
  j_frame :: nat
  j_pushed :: "xreg list"
  j_slots :: "int list"

text \<open>A register that is written must be saved, or be one that calls need not keep.\<close>

definition may_write :: "jited \<Rightarrow> nat \<Rightarrow> bool" where
  "may_write J d \<longleftrightarrow> d < 10 \<and> (kept_by_calls (hr d) \<longrightarrow> hr d \<in> set (j_pushed J))"

text \<open>One instruction, for which a single x86 instruction stands.\<close>

definition single_ok :: "jited \<Rightarrow> int \<Rightarrow> xinsn option \<Rightarrow> bool" where
  "single_ok J q x \<longleftrightarrow> (case (x, fetch (j_code J) (j_slots J ! nat q)) of
     (Some y, Some (z, b)) \<Rightarrow> z = y \<and> placed (j_slots J) (q + 1) b | _ \<Rightarrow> False)"

definition exit_ok :: "jited \<Rightarrow> int \<Rightarrow> bool" where
  "exit_ok J q \<longleftrightarrow> (case behind (j_code J) (j_slots J ! nat q) (epilogue (j_pushed J)) of
     None \<Rightarrow> False
   | Some b \<Rightarrow> (case fetch (j_code J) b of
       Some (RETQ, _) \<Rightarrow> True | Some (JMP a, _) \<Rightarrow> a = j_thunk J | _ \<Rightarrow> False))"

definition jump_ok :: "jited \<Rightarrow> int \<Rightarrow> int \<Rightarrow> (int \<Rightarrow> xinsn list option) \<Rightarrow> bool" where
  "jump_ok J q p xs \<longleftrightarrow> 0 \<le> p \<and> nat p < length (j_slots J) \<and>
     (case xs (j_slots J ! nat p) of None \<Rightarrow> False
      | Some ys \<Rightarrow> (case behind (j_code J) (j_slots J ! nat q) ys of None \<Rightarrow> False
                    | Some b \<Rightarrow> placed (j_slots J) (q + 1) b))"

definition insn_jited :: "relocs \<Rightarrow> jited \<Rightarrow> int \<Rightarrow> insn \<Rightarrow> bool" where
  "insn_jited rel J q i =
     (case i of
        Alu64 op d x \<Rightarrow> may_write J d \<and> (case x of Reg y \<Rightarrow> y < 11 | _ \<Rightarrow> True) \<and> single_ok J q (alu_code op d x)
      | Ld_imm64 d k \<Rightarrow> may_write J d \<and> (case fetch (j_code J) (j_slots J ! nat q) of
            Some (MOVABSQ k' r, b) \<Rightarrow> r = hr d \<and> place_of (j_places J) k' = ld_imm rel q k \<and> placed (j_slots J) (q + 2) b
          | Some (MOVL k' r, b) \<Rightarrow> r = hr d \<and> Scalar (ucast k') = ld_imm rel q k \<and> placed (j_slots J) (q + 2) b
          | _ \<Rightarrow> False)
      | Ldx n d x off \<Rightarrow> may_write J d \<and> x < 11 \<and> single_ok J q (load_code n d x off)
      | Stx n d off x \<Rightarrow> d < 11 \<and> x < 11 \<and> single_ok J q (store_code n d off x)
      | Jmp cnd d x off \<Rightarrow> d < 11 \<and> jump_ok J q (q + 1 + sint off) (jump_code cnd d x)
      | Ja off \<Rightarrow> (case fetch (j_code J) (j_slots J ! nat q) of
            Some (JMP a, _) \<Rightarrow> a \<noteq> j_thunk J \<and> placed (j_slots J) (q + 1 + sint off) a | _ \<Rightarrow> False)
      | Call n \<Rightarrow> (case fetch (j_code J) (j_slots J ! nat q) of
            Some (CALLQ f, b) \<Rightarrow> ucast (f - j_base J) = n \<and> placed (j_slots J) (q + 1) b | _ \<Rightarrow> False)
      | Exit \<Rightarrow> exit_ok J q)"

definition jits :: "relocs \<Rightarrow> insn option list \<Rightarrow> jited \<Rightarrow> bool" where
  "jits rel Q J \<longleftrightarrow> length (j_slots J) = length Q \<and> Q \<noteq> [] \<and> j_frame J \<le> 512 \<and>
     distinct (j_pushed J) \<and> list_all (\<lambda>r. kept_by_calls r \<and> r \<noteq> RSP \<and> r \<noteq> RBP) (j_pushed J) \<and>
     behind (j_code J) 0 (prologue (j_frame J) (j_pushed J)) = Some (j_slots J ! 0) \<and>
     list_all (\<lambda>q. case Q ! q of None \<Rightarrow> True | Some i \<Rightarrow> insn_jited rel J (int q) i) [0..<length Q]"

text \<open>The functions it calls, by their distance from the base.\<close>

definition linked :: "u64 \<Rightarrow> 'w helper_fn \<Rightarrow> 'w xcalls" where
  "linked base h f = h (ucast (f - base))"

section \<open>Running machine code\<close>

inductive x_reaches :: "(int \<times> xinsn) list \<Rightarrow> places \<Rightarrow> 'w xcalls \<Rightarrow> int \<Rightarrow> 'w xstate \<Rightarrow> 'w xstate \<Rightarrow> bool"
  for code ls fns th where
  here: "x_reaches code ls fns th s s"
| there: "x_step code ls fns th s = Running t \<Longrightarrow> x_reaches code ls fns th t u \<Longrightarrow> x_reaches code ls fns th s u"

lemma x_reaches_trans:
  "x_reaches code ls fns th s t \<Longrightarrow> x_reaches code ls fns th t u \<Longrightarrow> x_reaches code ls fns th s u"
  by (induction rule: x_reaches.induct) (auto intro: there)

lemma x_reaches_returns:
  "x_reaches code ls fns th s t \<Longrightarrow> x_returns code ls fns th t w u \<Longrightarrow> x_returns code ls fns th s w u"
  by (induction rule: x_reaches.induct) (auto intro: x_returns_step)

lemma x_reaches_one:
  assumes "fetch code (xpc s) = Some (i, b)" and "x_exec ls fns th i b s = Running t"
  shows "x_reaches code ls fns th s t"
  by (rule there [OF _ here]) (simp add: x_step_def assms)

lemma hr_eq [simp]: "i < 11 \<Longrightarrow> j < 11 \<Longrightarrow> hr i = hr j \<longleftrightarrow> i = j"
  by (simp add: nth_eq_iff_index_eq host_regs_def del: nth_Cons_numeral)

lemma less_11: "(i :: nat) < 11 \<longleftrightarrow> i = 0 \<or> i = 1 \<or> i = 2 \<or> i = 3 \<or> i = 4 \<or> i = 5 \<or> i = 6 \<or> i = 7 \<or> i = 8 \<or> i = 9 \<or> i = 10"
  by arith

lemma hr_RSP [simp]: "i < 11 \<Longrightarrow> hr i \<noteq> RSP" "i < 11 \<Longrightarrow> RSP \<noteq> hr i"
  by (auto simp: less_11 host_regs_def)

lemma hr_10 [simp]: "hr 10 = RBP"
  by (simp add: host_regs_def)

text \<open>Immediates whose sign bit is not set.\<close>

lemma unsigned_imm: "0 \<le> sint k \<Longrightarrow> (scast (k :: u32) :: u64) = ucast k"
proof -
  assume "0 \<le> sint k"
  then have "sint k = uint k" using uint_of_sint [of k] by presburger
  then show ?thesis by (simp only: scast_eq ucast_eq)
qed

lemma unsigned_imm_nat: "0 \<le> sint k \<Longrightarrow> (of_nat (unat (k :: u32)) :: u64) = scast k"
  by (simp add: unsigned_imm)

lemma set_flags_same: "set_flags (zero_flag s) (carry_flag s) s = s"
  by (simp add: set_flags_def)

lemma reg_get_SomeD: "reg_get rs i = Inr v \<Longrightarrow> rs ! i = Some v"
  by (auto simp: reg_get_def split: if_splits option.splits)

lemma binop_known:
  assumes "xregs s r = Some x" and "v = Inr y" and "alu_op op x y = Inr z"
  shows "binop op v r s = Inr (set_flags None None (set_reg r (Some z) s))"
  using assms by (simp add: binop_def get_reg_def)

lemma alu_exec:
  assumes code: "alu_code op d x = Some i" and d: "d < 11" and y: "case x of Reg y \<Rightarrow> y < 11 | _ \<Rightarrow> True"
    and rs: "\<And>j. j < 11 \<Longrightarrow> less_defined (rs ! j) (xregs s (hr j))"
    and a: "op \<noteq> Mov \<Longrightarrow> reg_get rs d = Inr a" and e: "operand_val rs x = Inr e" and v: "alu_op op a e = Inr v"
  shows "\<exists>z k. \<forall>b. x_exec ls fns th i b s = Running ((set_flags z k (set_reg (hr d) (Some v) s))\<lparr>xpc := b\<rparr>)"
proof -
  have src: "xregs s (hr y) = Some e" if "x = Reg y" for y
    using rs [of y] y e that by (auto simp: operand_val_def dest: reg_get_SomeD)
  have imm: "e = Scalar (scast k)" if "x = Imm k" for k
    using e that by (simp add: operand_val_def)
  show ?thesis
  proof (cases "op = Mov")
    case True
    then have "e = v" using v by (simp add: alu_op_def)
    have "\<exists>z k. \<forall>b. x_exec ls fns th i b s = go b (Inr (set_flags z k (set_reg (hr d) (Some e) s)))"
    proof (cases x)
      case (Reg y)
      then show ?thesis
        using code True src by (intro exI [of _ "zero_flag s"] exI [of _ "carry_flag s"])
          (auto simp: alu_code_def x_exec_def set_reg_def set_flags_def)
    next
      case (Imm k)
      then show ?thesis
        using code True imm unsigned_imm [of k]
        by (cases "k = 0"; intro exI [of _ "if k = 0 then None else zero_flag s"] exI [of _ "if k = 0 then None else carry_flag s"])
           (auto simp: alu_code_def x_exec_def set_reg_def set_flags_def split: if_splits)
    qed
    then show ?thesis by (simp add: go_def \<open>e = v\<close>)
  next
    case False
    then have dst: "xregs s (hr d) = Some a"
      using rs [OF d] a by (auto dest: reg_get_SomeD)
    have "x_exec ls fns th i b s = go b (binop op (Inr e) (hr d) s)" for b
    proof (cases x)
      case (Reg y)
      then show ?thesis
        using code False src [of y] by (cases op) (auto simp: alu_code_def x_exec_def get_reg_def)
    next
      case (Imm k)
      then show ?thesis
        using code False imm [of k] unsigned_imm_nat [of k]
        by (cases op) (auto simp: alu_code_def x_exec_def split: if_splits)
    qed
    then show ?thesis using binop_known [OF dst refl v] by (auto simp: go_def)
  qed
qed

lemma load_exec:
  assumes "load_code n d x off = Some i" and "xregs s (hr x) = Some p" and "load (xmem s) n p off = Inr w"
  shows "x_exec ls fns th i b s = Running ((set_reg (hr d) (Some (Scalar w)) s)\<lparr>xpc := b\<rparr>)"
  using assms by (auto simp: load_code_def x_exec_def load_reg_def get_reg_def go_def split: if_splits)

lemma store_exec:
  assumes "store_code n d off x = Some i" and "xregs s (hr d) = Some p" and "xregs s (hr x) = Some v"
    and "store (xmem s) n p off v = Inr mm"
  shows "x_exec ls fns th i b s = Running (s\<lparr>xmem := mm, xpc := b\<rparr>)"
  using assms by (auto simp: store_code_def x_exec_def store_reg_def get_reg_def go_def split: if_splits)

text \<open>A comparison and the jump behind it.\<close>

lemma jump_exec:
  assumes xs: "jump_code cnd d x a = Some xs" and b: "behind code (xpc s) xs = Some b"
    and v: "xregs s (hr d) = Some v" "operand_val rs x = Inr u" "cond_holds cnd v u = Inr t"
  shows "\<exists>z k. x_reaches code ls fns th s ((set_flags z k s)\<lparr>xpc := if t then a else b\<rparr>)"
proof -
  obtain k where k: "x = Imm k" "u = Scalar (scast k)"
    using xs v(2) by (cases cnd; cases x) (auto simp: jump_code_def operand_val_def)
  have two: "x_reaches code ls fns th s (y\<lparr>xpc := if t then a else b\<rparr>)"
    if two: "xs = [i, j]" "\<And>b. x_exec ls fns th i b s = Running (y\<lparr>xpc := b\<rparr>)"
      "\<And>b'. x_exec ls fns th j b (y\<lparr>xpc := b'\<rparr>) = Running (y\<lparr>xpc := if t then a else b\<rparr>)" for i j y
  proof -
    obtain b' where "fetch code (xpc s) = Some (i, b')" "fetch code b' = Some (j, b)"
      using b two(1) by (auto split: option.splits if_splits)
    then show ?thesis
      by (intro x_reaches_trans [OF x_reaches_one [OF _ two(2)] x_reaches_one [OF _ two(3)]]) simp_all
  qed
  show ?thesis
  proof (cases cnd)
    case Eq
    with xs k have "k = 0" "xs = [TESTQ (hr d) (hr d), JE a]" by (auto simp: jump_code_def split: if_splits)
    moreover have "test_regs (hr d) (hr d) s = Inr (set_flags (Some t) (Some False) s)"
      using v Eq k \<open>k = 0\<close> by (cases v) (auto simp: cond_holds_def test_regs_def get_reg_def)
    ultimately have "x_reaches code ls fns th s ((set_flags (Some t) (Some False) s)\<lparr>xpc := if t then a else b\<rparr>)"
      by (intro two [of "TESTQ (hr d) (hr d)" "JE a"]) (auto simp: x_exec_def go_def set_flags_def)
    then show ?thesis by blast
  next
    case Gt
    with xs k have "xs = [CMPQ_I k (hr d), JA a]" by (auto simp: jump_code_def)
    moreover obtain w where w: "v = Scalar w" "t = (scast k < w)"
      using v(3) Gt k by (cases v) (auto simp: cond_holds_def)
    moreover from w v(1) have "compare_imm k (hr d) s = Inr (set_flags (Some (w = scast k)) (Some (w < scast k)) s)"
      by (simp add: compare_imm_def get_reg_def)
    ultimately have "x_reaches code ls fns th s
        ((set_flags (Some (w = scast k)) (Some (w < scast k)) s)\<lparr>xpc := if t then a else b\<rparr>)"
      by (intro two [of "CMPQ_I k (hr d)" "JA a"]) (auto simp: x_exec_def go_def set_flags_def)
    then show ?thesis by blast
  qed
qed

subsection \<open>Saving and restoring registers\<close>

lemma push_all:
  assumes "behind code (xpc x) (map PUSHQ rs) = Some b" and "xregs x RSP = Some (Addr Stack t)"
    and "RSP \<notin> set rs" and "xmem x Stack = (\<lambda>_. None)"
  shows "\<exists>u. x_reaches code ls fns th x u \<and> xpc u = b \<and>
    xregs u = (xregs x)(RSP := Some (Addr Stack (t - 8 * int (length rs)))) \<and> xmem u = xmem x \<and> xworld u = xworld x \<and>
    (\<forall>a \<ge> t. saved u a = saved x a) \<and> (\<forall>i < length rs. saved u (t - 8 * int (Suc i)) = Some (xregs x (rs ! i)))"
  using assms
proof (induction rs arbitrary: x t)
  case Nil
  then show ?case by (intro exI [of _ x]) (auto intro: here)
next
  case (Cons r rs)
  then obtain a where a: "fetch code (xpc x) = Some (PUSHQ r, a)" "behind code a (map PUSHQ rs) = Some b"
    by (auto split: option.splits if_splits)
  let ?y = "x\<lparr>xregs := (xregs x)(RSP := Some (Addr Stack (t - 8))),
    saved := (\<lambda>b. if b = t - 8 then Some (xregs x r) else if t - 8 - 8 < b \<and> b < t - 8 + 8 then None else saved x b),
    xmem := (xmem x)(Stack := (\<lambda>b. if t - 8 \<le> b \<and> b < t then None else xmem x Stack b)), xpc := a\<rparr>"
  have one: "x_reaches code ls fns th x ?y"
    using Cons.prems by (intro x_reaches_one [OF a(1)]) (simp add: x_exec_def push_def stack_top_def go_def Let_def)
  have m: "xmem ?y = xmem x" using Cons.prems(4) by (intro ext) simp
  have pre: "behind code (xpc ?y) (map PUSHQ rs) = Some b" "xregs ?y RSP = Some (Addr Stack (t - 8))" "RSP \<notin> set rs"
    "xmem ?y Stack = (\<lambda>_. None)" using a(2) Cons.prems(3,4) m by simp_all
  from Cons.IH [OF pre] obtain u where u: "x_reaches code ls fns th ?y u" "xpc u = b"
    "xregs u = (xregs ?y)(RSP := Some (Addr Stack (t - 8 - 8 * int (length rs))))" "xmem u = xmem ?y" "xworld u = xworld ?y"
    "\<forall>a \<ge> t - 8. saved u a = saved ?y a" "\<forall>i < length rs. saved u (t - 8 - 8 * int (Suc i)) = Some (xregs ?y (rs ! i))"
    by blast
  have "saved u (t - 8 * int (Suc i)) = Some (xregs x ((r # rs) ! i))" if "i < length (r # rs)" for i
  proof (cases i)
    case 0
    then show ?thesis using u(6) by simp
  next
    case (Suc j)
    then have "rs ! j \<noteq> RSP" using that Cons.prems(3) by (metis Suc_less_eq length_Cons list.set_intros(2) nth_mem)
    then show ?thesis using u(7) that Suc by (simp add: algebra_simps)
  qed
  with u m x_reaches_trans [OF one u(1)] show ?case
    by (intro exI [of _ u]) (auto simp: algebra_simps)
qed

lemma pop_all:
  assumes "behind code (xpc x) (map POPQ rs) = Some b" and "xregs x RSP = Some (Addr Stack t)"
    and "RSP \<notin> set rs" and "distinct rs"
    and "\<forall>i < length rs. saved x (t + 8 * int i) = Some (vs i) \<and> intact (xmem x) (t + 8 * int i)"
  shows "\<exists>u. x_reaches code ls fns th x u \<and> xpc u = b \<and> xregs u RSP = Some (Addr Stack (t + 8 * int (length rs))) \<and>
    (\<forall>i < length rs. xregs u (rs ! i) = vs i) \<and> (\<forall>r. r \<notin> set rs \<longrightarrow> r \<noteq> RSP \<longrightarrow> xregs u r = xregs x r) \<and>
    xmem u = xmem x \<and> xworld u = xworld x \<and> saved u = saved x"
  using assms
proof (induction rs arbitrary: x t vs)
  case Nil
  then show ?case by (intro exI [of _ x]) (auto intro: here)
next
  case (Cons r rs)
  then obtain a where a: "fetch code (xpc x) = Some (POPQ r, a)" "behind code a (map POPQ rs) = Some b"
    by (auto split: option.splits if_splits)
  let ?y = "x\<lparr>xregs := (xregs x)(RSP := Some (Addr Stack (t + 8)), r := vs 0), xpc := a\<rparr>"
  have "saved x t = Some (vs 0)" "intact (xmem x) t" using Cons.prems(5) by force+
  then have one: "x_reaches code ls fns th x ?y"
    using Cons.prems by (intro x_reaches_one [OF a(1)]) (simp add: x_exec_def pop_def stack_top_def go_def set_reg_def)
  have sl: "saved ?y (t + 8 + 8 * int i) = Some (vs (Suc i)) \<and> intact (xmem ?y) (t + 8 + 8 * int i)" if "i < length rs" for i
    using Cons.prems(5) that by (auto simp: algebra_simps dest!: spec [of _ "Suc i"])
  have pre: "behind code (xpc ?y) (map POPQ rs) = Some b" "xregs ?y RSP = Some (Addr Stack (t + 8))" "RSP \<notin> set rs"
    "distinct rs" using a(2) Cons.prems(3,4) by simp_all
  from Cons.IH [OF pre, of "\<lambda>i. vs (Suc i)"] sl obtain u where u: "x_reaches code ls fns th ?y u" "xpc u = b"
    "xregs u RSP = Some (Addr Stack (t + 8 + 8 * int (length rs)))" "\<forall>i < length rs. xregs u (rs ! i) = vs (Suc i)"
    "\<forall>r. r \<notin> set rs \<longrightarrow> r \<noteq> RSP \<longrightarrow> xregs u r = xregs ?y r"
    "xmem u = xmem ?y" "xworld u = xworld ?y" "saved u = saved ?y"
    by blast
  have "xregs u ((r # rs) ! i) = vs i" if "i < length (r # rs)" for i
    using that u(4,5) Cons.prems(3,4) by (cases i) auto
  with u x_reaches_trans [OF one u(1)] show ?case
    by (intro exI [of _ u]) (auto simp: algebra_simps)
qed

lemma behind_append: "behind code a (xs @ ys) = Option.bind (behind code a xs) (\<lambda>b. behind code b ys)"
  by (induction xs arbitrary: a) (auto split: option.split)

lemma frame_sub:
  assumes "n \<le> 512"
  shows "sint (- (scast (of_nat n :: u32) :: u64)) = - int n"
proof -
  have s: "sint (of_nat n :: u32) = int n"
    using assms by (simp add: signed_of_nat signed_take_bit_int_eq_self)
  then have "(scast (of_nat n :: u32) :: u64) = of_int (int n)" by (simp add: scast_eq)
  then have "sint (- (scast (of_nat n :: u32) :: u64)) = sint (of_int (- int n) :: u64)" by simp
  also have "\<dots> = - int n"
    using assms by (simp add: signed_of_int signed_take_bit_int_eq_self del: of_int_minus)
  finally show ?thesis .
qed

text \<open>The prologue saves the frame pointer of the caller, sets its own and makes room.\<close>

lemma prologue_run:
  assumes b: "behind code 0 (prologue n pushed) = Some b" and n: "n \<le> 512"
    and p: "\<forall>r \<in> set pushed. r \<noteq> RSP \<and> r \<noteq> RBP \<and> r \<noteq> RDI"
  shows "\<exists>u. x_reaches code ls fns th (x_entry V S mm w) u \<and> xpc u = b \<and>
    xregs u = V(RDI := Some (Addr Ctx 0), RBP := Some (Addr Stack 0),
       RSP := Some (Addr Stack (- int n - 8 * int (length pushed)))) \<and>
    saved u 8 = Some None \<and> saved u 0 = Some (V RBP) \<and>
    (\<forall>i < length pushed. saved u (- int n - 8 * int (Suc i)) = Some (V (pushed ! i))) \<and>
    xmem u = mm(Stack := (\<lambda>_. None)) \<and> xworld u = w"
proof -
  let ?x = "x_entry V S mm w"
  obtain a1 a2 a3 a4 a5 where a: "fetch code 0 = Some (NOP, a1)" "fetch code a1 = Some (NOP, a2)"
      "fetch code a2 = Some (PUSHQ RBP, a3)" "fetch code a3 = Some (MOVQ RSP RBP, a4)"
      "behind code a4 (if n = 0 then [] else [SUBQ_I (of_nat n) RSP]) = Some a5"
      "behind code a5 (map PUSHQ pushed) = Some b"
    using b by (auto simp: prologue_def behind_append bind_eq_Some_conv split: option.split_asm if_split_asm)
  define y where "y = (?x\<lparr>xregs := V(RDI := Some (Addr Ctx 0), RBP := Some (Addr Stack 0), RSP := Some (Addr Stack 0)),
    saved := (\<lambda>b. if b = 0 then Some (V RBP) else if - 8 < b \<and> b < 8 then None else (S(8 := Some None)) b), xpc := a4\<rparr>)"
  have 1: "x_reaches code ls fns th ?x (?x\<lparr>xpc := a1\<rparr>)"
    by (rule x_reaches_one) (auto simp: x_entry_def x_exec_def go_def a)
  have 2: "x_reaches code ls fns th (?x\<lparr>xpc := a1\<rparr>) (?x\<lparr>xpc := a2\<rparr>)"
    by (rule x_reaches_one) (auto simp: x_entry_def x_exec_def go_def a)
  have 3: "x_reaches code ls fns th (?x\<lparr>xpc := a2\<rparr>) (y\<lparr>xregs := (xregs y)(RBP := V RBP), xpc := a3\<rparr>)"
    by (rule x_reaches_one [where i = "PUSHQ RBP" and b = a3])
       (simp_all add: x_entry_def x_exec_def go_def a y_def push_def stack_top_def Let_def fun_eq_iff)
  have 4: "x_reaches code ls fns th (y\<lparr>xregs := (xregs y)(RBP := V RBP), xpc := a3\<rparr>) y"
    by (rule x_reaches_one [where i = "MOVQ RSP RBP" and b = a4])
       (simp_all add: x_exec_def go_def a y_def set_reg_def x_entry_def fun_eq_iff)
  note y = x_reaches_trans [OF 1 x_reaches_trans [OF 2 x_reaches_trans [OF 3 4]]]
  have "\<exists>z. x_reaches code ls fns th y z \<and> xpc z = a5 \<and> xregs z = (xregs y)(RSP := Some (Addr Stack (- int n))) \<and>
    saved z = saved y \<and> xmem z = xmem y \<and> xworld z = xworld y"
  proof (cases "n = 0")
    case True
    then show ?thesis using a(5) by (intro exI [of _ y]) (auto simp: y_def intro: here)
  next
    case False
    then have f: "fetch code (xpc y) = Some (SUBQ_I (of_nat n) RSP, a5)"
      using a(5) by (auto simp: y_def split: option.split_asm if_split_asm)
    have "alu_op Add (Addr Stack 0) (Scalar (- scast (of_nat n :: u32))) = Inr (Addr Stack (- int n))"
      using frame_sub [OF n] by (simp add: alu_op_def)
    then have "binop Add (Inr (Scalar (- scast (of_nat n :: u32)))) RSP y =
        Inr (set_flags None None (set_reg RSP (Some (Addr Stack (- int n))) y))"
      by (intro binop_known [OF _ refl]) (simp_all add: y_def)
    then have "x_reaches code ls fns th y ((set_flags None None (set_reg RSP (Some (Addr Stack (- int n))) y))\<lparr>xpc := a5\<rparr>)"
      by (intro x_reaches_one [OF f]) (simp add: x_exec_def go_def)
    then show ?thesis by (intro exI conjI, assumption) (simp_all add: set_flags_def set_reg_def)
  qed
  then obtain z where z: "x_reaches code ls fns th y z" "xpc z = a5" "xregs z = (xregs y)(RSP := Some (Addr Stack (- int n)))"
    "saved z = saved y" "xmem z = xmem y" "xworld z = xworld y" by blast
  have ym: "xmem y = mm(Stack := (\<lambda>_. None))" "xworld y = w" by (simp_all add: y_def x_entry_def)
  obtain u where u: "x_reaches code ls fns th z u" "xpc u = b"
    "xregs u = (xregs z)(RSP := Some (Addr Stack (- int n - 8 * int (length pushed))))" "xmem u = xmem z" "xworld u = xworld z"
    "\<forall>a \<ge> - int n. saved u a = saved z a"
    "\<forall>i < length pushed. saved u (- int n - 8 * int (Suc i)) = Some (xregs z (pushed ! i))"
    using push_all [of code z pushed b "- int n" ls fns th] a(6) p z ym by auto
  have "saved u (- int n - 8 * int (Suc i)) = Some (V (pushed ! i))" if "i < length pushed" for i
  proof -
    have "pushed ! i \<in> set pushed" using that by simp
    with p have "xregs z (pushed ! i) = V (pushed ! i)" by (auto simp: z(3) y_def)
    then show ?thesis using u(7) that by simp
  qed
  moreover have "xregs u = V(RDI := Some (Addr Ctx 0), RBP := Some (Addr Stack 0),
       RSP := Some (Addr Stack (- int n - 8 * int (length pushed))))"
    unfolding u(3) z(3) by (intro ext) (simp add: y_def)
  moreover have "saved u 8 = Some None" "saved u 0 = Some (V RBP)"
    using u(6) by (simp_all add: z(4) y_def)
  ultimately show ?thesis
    using x_reaches_trans [OF y x_reaches_trans [OF z(1) u(1)]] u(2,4,5) z(5,6) ym by (intro exI [of _ u]) simp
qed

text \<open>The epilogue restores what the prologue has saved, and returns.\<close>

lemma intact_below: "stack_within n mm \<Longrightarrow> a + 8 \<le> - n \<or> 0 \<le> a \<Longrightarrow> intact mm a"
  by (cases "\<exists>b \<in> {a..a + 7}. mm Stack b \<noteq> None") (auto simp: intact_def list_all_iff stack_within_def)

lemma epilogue_run:
  assumes b: "behind code (xpc x) (epilogue pushed) = Some b" and f: "fetch code b = Some (i, b')"
    and i: "i = RETQ \<or> i = JMP th" and n: "stack_within (int n) (xmem x)"
    and p: "\<forall>r \<in> set pushed. kept_by_calls r \<and> r \<noteq> RSP \<and> r \<noteq> RBP" "distinct pushed"
    and top: "xregs x RSP = Some (Addr Stack (- int n - 8 * int (length pushed)))"
    and fp: "xregs x RBP = Some (Addr Stack 0)" and rax: "xregs x RAX = Some (Scalar w)"
    and s: "saved x 8 = Some None" "saved x 0 = Some (V RBP)"
      "\<And>i. i < length pushed \<Longrightarrow> saved x (- int n - 8 * int (Suc i)) = Some (V (pushed ! i))"
  obtains u where "x_returns code ls fns th x w u" "xregs u RSP = Some (Addr Stack 16)" "xregs u RBP = V RBP"
    "\<And>r. r \<in> set pushed \<Longrightarrow> xregs u r = V r"
    "\<And>r. r \<notin> set pushed \<Longrightarrow> r \<noteq> RSP \<Longrightarrow> r \<noteq> RBP \<Longrightarrow> xregs u r = xregs x r"
    "xmem u = xmem x" "xworld u = xworld x"
proof -
  let ?rs = "rev pushed" and ?t = "- int n - 8 * int (length pushed)"
  obtain a where a: "behind code (xpc x) (map POPQ ?rs) = Some a" "fetch code a = Some (LEAVE, b)"
    using b by (auto simp: epilogue_def behind_append bind_eq_Some_conv split: option.split_asm if_split_asm)
  have sl: "saved x (?t + 8 * int i) = Some (V (?rs ! i)) \<and> intact (xmem x) (?t + 8 * int i)" if "i < length ?rs" for i
  proof -
    let ?j = "length pushed - Suc i"
    have j: "?t + 8 * int i = - int n - 8 * int (Suc ?j)" "?j < length pushed"
      using that by (simp_all add: of_nat_diff algebra_simps)
    moreover have "?rs ! i = pushed ! ?j" using that by (simp add: rev_nth)
    moreover have "intact (xmem x) (- int n - 8 * int (Suc ?j))" by (rule intact_below [OF n]) simp
    ultimately show ?thesis unfolding j(1) using s(3) [of ?j] by simp
  qed
  have "RSP \<notin> set ?rs" "distinct ?rs" using p by auto
  moreover have "\<forall>i < length ?rs. saved x (?t + 8 * int i) = Some (V (?rs ! i)) \<and> intact (xmem x) (?t + 8 * int i)"
    using sl by blast
  ultimately obtain y where
    y: "x_reaches code ls fns th x y" "xpc y = a" "\<forall>i < length ?rs. xregs y (?rs ! i) = V (?rs ! i)"
    "\<forall>r. r \<notin> set ?rs \<longrightarrow> r \<noteq> RSP \<longrightarrow> xregs y r = xregs x r" "xmem y = xmem x" "xworld y = xworld x" "saved y = saved x"
    using pop_all [OF a(1) top, of "\<lambda>i. V (?rs ! i)" ls fns th] by blast
  have py: "xregs y r = V r" if "r \<in> set pushed" for r
  proof -
    have "r \<in> set ?rs" using that by simp
    then obtain i where "i < length ?rs" "?rs ! i = r" by (auto simp: in_set_conv_nth simp del: set_rev length_rev)
    then show ?thesis using y(3) by blast
  qed
  have fpy: "xregs y RBP = Some (Addr Stack 0)" "xregs y RAX = Some (Scalar w)"
  proof -
    have "RBP \<notin> set ?rs" "RAX \<notin> set ?rs" using p(1) by (auto simp: kept_by_calls_def)
    with y(4) have "xregs y RBP = xregs x RBP" "xregs y RAX = xregs x RAX" by simp_all
    with fp rax show "xregs y RBP = Some (Addr Stack 0)" "xregs y RAX = Some (Scalar w)" by simp_all
  qed
  let ?z = "y\<lparr>xregs := (xregs y)(RSP := Some (Addr Stack 8), RBP := V RBP), xpc := b\<rparr>"
  let ?u = "?z\<lparr>xregs := (xregs ?z)(RSP := Some (Addr Stack 16))\<rparr>"
  have i0: "intact (xmem x) 0" "intact (xmem x) 8" by (auto intro: intact_below [OF n])
  have z: "x_reaches code ls fns th y ?z"
    using a(2) fpy s(2) i0 y(2,5,7)
    by (intro x_reaches_one [where i = LEAVE and b = b])
       (simp_all add: x_exec_def pop_def stack_top_def set_reg_def go_def)
  have "return_from ?z = Returned w ?u"
    using s(1) i0 y(5,7) fpy by (simp add: return_from_def pop_def stack_top_def)
  then have "x_step code ls fns th ?z = Returned w ?u"
    using f i by (auto simp: x_step_def x_exec_def)
  then have "x_returns code ls fns th x w ?u"
    by (rule x_reaches_returns [OF x_reaches_trans [OF y(1) z] x_returns_ret])
  then show thesis
    using py y(4-6) p by (intro that [of ?u]) auto
qed

section \<open>Machine code of that shape\<close>

lemma halt_same: "step code h rel s = Halt w t \<Longrightarrow> t = s"
  by (auto simp: step_def exec_insn_def continue_with_def
      split: if_split_asm option.split_asm insn.split_asm sum.split_asm val.split_asm)

locale machine_code = called_functions h for h :: "'w helper_fn" +
  fixes rel :: relocs and Q :: "insn option list" and J :: jited
  assumes jits: "jits rel Q J"
begin

abbreviation reaches where
  "reaches \<equiv> x_reaches (j_code J) (j_places J) (linked (j_base J) h) (j_thunk J)"

abbreviation slots_at where
  "slots_at \<equiv> placed (j_slots J)"

definition saved_top :: int where
  "saved_top = - int (j_frame J) - 8 * int (length (j_pushed J))"

text \<open>
  The machine in the middle of the code and the state of the translated program: \<open>V\<close> holds
  the registers of the caller, \<open>S\<close> the slots saved by the prologue.
\<close>

definition related :: "(xreg \<Rightarrow> val option) \<Rightarrow> (int \<Rightarrow> val option option) \<Rightarrow> 'w vm \<Rightarrow> 'w xstate \<Rightarrow> bool" where
  "related V S s x \<longleftrightarrow> length (regs s) = 11 \<and> regs s ! 10 = Some (Addr Stack 0) \<and> slots_at (pc s) (xpc x) \<and>
     (\<forall>i < 11. less_defined (regs s ! i) (xregs x (hr i))) \<and> xregs x RSP = Some (Addr Stack saved_top) \<and>
     (\<forall>a \<ge> saved_top. saved x a = S a) \<and>
     (\<forall>r. kept_by_calls r \<longrightarrow> r \<notin> set (j_pushed J) \<longrightarrow> r \<noteq> RSP \<longrightarrow> r \<noteq> RBP \<longrightarrow> xregs x r = V r) \<and>
     xmem x = mem s \<and> xworld x = world s"

lemma related_flags: "related V S s ((set_flags z k x)\<lparr>xpc := b\<rparr>) \<longleftrightarrow> related V S s (x\<lparr>xpc := b\<rparr>)"
  by (simp add: related_def set_flags_def)

lemma related_jump:
  "related V S s x \<Longrightarrow> slots_at p b \<Longrightarrow> related V S (s\<lparr>pc := p\<rparr>) (x\<lparr>xpc := b\<rparr>)"
  by (simp add: related_def)

lemma related_set:
  assumes "related V S s x" and "may_write J d" and "slots_at p b"
  shows "related V S (s\<lparr>regs := (regs s)[d := Some v], pc := p\<rparr>) ((set_reg (hr d) (Some v) x)\<lparr>xpc := b\<rparr>)"
  using assms by (auto simp: related_def set_reg_def may_write_def nth_list_update)

lemma related_reg: "related V S s x \<Longrightarrow> i < 11 \<Longrightarrow> regs s ! i = Some v \<Longrightarrow> xregs x (hr i) = Some v"
  by (auto simp: related_def)

lemma related_args:
  assumes "related V S s x"
  shows "list_all2 less_defined (take 5 (tl (regs s))) (map (xregs x) call_regs)"
proof -
  have "less_defined (regs s ! i) (xregs x (hr i))" if "i < 11" for i
    using assms that by (simp add: related_def)
  from this [of 1] this [of 2] this [of 3] this [of 4] this [of 5] show ?thesis
    using assms by (simp add: five_args related_def call_regs_def host_regs_def)
qed

lemma shape:
  assumes "0 \<le> pc s" and "nat (pc s) < length Q" and "Q ! nat (pc s) = Some i"
  shows "insn_jited rel J (pc s) i"
  using jits assms by (auto simp: jits_def list_all_iff dest!: bspec [of _ _ "nat (pc s)"])

lemma shape_consts:
  "distinct (j_pushed J)" "j_frame J \<le> 512" "length (j_slots J) = length Q" "Q \<noteq> []"
  "r \<in> set (j_pushed J) \<Longrightarrow> kept_by_calls r \<and> r \<noteq> RSP \<and> r \<noteq> RBP"
  "behind (j_code J) 0 (prologue (j_frame J) (j_pushed J)) = Some (j_slots J ! 0)"
  using jits by (auto simp: jits_def list_all_iff)

lemma at_slot: "related V S s x \<Longrightarrow> j_slots J ! nat (pc s) = xpc x"
  by (simp add: related_def placed_def)

lemma reaches_single:
  assumes "related V S s x" and "single_ok J (pc s) (Some y)"
    and "\<And>b. x_exec (j_places J) (linked (j_base J) h) (j_thunk J) y b x = Running (u\<lparr>xpc := b\<rparr>)"
  obtains b where "slots_at (pc s + 1) b" "reaches x (u\<lparr>xpc := b\<rparr>)"
proof -
  obtain b where "fetch (j_code J) (xpc x) = Some (y, b)" "slots_at (pc s + 1) b"
    using assms(2) at_slot [OF assms(1)] by (auto simp: single_ok_def split: option.splits)
  then show thesis by (intro that [of b] x_reaches_one [OF _ assms(3)]) simp_all
qed

lemma alu_jited:
  assumes r: "related V S s x" and i: "insn_jited rel J (pc s) (Alu64 op d y)"
    and e: "exec_insn h rel (Alu64 op d y) s = Next t"
  shows "\<exists>u. reaches x u \<and> related V S t u"
proof -
  have w: "may_write J d" "d < 11" "case y of Reg z \<Rightarrow> z < 11 | _ \<Rightarrow> True" "single_ok J (pc s) (alu_code op d y)"
    using i by (auto simp: insn_jited_def may_write_def)
  obtain a e' v where v: "op \<noteq> Mov \<Longrightarrow> reg_get (regs s) d = Inr a" "operand_val (regs s) y = Inr e'"
    "alu_op op a e' = Inr v" and t: "t = s\<lparr>regs := (regs s)[d := Some v], pc := pc s + 1\<rparr>"
    using e by (auto simp: exec_insn_def continue_Next bindE_eq_Inr reg_set_def split: if_splits)
  obtain j where j: "alu_code op d y = Some j" using w(4) by (auto simp: single_ok_def split: option.splits)
  obtain z k where "\<And>b. x_exec (j_places J) (linked (j_base J) h) (j_thunk J) j b x =
      Running ((set_flags z k (set_reg (hr d) (Some v) x))\<lparr>xpc := b\<rparr>)"
    using alu_exec [OF j w(2,3) _ v(1,2,3), of x "j_places J" "linked (j_base J) h" "j_thunk J"] r
    by (auto simp: related_def)
  from reaches_single [OF r w(4)[unfolded j] this] obtain b where b: "slots_at (pc s + 1) b"
    "reaches x ((set_flags z k (set_reg (hr d) (Some v) x))\<lparr>xpc := b\<rparr>)" .
  with related_set [OF r w(1) b(1)] show ?thesis unfolding t by (metis related_flags)
qed

lemma load_jited:
  assumes r: "related V S s x" and i: "insn_jited rel J (pc s) (Ldx n d y off)"
    and e: "exec_insn h rel (Ldx n d y off) s = Next t"
  shows "\<exists>u. reaches x u \<and> related V S t u"
proof -
  have w: "may_write J d" "y < 11" "single_ok J (pc s) (load_code n d y off)"
    using i by (auto simp: insn_jited_def)
  obtain p v where v: "regs s ! y = Some p" "load (mem s) n p off = Inr v"
    and t: "t = s\<lparr>regs := (regs s)[d := Some (Scalar v)], pc := pc s + 1\<rparr>"
    using e by (auto simp: exec_insn_def continue_Next bindE_eq_Inr reg_set_def split: if_splits dest!: reg_get_SomeD)
  obtain j where j: "load_code n d y off = Some j" using w(3) by (auto simp: single_ok_def split: option.splits)
  have m: "load (xmem x) n p off = Inr v" using r v(2) by (simp add: related_def)
  from reaches_single [OF r w(3)[unfolded j] load_exec [OF j related_reg [OF r w(2) v(1)] m]]
  obtain b where "slots_at (pc s + 1) b" "reaches x ((set_reg (hr d) (Some (Scalar v)) x)\<lparr>xpc := b\<rparr>)" .
  with related_set [OF r w(1)] show ?thesis unfolding t by blast
qed

lemma store_jited:
  assumes r: "related V S s x" and i: "insn_jited rel J (pc s) (Stx n d off y)"
    and e: "exec_insn h rel (Stx n d off y) s = Next t"
  shows "\<exists>u. reaches x u \<and> related V S t u"
proof -
  have w: "d < 11" "y < 11" "single_ok J (pc s) (store_code n d off y)"
    using i by (auto simp: insn_jited_def)
  obtain p v mm where v: "regs s ! d = Some p" "regs s ! y = Some v" "store (mem s) n p off v = Inr mm"
    and t: "t = s\<lparr>mem := mm, pc := pc s + 1\<rparr>"
    using e by (auto simp: exec_insn_def continue_Next bindE_eq_Inr dest!: reg_get_SomeD)
  obtain j where j: "store_code n d off y = Some j" using w(3) by (auto simp: single_ok_def split: option.splits)
  have m: "store (xmem x) n p off v = Inr mm" using r v(3) by (simp add: related_def)
  have ex: "x_exec ls fns th j b x = Running ((x\<lparr>xmem := mm\<rparr>)\<lparr>xpc := b\<rparr>)" for ls fns th b
    using store_exec [OF j related_reg [OF r w(1) v(1)] related_reg [OF r w(2) v(2)] m] by simp
  from reaches_single [OF r w(3)[unfolded j] ex]
  obtain b where "slots_at (pc s + 1) b" "reaches x (x\<lparr>xmem := mm, xpc := b\<rparr>)" by auto
  moreover from this have "related V S t (x\<lparr>xmem := mm, xpc := b\<rparr>)"
    using r by (simp add: related_def t)
  ultimately show ?thesis by blast
qed

lemma imm_jited:
  assumes r: "related V S s x" and i: "insn_jited rel J (pc s) (Ld_imm64 d k)"
    and e: "exec_insn h rel (Ld_imm64 d k) s = Next t"
  shows "\<exists>u. reaches x u \<and> related V S t u"
proof -
  let ?v = "ld_imm rel (pc s) k"
  have t: "t = s\<lparr>regs := (regs s)[d := Some ?v], pc := pc s + 2\<rparr>"
    using e by (auto simp: exec_insn_def continue_Next bindE_eq_Inr reg_set_def split: if_splits)
  obtain y b where f: "fetch (j_code J) (xpc x) = Some (y, b)"
    using i at_slot [OF r] by (auto simp: insn_jited_def split: option.split_asm)
  then have y: "may_write J d" "fetch (j_code J) (xpc x) = Some (y, b)" "slots_at (pc s + 2) b"
    and c: "(\<exists>k'. y = MOVABSQ k' (hr d) \<and> place_of (j_places J) k' = ?v) \<or>
      (\<exists>k'. y = MOVL k' (hr d) \<and> Scalar (ucast k') = ?v)"
    using i at_slot [OF r] by (cases y; simp add: insn_jited_def)+
  from c have "x_exec (j_places J) (linked (j_base J) h) (j_thunk J) y b x =
      Running ((set_reg (hr d) (Some ?v) x)\<lparr>xpc := b\<rparr>)"
    by (auto simp: x_exec_def go_def)
  with y(2) have "reaches x ((set_reg (hr d) (Some ?v) x)\<lparr>xpc := b\<rparr>)" by (rule x_reaches_one)
  with related_set [OF r y(1,3)] show ?thesis unfolding t by blast
qed

lemma jump_jited:
  assumes r: "related V S s x" and i: "insn_jited rel J (pc s) (Jmp cnd d y off)"
    and e: "exec_insn h rel (Jmp cnd d y off) s = Next t"
  shows "\<exists>u. reaches x u \<and> related V S t u"
proof -
  let ?p = "pc s + 1 + sint off"
  let ?a = "j_slots J ! nat ?p"
  obtain v w q where v: "regs s ! d = Some v" "operand_val (regs s) y = Inr w" "cond_holds cnd v w = Inr q"
    and t: "t = s\<lparr>pc := pc s + 1 + (if q then sint off else 0)\<rparr>"
    using e by (auto simp: exec_insn_def continue_Next bindE_eq_Inr dest!: reg_get_SomeD)
  obtain ys b where c: "d < 11" "jump_code cnd d y ?a = Some ys" "behind (j_code J) (xpc x) ys = Some b"
    and p: "slots_at (pc s + 1) b" "slots_at ?p ?a"
    using i at_slot [OF r] by (auto simp: insn_jited_def jump_ok_def placed_def split: option.splits)
  obtain z k where u: "reaches x ((set_flags z k x)\<lparr>xpc := if q then ?a else b\<rparr>)"
    using jump_exec [OF c(2,3) related_reg [OF r c(1) v(1)] v(2,3)] by blast
  have "related V S t (x\<lparr>xpc := if q then ?a else b\<rparr>)"
    unfolding t using p by (intro related_jump [OF r]) auto
  with u show ?thesis by (metis related_flags)
qed

lemma ja_jited:
  assumes r: "related V S s x" and i: "insn_jited rel J (pc s) (Ja off)"
  shows "\<exists>u. reaches x u \<and> related V S (s\<lparr>pc := pc s + 1 + sint off\<rparr>) u"
proof -
  obtain y b where y: "fetch (j_code J) (xpc x) = Some (y, b)"
    using i at_slot [OF r] by (auto simp: insn_jited_def split: option.split_asm)
  then obtain a where a: "fetch (j_code J) (xpc x) = Some (JMP a, b)" "a \<noteq> j_thunk J"
    "slots_at (pc s + 1 + sint off) a"
    using i at_slot [OF r] by (cases y) (simp_all add: insn_jited_def)
  then have "reaches x (x\<lparr>xpc := a\<rparr>)"
    by (intro x_reaches_one) (auto simp: x_exec_def go_def)
  with related_jump [OF r a(3)] show ?thesis by blast
qed

lemma call_jited:
  assumes r: "related V S s x" and i: "insn_jited rel J (pc s) (Call n)"
    and e: "exec_insn h rel (Call n) s = Next t" and st: "stack_within (int (j_frame J)) (mem t)"
  shows "\<exists>u. reaches x u \<and> related V S t u"
proof -
  obtain v mm w where c: "h n (take 5 (tl (regs s))) (mem s) (world s) = Inr (v, mm, w)"
    and t: "t = s\<lparr>regs := Some v # replicate 5 None @ drop 6 (regs s), mem := mm, world := w, pc := pc s + 1\<rparr>"
    using e by (auto simp: exec_insn_def continue_Next bindE_eq_Inr)
  obtain y b where y: "fetch (j_code J) (xpc x) = Some (y, b)"
    using i at_slot [OF r] by (auto simp: insn_jited_def split: option.split_asm)
  then obtain f where f: "fetch (j_code J) (xpc x) = Some (CALLQ f, b)" "ucast (f - j_base J) = n"
    "slots_at (pc s + 1) b"
    using i at_slot [OF r] by (cases y) (simp_all add: insn_jited_def)
  let ?u = "x\<lparr>xregs := (\<lambda>r. if r = RAX then Some v else if kept_by_calls r then xregs x r else None),
      saved := (\<lambda>a. if a < saved_top then None else saved x a), zero_flag := None, carry_flag := None,
      xmem := mm(Stack := (\<lambda>b. if b < saved_top then None else mm Stack b)), xworld := w, xpc := b\<rparr>"
  have "linked (j_base J) h f (map (xregs x) call_regs) (xmem x) (xworld x) = Inr (v, mm, w)"
    using more_args [OF c related_args [OF r]] r f(2) by (simp add: linked_def related_def)
  then have "reaches x ?u"
    using r by (intro x_reaches_one [OF f(1)]) (simp add: x_exec_def do_call_def stack_top_def related_def go_def)
  moreover have "mm Stack b = None" if "b < saved_top" for b
    using st that by (cases "mm Stack b") (auto simp: t stack_within_def saved_top_def)
  then have "mm(Stack := (\<lambda>b. if b < saved_top then None else mm Stack b)) = mm"
    by (intro ext) auto
  moreover have "less_defined ((Some v # replicate 5 None @ drop 6 (regs s)) ! j)
      (if hr j = RAX then Some v else if kept_by_calls (hr j) then xregs x (hr j) else None)" if "j < 11" for j
  proof -
    have "less_defined (regs s ! j) (xregs x (hr j))" using r that by (simp add: related_def)
    then show ?thesis
      using that r unfolding less_11
      by (elim disjE) (simp_all add: less_defined_def nth_append related_def host_regs_def kept_by_calls_def nth_Cons')
  qed
  ultimately show ?thesis
    using r f(3) by (intro exI [of _ ?u]) (auto simp: t related_def kept_by_calls_def nth_append)
qed

text \<open>An instruction never takes a byte of the stack away.\<close>

lemma step_keeps_stack:
  assumes "step Q h rel s = Next t" and "mem s Stack x \<noteq> None"
  shows "mem t Stack x \<noteq> None"
proof -
  obtain i where i: "exec_insn h rel i s = Next t"
    using assms(1) by (auto simp: step_def split: if_splits option.splits)
  show ?thesis
  proof (cases "\<exists>n d off y. i = Stx n d off y")
    case True
    then obtain n p off v where m: "store (mem s) n p off v = Inr (mem t)"
      using i by (auto simp: exec_insn_def continue_Next bindE_eq_Inr)
    then obtain r a bs where "put_bytes (mem s) r a bs = mem t"
      by (auto simp: store_def split: val.split_asm if_split_asm)
    from this [symmetric] show ?thesis using assms(2) by (simp add: put_bytes_def)
  next
    case False
    then show ?thesis
      using i assms(2) stack_kept
      by (cases i) (auto simp: exec_insn_def continue_Next bindE_eq_Inr split: val.split_asm sum.split_asm)
  qed
qed

lemma steps_keep_within:
  "step Q h rel s = Next t \<Longrightarrow> stack_within n (mem t) \<Longrightarrow> stack_within n (mem s)"
  unfolding stack_within_def using step_keeps_stack by blast

lemma step_jited:
  assumes r: "related V S s x" and s: "step Q h rel s = Next t" and st: "stack_within (int (j_frame J)) (mem t)"
  shows "\<exists>u. reaches x u \<and> related V S t u"
proof -
  obtain i where i: "0 \<le> pc s" "nat (pc s) < length Q" "Q ! nat (pc s) = Some i"
    and e: "exec_insn h rel i s = Next t"
    using s by (auto simp: step_def split: if_splits option.splits)
  note sh = shape [OF i]
  show ?thesis
  proof (cases i)
    case (Alu64 op d y) then show ?thesis using alu_jited [OF r] sh e by simp
  next
    case (Ld_imm64 d k) then show ?thesis using imm_jited [OF r] sh e by simp
  next
    case (Ldx n d y off) then show ?thesis using load_jited [OF r] sh e by simp
  next
    case (Stx n d off y) then show ?thesis using store_jited [OF r] sh e by simp
  next
    case (Jmp cnd d y off) then show ?thesis using jump_jited [OF r] sh e by simp
  next
    case (Ja off)
    then have "t = s\<lparr>pc := pc s + 1 + sint off\<rparr>" using e by (simp add: exec_insn_def)
    then show ?thesis using ja_jited [OF r] sh Ja by simp
  next
    case (Call n) then show ?thesis using call_jited [OF r _ _ st] sh e by simp
  next
    case Exit then show ?thesis using e by (auto simp: exec_insn_def split: sum.splits val.splits)
  qed
qed

lemma exec_keeps_within:
  "exec Q h rel n s = Some (Inr (w, t)) \<Longrightarrow> stack_within k (mem t) \<Longrightarrow> stack_within k (mem s)"
proof (induction n arbitrary: s)
  case (Suc n)
  then show ?case by (auto split: outcome.split_asm dest: halt_same intro: steps_keep_within)
qed simp

text \<open>The run between prologue and epilogue.\<close>

lemma run_jited:
  "exec Q h rel n s = Some (Inr (w, t)) \<Longrightarrow> stack_within (int (j_frame J)) (mem t) \<Longrightarrow> related V S s x \<Longrightarrow>
   \<exists>u. reaches x u \<and> related V S t u \<and> step Q h rel t = Halt w t"
proof (induction n arbitrary: s x)
  case (Suc n)
  show ?case
  proof (cases "step Q h rel s")
    case (Halt w' t')
    with Suc.prems halt_same [OF this] show ?thesis by (auto intro: here)
  next
    case (Next s')
    with Suc.prems have e: "exec Q h rel n s' = Some (Inr (w, t))" by simp
    obtain u where u: "reaches x u" "related V S s' u"
      using step_jited [OF Suc.prems(3) Next exec_keeps_within [OF e Suc.prems(2)]] by blast
    obtain u' where "reaches u u'" "related V S t u'" "step Q h rel t = Halt w t"
      using Suc.IH [OF e Suc.prems(2) u(2)] by blast
    with x_reaches_trans [OF u(1)] show ?thesis by blast
  next
    case (Fault e)
    with Suc.prems show ?thesis by simp
  qed
qed simp

text \<open>The code as its caller sees it.\<close>

lemma machine_code_returns:
  assumes "runs_to Q h rel (vm_init mm w) v t" and st: "stack_within (int (j_frame J)) (mem t)"
  obtains u where
    "x_returns (j_code J) (j_places J) (linked (j_base J) h) (j_thunk J) (x_entry V S mm w) v u"
    "xregs u RSP = Some (Addr Stack 16)" "\<And>r. kept_by_calls r \<Longrightarrow> r \<noteq> RSP \<Longrightarrow> xregs u r = V r"
    "xmem u = mem t" "xworld u = world t"
proof -
  obtain n where e: "exec Q h rel n (vm_init mm w) = Some (Inr (v, t))" using assms(1) by (auto simp: runs_to_def)
  have pushed: "\<forall>r \<in> set (j_pushed J). r \<noteq> RSP \<and> r \<noteq> RBP \<and> r \<noteq> RDI"
    using shape_consts(5) by (auto simp: kept_by_calls_def)
  obtain x where x: "reaches (x_entry V S mm w) x" "xpc x = j_slots J ! 0"
    "xregs x = V(RDI := Some (Addr Ctx 0), RBP := Some (Addr Stack 0), RSP := Some (Addr Stack saved_top))"
    "saved x 8 = Some None" "saved x 0 = Some (V RBP)"
    "\<And>i. i < length (j_pushed J) \<Longrightarrow> saved x (- int (j_frame J) - 8 * int (Suc i)) = Some (V (j_pushed J ! i))"
    "xmem x = mm(Stack := (\<lambda>_. None))" "xworld x = w"
    using prologue_run [OF shape_consts(6,2) pushed, of "j_places J" "linked (j_base J) h" "j_thunk J" V S mm w]
    unfolding saved_top_def by blast
  have "less_defined (regs (vm_init mm w) ! i) (xregs x (hr i))" if "i < 11" for i
    using that unfolding less_11 by (elim disjE) (simp_all add: vm_init_def less_defined_def x(3) host_regs_def)
  then have r: "related V (saved x) (vm_init mm w) x"
    using x shape_consts(3,4) pushed
    by (auto simp: related_def vm_init_def placed_def kept_by_calls_def)
  obtain y where y: "reaches x y" "related V (saved x) t y" and halt: "step Q h rel t = Halt v t"
    using run_jited [OF e st r] by blast
  have ex: "0 \<le> pc t" "nat (pc t) < length Q" "Q ! nat (pc t) = Some Exit" "regs t ! 0 = Some (Scalar v)"
    using halt by (auto simp: step_def exec_insn_def continue_with_def dest!: reg_get_SomeD
        split: if_split_asm option.split_asm insn.split_asm sum.split_asm val.split_asm)
  obtain b i b' where b: "behind (j_code J) (xpc y) (epilogue (j_pushed J)) = Some b"
    "fetch (j_code J) b = Some (i, b')" "i = RETQ \<or> i = JMP (j_thunk J)"
    using shape [OF ex(1-3)] at_slot [OF y(2)]
    by (auto simp: insn_jited_def exit_ok_def split: option.split_asm xinsn.split_asm)
  have "xregs y (hr 0) = Some (Scalar v)" by (rule related_reg [OF y(2) _ ex(4)]) simp
  then have rax: "xregs y RAX = Some (Scalar v)" by (simp add: host_regs_def)
  have "xregs y (hr 10) = Some (Addr Stack 0)" using y(2) by (intro related_reg [OF y(2)]) (simp_all add: related_def)
  then have fp: "xregs y RBP = Some (Addr Stack 0)" by simp
  have top: "xregs y RSP = Some (Addr Stack (- int (j_frame J) - 8 * int (length (j_pushed J))))"
    using y(2) by (simp add: related_def saved_top_def)
  have sv: "saved y a = saved x a" if "saved_top \<le> a" for a using y(2) that by (simp add: related_def)
  have sl: "saved y 8 = Some None" "saved y 0 = Some (V RBP)"
    using sv [of 8] sv [of 0] x(4,5) by (simp_all add: saved_top_def)
  have sl3: "saved y (- int (j_frame J) - 8 * int (Suc i)) = Some (V (j_pushed J ! i))" if "i < length (j_pushed J)" for i
    using sv [of "- int (j_frame J) - 8 * int (Suc i)"] x(6) [OF that] that by (simp add: saved_top_def)
  have st': "stack_within (int (j_frame J)) (xmem y)" using st y(2) by (simp add: related_def)
  obtain u where u: "x_returns (j_code J) (j_places J) (linked (j_base J) h) (j_thunk J) y v u"
    "xregs u RSP = Some (Addr Stack 16)" "xregs u RBP = V RBP" "\<And>r. r \<in> set (j_pushed J) \<Longrightarrow> xregs u r = V r"
    "\<And>r. r \<notin> set (j_pushed J) \<Longrightarrow> r \<noteq> RSP \<Longrightarrow> r \<noteq> RBP \<Longrightarrow> xregs u r = xregs y r"
    "xmem u = xmem y" "xworld u = xworld y"
    using epilogue_run [OF b st' _ shape_consts(1) top fp rax sl sl3] shape_consts(5) by blast
  show thesis
  proof (rule that)
    show "x_returns (j_code J) (j_places J) (linked (j_base J) h) (j_thunk J) (x_entry V S mm w) v u"
      by (rule x_reaches_returns [OF x_reaches_trans [OF x(1) y(1)] u(1)])
    show "xregs u r = V r" if "kept_by_calls r" "r \<noteq> RSP" for r
      using u(3,4,5) y(2) that by (cases "r \<in> set (j_pushed J)"; cases "r = RBP") (auto simp: related_def)
  qed (use u y(2) in \<open>simp_all add: related_def\<close>)
qed

end

end
