(* ===== verification/Jit_Programs.thy ===== *)
theory Jit_Programs
  imports Jit
begin

text \<open>
  The listings of machine code in the repository (\<open>packet_count.asm\<close>, \<open>hash_map_example.asm\<close>
  and \<open>hello-verifier.asm\<close>) and what the code does: it has the shape of its translated program, and
  so does what the object code and the C program do, and gives its caller back the stack and the
  registers that the calling convention preserves.
\<close>

section \<open>The listings\<close>

text \<open>
  With each listing: the addresses of its maps and data; the address from which the kernel counts
  the calls; the return thunk, where the code jumps to one; frame size and saved registers; and the
  address of the code of each slot of the translated program.
\<close>

definition packet_count_x86 :: "(int \<times> xinsn) list" where
  "packet_count_x86 = [
     (0x0, NOP), (0x5, NOP), (0x7, PUSHQ RBP), (0x8, MOVQ RSP RBP), (0xb, PUSHQ RBX),
     (0xc, MOVABSQ (- 79770420068352) RBX), (0x16, MOVL_LD 0 RBX RDX),
     (0x19, MOVABSQ (- 109408656120560) RDI), (0x23, MOVL 3 RSI),
     (0x28, CALLQ 0xffffffffc9c462cc), (0x2d, MOVL_LD 0 RBX RDI), (0x30, ADDQ_I 1 RDI),
     (0x34, MOVL_ST RDI 0 RBX), (0x37, MOVL 2 RAX), (0x3c, POPQ RBX), (0x3d, LEAVE),
     (0x3e, RETQ), (0x3f, INT3)]"

definition packet_count_jited :: jited where
  "packet_count_jited = \<lparr>j_code = packet_count_x86,
     j_places = [(- 79770420068352, 4, Data, 0), (- 109408656120560, 3, Rodata, 0)],
     j_base = 0xffffffffc9c60a4c, j_thunk = - 1, j_frame = 0, j_pushed = [RBX],
     j_slots = [
       0xc, 0xc, 0x16, 0x19, 0x19, 0x23, 0x28, 0x2d, 0x30, 0x34, 0x37, 0x3c]\<rparr>"

definition hello_x86 :: "(int \<times> xinsn) list" where
  "hello_x86 = [
     (0x0, NOP), (0x5, NOP), (0x7, PUSHQ RBP), (0x8, MOVQ RSP RBP), (0xb, SUBQ_I 16 RSP),
     (0x12, CALLQ 0xffffffffd528700c), (0x17, SHLQ 32 RAX), (0x1b, SHRQ 32 RAX),
     (0x1f, MOVQ_ST RAX (- 8) RBP), (0x23, MOVQ RBP RSI), (0x26, ADDQ_I (- 8) RSI),
     (0x2a, MOVABSQ (- 115576415311872) RDI), (0x34, CALLQ 0xffffffffd528ec9c),
     (0x39, TESTQ RAX RAX), (0x3c, JE 0x42), (0x3e, ADDQ_I 56 RAX), (0x42, MOVL 1 RDI),
     (0x47, TESTQ RAX RAX), (0x4a, JE 0x54), (0x4c, MOVQ_LD 0 RAX RDI), (0x50, ADDQ_I 1 RDI),
     (0x54, MOVQ_ST RDI (- 16) RBP), (0x58, MOVQ RBP RSI), (0x5b, ADDQ_I (- 8) RSI),
     (0x5f, MOVQ RBP RDX), (0x62, ADDQ_I (- 16) RDX), (0x66, MOVABSQ (- 115576415311872) RDI),
     (0x70, XORL RCX RCX), (0x72, CALLQ 0xffffffffd52920cc), (0x77, XORL RAX RAX),
     (0x79, LEAVE), (0x7a, JMP 0xffffffffd60a33fc)]"

definition hello_jited :: jited where
  "hello_jited = \<lparr>j_code = hello_x86,
     j_places = [(- 115576415311872, 1, Map_object, hash_map_at)],
     j_base = 0xffffffffd524d72c, j_thunk = 0xffffffffd60a33fc, j_frame = 16, j_pushed = [],
     j_slots = [
       0x12, 0x17, 0x1b, 0x1f, 0x23, 0x26, 0x2a, 0x2a, 0x34, 0x39, 0x3e, 0x42, 0x47, 0x4c, 0x50,
       0x54, 0x58, 0x5b, 0x5f, 0x62, 0x66, 0x66, 0x70, 0x72, 0x77, 0x79]\<rparr>"

definition kprobe_exec_x86 :: "(int \<times> xinsn) list" where
  "kprobe_exec_x86 = [
     (0x0, NOP), (0x5, NOP), (0x7, PUSHQ RBP), (0x8, MOVQ RSP RBP), (0xb, SUBQ_I 48 RSP),
     (0x12, PUSHQ RBX), (0x13, PUSHQ R13), (0x15, MOVQ RDI RBX),
     (0x18, MOVABSQ (- 72830813560832) RDI), (0x22, MOVL_LD 0 RDI RSI), (0x25, MOVQ RSI RDX),
     (0x28, ADDQ_I 1 RDX), (0x2c, MOVL_ST RDX 0 RDI), (0x2f, XORL RDI RDI),
     (0x31, MOVL_ST RDI (- 8) RBP), (0x34, MOVL_ST RDI (- 12) RBP),
     (0x37, MOVL_ST RDI (- 16) RBP), (0x3a, MOVL_ST RDI (- 20) RBP),
     (0x3d, MOVL_ST RDI (- 24) RBP), (0x40, MOVL_ST RDI (- 28) RBP),
     (0x43, MOVL_ST RDI (- 4) RBP), (0x46, MOVL_ST RSI (- 32) RBP),
     (0x49, CALLQ 0xffffffffd5286c14), (0x4e, MOVL_ST RAX (- 40) RBP),
     (0x51, CALLQ 0xffffffffd5286e44), (0x56, MOVL_ST RAX (- 36) RBP), (0x59, SHLQ 32 RAX),
     (0x5d, SHRQ 32 RAX), (0x61, MOVQ_ST RAX (- 48) RBP), (0x65, MOVQ RBP RSI),
     (0x68, ADDQ_I (- 48) RSI), (0x6c, MOVABSQ (- 115581529390080) RDI),
     (0x76, CALLQ 0xffffffffd528ead4), (0x7b, TESTQ RAX RAX), (0x7e, JE 0x84),
     (0x80, ADDQ_I 56 RAX), (0x84, MOVQ RAX R13), (0x87, TESTQ R13 R13), (0x8a, JE 0xbe),
     (0x8c, MOVZBQ_LD 0 R13 RDX), (0x91, SHLQ 56 RDX), (0x95, SARQ 56 RDX),
     (0x99, MOVABSQ (- 115581794723056) RDI), (0xa3, MOVL 3 RSI),
     (0xa8, CALLQ 0xffffffffd5232be4), (0xad, MOVQ RBP RDI), (0xb0, ADDQ_I (- 12) RDI),
     (0xb4, MOVL 12 RSI), (0xb9, MOVQ R13 RDX), (0xbc, JMP 0xd4), (0xbe, MOVQ RBP RDI),
     (0xc1, ADDQ_I (- 12) RDI), (0xc5, MOVL 12 RSI), (0xca, MOVABSQ (- 72830813560828) RDX),
     (0xd4, CALLQ 0xffffffffd522ff34), (0xd9, MOVABSQ (- 72830813560832) R13),
     (0xe3, MOVL_LD 0 R13 RDI), (0xe7, CMPQ_I 11 RDI), (0xeb, JA 0x150),
     (0xed, MOVABSQ (- 72830813560828) RSI), (0xf7, ADDQ RDI RSI), (0xfa, MOVZBQ_LD 0 RSI RDX),
     (0xff, SHLQ 56 RDX), (0x103, SARQ 56 RDX), (0x107, MOVABSQ (- 115581794723053) RDI),
     (0x111, MOVL 3 RSI), (0x116, CALLQ 0xffffffffd5232be4), (0x11b, MOVL_LD 0 R13 RDI),
     (0x11f, CMPQ_I 11 RDI), (0x123, JA 0x150), (0x125, MOVQ RBP RSI),
     (0x128, ADDQ_I (- 40) RSI), (0x12c, ADDQ RDI RSI), (0x12f, MOVZBQ_LD 28 RSI RDX),
     (0x134, SHLQ 56 RDX), (0x138, SARQ 56 RDX), (0x13c, MOVABSQ (- 115581794723050) RDI),
     (0x146, MOVL 3 RSI), (0x14b, CALLQ 0xffffffffd5232be4), (0x150, MOVQ RBP RDI),
     (0x153, ADDQ_I (- 28) RDI), (0x157, MOVL 16 RSI), (0x15c, CALLQ 0xffffffffd5286ed4),
     (0x161, MOVQ RBP RCX), (0x164, ADDQ_I (- 40) RCX), (0x168, MOVQ RBX RDI),
     (0x16b, MOVABSQ (- 115581529362432) RSI), (0x175, MOVL 4294967295 RDX),
     (0x17a, MOVL 40 R8), (0x180, CALLQ 0xffffffffd52327c4), (0x185, XORL RAX RAX),
     (0x187, POPQ R13), (0x189, POPQ RBX), (0x18a, LEAVE), (0x18b, JMP 0xffffffffd60a3234)]"

definition kprobe_exec_jited :: jited where
  "kprobe_exec_jited = \<lparr>j_code = kprobe_exec_x86,
     j_places = [(- 72830813560832, 16, Data, 0), (- 115581794723056, 15, Rodata, 0), (- 115581529390080, 1, Map_object, hash_map_at), (- 115581529362432, 1, Map_object, perf_map_at)],
     j_base = 0xffffffffd524d4b4, j_thunk = 0xffffffffd60a3234, j_frame = 48, j_pushed = [RBX, R13],
     j_slots = [
       0x15, 0x18, 0x18, 0x22, 0x25, 0x28, 0x2c, 0x2f, 0x31, 0x34, 0x37, 0x3a, 0x3d, 0x40, 0x43,
       0x46, 0x49, 0x4e, 0x51, 0x56, 0x59, 0x5d, 0x61, 0x65, 0x68, 0x6c, 0x6c, 0x76, 0x7b, 0x80,
       0x84, 0x87, 0x8c, 0x91, 0x95, 0x99, 0x99, 0xa3, 0xa8, 0xad, 0xb0, 0xb4, 0xb9, 0xbc, 0xbe,
       0xc1, 0xc5, 0xca, 0xca, 0xd4, 0xd9, 0xd9, 0xe3, 0xe7, 0xed, 0xed, 0xf7, 0xfa, 0xff,
       0x103, 0x107, 0x107, 0x111, 0x116, 0x11b, 0x11f, 0x125, 0x128, 0x12c, 0x12f, 0x134,
       0x138, 0x13c, 0x13c, 0x146, 0x14b, 0x150, 0x153, 0x157, 0x15c, 0x161, 0x164, 0x168,
       0x16b, 0x16b, 0x175, 0x175, 0x17a, 0x180, 0x185, 0x187]\<rparr>"


section \<open>They have the shape of their programs\<close>

lemma packet_count_jits: "jits (map_refs packet_count_maps packet_count_refs) packet_count_xlated packet_count_jited"
  by code_simp

lemma hello_jits: "jits (map_refs hello_maps hello_refs) hello_xlated hello_jited"
  by code_simp

lemma kprobe_exec_jits: "jits (map_refs kprobe_exec_maps kprobe_exec_refs) kprobe_exec_xlated kprobe_exec_jited"
  by code_simp

interpretation pj: machine_code "translated_call packet_count_calls (kernel_call K)"
  "map_refs packet_count_maps packet_count_refs" packet_count_xlated packet_count_jited for K
  by (intro machine_code.intro machine_code_axioms.intro kc.tc.called_functions_axioms packet_count_jits)

interpretation hj: machine_code "translated_call hello_calls (kernel_call K)"
  "map_refs hello_maps hello_refs" hello_xlated hello_jited for K
  by (intro machine_code.intro machine_code_axioms.intro kc.tc.called_functions_axioms hello_jits)

interpretation kj: machine_code "translated_call kprobe_exec_calls (kernel_call K)"
  "map_refs kprobe_exec_maps kprobe_exec_refs" kprobe_exec_xlated kprobe_exec_jited for K
  by (intro machine_code.intro machine_code_axioms.intro kc.tc.called_functions_axioms kprobe_exec_jits)

section \<open>Calling the code\<close>

text \<open>
  The code, called with the registers \<open>V\<close> and anything in the saved slots \<open>S\<close> of its callers,
  returns \<open>v\<close>, and leaves a memory and a world. The return address is gone from the stack, and
  the registers that calls keep are as before.
\<close>

definition call_returns :: "jited \<Rightarrow> 'w helper_fn \<Rightarrow> (xreg \<Rightarrow> val option) \<Rightarrow> (int \<Rightarrow> val option option) \<Rightarrow> vmem \<Rightarrow> 'w \<Rightarrow>
    u64 \<Rightarrow> vmem \<Rightarrow> 'w \<Rightarrow> bool" where
  "call_returns J h V S mm w v mm' w' \<longleftrightarrow>
     (\<exists>u. x_returns (j_code J) (j_places J) (linked (j_base J) h) (j_thunk J) (x_entry V S mm w) v u \<and>
        xmem u = mm' \<and> xworld u = w' \<and> xregs u RSP = Some (Addr Stack 16) \<and>
        (\<forall>r. kept_by_calls r \<longrightarrow> r \<noteq> RSP \<longrightarrow> xregs u r = V r))"

text \<open>The programs: object code, what it relies on, relocations, longest path, calls, machine code.\<close>

definition machine_programs :: "(bytes \<times> tenv \<times> relocs \<times> nat \<times> (u32 \<times> string) list \<times> jited) list" where
  "machine_programs = [
     (packet_count_code, packet_tenv, packet_relocs, 10, packet_count_calls, packet_count_jited),
     (hello_code, hello_tenv, hello_relocs, 22, hello_calls, hello_jited),
     (kprobe_exec_code, probe_tenv, kprobe_relocs, 75, kprobe_exec_calls, kprobe_exec_jited)]"

lemma machine_program_cases:
  assumes "(code, T, rel, n, calls, J) \<in> set machine_programs"
  obtains (packet) "code = packet_count_code" "T = packet_tenv" "rel = packet_relocs" "n = 10"
      "calls = packet_count_calls" "J = packet_count_jited"
    | (hello) "code = hello_code" "T = hello_tenv" "rel = hello_relocs" "n = 22"
      "calls = hello_calls" "J = hello_jited"
    | (kprobe) "code = kprobe_exec_code" "T = probe_tenv" "rel = kprobe_relocs" "n = 75"
      "calls = kprobe_exec_calls" "J = kprobe_exec_jited"
  using assms unfolding machine_programs_def by auto

text \<open>What a run of the object code gives, a call of the machine code gives.\<close>

lemma loaded_call:
  assumes J: "machine_code (translated_call calls (kernel_call K)) rel' Q J"
    and "(code, rel, Q, calls, rel') \<in> set loaded_programs"
    and "runs_to (decode_prog code) (kernel_call K) rel (vm_init mm w) v t"
    and st: "stack_within (int (j_frame J)) (mem t)"
  shows "call_returns J (translated_call calls (kernel_call K)) V S mm w v (mem t) (world t)"
proof -
  obtain t' where t': "runs_to Q (translated_call calls (kernel_call K)) rel' (vm_init mm w) v t'"
    "mem t' = mem t" "world t' = world t" by (rule loaded_runs [OF assms(2,3)])
  have "stack_within (int (j_frame J)) (mem t')" using st t'(2) by simp
  from machine_code.machine_code_returns [OF J t'(1) this, of V S] t'(2,3) show ?thesis
    unfolding call_returns_def by metis
qed

lemma machine_code_call:
  assumes m: "(code, T, rel, n, calls, J) \<in> set machine_programs"
    and r: "runs_to (decode_prog code) (kernel_call K) rel (vm_init mm w) v t" and st: "stack_within (frame_len T) (mem t)"
  shows "call_returns J (translated_call calls (kernel_call K)) V S mm w v (mem t) (world t)"
  using m
proof (cases rule: machine_program_cases)
  case packet
  then show ?thesis
    using loaded_call [OF pj.machine_code_axioms, of packet_count_code packet_relocs K mm w v t V S] r st
    by (simp add: loaded_programs_def packet_count_jited_def packet_tenv_def)
next
  case hello
  then show ?thesis
    using loaded_call [OF hj.machine_code_axioms, of hello_code hello_relocs K mm w v t V S] r st
    by (simp add: loaded_programs_def hello_jited_def hello_tenv_def)
next
  case kprobe
  then show ?thesis
    using loaded_call [OF kj.machine_code_axioms, of kprobe_exec_code kprobe_relocs K mm w v t V S] r st
    by (simp add: loaded_programs_def kprobe_exec_jited_def probe_tenv_def)
qed

lemma machine_program_verified:
  assumes "(code, T, rel, n, calls, J) \<in> set machine_programs"
  shows "verify (decode_prog code) T rel n a_start"
  using assms hello_accepted packet_count_accepted(1) kprobe_exec_accepted
  by (cases rule: machine_program_cases) simp_all

text \<open>Within the frame, when the verifier has accepted the code.\<close>

lemma verified_within:
  assumes "typed_kernel K T P" and "(code, T, rel, n, calls, J) \<in> set machine_programs" and "mem_ok T [] mm" and "P (k_map w)"
    and "runs_to (decode_prog code) (kernel_call K) rel (vm_init mm w) v t"
  shows "stack_within (frame_len T) (mem t)"
proof -
  obtain v' t' where "exec (decode_prog code) (kernel_call K) rel n (vm_init mm w) = Some (Inr (v', t'))"
    "stack_within (frame_len T) (mem t')"
    using typed_kernel.verify_init [OF assms(1) machine_program_verified [OF assms(2)] assms(3,4)] by blast
  moreover from this have "v' = v \<and> t' = t" using assms(5) runs_to_unique unfolding runs_to_def by blast
  ultimately show ?thesis by simp
qed

section \<open>Properties\<close>

text \<open>C7: the machine code of the three programs is type safe and does what the object code does.
  Called in any typed memory, with any values in the registers and the stack slots of its caller, and whatever
  the helpers return, it returns to its caller, with the stack as before the call and every register that calls
  keep unchanged; its result, memory, map, trace and samples are those of the object code. The frame of
  48, 16 or 0 bytes that it takes is enough.\<close>

theorem machine_code_type_safe:
  assumes "typed_kernel K T P" and "(code, T, rel, n, calls, J) \<in> set machine_programs" and "mem_ok T [] mm"
    and "P (k_map w)"
  shows "\<exists>v t. exec (decode_prog code) (kernel_call K) rel n (vm_init mm w) = Some (Inr (v, t)) \<and>
    call_returns J (translated_call calls (kernel_call K)) V S mm w v (mem t) (world t)"
proof -
  obtain v t where e: "exec (decode_prog code) (kernel_call K) rel n (vm_init mm w) = Some (Inr (v, t))"
    and st: "stack_within (frame_len T) (mem t)"
    using typed_kernel.verify_init [OF assms(1) machine_program_verified [OF assms(2)] assms(3,4)] by blast
  then have "runs_to (decode_prog code) (kernel_call K) rel (vm_init mm w) v t" unfolding runs_to_def by blast
  from machine_code_call [OF assms(2) this st] e show ?thesis by blast
qed

theorem machine_code_type_safe_witness:
  "\<exists>v mm' w'. call_returns kprobe_exec_jited (translated_call kprobe_exec_calls (kernel_call (probe_kernel (doc_env 7 501 []))))
     (\<lambda>_. None) (\<lambda>_. None) (data_mem int_max (str_bytes ''Hello World'' @ [0]))
     \<lparr>k_trace = [], k_map = my_config_map, k_out = []\<rparr> v mm' w'"
proof -
  have "msgs_ok hmap_ops (k_map \<lparr>k_trace = [], k_map = my_config_map, k_out = []\<rparr>)"
    by (simp add: msgs_ok_def hmap_ops_def my_config_map_def)
  from machine_code_type_safe [OF pk.typed_kernel_axioms _ _ this, of kprobe_exec_code kprobe_relocs 75 kprobe_exec_calls
      kprobe_exec_jited "data_mem int_max (str_bytes ''Hello World'' @ [0])"]
  show ?thesis by (force simp: machine_programs_def data_mem_ok)
qed

text \<open>C3: from C to x86, for \<open>kprobe_exec\<close>. On every event on which the C program is defined, the
  machine code returns the same value, leaves the same globals and the same map, prints the same
  text and submits the same sample, byte for byte, and keeps the calling convention.\<close>

theorem kprobe_exec_machine_code:
  assumes "msg_kernel K" and "probe_helpers (k_env K)" and "probe_wf (k_ops K) s"
    and "globals mm (c s) (g_message s)" and "mem_ok probe_tenv [] mm"
    and "w = \<lparr>k_trace = printed s, k_map = my_config s, k_out = submitted s\<rparr>"
    and "kprobe_exec (k_ops K) (k_env K) s = Inr (r, s')"
  shows "\<exists>v mm'. call_returns kprobe_exec_jited (translated_call kprobe_exec_calls (kernel_call K)) V S mm w v mm'
      \<lparr>k_trace = printed s', k_map = my_config s', k_out = submitted s'\<rparr> \<and>
    ucast v = r \<and> globals mm' (c s') (g_message s')"
proof -
  let ?P = "msgs_ok (k_ops K)"
  have m: "(kprobe_exec_code, probe_tenv, kprobe_relocs, 75, kprobe_exec_calls, kprobe_exec_jited) \<in> set machine_programs"
    by (simp add: machine_programs_def)
  have K: "typed_kernel K probe_tenv ?P"
    using assms(1,2) by (intro msg_kernel_typed) (simp_all add: probe_tenv_def)
  have P: "?P (k_map w)" using assms(3,6) by (simp add: msgs_ok_def probe_wf_def)
  obtain v t where t: "runs_to (decode_prog kprobe_exec_code) (kernel_call K) kprobe_relocs (vm_init mm w) v t"
    "ucast v = r" "globals (mem t) (c s') (g_message s')"
    "world t = \<lparr>k_trace = printed s', k_map = my_config s', k_out = submitted s'\<rparr>"
    using kprobe_exec_object [OF assms(1-4,6,7)] by blast
  from machine_code_call [OF m t(1) verified_within [OF K m assms(5) P t(1)], of V S] t(2-4) show ?thesis by auto
qed

theorem kprobe_exec_machine_code_witness:
  "\<exists>v mm' w'. call_returns kprobe_exec_jited (translated_call kprobe_exec_calls (kernel_call (probe_kernel (doc_env 7 501 []))))
     (\<lambda>_. None) (\<lambda>_. None) (data_mem 1 (str_bytes ''Hello World'' @ [0]))
     \<lparr>k_trace = [], k_map = my_config_map, k_out = []\<rparr> v mm' w' \<and>
   ucast v = (0 :: c_int) \<and> length (k_out w') = 1"
proof -
  let ?s = "probe_init my_config_map" and ?K = "probe_kernel (doc_env 7 501 [])"
  have e: "map_lookup_elem hmap_ops my_config_map = Map.empty"
    by (simp add: hmap_ops_def my_config_map_def)
  note wf = probe_wf_init [OF e]
  have k: "kprobe_exec (k_ops ?K) (k_env ?K) ?s = Inr (0, after_event hmap_ops (doc_env 7 501 []) ?s)"
    using probe_helpers.kprobe_exec_event [OF de.probe_helpers_axioms wf]
    by (simp add: probe_kernel_def probe_init_def int_max_def)
  have g: "globals (data_mem 1 (str_bytes ''Hello World'' @ [0])) (c ?s) (g_message ?s)"
    by (simp add: probe_init_def data_mem_globals)
  from kprobe_exec_machine_code [OF _ _ _ g data_mem_ok refl k, of "\<lambda>_. None" "\<lambda>_. None"] show ?thesis
    using wf de.probe_helpers_axioms
    by (force simp: msg_kernel_def probe_kernel_def after_event_def probe_init_def)
qed

text \<open>C12: from C to x86, for \<open>hello\<close>. On any map, the machine code returns what the C program
  returns and leaves the map as the C program does, prints and submits nothing, and keeps the
  calling convention.\<close>

theorem hello_machine_code:
  assumes "u64_kernel K" and "probe_helpers (k_env K)" and "mem_ok hello_tenv [] mm"
  shows "\<exists>v mm' w'. call_returns hello_jited (translated_call hello_calls (kernel_call K)) V S mm w v mm' w' \<and>
    hello (k_ops K) (uid_gid (k_env K)) (k_map w) = (ucast v, k_map w') \<and> k_trace w' = k_trace w \<and> k_out w' = k_out w"
proof -
  have m: "(hello_code, hello_tenv, hello_relocs, 22, hello_calls, hello_jited) \<in> set machine_programs"
    by (simp add: machine_programs_def)
  have K: "typed_kernel K hello_tenv (\<lambda>_. True)"
    using assms(1,2) by (intro u64_kernel_typed) (simp_all add: hello_tenv_def)
  obtain v t where t: "runs_to (decode_prog hello_code) (kernel_call K) hello_relocs (vm_init mm w) v t"
    "hello (k_ops K) (uid_gid (k_env K)) (k_map w) = (ucast v, k_map (world t))"
    "k_trace (world t) = k_trace w" "k_out (world t) = k_out w"
    using hello_object [OF assms(1)] by blast
  from machine_code_call [OF m t(1) verified_within [OF K m assms(3) TrueI t(1)], of V S] t(2-4) show ?thesis by blast
qed

theorem hello_machine_code_witness:
  "\<exists>v mm' w'. call_returns hello_jited (translated_call hello_calls (kernel_call (doc_kernel 501)))
     (\<lambda>_. None) (\<lambda>_. None) (\<lambda>_ _. None) world_init v mm' w' \<and> hmap_lookup (k_map w') 501 = Some 1"
proof -
  let ?K = "doc_kernel 501"
  have "u64_kernel ?K" "probe_helpers (k_env ?K)" "mem_ok hello_tenv [] (\<lambda>_ _. None)"
    using de.probe_helpers_axioms by (simp_all add: u64_kernel_def doc_kernel_def mem_ok_def hello_tenv_def defined_def)
  from hello_machine_code [OF this, of "\<lambda>_. None" "\<lambda>_. None" world_init] obtain v mm' w' where
    r: "call_returns hello_jited (translated_call hello_calls (kernel_call ?K))
      (\<lambda>_. None) (\<lambda>_. None) (\<lambda>_ _. None) world_init v mm' w'" and
    h: "hello hmap_ops 501 counter_table = (ucast v, k_map w')"
    by (auto simp: doc_kernel_def doc_env_def world_init_def)
  with hello_501 show ?thesis by (metis snd_conv)
qed

text \<open>From C to x86, for \<open>packet_count\<close>. Where the C program is defined, the machine code
  returns the same value, leaves the same counter, prints the same text, and keeps the calling convention.\<close>

lemma packet_count_machine_code:
  assumes "read_bytes mm Data 0 4 = Some (le_bytes 4 (counter s))"
    and "read_bytes mm Rodata 0 3 = Some (str_bytes ''%d'' @ [0])"
    and "k_trace w = trace_pipe s" and "packet_count s = Inr (r, s')"
  shows "\<exists>v mm' w'. call_returns packet_count_jited (translated_call packet_count_calls (kernel_call K)) V S mm w v mm' w' \<and>
    ucast v = r \<and> read_bytes mm' Data 0 4 = Some (le_bytes 4 (counter s')) \<and> k_trace w' = trace_pipe s' \<and>
    k_map w' = k_map w"
proof -
  have m: "(packet_count_code, packet_tenv, packet_relocs, 10, packet_count_calls, packet_count_jited) \<in> set machine_programs"
    by (simp add: machine_programs_def)
  obtain v t where t: "runs_to (decode_prog packet_count_code) (kernel_call K) packet_relocs (vm_init mm w) v t"
    "ucast v = r" "read_bytes (mem t) Data 0 4 = Some (le_bytes 4 (counter s'))"
    "k_trace (world t) = trace_pipe s'" "k_map (world t) = k_map w" "mem t Stack = (\<lambda>_. None)"
    using packet_count_object [OF assms] by blast
  have "stack_within (frame_len packet_tenv) (mem t)" by (simp add: stack_within_def t(6))
  from machine_code_call [OF m t(1) this, of V S] t(2-5) show ?thesis by blast
qed

lemma packet_count_machine_code_instance:
  "\<exists>v mm' w'. call_returns packet_count_jited (translated_call packet_count_calls (kernel_call (doc_kernel 0)))
     (\<lambda>_. None) (\<lambda>_. None) (packet_mem 0) world_init v mm' w' \<and> ucast v = xdp_value XDP_PASS \<and>
   read_bytes mm' Data 0 4 = Some (le_bytes 4 (1 :: c_int))"
proof -
  have "packet_count pkt_init = Inr (xdp_value XDP_PASS, after_packet pkt_init)"
    by (rule pc.step) (simp add: pkt_init_def int_max_def)
  from packet_count_machine_code [OF _ packet_mem_read(2) _ this, of 0 world_init "doc_kernel 0" "\<lambda>_. None" "\<lambda>_. None"]
  show ?thesis by (auto simp: packet_mem_read pkt_init_def world_init_def after_packet_def)
qed

end
