(* ===== verification/Bytecode_Filter.thy ===== *)
theory Bytecode_Filter
  imports Bytecode_Probe Xdp_Drop
begin

text \<open>
  The object code of \<open>xdp_drop_prog\<close>, as listed in \<open>xdp_drop_prog/xdp_drop_prog.bpf.s\<close>. It was
  compiled from an earlier version of the program, whose loop is still in the source, in a comment:
  it prints the protocol of the packet as many times as the protocol says. The packet lies in memory
  at the addresses that the context gives as numbers. This is the only code here that jumps back.
\<close>

section \<open>The object code\<close>

definition xdp_drop_code :: bytes where
  "xdp_drop_code = [
     0xb7, 6, 0, 0, 1, 0, 0, 0,
     0x61, 0x12, 4, 0, 0, 0, 0, 0,
     0x61, 0x11, 0, 0, 0, 0, 0, 0,
     0xbf, 0x13, 0, 0, 0, 0, 0, 0,
     7, 3, 0, 0, 0x0e, 0, 0, 0,
     0x2d, 0x23, 0x17, 0, 0, 0, 0, 0,
     0x71, 0x12, 0x0c, 0, 0, 0, 0, 0,
     0x71, 0x17, 0x0d, 0, 0, 0, 0, 0,
     0x67, 7, 0, 0, 8, 0, 0, 0,
     0x4f, 0x27, 0, 0, 0, 0, 0, 0,
     0xb7, 6, 0, 0, 2, 0, 0, 0,
     0x15, 7, 0x11, 0, 0, 0, 0, 0,
     0xb7, 8, 0, 0, 0, 0, 0, 0,
     0x18, 1, 0, 0, 0, 0, 0, 0, 0, 0, 0, 0, 0, 0, 0, 0,
     0xb7, 2, 0, 0, 0x1b, 0, 0, 0,
     0xbf, 0x73, 0, 0, 0, 0, 0, 0,
     0x85, 0, 0, 0, 6, 0, 0, 0,
     7, 8, 0, 0, 1, 0, 0, 0,
     0xbf, 0x81, 0, 0, 0, 0, 0, 0,
     0x67, 1, 0, 0, 0x20, 0, 0, 0,
     0x77, 1, 0, 0, 0x20, 0, 0, 0,
     0x2d, 0x17, 0xf6, 0xff, 0, 0, 0, 0,
     0x15, 7, 1, 0, 8, 0, 0, 0,
     5, 0, 4, 0, 0, 0, 0, 0,
     0x18, 1, 0, 0, 0x1b, 0, 0, 0, 0, 0, 0, 0, 0, 0, 0, 0,
     0xb7, 2, 0, 0, 0x18, 0, 0, 0,
     0x85, 0, 0, 0, 6, 0, 0, 0,
     0xbf, 0x60, 0, 0, 0, 0, 0, 0,
     0x95, 0, 0, 0, 0, 0, 0, 0]"

lemma xdp_drop_code_decoded:
  "decode_prog xdp_drop_code = [
     Some (Alu64 Mov 6 (Imm 1)), Some (Ldx 4 2 1 4), Some (Ldx 4 1 1 0), 
     Some (Alu64 Mov 3 (Reg 1)), Some (Alu64 Add 3 (Imm 0xe)), Some (Jmp Gt 3 (Reg 2) 0x17), 
     Some (Ldx 1 2 1 0xc), Some (Ldx 1 7 1 0xd), Some (Alu64 Lsh 7 (Imm 8)), 
     Some (Alu64 Or 7 (Reg 2)), Some (Alu64 Mov 6 (Imm 2)), Some (Jmp Eq 7 (Imm 0) 0x11), 
     Some (Alu64 Mov 8 (Imm 0)), Some (Ld_imm64 1 0), None, Some (Alu64 Mov 2 (Imm 0x1b)), 
     Some (Alu64 Mov 3 (Reg 7)), Some (Call 6), Some (Alu64 Add 8 (Imm 1)), 
     Some (Alu64 Mov 1 (Reg 8)), Some (Alu64 Lsh 1 (Imm 0x20)), Some (Alu64 Rsh 1 (Imm 0x20)), 
     Some (Jmp Gt 7 (Reg 1) 0xfff6), Some (Jmp Eq 7 (Imm 8) 1), Some (Ja 4), 
     Some (Ld_imm64 1 0x1b), None, Some (Alu64 Mov 2 (Imm 0x18)), Some (Call 6), 
     Some (Alu64 Mov 0 (Reg 6)), Some Exit]"
  by code_simp

text \<open>The read-only data are the two messages, at the offsets 0 and 27.\<close>

definition xdp_drop_relocs :: relocs where
  "xdp_drop_relocs = [(13, Rodata, 0), (25, Rodata, 0)]"

definition loop_format :: string where
  "loop_format = ''The value of h_proto is %d''"

definition packet_format :: string where
  "packet_format = ''There is an ipv4 packet''"

abbreviation filter_steps where
  "filter_steps K \<equiv> steps (decode_prog xdp_drop_code) (kernel_call K) xdp_drop_relocs"

lemma formats:
  "map (\<lambda>b. char_of (unat b)) (takeWhile (\<lambda>b. b \<noteq> 0) (str_bytes loop_format @ [0])) = loop_format"
  "map (\<lambda>b. char_of (unat b)) (takeWhile (\<lambda>b. b \<noteq> 0) (str_bytes packet_format @ [0])) = packet_format"
  "conversions loop_format = ''d''" "conversions packet_format = []"
  by code_simp+

text \<open>A context, the messages and, unless it is too short, a packet.\<close>

definition filter_mem :: "vmem \<Rightarrow> xdp_md \<Rightarrow> bytes \<Rightarrow> bool" where
  "filter_mem mm ctx pkt \<longleftrightarrow> read_bytes mm Ctx 0 4 = Some (le_bytes 4 (data ctx)) \<and>
     read_bytes mm Ctx 4 4 = Some (le_bytes 4 (data_end ctx)) \<and>
     read_bytes mm Rodata 0 27 = Some (str_bytes loop_format @ [0]) \<and>
     read_bytes mm Rodata 27 24 = Some (str_bytes packet_format @ [0]) \<and>
     first_address \<le> uint (data ctx) \<and> int (length pkt) = uint (data_end ctx) - uint (data ctx) \<and>
     read_bytes mm Packet (uint (data ctx)) (length pkt) = Some pkt"

definition proto_of :: "bytes \<Rightarrow> u16" where
  "proto_of pkt = of_le [pkt ! 12, pkt ! 13]"

section \<open>Basic blocks\<close>

text \<open>The state at a slot: \<open>r6\<close> is the result, \<open>r7\<close> the protocol, \<open>r8\<close> the counter of the loop.\<close>

definition at_slot :: "int \<Rightarrow> val option list \<Rightarrow> u64 \<Rightarrow> val option \<Rightarrow> val option \<Rightarrow> vmem \<Rightarrow> 'm kworld \<Rightarrow> 'm kworld vm" where
  "at_slot p rs r h i mm w = \<lparr>pc = p,
     regs = rs @ [Some (Scalar r), h, i, None, Some (Addr Stack 0)], mem = mm, world = w\<rparr>"

lemma word_less_u32: "(a :: u32) < b \<longleftrightarrow> uint a < uint b"
  by (simp add: word_less_def)

lemma end_of_header: "uint (ucast (a :: u32) + 14 :: u64) = uint a + 14"
proof -
  have "unat (ucast a + 14 :: u64) = unat a + 14"
    using unat_u32_less [of a] by (simp add: unat_word_ariths unat_u32_u64)
  then show ?thesis by (metis of_nat_add of_nat_numeral uint_nat)
qed

lemma filter_short:
  assumes "filter_mem mm ctx pkt" and "length pkt < 14"
  shows "\<exists>rs. length rs = 6 \<and> filter_steps K 6 (vm_init mm w) = Some (at_slot 29 rs 1 None None (mm(Stack := (\<lambda>_. None))) w)"
proof -
  have "(ucast (data_end ctx) :: u64) < ucast (data ctx) + 14"
    using assms by (simp add: word_less_def end_of_header uint_u32_u64 filter_mem_def)
  then show ?thesis
    using assms(1) unfolding filter_mem_def
    by (intro exI conjI) (simp_all add: vm_init_def xdp_drop_code_decoded run_simps at_slot_def)
qed

text \<open>The bytes of the protocol.\<close>

definition wide_proto :: "bytes \<Rightarrow> u64" where
  "wide_proto pkt = ucast (proto_of pkt)"

lemma proto_bytes: "push_bit 8 (ucast (b :: u8)) OR ucast (a :: u8) = (ucast (of_le [a, b] :: u16) :: u64)"
  by (rule bit_word_eqI) (auto simp: bit_simps dest: bit_imp_le_length)

lemma packet_bytes:
  assumes "filter_mem mm ctx pkt" and "14 \<le> length pkt"
  shows "mm Packet (uint (data ctx) + 12) = Some (pkt ! 12)" "mm Packet (uint (data ctx) + 13) = Some (pkt ! 13)"
  using read_nth [of mm Packet "uint (data ctx)" "length pkt" pkt 12] read_nth [of mm Packet "uint (data ctx)" "length pkt" pkt 13]
    assms by (simp_all add: filter_mem_def)

lemma filter_header:
  assumes "filter_mem mm ctx pkt" and "14 \<le> length pkt"
  shows "\<exists>rs. length rs = 6 \<and> filter_steps K 11 (vm_init mm w) =
    Some (at_slot 11 rs 2 (Some (Scalar (wide_proto pkt))) None (mm(Stack := (\<lambda>_. None))) w)"
proof -
  have "\<not> (ucast (data_end ctx) :: u64) < ucast (data ctx) + 14"
    using assms by (simp add: word_less_def end_of_header uint_u32_u64 filter_mem_def)
  moreover have "first_address \<le> uint (data ctx) + 12" "first_address \<le> uint (data ctx) + 13"
    using assms(1) by (simp_all add: filter_mem_def)
  ultimately show ?thesis
    using assms(1) packet_bytes [OF assms]
    unfolding filter_mem_def
    by (intro exI conjI) (simp_all add: vm_init_def xdp_drop_code_decoded run_simps at_slot_def uint_u32_u64
        wide_proto_def proto_of_def proto_bytes)
qed

section \<open>The loop\<close>

lemma unat_wide: "unat (wide_proto pkt) = unat (proto_of pkt)"
  by (simp add: wide_proto_def unsigned_ucast_eq take_bit_nat_eq_self_iff order_less_le_trans [OF unsigned_less])

lemma proto_bound: "unat (proto_of pkt) < 65536"
  using unsigned_less [of "proto_of pkt"] by simp

lemma printed_proto: "conv_value CHR ''d'' (wide_proto pkt) = int (unat (proto_of pkt))"
proof -
  have "(ucast (wide_proto pkt) :: u32) = of_nat (unat (proto_of pkt))"
    by (simp add: unat_wide [symmetric])
  then have "conv_value CHR ''d'' (wide_proto pkt) = sint (of_nat (unat (proto_of pkt)) :: u32)"
    by (simp add: conv_value_def)
  also have "\<dots> = int (unat (proto_of pkt))"
    using proto_bound [of pkt] by (simp add: signed_of_nat signed_take_bit_int_eq_self del: of_nat_unat)
  finally show ?thesis .
qed

lemma low_half_small: "n < 2 ^ 32 \<Longrightarrow> drop_bit 32 (push_bit 32 (of_nat n :: u64)) = of_nat n"
  by (subst uid_of_shift [symmetric]) (simp add: uid_of_eq take_bit_of_nat take_bit_nat_eq_self)

lemma of_nat_less_wide: "n \<le> 65536 \<Longrightarrow> (of_nat n < wide_proto pkt) \<longleftrightarrow> n < unat (proto_of pkt)"
  by (simp add: word_less_nat_alt unat_wide unsigned_of_nat take_bit_nat_eq_self)

definition printed_once :: "bytes \<Rightarrow> 'm kworld \<Rightarrow> 'm kworld" where
  "printed_once pkt w = w\<lparr>k_trace := bpf_printk loop_format [int (unat (proto_of pkt))] (k_trace w)\<rparr>"

lemma six_elems: "length rs = 6 \<Longrightarrow> \<exists>a b c' d e f. rs = [a, b, c', d, e, f]"
  by (auto simp: length_Suc_conv numeral_eq_Suc)

lemma loop_round:
  assumes "read_bytes mm Rodata 0 27 = Some (str_bytes loop_format @ [0])" and "length rs = 6"
    and i: "i < unat (proto_of pkt)"
  shows "\<exists>rs'. length rs' = 6 \<and>
    filter_steps K 9 (at_slot 13 rs 2 (Some (Scalar (wide_proto pkt))) (Some (Scalar (of_nat i))) mm w) =
    Some (at_slot (if Suc i < unat (proto_of pkt) then 13 else 23) rs' 2 (Some (Scalar (wide_proto pkt)))
      (Some (Scalar (of_nat (Suc i)))) mm (printed_once pkt w))"
proof -
  obtain a b x d e f where rs: "rs = [a, b, x, d, e, f]" using six_elems [OF assms(2)] by blast
  have n: "Suc i \<le> 65536" "Suc i < 2 ^ 32" using i proto_bound [of pkt] by simp_all
  note low = low_half_small [OF n(2), unfolded of_nat_Suc, unfolded add.commute [of 1]]
    and less = of_nat_less_wide [OF n(1), unfolded of_nat_Suc, unfolded add.commute [of 1]]
  show ?thesis
    using assms(1)
    by (intro exI conjI) (simp_all add: rs xdp_drop_code_decoded xdp_drop_relocs_def run_simps at_slot_def formats
        printed_proto printed_once_def low less)
qed

lemma loop_rounds:
  assumes ro: "read_bytes mm Rodata 0 27 = Some (str_bytes loop_format @ [0])"
  shows "i + j = unat (proto_of pkt) \<Longrightarrow> 0 < j \<Longrightarrow> length rs = 6 \<Longrightarrow>
    \<exists>rs' r8. length rs' = 6 \<and>
      filter_steps K (9 * j) (at_slot 13 rs 2 (Some (Scalar (wide_proto pkt))) (Some (Scalar (of_nat i))) mm w) =
      Some (at_slot 23 rs' 2 (Some (Scalar (wide_proto pkt))) r8 mm ((printed_once pkt ^^ j) w))"
proof (induction j arbitrary: i rs w)
  case (Suc j)
  then have i: "i < unat (proto_of pkt)" by simp
  obtain rs1 where one: "length rs1 = 6"
    "filter_steps K 9 (at_slot 13 rs 2 (Some (Scalar (wide_proto pkt))) (Some (Scalar (of_nat i))) mm w) =
      Some (at_slot (if Suc i < unat (proto_of pkt) then 13 else 23) rs1 2 (Some (Scalar (wide_proto pkt)))
        (Some (Scalar (of_nat (Suc i)))) mm (printed_once pkt w))"
    using loop_round [OF ro Suc.prems(3) i, of K w] by blast
  show ?case
  proof (cases "j = 0")
    case True
    then have "\<not> Suc i < unat (proto_of pkt)" using Suc.prems(1) by simp
    then show ?thesis using one True by auto
  next
    case False
    then have lt: "Suc i < unat (proto_of pkt)" "Suc i + j = unat (proto_of pkt)" "0 < j" using Suc.prems(1) by simp_all
    obtain rs' r8 where "length rs' = 6"
      "filter_steps K (9 * j) (at_slot 13 rs1 2 (Some (Scalar (wide_proto pkt))) (Some (Scalar (of_nat (Suc i)))) mm
          (printed_once pkt w)) =
        Some (at_slot 23 rs' 2 (Some (Scalar (wide_proto pkt))) r8 mm ((printed_once pkt ^^ j) (printed_once pkt w)))"
      using Suc.IH [OF lt(2,3) one(1), of "printed_once pkt w"] by blast
    moreover have "filter_steps K (9 + 9 * j) s = Some u"
      if "filter_steps K 9 s = Some t" "filter_steps K (9 * j) t = Some u" for s t u
      using steps_join [OF that] .
    ultimately show ?thesis
      using one(2) lt(1) by (auto simp: funpow_swap1 simp del: of_nat_Suc)
  qed
qed simp

lemma printed_rounds:
  "(printed_once pkt ^^ j) w = w\<lparr>k_trace := k_trace w @ replicate j (loop_format, [int (unat (proto_of pkt))])\<rparr>"
proof (induction j)
  case (Suc j)
  then show ?case by (simp add: printed_once_def bpf_printk_def replicate_append_same)
qed simp

section \<open>The end\<close>

definition ipv4_print :: "bytes \<Rightarrow> trace" where
  "ipv4_print pkt = (if proto_of pkt = htons ETH_P_IPV4 then [(packet_format, [])] else [])"

lemma ipv4_wide: "wide_proto pkt = 8 \<longleftrightarrow> proto_of pkt = htons ETH_P_IPV4"
proof -
  have "htons ETH_P_IPV4 = 8" by (simp add: htons_def ETH_P_IPV4_def)
  moreover have "wide_proto pkt = 8 \<longleftrightarrow> unat (proto_of pkt) = 8"
    by (simp add: word_unat_eq_iff unat_wide)
  ultimately show ?thesis by (simp add: word_unat_eq_iff)
qed

lemma filter_end:
  assumes "read_bytes mm Rodata 27 24 = Some (str_bytes packet_format @ [0])" and "length rs = 6"
  shows "\<exists>n rs'. n \<le> 4 \<and> length rs' = 6 \<and>
    filter_steps K n (at_slot 23 rs 2 (Some (Scalar (wide_proto pkt))) r8 mm w) =
    Some (at_slot 29 rs' 2 (Some (Scalar (wide_proto pkt))) r8 mm (w\<lparr>k_trace := k_trace w @ ipv4_print pkt\<rparr>))"
proof -
  obtain a b x d e f where rs: "rs = [a, b, x, d, e, f]" using six_elems [OF assms(2)] by blast
  show ?thesis
  proof (cases "proto_of pkt = htons ETH_P_IPV4")
    case True
    then have "wide_proto pkt = 8" by (simp add: ipv4_wide)
    with assms(1) True show ?thesis
      by (intro exI [of _ 4] exI conjI) (simp_all add: rs xdp_drop_code_decoded xdp_drop_relocs_def run_simps at_slot_def
          formats ipv4_print_def bpf_printk_def)
  next
    case False
    then have "wide_proto pkt \<noteq> 8" by (simp add: ipv4_wide)
    with False assms(2) show ?thesis
      by (intro exI [of _ 2] exI [of _ rs] conjI) (simp_all add: rs xdp_drop_code_decoded run_simps at_slot_def ipv4_print_def)
  qed
qed

lemma filter_exit:
  assumes "length rs = 6"
  shows "exec (decode_prog xdp_drop_code) h rel 2 (at_slot 29 rs r x y mm w) =
    Some (Inr (r, at_slot 30 (rs[0 := Some (Scalar r)]) r x y mm w))"
proof -
  obtain a b z d e f where rs: "rs = [a, b, z, d, e, f]" using six_elems [OF assms] by blast
  show ?thesis by (simp add: numeral_2_eq_2 rs xdp_drop_code_decoded run_simps at_slot_def)
qed

section \<open>The whole program\<close>

lemma filter_enter:
  assumes "length rs = 6"
  shows "filter_steps K (Suc 0) (at_slot 11 rs 2 (Some (Scalar (wide_proto pkt))) r8 mm w) =
    Some (at_slot (if proto_of pkt = 0 then 29 else 12) rs 2 (Some (Scalar (wide_proto pkt))) r8 mm w)"
    and "filter_steps K (Suc 0) (at_slot 12 rs 2 (Some (Scalar (wide_proto pkt))) r8 mm w) =
    Some (at_slot 13 rs 2 (Some (Scalar (wide_proto pkt))) (Some (Scalar (of_nat 0))) mm w)"
proof -
  obtain a b z d e f where rs: "rs = [a, b, z, d, e, f]" using six_elems [OF assms] by blast
  have "wide_proto pkt = 0 \<longleftrightarrow> proto_of pkt = 0" by (simp add: word_unat_eq_iff unat_wide)
  then show "filter_steps K (Suc 0) (at_slot 11 rs 2 (Some (Scalar (wide_proto pkt))) r8 mm w) =
      Some (at_slot (if proto_of pkt = 0 then 29 else 12) rs 2 (Some (Scalar (wide_proto pkt))) r8 mm w)"
    and "filter_steps K (Suc 0) (at_slot 12 rs 2 (Some (Scalar (wide_proto pkt))) r8 mm w) =
      Some (at_slot 13 rs 2 (Some (Scalar (wide_proto pkt))) (Some (Scalar (of_nat 0))) mm w)"
    by (simp_all add: rs xdp_drop_code_decoded run_simps at_slot_def)
qed

text \<open>What the program prints.\<close>

definition filter_prints :: "bytes \<Rightarrow> trace" where
  "filter_prints pkt = (if length pkt < 14 then []
     else replicate (unat (proto_of pkt)) (loop_format, [int (unat (proto_of pkt))]) @ ipv4_print pkt)"

lemma filter_run:
  assumes m: "filter_mem mm ctx pkt"
  obtains n rs r7 r8 where "n \<le> 9 * unat (proto_of pkt) + 17" "length rs = 6"
    "filter_steps K n (vm_init mm w) = Some (at_slot 29 rs (if length pkt < 14 then 1 else 2) r7 r8 (mm(Stack := (\<lambda>_. None)))
       (w\<lparr>k_trace := k_trace w @ filter_prints pkt\<rparr>))"
proof (cases "length pkt < 14")
  case True
  obtain rs where "length rs = 6"
    "filter_steps K 6 (vm_init mm w) = Some (at_slot 29 rs 1 None None (mm(Stack := (\<lambda>_. None))) w)"
    using filter_short [OF m True] by blast
  then show thesis using True by (intro that [of 6 rs None None]) (simp_all add: filter_prints_def)
next
  case False
  let ?mm = "mm(Stack := (\<lambda>_. None))" and ?h = "unat (proto_of pkt)"
  have ro: "read_bytes ?mm Rodata 0 27 = Some (str_bytes loop_format @ [0])"
    "read_bytes ?mm Rodata 27 24 = Some (str_bytes packet_format @ [0])" using m by (simp_all add: filter_mem_def)
  obtain rs where rs: "length rs = 6"
    "filter_steps K 11 (vm_init mm w) = Some (at_slot 11 rs 2 (Some (Scalar (wide_proto pkt))) None ?mm w)"
    using filter_header [OF m] False not_less by blast
  note enter = steps_join [OF rs(2) filter_enter(1) [OF rs(1)]]
  show thesis
  proof (cases "proto_of pkt = 0")
    case True
    then have "filter_prints pkt = []"
      using False by (simp add: filter_prints_def ipv4_print_def htons_def ETH_P_IPV4_def)
    with enter True False rs(1) show thesis
      by (intro that [of "11 + Suc 0" rs "Some (Scalar (wide_proto pkt))" None]) simp_all
  next
    case pos: False
    then have h: "0 + ?h = ?h" "0 < ?h" by (simp_all add: unat_gt_0)
    let ?w = "w\<lparr>k_trace := k_trace w @ replicate ?h (loop_format, [int ?h])\<rparr>"
    obtain rs1 r8 where l: "length rs1 = 6"
      "filter_steps K (9 * ?h) (at_slot 13 rs 2 (Some (Scalar (wide_proto pkt))) (Some (Scalar (of_nat 0))) ?mm w) =
        Some (at_slot 23 rs1 2 (Some (Scalar (wide_proto pkt))) r8 ?mm ?w)"
      using loop_rounds [OF ro(1) h rs(1), of K w] unfolding printed_rounds by blast
    obtain n rs2 where e: "n \<le> 4" "length rs2 = 6"
      "filter_steps K n (at_slot 23 rs1 2 (Some (Scalar (wide_proto pkt))) r8 ?mm ?w) =
        Some (at_slot 29 rs2 2 (Some (Scalar (wide_proto pkt))) r8 ?mm (?w\<lparr>k_trace := k_trace ?w @ ipv4_print pkt\<rparr>))"
      using filter_end [OF ro(2) l(1)] by blast
    have "filter_steps K (11 + Suc 0) (vm_init mm w) = Some (at_slot 12 rs 2 (Some (Scalar (wide_proto pkt))) None ?mm w)"
      using enter pos by simp
    from steps_join [OF steps_join [OF steps_join [OF this filter_enter(2) [OF rs(1)]] l(2)] e(3)]
    show thesis
      using e(1,2) False by (intro that [of _ rs2 "Some (Scalar (wide_proto pkt))" r8]) (auto simp: filter_prints_def)
  qed
qed

section \<open>Properties\<close>

text \<open>C31: the object code of \<open>xdp_drop_prog\<close>, for every packet. It drops a packet that is too short for
  an Ethernet header, without reading it; it passes any other, after printing its protocol, read as a
  little-endian number, as many times as that number says, and once more if the packet is IPv4. It ends
  within 9 instructions per round and 19 more, although it jumps back, and makes no invalid access.\<close>

theorem xdp_drop_bytecode:
  assumes "filter_mem mm ctx pkt"
  shows "\<exists>t. exec (decode_prog xdp_drop_code) (kernel_call K) xdp_drop_relocs (9 * unat (proto_of pkt) + 19) (vm_init mm w) =
      Some (Inr (if length pkt < 14 then 1 else 2, t)) \<and>
    world t = w\<lparr>k_trace := k_trace w @ filter_prints pkt\<rparr> \<and> mem t = mm(Stack := (\<lambda>_. None))"
proof -
  let ?r = "if length pkt < 14 then 1 else 2 :: u64"
  obtain n rs r7 r8 where n: "n \<le> 9 * unat (proto_of pkt) + 17" "length rs = 6" and
    s: "filter_steps K n (vm_init mm w) = Some (at_slot 29 rs ?r r7 r8 (mm(Stack := (\<lambda>_. None)))
       (w\<lparr>k_trace := k_trace w @ filter_prints pkt\<rparr>))" by (rule filter_run [OF assms])
  let ?t = "at_slot 30 (rs[0 := Some (Scalar ?r)]) ?r r7 r8 (mm(Stack := (\<lambda>_. None)))
    (w\<lparr>k_trace := k_trace w @ filter_prints pkt\<rparr>)"
  have "exec (decode_prog xdp_drop_code) (kernel_call K) xdp_drop_relocs (n + 2) (vm_init mm w) = Some (Inr (?r, ?t))"
    unfolding exec_steps [OF s, of 2] by (rule filter_exit [OF n(2)])
  from exec_more [OF this, of "9 * unat (proto_of pkt) + 19"] n(1) show ?thesis
    by (intro exI [of _ ?t]) (simp add: at_slot_def)
qed

definition filter_witness_mem :: vmem where
  "filter_witness_mem = put_bytes (put_bytes (put_bytes (put_bytes (put_bytes (\<lambda>_ _. None)
     Rodata 0 (str_bytes loop_format @ [0])) Rodata 27 (str_bytes packet_format @ [0]))
     Ctx 0 (le_bytes 4 (8192 :: u32))) Ctx 4 (le_bytes 4 (8206 :: u32))) Packet 8192 (replicate 12 0 @ [8, 0])"

theorem xdp_drop_bytecode_witness:
  "\<exists>t. exec (decode_prog xdp_drop_code) (kernel_call (doc_kernel 0)) xdp_drop_relocs 91
      (vm_init filter_witness_mem world_init) = Some (Inr (2, t)) \<and>
    k_trace (world t) = replicate 8 (loop_format, [8]) @ [(packet_format, [])]"
proof -
  let ?pkt = "replicate 12 0 @ [8, 0 :: u8]" and ?ctx = "\<lparr>data = 8192, data_end = 8206\<rparr>"
  have l: "length loop_format = 26" "length packet_format = 23"
    by (simp_all add: loop_format_def packet_format_def)
  have m: "filter_mem filter_witness_mem ?ctx ?pkt"
    using l by (simp add: filter_mem_def filter_witness_mem_def read_put_other str_bytes_def first_address_def)
  have p: "proto_of ?pkt = 8" by (simp add: proto_of_def nth_append)
  then have "filter_prints ?pkt = replicate 8 (loop_format, [8]) @ [(packet_format, [])]"
    by (simp add: filter_prints_def ipv4_print_def htons_def ETH_P_IPV4_def)
  with xdp_drop_bytecode [OF m, of "doc_kernel 0" world_init] p show ?thesis
    by (auto simp: world_init_def)
qed

end
