(* ===== verification/Bytecode_Smp.thy ===== *)
theory Bytecode_Smp
  imports Bytecode_Safety
begin

text \<open>
  The object codes on several processors. The programs of an object share its data (the counter
  and the message of \<open>kprobe_exec\<close>) and the kernel's maps, and an instance may be interrupted by
  the others after any instruction. Registers, stack, context and the copy of a value that was
  looked up are its own. Instances never make an invalid access; their samples may share a number.
\<close>

section \<open>The machine\<close>

text \<open>What an instance runs: its kernel (with the task of its event), code and relocations, and what the
  code was verified for.\<close>

record ('m, 'k, 'v) job =
  j_kernel :: "('m, 'k, 'v) kernel"
  j_code :: "insn option list"
  j_types :: tenv
  j_relocs :: relocs
  j_steps :: nat

text \<open>A processor is idle, or runs a job and has made some steps of it, or has made an invalid access.\<close>

datatype ('m, 'k, 'v) processor = Idle | Running "('m, 'k, 'v) job" nat "'m kworld vm" | Crashed vm_error

record ('c, 'm, 'k, 'v) smp =
  smp_data :: "int \<Rightarrow> u8 option"
  smp_world :: "'m kworld"
  smp_cpus :: "'c \<Rightarrow> ('m, 'k, 'v) processor"

text \<open>An instance goes on with the data and the kernel as the others have left them.\<close>

definition resume :: "('c, 'm, 'k, 'v) smp \<Rightarrow> 'm kworld vm \<Rightarrow> 'm kworld vm" where
  "resume s v = v\<lparr>mem := (mem v)(Data := smp_data s), world := smp_world s\<rparr>"

definition suspend :: "'c \<Rightarrow> ('m, 'k, 'v) processor \<Rightarrow> 'm kworld vm \<Rightarrow> ('c, 'm, 'k, 'v) smp \<Rightarrow> ('c, 'm, 'k, 'v) smp" where
  "suspend i x v s = s\<lparr>smp_data := mem v Data, smp_world := world v, smp_cpus := (smp_cpus s)(i := x)\<rparr>"

definition job_step :: "('m, 'k, 'v) job \<Rightarrow> 'm kworld vm \<Rightarrow> 'm kworld outcome" where
  "job_step J = step (j_code J) (kernel_call (j_kernel J)) (j_relocs J)"

inductive smp_step :: "('m, 'k, 'v) job set \<Rightarrow> ('c, 'm, 'k, 'v) smp \<Rightarrow> ('c, 'm, 'k, 'v) smp \<Rightarrow> bool"
  for jobs :: "('m, 'k, 'v) job set" where
  arrive: "smp_cpus s i = Idle \<Longrightarrow> J \<in> jobs \<Longrightarrow> mem_ok (j_types J) [] (mm(Data := smp_data s)) \<Longrightarrow>
     smp_step jobs s (s\<lparr>smp_cpus := (smp_cpus s)(i := Running J 0 (vm_init mm (smp_world s)))\<rparr>)"
| go_on: "smp_cpus s i = Running J k v \<Longrightarrow> job_step J (resume s v) = Next t \<Longrightarrow>
     smp_step jobs s (suspend i (Running J (Suc k) t) t s)"
| leave: "smp_cpus s i = Running J k v \<Longrightarrow> job_step J (resume s v) = Halt w t \<Longrightarrow>
     smp_step jobs s (suspend i Idle t s)"
| crash: "smp_cpus s i = Running J k v \<Longrightarrow> job_step J (resume s v) = Fault e \<Longrightarrow>
     smp_step jobs s (s\<lparr>smp_cpus := (smp_cpus s)(i := Crashed e)\<rparr>)"

definition smp_start :: "(int \<Rightarrow> u8 option) \<Rightarrow> 'm kworld \<Rightarrow> ('c, 'm, 'k, 'v) smp" where
  "smp_start d w = \<lparr>smp_data = d, smp_world = w, smp_cpus = (\<lambda>_. Idle)\<rparr>"

inductive smp_reach :: "('m, 'k, 'v) job set \<Rightarrow> ('c, 'm, 'k, 'v) smp \<Rightarrow> ('c, 'm, 'k, 'v) smp \<Rightarrow> bool"
  for jobs :: "('m, 'k, 'v) job set" and s0 :: "('c, 'm, 'k, 'v) smp" where
  start: "smp_reach jobs s0 s0"
| step: "smp_reach jobs s0 s \<Longrightarrow> smp_step jobs s t \<Longrightarrow> smp_reach jobs s0 t"

lemmas smp_simps = resume_def suspend_def

section \<open>Verified code under interference\<close>

context typed_kernel
begin

lemma verify_step:
  assumes "verify code T rel n a" and "state_ok P T a s"
  shows "(\<exists>w. step code (kernel_call K) rel s = Halt w s) \<or>
    (\<exists>t b k. n = Suc k \<and> step code (kernel_call K) rel s = Next t \<and> verify code T rel k b \<and> state_ok P T b t)"
proof -
  obtain k i as where i: "n = Suc k" "0 \<le> a_pc a" "nat (a_pc a) < length code" "code ! nat (a_pc a) = Some i"
    "a_step T rel i a = Some as" and as: "\<forall>b \<in> set as. verify code T rel k b"
    using assms(1) by (cases n) (auto simp: list_all_iff split: option.splits)
  note r = state_okD [OF assms(2)]
  have st: "step code (kernel_call K) rel s = exec_insn (kernel_call K) rel i s"
    using i(2-4) r(1) by (simp add: step_def)
  show ?thesis
  proof (cases "i = Exit")
    case True
    then have "a_is_num (a_get a 0)" using i(5) by (simp add: a_step_def split: if_splits)
    then obtain w where "regs s ! 0 = Some (Scalar w)" by (rule num_sound [OF r(2)])
    then have "exec_insn (kernel_call K) rel i s = Halt w s"
      using True r(2) by (simp add: exec_insn_def reg_get_def regs_ok_def)
    then show ?thesis using st by simp
  next
    case False
    from step_sound [OF assms(2) i(5) False] st i(1) as show ?thesis by auto
  qed
qed

end

text \<open>A processor that makes an invalid access or gets behind its number of steps does not exist.\<close>

definition job_ok :: "('m \<Rightarrow> bool) \<Rightarrow> int \<Rightarrow> ('m, 'k, 'v) job \<Rightarrow> bool" where
  "job_ok P D J \<longleftrightarrow> typed_kernel (j_kernel J) (j_types J) P \<and> data_len (j_types J) = D \<and>
     verify (j_code J) (j_types J) (j_relocs J) (j_steps J) a_start"

definition cpu_ok :: "('m \<Rightarrow> bool) \<Rightarrow> int \<Rightarrow> ('c, 'm, 'k, 'v) smp \<Rightarrow> ('m, 'k, 'v) processor \<Rightarrow> bool" where
  "cpu_ok P D s x \<longleftrightarrow> (case x of
     Idle \<Rightarrow> True
   | Running J k v \<Rightarrow> job_ok P D J \<and> (\<exists>a n. n + k = j_steps J \<and> verify (j_code J) (j_types J) (j_relocs J) n a \<and>
       state_ok P (j_types J) a (resume s v))
   | Crashed e \<Rightarrow> False)"

definition smp_ok :: "('m \<Rightarrow> bool) \<Rightarrow> int \<Rightarrow> ('c, 'm, 'k, 'v) smp \<Rightarrow> bool" where
  "smp_ok P D s \<longleftrightarrow> P (k_map (smp_world s)) \<and> defined (\<lambda>_. smp_data s) Data 0 D \<and> (\<forall>i. cpu_ok P D s (smp_cpus s i))"

text \<open>The abstract state of an instance says nothing of the content of the shared data.\<close>

lemma val_ok_data: "val_ok T (mm(Data := d)) t v \<longleftrightarrow> val_ok T mm t v"
  by (cases t) (simp_all add: defined_def)

lemma state_ok_data:
  assumes "state_ok P T a v" and "defined (\<lambda>_. d) Data 0 (data_len T)" and "P (k_map w)"
  shows "state_ok P T a (v\<lparr>mem := (mem v)(Data := d), world := w\<rparr>)"
  using assms read_bytes_same [of "(mem v)(Data := d)" Rodata "mem v" 0 "length (ro_bytes T)"]
  by (simp add: state_ok_def regs_ok_def val_ok_data mem_ok_def stack_within_def defined_def)

lemma resume_resume: "resume s' v = (resume s v)\<lparr>mem := (mem (resume s v))(Data := smp_data s'), world := smp_world s'\<rparr>"
  by (simp add: resume_def)

lemma resume_suspend: "resume (suspend i x t s) t = t"
  by (simp add: smp_simps)

lemma cpu_ok_stable:
  assumes "cpu_ok P D s x" and "defined (\<lambda>_. smp_data s') Data 0 D" and "P (k_map (smp_world s'))"
  shows "cpu_ok P D s' x"
proof (cases x)
  case (Running J k v)
  then obtain a n where a: "job_ok P D J" "n + k = j_steps J" "verify (j_code J) (j_types J) (j_relocs J) n a"
    "state_ok P (j_types J) a (resume s v)" using assms(1) by (auto simp: cpu_ok_def)
  have "state_ok P (j_types J) a (resume s' v)"
    unfolding resume_resume [of s' v s]
    by (rule state_ok_data [OF a(4) _ assms(3)]) (use assms(2) a(1) in \<open>simp add: job_ok_def\<close>)
  then show ?thesis using a(1-3) Running by (auto simp: cpu_ok_def)
qed (use assms(1) in \<open>simp_all add: cpu_ok_def\<close>)

lemma smp_ok_suspend:
  assumes "smp_ok P D s" and "defined (\<lambda>_. mem t Data) Data 0 D" and "P (k_map (world t))"
    and "cpu_ok P D (suspend i x t s) x"
  shows "smp_ok P D (suspend i x t s)"
proof -
  have "cpu_ok P D (suspend i x t s) (smp_cpus s j)" for j
    by (rule cpu_ok_stable [of P D s]) (use assms(1-3) in \<open>simp_all add: smp_ok_def suspend_def\<close>)
  then show ?thesis using assms(2-4) by (simp add: smp_ok_def suspend_def)
qed

lemma state_ok_shared:
  assumes "state_ok P T a t"
  shows "defined (\<lambda>_. mem t Data) Data 0 (data_len T)" and "P (k_map (world t))"
  using assms by (simp_all add: state_ok_def mem_ok_def defined_def)

lemma start_ok:
  assumes "mem_ok T [] mm" and "P (k_map w)"
  shows "state_ok P T a_start (vm_init mm w)"
  using assms
  by (auto simp: state_ok_def a_start_def vm_init_def regs_ok_def mem_ok_def defined_def stack_within_def nth_Cons
      split: nat.splits)

lemma smp_step_ok:
  assumes "smp_step jobs s s'" and "smp_ok P D s" and "\<forall>J \<in> jobs. job_ok P D J"
  shows "smp_ok P D s'"
  using assms
proof (induction rule: smp_step.induct)
  case (arrive s i J mm)
  have "resume s (vm_init mm (smp_world s)) = vm_init (mm(Data := smp_data s)) (smp_world s)"
    by (simp add: resume_def vm_init_def fun_upd_twist)
  with start_ok [OF arrive.hyps(3), of P "smp_world s"] arrive.prems arrive.hyps(2)
  have new: "cpu_ok P D s (Running J 0 (vm_init mm (smp_world s)))"
    by (auto simp: cpu_ok_def job_ok_def smp_ok_def)
  let ?s = "s\<lparr>smp_cpus := (smp_cpus s)(i := Running J 0 (vm_init mm (smp_world s)))\<rparr>"
  have "cpu_ok P D ?s x" if "cpu_ok P D s x" for x
    by (rule cpu_ok_stable [OF that]) (use arrive.prems(1) in \<open>simp_all add: smp_ok_def\<close>)
  with new arrive.prems(1) show ?case by (simp add: smp_ok_def)
next
  case (go_on s i J k v t)
  then obtain a n where a: "job_ok P D J" "n + k = j_steps J" "verify (j_code J) (j_types J) (j_relocs J) n a"
    "state_ok P (j_types J) a (resume s v)" by (force simp: smp_ok_def cpu_ok_def split: processor.splits)
  have tk: "typed_kernel (j_kernel J) (j_types J) P" using a(1) by (simp add: job_ok_def)
  from typed_kernel.verify_step [OF tk a(3,4)] go_on.hyps(2) obtain b m where b: "n = Suc m"
    "verify (j_code J) (j_types J) (j_relocs J) m b" "state_ok P (j_types J) b t"
    by (auto simp: job_step_def)
  then have "cpu_ok P D (suspend i (Running J (Suc k) t) t s) (Running J (Suc k) t)"
    using a(1,2) by (auto simp: cpu_ok_def resume_suspend)
  from smp_ok_suspend [OF go_on.prems(1) _ _ this] state_ok_shared [OF b(3)] a(1) show ?case
    by (simp add: job_ok_def)
next
  case (leave s i J k v w t)
  then obtain a n where a: "job_ok P D J" "verify (j_code J) (j_types J) (j_relocs J) n a"
    "state_ok P (j_types J) a (resume s v)" by (force simp: smp_ok_def cpu_ok_def split: processor.splits)
  have tk: "typed_kernel (j_kernel J) (j_types J) P" using a(1) by (simp add: job_ok_def)
  from typed_kernel.verify_step [OF tk a(2,3)] leave.hyps(2) have t: "t = resume s v" by (auto simp: job_step_def)
  have "cpu_ok P D (suspend i Idle t s) Idle" by (simp add: cpu_ok_def)
  from smp_ok_suspend [OF leave.prems(1) _ _ this] state_ok_shared [OF a(3)] a(1) t show ?case
    by (simp add: job_ok_def)
next
  case (crash s i J k v e)
  then obtain a n where a: "job_ok P D J" "verify (j_code J) (j_types J) (j_relocs J) n a"
    "state_ok P (j_types J) a (resume s v)" by (force simp: smp_ok_def cpu_ok_def split: processor.splits)
  have tk: "typed_kernel (j_kernel J) (j_types J) P" using a(1) by (simp add: job_ok_def)
  from typed_kernel.verify_step [OF tk a(2,3)] crash.hyps(2) show ?case by (auto simp: job_step_def)
qed

lemma smp_reach_ok:
  assumes "smp_reach jobs s0 s" and "smp_ok P D s0" and "\<forall>J \<in> jobs. job_ok P D J"
  shows "smp_ok P D s"
  using assms by (induction rule: smp_reach.induct) (auto intro: smp_step_ok)


text \<open>Jobs that run an object code, all with the same data and map.\<close>

definition object_job :: "('m \<Rightarrow> bool) \<Rightarrow> int \<Rightarrow> ('m, 'k, 'v) job \<Rightarrow> bool" where
  "object_job P D J \<longleftrightarrow> typed_kernel (j_kernel J) (j_types J) P \<and> data_len (j_types J) = D \<and>
     (\<exists>code. (code, j_types J, j_relocs J, j_steps J) \<in> set object_codes \<and> j_code J = decode_prog code)"

lemma object_job_ok: "object_job P D J \<Longrightarrow> job_ok P D J"
  by (auto simp: object_job_def job_ok_def intro: object_codes_accepted)

lemma smp_start_ok:
  assumes "P (k_map w)" and "defined (\<lambda>_. d) Data 0 D"
  shows "smp_ok P D (smp_start d w)"
  using assms by (simp add: smp_ok_def smp_start_def cpu_ok_def)

lemma cpu_ok_step:
  assumes "cpu_ok P D s (Running J k v)" and "smp_cpus s i = Running J k v"
  shows "k < j_steps J \<and> (\<exists>s'. smp_step jobs s s' \<and> (smp_cpus s' i = Idle \<or> (\<exists>t. smp_cpus s' i = Running J (Suc k) t)))"
proof -
  obtain a n where a: "typed_kernel (j_kernel J) (j_types J) P" "n + k = j_steps J"
    "verify (j_code J) (j_types J) (j_relocs J) n a" "state_ok P (j_types J) a (resume s v)"
    using assms(1) by (auto simp: cpu_ok_def job_ok_def)
  have k: "k < j_steps J" using a(2,3) by (cases n) auto
  from typed_kernel.verify_step [OF a(1,3,4)]
  consider (halt) w where "job_step J (resume s v) = Halt w (resume s v)"
    | (go) t where "job_step J (resume s v) = Next t" by (auto simp: job_step_def)
  then show ?thesis
  proof cases
    case halt
    from smp_step.leave [OF assms(2) this, of jobs] k show ?thesis by (fastforce simp: suspend_def)
  next
    case go
    from smp_step.go_on [OF assms(2) this, of jobs] k show ?thesis by (fastforce simp: suspend_def)
  qed
qed

section \<open>Two samples with one number\<close>

text \<open>An instance that is not interrupted.\<close>

lemma suspend_suspend: "suspend i x t (suspend i y u s) = suspend i x t s"
  by (simp add: suspend_def)

lemma smp_steps:
  assumes "smp_reach jobs s0 s" and "smp_cpus s i = Running J k v"
    and "steps (j_code J) (kernel_call (j_kernel J)) (j_relocs J) (Suc n) (resume s v) = Some t"
  shows "\<exists>k. smp_reach jobs s0 (suspend i (Running J k t) t s)"
  using assms
proof (induction n arbitrary: s k v)
  case 0
  then have "job_step J (resume s v) = Next t" by (simp add: job_step_def split: outcome.splits)
  then show ?case using smp_reach.step [OF 0(1) smp_step.go_on [OF 0(2)]] by blast
next
  case (Suc n)
  then obtain u where u: "job_step J (resume s v) = Next u"
    "steps (j_code J) (kernel_call (j_kernel J)) (j_relocs J) (Suc n) u = Some t"
    by (simp add: job_step_def split: outcome.splits)
  let ?s = "suspend i (Running J (Suc k) u) u s"
  have "smp_reach jobs s0 ?s" using smp_reach.step [OF Suc.prems(1) smp_step.go_on [OF Suc.prems(2) u(1)]] .
  from Suc.IH [OF this, of "Suc k" u] u(2) show ?case
    by (simp add: resume_suspend suspend_suspend) (simp add: suspend_def)
qed

lemma smp_exec:
  assumes "smp_reach jobs s0 s" and "smp_cpus s i = Running J k v"
    and "exec (j_code J) (kernel_call (j_kernel J)) (j_relocs J) n (resume s v) = Some (Inr (w, t))"
  shows "smp_reach jobs s0 (suspend i Idle t s)"
  using assms
proof (induction n arbitrary: s k v)
  case (Suc n)
  consider (halt) "job_step J (resume s v) = Halt w t"
    | (go) u where "job_step J (resume s v) = Next u"
        "exec (j_code J) (kernel_call (j_kernel J)) (j_relocs J) n u = Some (Inr (w, t))"
    using Suc.prems(3) by (auto simp: job_step_def split: outcome.splits)
  then show ?case
  proof cases
    case halt
    then show ?thesis using smp_reach.step [OF Suc.prems(1) smp_step.leave [OF Suc.prems(2)]] by blast
  next
    case go
    let ?s = "suspend i (Running J (Suc k) u) u s"
    have "smp_reach jobs s0 ?s" using smp_reach.step [OF Suc.prems(1) smp_step.go_on [OF Suc.prems(2) go(1)]] .
    from Suc.IH [OF this, of "Suc k" u] go(2) show ?thesis
      by (simp add: resume_suspend suspend_suspend) (simp add: suspend_def)
  qed
qed simp

text \<open>
  The counter is read at slot 3 and written at slot 6. What another instance does to the data in
  between is lost: the instance goes on as if it had found the counter as it read it.
\<close>

definition counter_read :: "c_int \<Rightarrow> vmem \<Rightarrow> 'm kworld \<Rightarrow> 'm kworld vm" where
  "counter_read k mm w = \<lparr>pc = 4, regs = [None, Some (Addr Data 0), Some (Scalar (ucast k)), None, None, None,
     Some (Addr Ctx 0), None, None, None, Some (Addr Stack 0)], mem = mm(Stack := (\<lambda>_. None)), world = w\<rparr>"

definition counter_written :: "c_int \<Rightarrow> vmem \<Rightarrow> 'm kworld \<Rightarrow> 'm kworld vm" where
  "counter_written k mm w = \<lparr>pc = 7, regs = [None, Some (Addr Data 0), Some (Scalar (ucast k)), Some (Scalar (ucast k + 1)),
     None, None, Some (Addr Ctx 0), None, None, None, Some (Addr Stack 0)],
     mem = put_bytes (mm(Stack := (\<lambda>_. None))) Data 0 (le_bytes 4 (ucast k + 1 :: u64)), world = w\<rparr>"

lemma counter_read_steps:
  assumes "globals mm k msg"
  shows "kprobe_steps K 3 (vm_init mm w) = Some (counter_read k mm w)"
  using assms by (simp add: vm_init_def kprobe_simps globals_def counter_read_def)

lemma counter_write_steps:
  assumes "globals mm k' msg"
  shows "kprobe_steps K 3 (counter_read k mm w) = Some (counter_written k mm w)"
  using assms by (simp add: kprobe_simps globals_def counter_read_def counter_written_def)

lemma globals_counter: "globals mm k' msg \<Longrightarrow> globals (put_bytes mm Data 0 (le_bytes 4 k)) k msg"
  by (simp add: globals_def read_put_other)

lemma counter_stale: "counter_written k (put_bytes mm Data 0 (le_bytes 4 k)) w = counter_written k mm w"
proof -
  have "put_bytes ((put_bytes mm Data 0 (le_bytes 4 k))(Stack := (\<lambda>_. None))) Data 0 b = put_bytes (mm(Stack := (\<lambda>_. None))) Data 0 b"
    if "length b = 4" for b
    using that by (auto simp: put_bytes_def fun_eq_iff)
  then show ?thesis by (simp add: counter_written_def)
qed

lemma stale_run:
  assumes "globals mm k' msg" and "kprobe_runs K (vm_init (put_bytes mm Data 0 (le_bytes 4 k)) w) r t"
  shows "kprobe_runs K (counter_read k mm w) r t"
proof -
  let ?mm = "put_bytes mm Data 0 (le_bytes 4 k)"
  have g: "globals ?mm k msg" by (rule globals_counter [OF assms(1)])
  have six: "kprobe_steps K (3 + 3) (vm_init ?mm w) = Some (counter_written k mm w)"
    using steps_join [OF counter_read_steps [OF g] counter_write_steps [OF g]] by (simp add: counter_stale)
  obtain n where "exec (decode_prog kprobe_exec_code) (kernel_call K) kprobe_relocs n (vm_init ?mm w) = Some (Inr (r, t))"
    using assms(2) by (auto simp: runs_to_def)
  from exec_more [OF this, of "6 + n"] exec_steps [OF six, of n]
  have "exec (decode_prog kprobe_exec_code) (kernel_call K) kprobe_relocs n (counter_written k mm w) = Some (Inr (r, t))" by simp
  then have "kprobe_runs K (counter_written k mm w) r t" unfolding runs_to_def by blast
  then show ?thesis by (rule runs_steps [OF counter_write_steps [OF assms(1)]])
qed


text \<open>Events of \<open>kprobe_exec\<close> of the object, as loaded: counter 1, no message configured.\<close>

definition probe_job :: "u64 \<Rightarrow> u64 \<Rightarrow> ((u32, msg_t) hmap, u32, msg_t) job" where
  "probe_job pt ug = \<lparr>j_kernel = probe_kernel (doc_env pt ug []), j_code = decode_prog kprobe_exec_code,
     j_types = probe_tenv, j_relocs = kprobe_relocs, j_steps = 75\<rparr>"

definition probe_jobs :: "((u32, msg_t) hmap, u32, msg_t) job set" where
  "probe_jobs = {probe_job pt ug | pt ug. True}"

abbreviation "loaded_mem \<equiv> data_mem (1 :: c_int) (str_bytes ''Hello World'' @ [0])"
abbreviation "loaded_world \<equiv> \<lparr>k_trace = [], k_map = my_config_map, k_out = []\<rparr>"

lemma probe_job_run:
  assumes "globals mm (c st) (g_message st)" and "probe_wf hmap_ops st" and "c st \<noteq> int_max"
    and "w = \<lparr>k_trace = printed st, k_map = my_config st, k_out = submitted st\<rparr>"
  shows "\<exists>r t. kprobe_runs (probe_kernel (doc_env pt ug [])) (vm_init mm w) r t \<and> globals (mem t) (c st + 1) (g_message st) \<and>
    (\<exists>tr. world t = \<lparr>k_trace = tr, k_map = my_config st, k_out = submitted st @ [encode_data (sample hmap_ops (doc_env pt ug []) st)]\<rparr>)"
proof -
  let ?K = "probe_kernel (doc_env pt ug [])" and ?st = "after_event hmap_ops (doc_env pt ug []) st"
  have K: "msg_kernel ?K" "k_ops ?K = hmap_ops" "k_env ?K = doc_env pt ug []" by (simp_all add: msg_kernel_def probe_kernel_def)
  have "kprobe_exec (k_ops ?K) (k_env ?K) st = Inr (0, ?st)"
    using de.kprobe_exec_event [OF assms(2,3)] K by simp
  from kprobe_exec_object [OF K(1) _ _ assms(1,4) this] de.probe_helpers_axioms assms(2) K
  show ?thesis by (fastforce simp: after_event_def)
qed

lemma globals_data:
  assumes "globals mm k msg" and "globals mm' k' msg'"
  shows "globals (mm(Data := mm' Data)) k' msg'"
  using assms read_bytes_same [of "mm(Data := mm' Data)" Data mm'] read_bytes_same [of "mm(Data := mm' Data)" Rodata mm]
  by (simp add: globals_def)

lemma arrive_probe:
  assumes "smp_reach probe_jobs s0 s" and "smp_cpus s i = Idle" and "smp_data s = loaded_mem Data"
  shows "smp_reach probe_jobs s0 (s\<lparr>smp_cpus := (smp_cpus s)(i := Running (probe_job pt ug) 0 (vm_init loaded_mem (smp_world s)))\<rparr>)"
proof (rule smp_reach.step [OF assms(1)], rule smp_step.arrive [OF assms(2)])
  show "probe_job pt ug \<in> probe_jobs" by (auto simp: probe_jobs_def)
  show "mem_ok (j_types (probe_job pt ug)) [] (loaded_mem(Data := smp_data s))"
    using data_mem_ok [of "str_bytes ''Hello World'' @ [0]" 1] assms(3) by (simp add: probe_job_def)
qed

text \<open>The first event has read the counter; then the second event runs to its end; then the first does.\<close>

abbreviation "loaded_smp \<equiv> smp_start (loaded_mem Data) loaded_world"

definition interrupted :: "u64 \<Rightarrow> nat \<Rightarrow> (int \<Rightarrow> u8 option) \<Rightarrow> (u32, msg_t) hmap kworld \<Rightarrow>
    (nat, (u32, msg_t) hmap, u32, msg_t) smp" where
  "interrupted pt k d w = \<lparr>smp_data = d, smp_world = w,
     smp_cpus = (\<lambda>_. Idle)(0 := Running (probe_job pt 0) k (counter_read 1 loaded_mem loaded_world))\<rparr>"

lemma loaded_globals: "globals loaded_mem 1 (str_bytes ''Hello World'' @ [0])"
  by (rule data_mem_globals) simp

lemma first_interrupted: "\<exists>k. smp_reach probe_jobs loaded_smp (interrupted pt k (loaded_mem Data) loaded_world)"
proof -
  let ?J = "probe_job pt 0" and ?v = "vm_init loaded_mem loaded_world :: (u32, msg_t) hmap kworld vm"
  let ?u = "counter_read 1 loaded_mem loaded_world :: (u32, msg_t) hmap kworld vm"
  define s where "s = loaded_smp\<lparr>smp_cpus := (\<lambda>_. Idle)(0 :: nat := Running ?J 0 ?v)\<rparr>"
  have s: "smp_reach probe_jobs loaded_smp s"
    using arrive_probe [OF smp_reach.start, of loaded_smp "0 :: nat" pt 0] by (simp add: smp_start_def s_def)
  have "resume s ?v = ?v" by (simp add: s_def smp_start_def resume_def vm_init_def fun_upd_idem)
  then have "steps (j_code ?J) (kernel_call (j_kernel ?J)) (j_relocs ?J) (Suc 2) (resume s ?v) = Some ?u"
    using counter_read_steps [OF loaded_globals] by (simp add: probe_job_def numeral_3_eq_3)
  from smp_steps [OF s _ this, of 0] obtain k where k: "smp_reach probe_jobs loaded_smp (suspend 0 (Running ?J k ?u) ?u s)"
    by (auto simp: s_def)
  have "suspend 0 (Running ?J k ?u) ?u s = interrupted pt k (loaded_mem Data) loaded_world"
    by (simp add: s_def smp_start_def suspend_def interrupted_def counter_read_def)
  with k show ?thesis by auto
qed

lemma second_event:
  assumes "smp_reach probe_jobs loaded_smp (interrupted pt k (loaded_mem Data) loaded_world)"
  shows "\<exists>t :: (u32, msg_t) hmap kworld vm. smp_reach probe_jobs loaded_smp (interrupted pt k (mem t Data) (world t)) \<and>
    globals (mem t) 2 (str_bytes ''Hello World'' @ [0]) \<and> k_map (world t) = my_config_map \<and>
    k_out (world t) = [encode_data (sample hmap_ops (doc_env pt' 0 []) (probe_init my_config_map))]"
proof -
  let ?J = "probe_job pt' 0" and ?v = "vm_init loaded_mem loaded_world :: (u32, msg_t) hmap kworld vm"
  let ?s = "interrupted pt k (loaded_mem Data) loaded_world"
  define u where "u = ?s\<lparr>smp_cpus := (smp_cpus ?s)(1 := Running ?J 0 ?v)\<rparr>"
  have u: "smp_reach probe_jobs loaded_smp u"
    using arrive_probe [OF assms, of 1 pt' 0] by (simp add: interrupted_def u_def)
  have wf: "probe_wf hmap_ops (probe_init my_config_map)"
    by (simp add: probe_wf_def probe_init_def my_config_map_def hmap_ops_def)
  obtain r t where t: "kprobe_runs (j_kernel ?J) ?v r t" "globals (mem t) 2 (str_bytes ''Hello World'' @ [0])"
    "k_map (world t) = my_config_map"
    "k_out (world t) = [encode_data (sample hmap_ops (doc_env pt' 0 []) (probe_init my_config_map))]"
    using probe_job_run [OF _ wf, of loaded_mem loaded_world pt' 0] loaded_globals
    by (auto simp: probe_init_def int_max_def probe_job_def)
  have "resume u ?v = ?v" by (simp add: u_def interrupted_def resume_def vm_init_def fun_upd_idem)
  with t(1) smp_exec [OF u, of 1 ?J 0 ?v _ r t] have "smp_reach probe_jobs loaded_smp (suspend 1 Idle t u)"
    by (auto simp: u_def runs_to_def probe_job_def)
  moreover have "suspend 1 Idle t u = interrupted pt k (mem t Data) (world t)"
    by (auto simp: suspend_def u_def interrupted_def)
  ultimately show ?thesis using t(2-4) by (intro exI [of _ t]) simp
qed

section \<open>Properties\<close>

text \<open>C35: two events of \<open>kprobe_exec\<close> on two processors can send the same number. The first is
  interrupted between reading the counter and writing it; both samples then have the number 1,
  and the counter is 2 after two events.\<close>

theorem sample_number_twice:
  fixes pt pt' :: u64
  shows "\<exists>s a b. smp_reach probe_jobs (smp_start (loaded_mem Data) loaded_world) s \<and> (\<forall>i :: nat. smp_cpus s i = Idle) \<and>
     k_out (smp_world s) = [encode_data a, encode_data b] \<and> pid a = ucast pt \<and> pid b = ucast pt' \<and>
     d_counter a = 1 \<and> d_counter b = 1 \<and> read_bytes (\<lambda>_. smp_data s) Data 0 4 = Some (le_bytes 4 (2 :: c_int))"
proof -
  let ?st = "probe_init my_config_map" and ?J = "probe_job pt' 0" and ?one = "le_bytes 4 (1 :: c_int)"
  have msg: "g_message ?st = str_bytes ''Hello World'' @ [0]" by (simp add: probe_init_def)
  obtain k where "smp_reach probe_jobs loaded_smp (interrupted pt' k (loaded_mem Data) loaded_world)"
    using first_interrupted by blast
  from second_event [OF this, of pt] obtain t :: "(u32, msg_t) hmap kworld vm" where t:
    "smp_reach probe_jobs loaded_smp (interrupted pt' k (mem t Data) (world t))"
    "globals (mem t) 2 (g_message ?st)" "k_map (world t) = my_config_map"
    "k_out (world t) = [encode_data (sample hmap_ops (doc_env pt 0 []) ?st)]" unfolding msg by blast
  let ?mm = "loaded_mem(Data := mem t Data)" and ?st' = "?st\<lparr>submitted := k_out (world t), printed := k_trace (world t)\<rparr>"
  have g: "globals ?mm 2 (g_message ?st)" by (rule globals_data [OF loaded_globals t(2)])
  have wf: "probe_wf hmap_ops ?st'" by (simp add: probe_wf_def probe_init_def my_config_map_def hmap_ops_def)
  have "globals (put_bytes ?mm Data 0 ?one) (c ?st') (g_message ?st')"
    using globals_counter [OF g, of 1] by (simp add: probe_init_def)
  moreover have "world t = \<lparr>k_trace = printed ?st', k_map = my_config ?st', k_out = submitted ?st'\<rparr>"
    using t(3) by (cases "world t") (simp add: probe_init_def)
  ultimately obtain r u where u: "kprobe_runs (j_kernel ?J) (vm_init (put_bytes ?mm Data 0 ?one) (world t)) r u"
    "globals (mem u) 2 (g_message ?st)" "k_out (world u) = k_out (world t) @ [encode_data (sample hmap_ops (doc_env pt' 0 []) ?st')]"
    using probe_job_run [OF _ wf, of "put_bytes ?mm Data 0 ?one" "world t" pt' 0]
    by (fastforce simp: probe_init_def int_max_def probe_job_def)
  let ?s = "interrupted pt' k (mem t Data) (world t)" and ?v = "counter_read 1 loaded_mem loaded_world"
  have "resume ?s ?v = counter_read 1 ?mm (world t)"
    by (simp add: resume_def interrupted_def counter_read_def fun_upd_twist)
  then have "kprobe_runs (j_kernel ?J) (resume ?s ?v) r u" using stale_run [OF g u(1)] by simp
  with smp_exec [OF t(1), of 0 ?J k ?v _ r u] have "smp_reach probe_jobs loaded_smp (suspend 0 Idle u ?s)"
    by (auto simp: interrupted_def runs_to_def probe_job_def)
  moreover have "read_bytes (\<lambda>_. mem u Data) Data 0 4 = Some (le_bytes 4 (2 :: c_int))"
    using u(2) read_bytes_same [of "\<lambda>_. mem u Data" Data "mem u" 0 4] by (simp add: globals_def)
  ultimately show ?thesis using t(4) u(3)
    by (intro exI [of _ "suspend 0 Idle u ?s"] exI [of _ "sample hmap_ops (doc_env pt 0 []) ?st"]
        exI [of _ "sample hmap_ops (doc_env pt' 0 []) ?st'"])
      (simp add: suspend_def interrupted_def sample_def probe_init_def doc_env_def)
qed

text \<open>C6: the object codes are type safe on any number of processors. Programs that share their data
  and maps are interrupted by each other after any instruction, and events arrive at any idle
  processor. However they interleave, no instance makes an invalid access, each runs at most as many
  instructions as its verified number of steps and can always take the next one, and the map keeps its type.\<close>

theorem smp_type_safe:
  assumes "\<forall>J \<in> jobs. object_job P D J" and "P (k_map w)" and "defined (\<lambda>_. d) Data 0 D"
    and "smp_reach jobs (smp_start d w) s"
  shows "smp_cpus s i \<noteq> Crashed e \<and> P (k_map (smp_world s)) \<and> (\<forall>J k v. smp_cpus s i = Running J k v \<longrightarrow> k < j_steps J \<and>
    (\<exists>s'. smp_step jobs s s' \<and> (smp_cpus s' i = Idle \<or> (\<exists>t. smp_cpus s' i = Running J (Suc k) t))))"
proof -
  have "smp_ok P D s"
    by (rule smp_reach_ok [OF assms(4)]) (use assms(1-3) object_job_ok in \<open>auto simp: smp_start_ok\<close>)
  then have s: "P (k_map (smp_world s))" "\<And>i. cpu_ok P D s (smp_cpus s i)" by (simp_all add: smp_ok_def)
  have "k < j_steps J \<and> (\<exists>s'. smp_step jobs s s' \<and> (smp_cpus s' i = Idle \<or> (\<exists>t. smp_cpus s' i = Running J (Suc k) t)))"
    if "smp_cpus s i = Running J k v" for J k v
    by (rule cpu_ok_step [OF _ that]) (use s(2) [of i] that in simp)
  moreover have "smp_cpus s i \<noteq> Crashed e" using s(2) [of i] by (auto simp: cpu_ok_def)
  ultimately show ?thesis using s(1) by blast
qed

theorem smp_type_safe_witness:
  "\<exists>s. smp_reach probe_jobs (smp_start (loaded_mem Data) loaded_world) s \<and>
     smp_cpus s (0 :: nat) = Running (probe_job 7 501) 0 (vm_init loaded_mem loaded_world) \<and>
     (\<exists>s'. smp_step probe_jobs s s' \<and> (smp_cpus s' 0 = Idle \<or> (\<exists>t. smp_cpus s' 0 = Running (probe_job 7 501) 1 t)))"
proof -
  let ?init = "smp_start (loaded_mem Data) loaded_world :: (nat, (u32, msg_t) hmap, u32, msg_t) smp"
  let ?s = "?init\<lparr>smp_cpus := (smp_cpus ?init)(0 := Running (probe_job 7 501) 0 (vm_init loaded_mem loaded_world))\<rparr>"
  have r: "smp_reach probe_jobs ?init ?s"
    using arrive_probe [OF smp_reach.start, of ?init 0 7 501] by (simp add: smp_start_def)
  have j: "\<forall>J \<in> probe_jobs. object_job (msgs_ok hmap_ops) 16 J"
    using pk.typed_kernel_axioms by (force simp: object_job_def probe_jobs_def probe_job_def object_codes_def probe_tenv_def)
  have m: "msgs_ok hmap_ops (k_map loaded_world)"
    by (simp add: msgs_ok_def my_config_map_def hmap_ops_def)
  have d: "defined (\<lambda>_. loaded_mem Data) Data 0 16"
    using data_mem_ok [of "str_bytes ''Hello World'' @ [0]" 1] by (simp add: mem_ok_def defined_def probe_tenv_def)
  have c: "smp_cpus ?s 0 = Running (probe_job 7 501) 0 (vm_init loaded_mem loaded_world)" by simp
  with smp_type_safe [OF j m d r, of 0] have "\<exists>s'. smp_step probe_jobs ?s s' \<and>
      (smp_cpus s' 0 = Idle \<or> (\<exists>t. smp_cpus s' 0 = Running (probe_job 7 501) 1 t))"
    unfolding One_nat_def by blast
  with c r show ?thesis by blast
qed

end
