(* ===== verification/Hello_Ir.thy ===== *)
theory Hello_Ir
  imports Uid_Count
begin

text \<open>
  The LLVM IR of \<open>hello\<close> in \<open>bpf_maps/hash_map_example.bpf.ll\<close>, as clang emits it without
  optimisation, and a machine for the instructions it uses: numbered local values, one cell of
  memory for each \<open>alloca\<close>, global function pointers that hold helper numbers, and basic blocks.
  The IR refines the C program.
\<close>

section \<open>Syntax\<close>

datatype ir_op = Local nat | Lit u64 | Null | Global string

text \<open>A call may ignore its result; \<open>Dbg_declare\<close> is the call of \<open>llvm.dbg.declare\<close>, without effect.\<close>

datatype ir_insn =
    Alloca nat
  | Dbg_declare nat
  | Ir_store ir_op ir_op
  | Ir_load nat ir_op
  | Ir_call nat ir_op "ir_op list"
  | Ir_and nat ir_op ir_op
  | Ir_add nat ir_op ir_op
  | Icmp_ne nat ir_op ir_op
  | Bitcast nat ir_op

datatype ir_end = Ret u64 | Br nat | Br_if ir_op nat nat

type_synonym ir_block = "ir_insn list \<times> ir_end"

section \<open>Values and state\<close>

text \<open>
  A cell of memory is what an \<open>alloca\<close> gives, a global, or the value that the last lookup found.
  Addresses of functions are numbers.
\<close>

datatype ir_cell = Frame_cell nat | Global_cell string | Found_value

datatype ir_val = Word u64 | Bit bool | Pointer ir_cell | Null_pointer

datatype ir_error = Undefined_value | Bad_pointer | Bad_type | Bad_label | Unknown_function

record 'm ir_state =
  locals :: "nat \<Rightarrow> ir_val option"
  cells :: "ir_cell \<Rightarrow> ir_val option"
  ir_map :: 'm

definition set_local :: "nat \<Rightarrow> ir_val \<Rightarrow> 'm ir_state \<Rightarrow> 'm ir_state" where
  "set_local n v s = s\<lparr>locals := (locals s)(n \<mapsto> v)\<rparr>"

definition operand :: "'m ir_state \<Rightarrow> ir_op \<Rightarrow> ir_error + ir_val" where
  "operand s x = (case x of
     Local n \<Rightarrow> (case locals s n of None \<Rightarrow> Inl Undefined_value | Some v \<Rightarrow> Inr v)
   | Lit k \<Rightarrow> Inr (Word k) | Null \<Rightarrow> Inr Null_pointer | Global g \<Rightarrow> Inr (Pointer (Global_cell g)))"

text \<open>Reading a cell that was not written is an error.\<close>

definition read_cell :: "'m ir_state \<Rightarrow> ir_val \<Rightarrow> ir_error + ir_val" where
  "read_cell s p = (case p of
     Pointer a \<Rightarrow> (case cells s a of None \<Rightarrow> Inl Undefined_value | Some v \<Rightarrow> Inr v) | _ \<Rightarrow> Inl Bad_pointer)"

definition as_word :: "ir_val \<Rightarrow> ir_error + u64" where
  "as_word v = (case v of Word w \<Rightarrow> Inr w | _ \<Rightarrow> Inl Bad_type)"

definition same_value :: "ir_val \<Rightarrow> ir_val \<Rightarrow> ir_error + bool" where
  "same_value x y = (case (x, y) of
     (Word a, Word b) \<Rightarrow> Inr (a = b) | (Pointer a, Null_pointer) \<Rightarrow> Inr False | (Null_pointer, Null_pointer) \<Rightarrow> Inr True
   | (Null_pointer, Pointer b) \<Rightarrow> Inr False | (Pointer a, Pointer b) \<Rightarrow> Inr (a = b) | _ \<Rightarrow> Inl Bad_type)"

section \<open>Execution\<close>

text \<open>The helpers 15, 1 and 2: the user, the lookup and the update of the map \<open>counter_table\<close>.\<close>

definition ir_helper :: "('m, u64, u64) map_ops \<Rightarrow> u64 \<Rightarrow> u64 \<Rightarrow> ir_val list \<Rightarrow> 'm ir_state \<Rightarrow>
    ir_error + ir_val \<times> 'm ir_state" where
  "ir_helper ops uid_gid n args s =
     (if n = 15 then Inr (Word uid_gid, s)
      else if n = 1 then (case args of
          [m, k] \<Rightarrow> if m \<noteq> Pointer (Global_cell ''counter_table'') then Inl Bad_pointer else
            bindE (bindE (read_cell s k) as_word) (\<lambda>key. Inr (case map_lookup_elem ops (ir_map s) key of
              None \<Rightarrow> (Null_pointer, s)
            | Some v \<Rightarrow> (Pointer Found_value, s\<lparr>cells := (cells s)(Found_value \<mapsto> Word v)\<rparr>)))
        | _ \<Rightarrow> Inl Bad_type)
      else if n = 2 then (case args of
          [m, k, v, f] \<Rightarrow> if m \<noteq> Pointer (Global_cell ''counter_table'') then Inl Bad_pointer else
            bindE (bindE (read_cell s k) as_word) (\<lambda>key. bindE (bindE (read_cell s v) as_word) (\<lambda>value.
            bindE (as_word f) (\<lambda>flags. case map_update_elem ops (ir_map s) key value flags of
              (e, m') \<Rightarrow> Inr (Word e, s\<lparr>ir_map := m'\<rparr>))))
        | _ \<Rightarrow> Inl Bad_type)
      else Inl Unknown_function)"

fun operands :: "'m ir_state \<Rightarrow> ir_op list \<Rightarrow> ir_error + ir_val list" where
  "operands s [] = Inr []"
| "operands s (x # xs) = bindE (operand s x) (\<lambda>v. bindE (operands s xs) (\<lambda>vs. Inr (v # vs)))"

definition ir_exec :: "('m, u64, u64) map_ops \<Rightarrow> u64 \<Rightarrow> ir_insn \<Rightarrow> 'm ir_state \<Rightarrow> ir_error + 'm ir_state" where
  "ir_exec ops uid_gid i s =
     (case i of
        Alloca n \<Rightarrow> Inr (set_local n (Pointer (Frame_cell n)) (s\<lparr>cells := (cells s)(Frame_cell n := None)\<rparr>))
      | Dbg_declare n \<Rightarrow> Inr s
      | Ir_store v p \<Rightarrow> bindE (operand s v) (\<lambda>x. bindE (operand s p) (\<lambda>q. case q of
            Pointer a \<Rightarrow> Inr (s\<lparr>cells := (cells s)(a \<mapsto> x)\<rparr>) | _ \<Rightarrow> Inl Bad_pointer))
      | Ir_load n p \<Rightarrow> bindE (operand s p) (\<lambda>q. bindE (read_cell s q) (\<lambda>v. Inr (set_local n v s)))
      | Ir_call n f xs \<Rightarrow> bindE (bindE (operand s f) as_word) (\<lambda>k. bindE (operands s xs) (\<lambda>vs.
            bindE (ir_helper ops uid_gid k vs s) (\<lambda>(v, t). Inr (set_local n v t))))
      | Ir_and n x y \<Rightarrow> bindE (bindE (operand s x) as_word) (\<lambda>a. bindE (bindE (operand s y) as_word) (\<lambda>b.
            Inr (set_local n (Word (a AND b)) s)))
      | Ir_add n x y \<Rightarrow> bindE (bindE (operand s x) as_word) (\<lambda>a. bindE (bindE (operand s y) as_word) (\<lambda>b.
            Inr (set_local n (Word (a + b)) s)))
      | Icmp_ne n x y \<Rightarrow> bindE (operand s x) (\<lambda>a. bindE (operand s y) (\<lambda>b. bindE (same_value a b) (\<lambda>e.
            Inr (set_local n (Bit (\<not> e)) s))))
      | Bitcast n x \<Rightarrow> bindE (operand s x) (\<lambda>v. Inr (set_local n v s)))"

fun ir_insns :: "('m, u64, u64) map_ops \<Rightarrow> u64 \<Rightarrow> ir_insn list \<Rightarrow> 'm ir_state \<Rightarrow> ir_error + 'm ir_state" where
  "ir_insns ops uid_gid [] s = Inr s"
| "ir_insns ops uid_gid (i # is) s = bindE (ir_exec ops uid_gid i s) (ir_insns ops uid_gid is)"

text \<open>Block after block; \<open>None\<close>: the fuel is used up.\<close>

fun ir_run :: "('m, u64, u64) map_ops \<Rightarrow> u64 \<Rightarrow> (nat \<times> ir_block) list \<Rightarrow> nat \<Rightarrow> nat \<Rightarrow> 'm ir_state
    \<Rightarrow> (ir_error + u64 \<times> 'm ir_state) option" where
  "ir_run ops uid_gid bs 0 l s = None"
| "ir_run ops uid_gid bs (Suc n) l s =
     (case map_of bs l of
        None \<Rightarrow> Some (Inl Bad_label)
      | Some (is, e) \<Rightarrow> (case ir_insns ops uid_gid is s of
          Inl err \<Rightarrow> Some (Inl err)
        | Inr t \<Rightarrow> (case e of
            Ret w \<Rightarrow> Some (Inr (w, t))
          | Br l' \<Rightarrow> ir_run ops uid_gid bs n l' t
          | Br_if x l1 l2 \<Rightarrow> (case operand t x of
              Inr (Bit b) \<Rightarrow> ir_run ops uid_gid bs n (if b then l1 else l2) t
            | Inr _ \<Rightarrow> Some (Inl Bad_type) | Inl err \<Rightarrow> Some (Inl err)))))"

section \<open>The listing\<close>

text \<open>The function pointers of the helpers, as the globals initialise them.\<close>

definition hello_globals :: "ir_cell \<Rightarrow> ir_val option" where
  "hello_globals = [Global_cell ''bpf_get_current_uid_gid'' \<mapsto> Word 15, Global_cell ''bpf_map_lookup_elem'' \<mapsto> Word 1,
     Global_cell ''bpf_map_update_elem'' \<mapsto> Word 2]"

text \<open>The parameter is the value 0; the first block has the label 1.\<close>

definition hello_ir :: "(nat \<times> ir_block) list" where
  "hello_ir = [
     (1, ([Alloca 2, Alloca 3, Alloca 4, Alloca 5, Ir_store (Local 0) (Local 2),
           Dbg_declare 2, Dbg_declare 3, Dbg_declare 4, Ir_store (Lit 0) (Local 4), Dbg_declare 5,
           Ir_load 6 (Global ''bpf_get_current_uid_gid''), Ir_call 7 (Local 6) [],
           Ir_and 8 (Local 7) (Lit 4294967295), Ir_store (Local 8) (Local 3),
           Ir_load 9 (Global ''bpf_map_lookup_elem''), Bitcast 10 (Local 3),
           Ir_call 11 (Local 9) [Global ''counter_table'', Local 10], Bitcast 12 (Local 11),
           Ir_store (Local 12) (Local 5), Ir_load 13 (Local 5), Icmp_ne 14 (Local 13) Null],
          Br_if (Local 14) 15 18)),
     (15, ([Ir_load 16 (Local 5), Ir_load 17 (Local 16), Ir_store (Local 17) (Local 4)], Br 18)),
     (18, ([Ir_load 19 (Local 4), Ir_add 20 (Local 19) (Lit 1), Ir_store (Local 20) (Local 4),
            Ir_load 21 (Global ''bpf_map_update_elem''), Bitcast 22 (Local 3), Bitcast 23 (Local 4),
            Ir_call 24 (Local 21) [Global ''counter_table'', Local 22, Local 23, Lit 0]],
           Ret 0))]"

definition ir_start :: "ir_val \<Rightarrow> 'm \<Rightarrow> 'm ir_state" where
  "ir_start ctx m = \<lparr>locals = [0 \<mapsto> ctx], cells = hello_globals, ir_map = m\<rparr>"

lemmas ir_simps = ir_exec_def operand_def read_cell_def as_word_def same_value_def set_local_def ir_helper_def

text \<open>From the first block to the return: two or three blocks, as the lookup fails or not.\<close>

lemma hello_ir_run:
  "\<exists>t. ir_run ops uid_gid hello_ir 3 1 (ir_start ctx m) = Some (Inr (0, t)) \<and>
     ir_map t = snd (hello ops uid_gid m)"
proof (cases "map_lookup_elem ops m (uid_gid AND 4294967295)")
  case None
  then show ?thesis
    by (simp add: numeral_3_eq_3 hello_ir_def ir_start_def hello_globals_def ir_simps hello_def Let_def split: prod.split)
next
  case (Some v)
  then show ?thesis
    by (simp add: numeral_3_eq_3 hello_ir_def ir_start_def hello_globals_def ir_simps hello_def Let_def split: prod.split)
qed

section \<open>Property\<close>

text \<open>C13: The unoptimised LLVM IR of \<open>hello\<close>, on any map and for every user, ends after at most three
  basic blocks without reading an unwritten cell, following a null pointer or confusing the types of
  its values, and returns the value and leaves the map of the C program.\<close>
theorem hello_ir_refines:
  "\<exists>w t. ir_run ops uid_gid hello_ir 3 1 (ir_start ctx m) = Some (Inr (w, t)) \<and>
     hello ops uid_gid m = (ucast w, ir_map t)"
  using hello_ir_run [of ops uid_gid ctx m] by (auto simp: hello_def Let_def split: option.splits prod.splits)

end
