(* ===== verification/Kernel_Abi.thy ===== *)
theory Kernel_Abi
  imports Layout Map_Create
begin

text \<open>
  The interface of the system call \<open>bpf\<close> in the kernel's type information,
  \<open>verifier_example/vmlinux.h\<close>: the enumerations of the map types, of the commands and of the
  flags, and \<open>union bpf_attr\<close> with all its members. \<open>bpf_create_map\<close> of \<open>bpf_maps3/bpf_sys.c\<close>
  on the bytes of that union.
\<close>

section \<open>Enumerations\<close>

definition bpf_map_type_enum :: "(string \<times> nat) list" where
  "bpf_map_type_enum = [
    (''BPF_MAP_TYPE_UNSPEC'', 0), (''BPF_MAP_TYPE_HASH'', 1), (''BPF_MAP_TYPE_ARRAY'', 2),
    (''BPF_MAP_TYPE_PROG_ARRAY'', 3), (''BPF_MAP_TYPE_PERF_EVENT_ARRAY'', 4),
    (''BPF_MAP_TYPE_PERCPU_HASH'', 5), (''BPF_MAP_TYPE_PERCPU_ARRAY'', 6), (''BPF_MAP_TYPE_STACK_TRACE'', 7),
    (''BPF_MAP_TYPE_CGROUP_ARRAY'', 8), (''BPF_MAP_TYPE_LRU_HASH'', 9),
    (''BPF_MAP_TYPE_LRU_PERCPU_HASH'', 10), (''BPF_MAP_TYPE_LPM_TRIE'', 11),
    (''BPF_MAP_TYPE_ARRAY_OF_MAPS'', 12), (''BPF_MAP_TYPE_HASH_OF_MAPS'', 13), (''BPF_MAP_TYPE_DEVMAP'', 14),
    (''BPF_MAP_TYPE_SOCKMAP'', 15), (''BPF_MAP_TYPE_CPUMAP'', 16), (''BPF_MAP_TYPE_XSKMAP'', 17),
    (''BPF_MAP_TYPE_SOCKHASH'', 18), (''BPF_MAP_TYPE_CGROUP_STORAGE_DEPRECATED'', 19),
    (''BPF_MAP_TYPE_CGROUP_STORAGE'', 19), (''BPF_MAP_TYPE_REUSEPORT_SOCKARRAY'', 20),
    (''BPF_MAP_TYPE_PERCPU_CGROUP_STORAGE'', 21), (''BPF_MAP_TYPE_QUEUE'', 22), (''BPF_MAP_TYPE_STACK'', 23),
    (''BPF_MAP_TYPE_SK_STORAGE'', 24), (''BPF_MAP_TYPE_DEVMAP_HASH'', 25), (''BPF_MAP_TYPE_STRUCT_OPS'', 26),
    (''BPF_MAP_TYPE_RINGBUF'', 27), (''BPF_MAP_TYPE_INODE_STORAGE'', 28),
    (''BPF_MAP_TYPE_TASK_STORAGE'', 29), (''BPF_MAP_TYPE_BLOOM_FILTER'', 30),
    (''BPF_MAP_TYPE_USER_RINGBUF'', 31), (''BPF_MAP_TYPE_CGRP_STORAGE'', 32)]"

definition bpf_cmd_enum :: "(string \<times> nat) list" where
  "bpf_cmd_enum = [
    (''BPF_MAP_CREATE'', 0), (''BPF_MAP_LOOKUP_ELEM'', 1), (''BPF_MAP_UPDATE_ELEM'', 2),
    (''BPF_MAP_DELETE_ELEM'', 3), (''BPF_MAP_GET_NEXT_KEY'', 4), (''BPF_PROG_LOAD'', 5),
    (''BPF_OBJ_PIN'', 6), (''BPF_OBJ_GET'', 7), (''BPF_PROG_ATTACH'', 8), (''BPF_PROG_DETACH'', 9),
    (''BPF_PROG_TEST_RUN'', 10), (''BPF_PROG_RUN'', 10), (''BPF_PROG_GET_NEXT_ID'', 11),
    (''BPF_MAP_GET_NEXT_ID'', 12), (''BPF_PROG_GET_FD_BY_ID'', 13), (''BPF_MAP_GET_FD_BY_ID'', 14),
    (''BPF_OBJ_GET_INFO_BY_FD'', 15), (''BPF_PROG_QUERY'', 16), (''BPF_RAW_TRACEPOINT_OPEN'', 17),
    (''BPF_BTF_LOAD'', 18), (''BPF_BTF_GET_FD_BY_ID'', 19), (''BPF_TASK_FD_QUERY'', 20),
    (''BPF_MAP_LOOKUP_AND_DELETE_ELEM'', 21), (''BPF_MAP_FREEZE'', 22), (''BPF_BTF_GET_NEXT_ID'', 23),
    (''BPF_MAP_LOOKUP_BATCH'', 24), (''BPF_MAP_LOOKUP_AND_DELETE_BATCH'', 25),
    (''BPF_MAP_UPDATE_BATCH'', 26), (''BPF_MAP_DELETE_BATCH'', 27), (''BPF_LINK_CREATE'', 28),
    (''BPF_LINK_UPDATE'', 29), (''BPF_LINK_GET_FD_BY_ID'', 30), (''BPF_LINK_GET_NEXT_ID'', 31),
    (''BPF_ENABLE_STATS'', 32), (''BPF_ITER_CREATE'', 33), (''BPF_LINK_DETACH'', 34),
    (''BPF_PROG_BIND_MAP'', 35)]"

definition update_flag_enum :: "(string \<times> nat) list" where
  "update_flag_enum = [
    (''BPF_ANY'', 0), (''BPF_NOEXIST'', 1), (''BPF_EXIST'', 2), (''BPF_F_LOCK'', 4)]"

definition perf_flag_enum :: "(string \<times> nat) list" where
  "perf_flag_enum = [
    (''BPF_F_INDEX_MASK'', 4294967295), (''BPF_F_CURRENT_CPU'', 4294967295),
    (''BPF_F_CTXLEN_MASK'', 4503595332403200)]"

section \<open>The argument of the system call\<close>

text \<open>Pointers are given as \<open>__u64\<close>. The members without a name have one of their own here, for
  what they are used for.\<close>

definition attr_map_create_fields :: fields where
  "attr_map_create_fields =
     [(''map_type'', Base 4), (''key_size'', Base 4), (''value_size'', Base 4), (''max_entries'', Base 4),
     (''map_flags'', Base 4), (''inner_map_fd'', Base 4), (''numa_node'', Base 4), (''map_name'',
     Array_of (Base 1) 16), (''map_ifindex'', Base 4), (''btf_fd'', Base 4), (''btf_key_type_id'', Base 4),
     (''btf_value_type_id'', Base 4), (''btf_vmlinux_value_type_id'', Base 4), (''map_extra'', Base 8)]"

definition attr_map_elem_fields :: fields where
  "attr_map_elem_fields =
     [(''map_fd'', Base 4), (''key'', Base 8), ([], Union_of [(''value'', Base 8), (''next_key'',
     Base 8)]), (''flags'', Base 8)]"

definition attr_batch_fields :: fields where
  "attr_batch_fields =
     [(''in_batch'', Base 8), (''out_batch'', Base 8), (''keys'', Base 8), (''values'', Base 8),
     (''count'', Base 4), (''map_fd'', Base 4), (''elem_flags'', Base 8), (''flags'', Base 8)]"

definition attr_prog_load_fields :: fields where
  "attr_prog_load_fields =
     [(''prog_type'', Base 4), (''insn_cnt'', Base 4), (''insns'', Base 8), (''license'', Base 8),
     (''log_level'', Base 4), (''log_size'', Base 4), (''log_buf'', Base 8), (''kern_version'', Base 4),
     (''prog_flags'', Base 4), (''prog_name'', Array_of (Base 1) 16), (''prog_ifindex'', Base 4),
     (''expected_attach_type'', Base 4), (''prog_btf_fd'', Base 4), (''func_info_rec_size'', Base 4),
     (''func_info'', Base 8), (''func_info_cnt'', Base 4), (''line_info_rec_size'', Base 4),
     (''line_info'', Base 8), (''line_info_cnt'', Base 4), (''attach_btf_id'', Base 4), ([],
     Union_of [(''attach_prog_fd'', Base 4), (''attach_btf_obj_fd'', Base 4)]), (''core_relo_cnt'',
     Base 4), (''fd_array'', Base 8), (''core_relos'', Base 8), (''core_relo_rec_size'', Base 4),
     (''log_true_size'', Base 4)]"

definition attr_obj_fields :: fields where
  "attr_obj_fields =
     [(''pathname'', Base 8), (''bpf_fd'', Base 4), (''file_flags'', Base 4), (''path_fd'', Base 4)]"

definition attr_prog_attach_fields :: fields where
  "attr_prog_attach_fields =
     [(''target_fd'', Base 4), (''attach_bpf_fd'', Base 4), (''attach_type'', Base 4), (''attach_flags'',
     Base 4), (''replace_bpf_fd'', Base 4)]"

definition attr_test_fields :: fields where
  "attr_test_fields =
     [(''prog_fd'', Base 4), (''retval'', Base 4), (''data_size_in'', Base 4), (''data_size_out'', Base 4),
     (''data_in'', Base 8), (''data_out'', Base 8), (''repeat'', Base 4), (''duration'', Base 4),
     (''ctx_size_in'', Base 4), (''ctx_size_out'', Base 4), (''ctx_in'', Base 8), (''ctx_out'', Base 8),
     (''flags'', Base 4), (''cpu'', Base 4), (''batch_size'', Base 4)]"

definition attr_get_id_fields :: fields where
  "attr_get_id_fields =
     [([], Union_of [(''start_id'', Base 4), (''prog_id'', Base 4), (''map_id'', Base 4), (''btf_id'',
     Base 4), (''link_id'', Base 4)]), (''next_id'', Base 4), (''open_flags'', Base 4)]"

definition attr_info_fields :: fields where
  "attr_info_fields =
     [(''bpf_fd'', Base 4), (''info_len'', Base 4), (''info'', Base 8)]"

definition attr_query_fields :: fields where
  "attr_query_fields =
     [(''target_fd'', Base 4), (''attach_type'', Base 4), (''query_flags'', Base 4), (''attach_flags'',
     Base 4), (''prog_ids'', Base 8), (''prog_cnt'', Base 4), (''prog_attach_flags'', Base 8)]"

definition attr_raw_tracepoint_fields :: fields where
  "attr_raw_tracepoint_fields =
     [(''name'', Base 8), (''prog_fd'', Base 4)]"

definition attr_btf_load_fields :: fields where
  "attr_btf_load_fields =
     [(''btf'', Base 8), (''btf_log_buf'', Base 8), (''btf_size'', Base 4), (''btf_log_size'', Base 4),
     (''btf_log_level'', Base 4), (''btf_log_true_size'', Base 4)]"

definition attr_task_fd_query_fields :: fields where
  "attr_task_fd_query_fields =
     [(''pid'', Base 4), (''fd'', Base 4), (''flags'', Base 4), (''buf_len'', Base 4), (''buf'', Base 8),
     (''prog_id'', Base 4), (''fd_type'', Base 4), (''probe_offset'', Base 8), (''probe_addr'', Base 8)]"

definition attr_link_create_fields :: fields where
  "attr_link_create_fields =
     [([], Union_of [(''prog_fd'', Base 4), (''map_fd'', Base 4)]), ([], Union_of [(''target_fd'', Base 4),
     (''target_ifindex'', Base 4)]), (''attach_type'', Base 4), (''flags'', Base 4), ([],
     Union_of [(''target_btf_id'', Base 4), ([], Struct_of [(''iter_info'', Base 8), (''iter_info_len'',
     Base 4)]), (''perf_event'', Struct_of [(''bpf_cookie'', Base 8)]), (''kprobe_multi'',
     Struct_of [(''flags'', Base 4), (''cnt'', Base 4), (''syms'', Base 8), (''addrs'', Base 8),
     (''cookies'', Base 8)]), (''tracing'', Struct_of [(''target_btf_id'', Base 4), (''cookie'', Base 8)]),
     (''netfilter'', Struct_of [(''pf'', Base 4), (''hooknum'', Base 4), (''priority'', Base 4),
     (''flags'', Base 4)])])]"

definition attr_link_update_fields :: fields where
  "attr_link_update_fields =
     [(''link_fd'', Base 4), ([], Union_of [(''new_prog_fd'', Base 4), (''new_map_fd'', Base 4)]),
     (''flags'', Base 4), ([], Union_of [(''old_prog_fd'', Base 4), (''old_map_fd'', Base 4)])]"

definition attr_link_detach_fields :: fields where
  "attr_link_detach_fields =
     [(''link_fd'', Base 4)]"

definition attr_enable_stats_fields :: fields where
  "attr_enable_stats_fields =
     [(''type'', Base 4)]"

definition attr_iter_create_fields :: fields where
  "attr_iter_create_fields =
     [(''link_fd'', Base 4), (''flags'', Base 4)]"

definition attr_prog_bind_map_fields :: fields where
  "attr_prog_bind_map_fields =
     [(''prog_fd'', Base 4), (''map_fd'', Base 4), (''flags'', Base 4)]"

definition bpf_attr_ty :: cty where
  "bpf_attr_ty = Union_of [
     ([], Struct_of attr_map_create_fields), ([], Struct_of attr_map_elem_fields), (''batch'',
     Struct_of attr_batch_fields), ([], Struct_of attr_prog_load_fields), ([], Struct_of attr_obj_fields),
     ([], Struct_of attr_prog_attach_fields), (''test'', Struct_of attr_test_fields), ([],
     Struct_of attr_get_id_fields), (''info'', Struct_of attr_info_fields), (''query'',
     Struct_of attr_query_fields), (''raw_tracepoint'', Struct_of attr_raw_tracepoint_fields), ([],
     Struct_of attr_btf_load_fields), (''task_fd_query'', Struct_of attr_task_fd_query_fields),
     (''link_create'', Struct_of attr_link_create_fields), (''link_update'',
     Struct_of attr_link_update_fields), (''link_detach'', Struct_of attr_link_detach_fields),
     (''enable_stats'', Struct_of attr_enable_stats_fields), (''iter_create'',
     Struct_of attr_iter_create_fields), (''prog_bind_map'', Struct_of attr_prog_bind_map_fields)]"

section \<open>The creation of a map\<close>

fun write_members :: "cty \<Rightarrow> (string \<times> bytes) list \<Rightarrow> bytes \<Rightarrow> bytes option" where
  "write_members t [] b = Some b"
| "write_members t ((x, v) # xs) b = Option.bind (write_member t x v b) (write_members t xs)"

text \<open>
  The initialiser of \<open>attr\<close>: it names members of the first structure of the union, and the rest of
  that structure becomes zero. The bytes of the union beyond it, \<open>rest\<close>, are not specified by C.
\<close>

definition attr_init :: "bpf_attr \<Rightarrow> bytes \<Rightarrow> bytes option" where
  "attr_init a rest = write_members bpf_attr_ty
     [(''map_type'', le_bytes 4 (attr_map_type a)), (''key_size'', le_bytes 4 (attr_key_size a)),
      (''value_size'', le_bytes 4 (attr_value_size a)), (''max_entries'', le_bytes 4 (attr_max_entries a))]
     (replicate (size_of (Struct_of attr_map_create_fields)) 0 @ rest)"

text \<open>The other way, as the kernel reads it.\<close>

definition attr_of_bytes :: "bytes \<Rightarrow> bpf_attr option" where
  "attr_of_bytes b = (case map (\<lambda>x. read_member bpf_attr_ty x b) [''map_type'', ''key_size'', ''value_size'', ''max_entries''] of
     [Some t, Some k, Some v, Some n] \<Rightarrow>
       Some \<lparr>attr_map_type = of_le t, attr_key_size = of_le k, attr_value_size = of_le v, attr_max_entries = of_le n\<rparr>
   | _ \<Rightarrow> None)"

text \<open>\<open>bpf_create_map\<close> with a system call that takes bytes.\<close>

definition bpf_create_map_bytes ::
  "(u32 \<Rightarrow> bytes \<Rightarrow> u32 \<Rightarrow> u64) \<Rightarrow> bytes \<Rightarrow> u32 \<Rightarrow> u32 \<Rightarrow> u32 \<Rightarrow> u32 \<Rightarrow> c_int option" where
  "bpf_create_map_bytes bpf_call rest map_type ksize vsize n_entries =
     map_option (\<lambda>attr. ucast (bpf_call BPF_MAP_CREATE attr (of_nat (size_of bpf_attr_ty))))
       (attr_init \<lparr>attr_map_type = map_type, attr_key_size = ksize,
                    attr_value_size = vsize, attr_max_entries = n_entries\<rparr> rest)"

section \<open>Lemmas\<close>

text \<open>The constants that the models use are those of the enumerations.\<close>

lemma abi_constants:
  "map_of bpf_map_type_enum ''BPF_MAP_TYPE_HASH'' = Some (unat BPF_MAP_TYPE_HASH)"
  "map_of bpf_cmd_enum ''BPF_MAP_CREATE'' = Some (unat BPF_MAP_CREATE)"
  "map_of update_flag_enum ''BPF_ANY'' = Some (unat BPF_ANY)"
  "map_of update_flag_enum ''BPF_NOEXIST'' = Some (unat BPF_NOEXIST)"
  "map_of update_flag_enum ''BPF_EXIST'' = Some (unat BPF_EXIST)"
  "map_of perf_flag_enum ''BPF_F_CURRENT_CPU'' = Some (unat BPF_F_CURRENT_CPU)"
  by (simp_all add: bpf_map_type_enum_def bpf_cmd_enum_def update_flag_enum_def perf_flag_enum_def bpf_flags
      BPF_MAP_TYPE_HASH_def BPF_MAP_CREATE_def BPF_F_CURRENT_CPU_def)

text \<open>The union.\<close>

lemma bpf_attr_wf: "wf_ty bpf_attr_ty"
  by code_simp

lemma bpf_attr_size: "size_of bpf_attr_ty = 144" "size_of (Struct_of attr_map_create_fields) = 72"
  by code_simp+

text \<open>Every member is inside the union and aligned.\<close>

lemma bpf_attr_members:
  assumes "(x, z, u) \<in> set (members bpf_attr_ty)"
  shows "z + size_of u \<le> 144" and "align_of u dvd z"
  using members_inside(1) [OF bpf_attr_wf assms] by (simp_all add: bpf_attr_size)

lemma attr_slots:
  "member_slot bpf_attr_ty ''map_type'' = Some (0, 4)" "member_slot bpf_attr_ty ''key_size'' = Some (4, 4)"
  "member_slot bpf_attr_ty ''value_size'' = Some (8, 4)" "member_slot bpf_attr_ty ''max_entries'' = Some (12, 4)"
  by code_simp+

text \<open>The members of the structure for map creation that the initialiser does not name.\<close>

definition attr_unset :: "string list" where
  "attr_unset = drop 4 (map fst attr_map_create_fields)"

lemma attr_unset_slots:
  "map (member_slot bpf_attr_ty) attr_unset = map Some [(16, 4), (20, 4), (24, 4), (28, 16), (44, 4), (48, 4), (52, 4),
     (56, 4), (60, 4), (64, 8)]"
  by code_simp

lemma attr_init_bytes:
  "attr_init a rest = Some (le_bytes 4 (attr_map_type a) @ le_bytes 4 (attr_key_size a) @ le_bytes 4 (attr_value_size a) @
     le_bytes 4 (attr_max_entries a) @ replicate 56 0 @ rest)"
  by (simp add: attr_init_def bpf_attr_size write_member_def put_slot_def attr_slots numeral_eq_Suc del: size_of.simps)

lemma attr_read_set:
  assumes "attr_init a rest = Some b"
  shows "attr_of_bytes b = Some a"
  using assms by (auto simp: attr_init_bytes attr_of_bytes_def read_member_def get_slot_def attr_slots)

lemma attr_read_unset:
  assumes "attr_init a rest = Some b" and "x \<in> set attr_unset"
  shows "\<exists>n. read_member bpf_attr_ty x b = Some (replicate n 0)"
proof -
  have "member_slot bpf_attr_ty x \<in> set (map (member_slot bpf_attr_ty) attr_unset)" using assms(2) by simp
  then obtain z n where s: "member_slot bpf_attr_ty x = Some (z, n)" "16 \<le> z" "z + n \<le> 72"
    unfolding attr_unset_slots by auto
  let ?set = "le_bytes 4 (attr_map_type a) @ le_bytes 4 (attr_key_size a) @ le_bytes 4 (attr_value_size a) @
    le_bytes 4 (attr_max_entries a)"
  have b: "b = ?set @ replicate 56 0 @ rest" "length ?set = 16" using assms(1) by (simp_all add: attr_init_bytes)
  then have "take n (drop z b) = replicate n 0"
    using s(2,3) by (simp add: min_def)
  with s b show ?thesis by (intro exI [of _ n]) (simp add: read_member_def get_slot_def)
qed

section \<open>Property\<close>

text \<open>C19: \<open>bpf_create_map\<close> on the bytes of \<open>union bpf_attr\<close>, whatever the bytes beyond the structure
  for map creation are. The initialiser stays inside the 144 bytes of the union; a kernel that reads
  the four members at their places finds the four arguments, and zero in every other member of that
  structure. So the call gives what \<open>bpf_create_map\<close> gives on the record of the four values, for any
  behaviour of the system call.\<close>

theorem map_create_bytes:
  assumes "length rest = size_of bpf_attr_ty - size_of (Struct_of attr_map_create_fields)"
    and "a = \<lparr>attr_map_type = t, attr_key_size = k, attr_value_size = v, attr_max_entries = n\<rparr>"
  shows "\<exists>b. attr_init a rest = Some b \<and> length b = size_of bpf_attr_ty \<and> attr_of_bytes b = Some a \<and>
    (\<forall>x \<in> set attr_unset. \<exists>m. read_member bpf_attr_ty x b = Some (replicate m 0)) \<and>
    bpf_create_map_bytes (\<lambda>cmd b sz. bpf_call cmd (attr_of_bytes b) sz) rest t k v n =
      Some (bpf_create_map (\<lambda>cmd a sz. bpf_call cmd (Some a) sz) (of_nat (size_of bpf_attr_ty)) t k v n)"
proof -
  obtain b where b: "attr_init a rest = Some b" by (simp add: attr_init_bytes)
  then have "length b = size_of bpf_attr_ty"
    using assms(1) by (auto simp: attr_init_bytes bpf_attr_size simp del: size_of.simps)
  with b show ?thesis
    using attr_read_set [OF b] attr_read_unset [OF b]
    by (intro exI [of _ b]) (simp add: bpf_create_map_bytes_def bpf_create_map_def sys_bpf_def assms(2) del: size_of.simps)
qed

theorem map_create_bytes_witness:
  "bpf_create_map_bytes (\<lambda>cmd b sz. if attr_of_bytes b = Some \<lparr>attr_map_type = 1, attr_key_size = 8, attr_value_size = 8,
     attr_max_entries = 5\<rparr> \<and> sz = 144 then 3 else - 22) (replicate 72 0xFF) 1 8 8 5 = Some 3"
proof -
  have l: "length (replicate 72 (0xFF :: u8)) = size_of bpf_attr_ty - size_of (Struct_of attr_map_create_fields)"
    by (simp add: bpf_attr_size del: size_of.simps)
  from map_create_bytes [OF l refl, of 1 8 8 5 "\<lambda>cmd a sz. if a = Some \<lparr>attr_map_type = 1, attr_key_size = 8, attr_value_size = 8,
     attr_max_entries = 5\<rparr> \<and> sz = 144 then 3 else - 22"]
  show ?thesis by (auto simp: bpf_create_map_def sys_bpf_def bpf_attr_size simp del: size_of.simps)
qed

end
