(* ===== verification/Skeleton_Memory.thy ===== *)
theory Skeleton_Memory
  imports Layout Skeleton
begin

text \<open>
  The functions of \<open>hello-verifier.skel.h\<close> that open, load and destroy the skeleton, at the level of
  memory: the blocks that \<open>calloc\<close> returns with their sizes, the structures of \<open>bpf_map4/libbpf.h\<close>
  laid out in them, and one store for each assignment of \<open>hello_verifier_bpf__create_skeleton\<close>.
  They refine the models in \<open>Skeleton\<close>.
\<close>

section \<open>The structures\<close>

abbreviation "pointer_ty \<equiv> Base 8"
abbreviation "size_t_ty \<equiv> Base 8"

definition bpf_map_skeleton_fields :: fields where
  "bpf_map_skeleton_fields = [(''name'', pointer_ty), (''map'', pointer_ty), (''mmaped'', pointer_ty)]"

definition bpf_prog_skeleton_fields :: fields where
  "bpf_prog_skeleton_fields = [(''name'', pointer_ty), (''prog'', pointer_ty), (''link'', pointer_ty)]"

definition bpf_object_skeleton_fields :: fields where
  "bpf_object_skeleton_fields = [(''sz'', size_t_ty), (''name'', pointer_ty), (''data'', pointer_ty),
     (''data_sz'', size_t_ty), (''obj'', pointer_ty), (''map_cnt'', c_int_ty), (''map_skel_sz'', c_int_ty),
     (''maps'', pointer_ty), (''prog_cnt'', c_int_ty), (''prog_skel_sz'', c_int_ty), (''progs'', pointer_ty)]"

definition hello_verifier_bpf_fields :: fields where
  "hello_verifier_bpf_fields = [(''skeleton'', pointer_ty), (''obj'', pointer_ty),
     (''maps'', Struct_of [(''my_config'', pointer_ty), (''output'', pointer_ty), (''data'', pointer_ty),
        (''rodata'', pointer_ty)]),
     (''progs'', Struct_of [(''kprobe_exec'', pointer_ty), (''xdp_hello'', pointer_ty)]),
     (''links'', Struct_of [(''kprobe_exec'', pointer_ty), (''xdp_hello'', pointer_ty)]),
     (''data'', pointer_ty)]"

abbreviation "map_ty \<equiv> Struct_of bpf_map_skeleton_fields"
abbreviation "prog_ty \<equiv> Struct_of bpf_prog_skeleton_fields"
abbreviation "skel_ty \<equiv> Struct_of bpf_object_skeleton_fields"
abbreviation "object_ty \<equiv> Struct_of hello_verifier_bpf_fields"

section \<open>Memory\<close>

text \<open>A value is a number (0 is null), a pointer into a block, one to a string literal, or one to the
  embedded object file. A byte of memory is zero or a piece of a value.\<close>

datatype cval = Num nat | At addr nat | Literal string | Elf_bytes

datatype sbyte = Zero | Piece cval nat

definition pieces :: "nat \<Rightarrow> cval \<Rightarrow> sbyte list" where
  "pieces n v = map (Piece v) [0..<n]"

definition cell_value :: "sbyte list \<Rightarrow> cval option" where
  "cell_value bs = (if list_all (\<lambda>x. x = Zero) bs then Some (Num 0)
     else case hd bs of Piece v _ \<Rightarrow> if bs = pieces (length bs) v then Some v else None | Zero \<Rightarrow> None)"

record smem =
  heap_of :: heap
  blocks :: "addr \<Rightarrow> sbyte list"

text \<open>A place: block, offset and size.\<close>

type_synonym place = "addr \<times> nat \<times> nat"

definition inside :: "smem \<Rightarrow> place \<Rightarrow> bool" where
  "inside m p = (case p of (a, z, n) \<Rightarrow> a \<in> live (heap_of m) \<and> z + n \<le> length (blocks m a))"

definition load_at :: "smem \<Rightarrow> place \<Rightarrow> cval option" where
  "load_at m p = (case p of (a, z, n) \<Rightarrow>
     if inside m p then cell_value (get_slot (z, n) (blocks m a)) else None)"

definition store_at :: "place \<Rightarrow> cval \<Rightarrow> smem \<Rightarrow> smem cres" where
  "store_at p v m = (case p of (a, z, n) \<Rightarrow>
     if inside m p then Inr (m\<lparr>blocks := (blocks m)(a := put_slot (z, n) (pieces n v) (blocks m a))\<rparr>)
     else Inl OutOfBounds)"

definition calloc_mem :: "(addr \<Rightarrow> bool) \<Rightarrow> nat \<Rightarrow> nat \<Rightarrow> smem \<Rightarrow> addr option \<times> smem" where
  "calloc_mem alloc n sz m = (case calloc alloc (heap_of m) of
     (None, h) \<Rightarrow> (None, m\<lparr>heap_of := h\<rparr>)
   | (Some a, h) \<Rightarrow> (Some a, m\<lparr>heap_of := h, blocks := (blocks m)(a := replicate (n * sz) Zero)\<rparr>))"

text \<open>The member of the \<open>i\<close>-th element of an array at the start of a block.\<close>

definition elem_place :: "cty \<Rightarrow> addr \<Rightarrow> nat \<Rightarrow> string \<Rightarrow> place option" where
  "elem_place t a i x = map_option (\<lambda>(z, n). (a, i * size_of t + z, n)) (member_slot t x)"

definition get_member :: "cty \<Rightarrow> smem \<Rightarrow> addr \<Rightarrow> nat \<Rightarrow> string \<Rightarrow> cval option" where
  "get_member t m a i x = Option.bind (elem_place t a i x) (load_at m)"

definition put_member :: "cty \<Rightarrow> addr \<Rightarrow> nat \<Rightarrow> string \<Rightarrow> cval \<Rightarrow> smem \<Rightarrow> smem cres" where
  "put_member t a i x v m = (case elem_place t a i x of None \<Rightarrow> Inl OutOfBounds | Some p \<Rightarrow> store_at p v m)"

fun stores :: "(smem \<Rightarrow> smem cres) list \<Rightarrow> smem \<Rightarrow> smem cres" where
  "stores [] m = Inr m"
| "stores (f # fs) m = bindE (f m) (stores fs)"

text \<open>The address of a member of the object.\<close>

fun path_offset :: "cty \<Rightarrow> string list \<Rightarrow> nat option" where
  "path_offset t [] = Some 0"
| "path_offset t (x # xs) = (case map_of (members t) x of
     None \<Rightarrow> None | Some (z, u) \<Rightarrow> map_option ((+) z) (path_offset u xs))"

definition addr_of :: "addr \<Rightarrow> string list \<Rightarrow> cval" where
  "addr_of ob xs = (case path_offset object_ty xs of Some z \<Rightarrow> At ob z | None \<Rightarrow> Num 0)"

section \<open>The function\<close>

definition null_or :: "addr option \<Rightarrow> cval" where
  "null_or r = (case r of None \<Rightarrow> Num 0 | Some p \<Rightarrow> At p 0)"

definition map_stores :: "addr \<Rightarrow> addr \<Rightarrow> (smem \<Rightarrow> smem cres) list" where
  "map_stores ob p = [
     put_member map_ty p 0 ''name'' (Literal ''my_config''), put_member map_ty p 0 ''map'' (addr_of ob [''maps'', ''my_config'']),
     put_member map_ty p 1 ''name'' (Literal ''output''), put_member map_ty p 1 ''map'' (addr_of ob [''maps'', ''output'']),
     put_member map_ty p 2 ''name'' (Literal ''hello_ve.data''), put_member map_ty p 2 ''map'' (addr_of ob [''maps'', ''data'']),
     put_member map_ty p 2 ''mmaped'' (addr_of ob [''data'']),
     put_member map_ty p 3 ''name'' (Literal ''hello_ve.rodata''), put_member map_ty p 3 ''map'' (addr_of ob [''maps'', ''rodata''])]"

definition prog_stores :: "addr \<Rightarrow> addr \<Rightarrow> (smem \<Rightarrow> smem cres) list" where
  "prog_stores ob q = [
     put_member prog_ty q 0 ''name'' (Literal ''kprobe_exec''), put_member prog_ty q 0 ''prog'' (addr_of ob [''progs'', ''kprobe_exec'']),
     put_member prog_ty q 0 ''link'' (addr_of ob [''links'', ''kprobe_exec'']),
     put_member prog_ty q 1 ''name'' (Literal ''xdp_hello''), put_member prog_ty q 1 ''prog'' (addr_of ob [''progs'', ''xdp_hello'']),
     put_member prog_ty q 1 ''link'' (addr_of ob [''links'', ''xdp_hello''])]"

text \<open>
  The result says whether the function reached its return, or else went to its label \<open>err\<close>; with the
  value of \<open>s\<close>. The three parts of the function, from the last to the first; the sizes that
  \<open>calloc\<close> gets are those just stored.
\<close>

definition create_skeleton_progs :: "(addr \<Rightarrow> bool) \<Rightarrow> addr \<Rightarrow> addr \<Rightarrow> smem \<Rightarrow> (bool \<times> addr option \<times> smem) cres" where
  "create_skeleton_progs alloc ob s m =
     bindE (stores [put_member skel_ty s 0 ''prog_cnt'' (Num 2), put_member skel_ty s 0 ''prog_skel_sz'' (Num (size_of prog_ty))] m) (\<lambda>m.
     let (r, m) = calloc_mem alloc 2 (size_of prog_ty) m
     in bindE (put_member skel_ty s 0 ''progs'' (null_or r) m) (\<lambda>m.
     case r of
       None \<Rightarrow> Inr (False, Some s, m)
     | Some q \<Rightarrow>
         bindE (stores (prog_stores ob q) m) (\<lambda>m.
         bindE (stores [put_member skel_ty s 0 ''data_sz'' (Num (snd hello_verifier_bpf__elf_bytes)),
           put_member skel_ty s 0 ''data'' Elf_bytes] m) (\<lambda>m.
         bindE (put_member object_ty ob 0 ''skeleton'' (At s 0) m) (\<lambda>m.
         Inr (True, Some s, m))))))"

definition create_skeleton_maps :: "(addr \<Rightarrow> bool) \<Rightarrow> addr \<Rightarrow> addr \<Rightarrow> smem \<Rightarrow> (bool \<times> addr option \<times> smem) cres" where
  "create_skeleton_maps alloc ob s m =
     (let (r, m) = calloc_mem alloc 4 (size_of map_ty) m
      in bindE (put_member skel_ty s 0 ''maps'' (null_or r) m) (\<lambda>m.
      case r of
        None \<Rightarrow> Inr (False, Some s, m)
      | Some p \<Rightarrow> bindE (stores (map_stores ob p) m) (create_skeleton_progs alloc ob s)))"

definition create_skeleton_mem :: "(addr \<Rightarrow> bool) \<Rightarrow> addr \<Rightarrow> smem \<Rightarrow> (bool \<times> addr option \<times> smem) cres" where
  "create_skeleton_mem alloc ob m =
     (case calloc_mem alloc 1 (size_of skel_ty) m of
        (None, m) \<Rightarrow> Inr (False, None, m)
      | (Some s, m) \<Rightarrow>
          bindE (stores [put_member skel_ty s 0 ''sz'' (Num (size_of skel_ty)),
            put_member skel_ty s 0 ''name'' (Literal ''hello_verifier_bpf''), put_member skel_ty s 0 ''obj'' (addr_of ob [''obj'']),
            put_member skel_ty s 0 ''map_cnt'' (Num 4), put_member skel_ty s 0 ''map_skel_sz'' (Num (size_of map_ty))] m)
          (create_skeleton_maps alloc ob s))"

section \<open>What the memory stands for\<close>

text \<open>The pointers of the object and their names in the model of \<open>Skeleton\<close>.\<close>

definition object_names :: "(nat \<times> string) list" where
  "object_names = concat (map (\<lambda>(x, z, t). case t of
     Struct_of fs \<Rightarrow> map (\<lambda>(y, w, u). (z + w, x @ ''.'' @ y)) (members t) | _ \<Rightarrow> [(z, x)]) (members object_ty))"

definition name_of :: "addr \<Rightarrow> cval \<Rightarrow> string option" where
  "name_of ob v = (case v of At a z \<Rightarrow> if a = ob then map_of object_names z else None | _ \<Rightarrow> None)"

definition literal_of :: "cval \<Rightarrow> string option" where
  "literal_of v = (case v of Literal x \<Rightarrow> Some x | _ \<Rightarrow> None)"

definition number_of :: "cval \<Rightarrow> nat option" where
  "number_of v = (case v of Num n \<Rightarrow> Some n | _ \<Rightarrow> None)"

definition map_skeleton_of :: "smem \<Rightarrow> addr \<Rightarrow> addr \<Rightarrow> nat \<Rightarrow> map_skeleton option" where
  "map_skeleton_of m ob p i =
     Option.bind (Option.bind (get_member map_ty m p i ''name'') literal_of) (\<lambda>x.
     Option.bind (Option.bind (get_member map_ty m p i ''map'') (name_of ob)) (\<lambda>y.
     Option.bind (get_member map_ty m p i ''mmaped'') (\<lambda>v.
     if v = Num 0 then Some \<lparr>ms_name = x, ms_map = y, ms_mmaped = None\<rparr>
     else map_option (\<lambda>z. \<lparr>ms_name = x, ms_map = y, ms_mmaped = Some z\<rparr>) (name_of ob v))))"

definition prog_skeleton_of :: "smem \<Rightarrow> addr \<Rightarrow> addr \<Rightarrow> nat \<Rightarrow> prog_skeleton option" where
  "prog_skeleton_of m ob p i =
     Option.bind (Option.bind (get_member prog_ty m p i ''name'') literal_of) (\<lambda>x.
     Option.bind (Option.bind (get_member prog_ty m p i ''prog'') (name_of ob)) (\<lambda>y.
     Option.bind (Option.bind (get_member prog_ty m p i ''link'') (name_of ob)) (\<lambda>z.
     Some \<lparr>ps_name = x, ps_prog = y, ps_link = z\<rparr>)))"

text \<open>A table: its pointer, which may be null, and as many elements as counted.\<close>

definition table_of :: "(addr \<Rightarrow> nat \<Rightarrow> 'e option) \<Rightarrow> nat \<Rightarrow> cval \<Rightarrow> (addr \<times> 'e list) option option" where
  "table_of f n v = (if v = Num 0 then Some None else case v of
     At p 0 \<Rightarrow> map_option (\<lambda>xs. Some (p, xs)) (those (map (f p) [0..<n])) | _ \<Rightarrow> None)"

definition elf_data_of :: "cval \<Rightarrow> bytes option" where
  "elf_data_of v = (if v = Num 0 then Some [] else if v = Elf_bytes then Some (fst hello_verifier_bpf__elf_bytes) else None)"

text \<open>The skeleton at an address; its sizes must be those of the structures.\<close>

definition skeleton_of :: "smem \<Rightarrow> addr \<Rightarrow> addr \<Rightarrow> object_skeleton option" where
  "skeleton_of m ob s =
     Option.bind (Option.bind (get_member skel_ty m s 0 ''name'') literal_of) (\<lambda>x.
     Option.bind (Option.bind (get_member skel_ty m s 0 ''obj'') (name_of ob)) (\<lambda>y.
     Option.bind (Option.bind (get_member skel_ty m s 0 ''map_cnt'') number_of) (\<lambda>n.
     Option.bind (Option.bind (get_member skel_ty m s 0 ''prog_cnt'') number_of) (\<lambda>k.
     Option.bind (Option.bind (get_member skel_ty m s 0 ''maps'') (table_of (map_skeleton_of m ob) n)) (\<lambda>maps.
     Option.bind (Option.bind (get_member skel_ty m s 0 ''progs'') (table_of (prog_skeleton_of m ob) k)) (\<lambda>progs.
     Option.bind (Option.bind (get_member skel_ty m s 0 ''data'') elf_data_of) (\<lambda>d.
     Option.bind (Option.bind (get_member skel_ty m s 0 ''data_sz'') number_of) (\<lambda>dn.
     if get_member skel_ty m s 0 ''sz'' = Some (Num (size_of skel_ty)) \<and> get_member skel_ty m s 0 ''map_skel_sz'' = Some (Num (size_of map_ty)) \<and>
        (0 < k \<longrightarrow> get_member skel_ty m s 0 ''prog_skel_sz'' = Some (Num (size_of prog_ty)))
     then Some \<lparr>sk_addr = s, sk_name = x, sk_obj = y, map_cnt = n, sk_maps = maps, prog_cnt = k, sk_progs = progs,
                sk_data = d, sk_data_sz = dn\<rparr>
     else None))))))))"

text \<open>An object in memory.\<close>

definition object_of :: "smem \<Rightarrow> addr \<Rightarrow> hello_verifier_bpf" where
  "object_of m ob = \<lparr>ob_addr = ob, skeleton =
     (case get_member object_ty m ob 0 ''skeleton'' of Some (At s z) \<Rightarrow> if z = 0 then skeleton_of m ob s else None | _ \<Rightarrow> None)\<rparr>"

section \<open>The functions that use it\<close>

text \<open>
  The functions of \<open>libbpf\<close> get what the memory stands for; they change which blocks are live. The
  pointer to the skeleton is read from the object each time.
\<close>

definition destroy_skeleton_mem :: "libbpf \<Rightarrow> addr \<Rightarrow> cval \<Rightarrow> smem \<Rightarrow> smem cres" where
  "destroy_skeleton_mem lib ob v m =
     bindE (destroy_skeleton lib (case v of At s _ \<Rightarrow> skeleton_of m ob s | _ \<Rightarrow> None) (heap_of m)) (\<lambda>h.
     Inr (m\<lparr>heap_of := h\<rparr>))"

definition free_mem :: "addr \<Rightarrow> smem \<Rightarrow> smem cres" where
  "free_mem a m = bindE (free a (heap_of m)) (\<lambda>h. Inr (m\<lparr>heap_of := h\<rparr>))"

definition set_errno :: "c_int \<Rightarrow> smem \<Rightarrow> smem" where
  "set_errno e m = m\<lparr>heap_of := (heap_of m)\<lparr>errno := e\<rparr>\<rparr>"

definition create_skeleton_call :: "libbpf \<Rightarrow> (addr \<Rightarrow> bool) \<Rightarrow> addr \<Rightarrow> smem \<Rightarrow> (c_int \<times> smem) cres" where
  "create_skeleton_call lib alloc ob m =
     bindE (create_skeleton_mem alloc ob m) (\<lambda>(ok, s, m).
     if ok then Inr (0, m) else bindE (destroy_skeleton_mem lib ob (null_or s) m) (\<lambda>m. Inr (- ENOMEM, m)))"

definition destroy_mem :: "libbpf \<Rightarrow> addr option \<Rightarrow> smem \<Rightarrow> smem cres" where
  "destroy_mem lib r m = (case r of
     None \<Rightarrow> Inr m
   | Some ob \<Rightarrow> (case get_member object_ty m ob 0 ''skeleton'' of
       None \<Rightarrow> Inl OutOfBounds
     | Some v \<Rightarrow> bindE (if v = Num 0 then Inr m else destroy_skeleton_mem lib ob v m) (free_mem ob)))"

definition open_opts_mem :: "libbpf \<Rightarrow> (addr \<Rightarrow> bool) \<Rightarrow> smem \<Rightarrow> (addr option \<times> smem) cres" where
  "open_opts_mem lib alloc m =
     (case calloc_mem alloc 1 (size_of object_ty) m of
        (None, m) \<Rightarrow> Inr (None, set_errno ENOMEM m)
      | (Some ob, m) \<Rightarrow>
          bindE (create_skeleton_call lib alloc ob m) (\<lambda>(err, m).
          let err = (if err \<noteq> 0 then err else open_skeleton lib (skeleton (object_of m ob)))
          in if err \<noteq> 0 then bindE (destroy_mem lib (Some ob) m) (\<lambda>m. bindE (int_neg err) (\<lambda>e. Inr (None, set_errno e m)))
             else Inr (Some ob, m)))"

definition open_and_load_mem :: "libbpf \<Rightarrow> (addr \<Rightarrow> bool) \<Rightarrow> smem \<Rightarrow> (addr option \<times> smem) cres" where
  "open_and_load_mem lib alloc m =
     bindE (open_opts_mem lib alloc m) (\<lambda>(r, m). case r of
         None \<Rightarrow> Inr (None, m)
       | Some ob \<Rightarrow>
           let err = load_skeleton lib (skeleton (object_of m ob))
           in if err \<noteq> 0 then bindE (destroy_mem lib (Some ob) m) (\<lambda>m. bindE (int_neg err) (\<lambda>e. Inr (None, set_errno e m)))
              else Inr (Some ob, m))"

text \<open>The result and the heap that a result in memory stands for.\<close>

definition result_of :: "(addr option \<times> smem) cres \<Rightarrow> (hello_verifier_bpf option \<times> heap) cres" where
  "result_of x = bindE x (\<lambda>(r, m). Inr (map_option (object_of m) r, heap_of m))"

section \<open>Sizes and places\<close>

lemma skeleton_sizes:
  "size_of skel_ty = 72" "size_of map_ty = 24" "size_of prog_ty = 24" "size_of object_ty = 88"
  by code_simp+

lemma skel_places:
  "elem_place skel_ty s 0 ''sz'' = Some (s, 0, 8)" "elem_place skel_ty s 0 ''name'' = Some (s, 8, 8)"
  "elem_place skel_ty s 0 ''data'' = Some (s, 16, 8)" "elem_place skel_ty s 0 ''data_sz'' = Some (s, 24, 8)"
  "elem_place skel_ty s 0 ''obj'' = Some (s, 32, 8)" "elem_place skel_ty s 0 ''map_cnt'' = Some (s, 40, 4)"
  "elem_place skel_ty s 0 ''map_skel_sz'' = Some (s, 44, 4)" "elem_place skel_ty s 0 ''maps'' = Some (s, 48, 8)"
  "elem_place skel_ty s 0 ''prog_cnt'' = Some (s, 56, 4)" "elem_place skel_ty s 0 ''prog_skel_sz'' = Some (s, 60, 4)"
  "elem_place skel_ty s 0 ''progs'' = Some (s, 64, 8)" "elem_place object_ty s 0 ''skeleton'' = Some (s, 0, 8)"
proof -
  have "map (\<lambda>x. (x, member_slot skel_ty x)) (map fst bpf_object_skeleton_fields) =
     [(''sz'', Some (0, 8)), (''name'', Some (8, 8)), (''data'', Some (16, 8)), (''data_sz'', Some (24, 8)),
      (''obj'', Some (32, 8)), (''map_cnt'', Some (40, 4)), (''map_skel_sz'', Some (44, 4)), (''maps'', Some (48, 8)),
      (''prog_cnt'', Some (56, 4)), (''prog_skel_sz'', Some (60, 4)), (''progs'', Some (64, 8))]"
    "member_slot object_ty ''skeleton'' = Some (0, 8)"
    by code_simp+
  then show
    "elem_place skel_ty s 0 ''sz'' = Some (s, 0, 8)" "elem_place skel_ty s 0 ''name'' = Some (s, 8, 8)"
    "elem_place skel_ty s 0 ''data'' = Some (s, 16, 8)" "elem_place skel_ty s 0 ''data_sz'' = Some (s, 24, 8)"
    "elem_place skel_ty s 0 ''obj'' = Some (s, 32, 8)" "elem_place skel_ty s 0 ''map_cnt'' = Some (s, 40, 4)"
    "elem_place skel_ty s 0 ''map_skel_sz'' = Some (s, 44, 4)" "elem_place skel_ty s 0 ''maps'' = Some (s, 48, 8)"
    "elem_place skel_ty s 0 ''prog_cnt'' = Some (s, 56, 4)" "elem_place skel_ty s 0 ''prog_skel_sz'' = Some (s, 60, 4)"
    "elem_place skel_ty s 0 ''progs'' = Some (s, 64, 8)" "elem_place object_ty s 0 ''skeleton'' = Some (s, 0, 8)"
    by (simp_all add: elem_place_def bpf_object_skeleton_fields_def del: size_of.simps)
qed

lemma table_places:
  "elem_place map_ty p i ''name'' = Some (p, i * 24, 8)" "elem_place map_ty p i ''map'' = Some (p, i * 24 + 8, 8)"
  "elem_place map_ty p i ''mmaped'' = Some (p, i * 24 + 16, 8)"
  "elem_place prog_ty p i ''name'' = Some (p, i * 24, 8)" "elem_place prog_ty p i ''prog'' = Some (p, i * 24 + 8, 8)"
  "elem_place prog_ty p i ''link'' = Some (p, i * 24 + 16, 8)"
proof -
  have "member_slot map_ty ''name'' = Some (0, 8)" "member_slot map_ty ''map'' = Some (8, 8)" "member_slot map_ty ''mmaped'' = Some (16, 8)"
    "member_slot prog_ty ''name'' = Some (0, 8)" "member_slot prog_ty ''prog'' = Some (8, 8)" "member_slot prog_ty ''link'' = Some (16, 8)"
    by code_simp+
  then show
    "elem_place map_ty p i ''name'' = Some (p, i * 24, 8)" "elem_place map_ty p i ''map'' = Some (p, i * 24 + 8, 8)"
    "elem_place map_ty p i ''mmaped'' = Some (p, i * 24 + 16, 8)"
    "elem_place prog_ty p i ''name'' = Some (p, i * 24, 8)" "elem_place prog_ty p i ''prog'' = Some (p, i * 24 + 8, 8)"
    "elem_place prog_ty p i ''link'' = Some (p, i * 24 + 16, 8)"
    by (simp_all add: elem_place_def skeleton_sizes del: size_of.simps)
qed

lemma object_addrs:
  "addr_of ob [''obj''] = At ob 8" "addr_of ob [''maps'', ''my_config''] = At ob 16" "addr_of ob [''maps'', ''output''] = At ob 24"
  "addr_of ob [''maps'', ''data''] = At ob 32" "addr_of ob [''maps'', ''rodata''] = At ob 40"
  "addr_of ob [''progs'', ''kprobe_exec''] = At ob 48" "addr_of ob [''progs'', ''xdp_hello''] = At ob 56"
  "addr_of ob [''links'', ''kprobe_exec''] = At ob 64" "addr_of ob [''links'', ''xdp_hello''] = At ob 72"
  "addr_of ob [''data''] = At ob 80"
  by code_simp+

text \<open>The names in the model of \<open>Skeleton\<close> stand for different pointers.\<close>

lemma object_names_table:
  "object_names = [(0, ''skeleton''), (8, ''obj''), (16, ''maps.my_config''), (24, ''maps.output''), (32, ''maps.data''),
     (40, ''maps.rodata''), (48, ''progs.kprobe_exec''), (56, ''progs.xdp_hello''), (64, ''links.kprobe_exec''),
     (72, ''links.xdp_hello''), (80, ''data'')]"
  by code_simp


section \<open>Loads after stores\<close>

definition apart :: "place \<Rightarrow> place \<Rightarrow> bool" where
  "apart p q = (case (p, q) of ((a, z, n), (b, y, k)) \<Rightarrow> a \<noteq> b \<or> z + n \<le> y \<or> y + k \<le> z)"

lemma length_pieces: "length (pieces n v) = n"
  by (simp add: pieces_def)

lemma cell_value_pieces: "0 < n \<Longrightarrow> cell_value (pieces n v) = Some v"
  by (simp add: cell_value_def pieces_def hd_map list_all_iff) (meson not_less_zero)

lemma cell_value_zeros: "cell_value (replicate n Zero) = Some (Num 0)"
  by (simp add: cell_value_def list_all_iff)

lemma store_at_inside:
  assumes "store_at p v m = Inr m'"
  shows "inside m' q = inside m q" and "heap_of m' = heap_of m"
  using assms by (auto simp: store_at_def inside_def put_slot_length length_pieces split: prod.splits if_splits)

lemma load_store_same:
  assumes "store_at (a, z, n) v m = Inr m'" and "0 < n"
  shows "load_at m' (a, z, n) = Some v"
proof -
  have "inside m' (a, z, n)" using assms(1) by (simp add: store_at_inside(1) [OF assms(1)] store_at_def split: if_splits)
  then show ?thesis
    using assms by (auto simp: store_at_def load_at_def inside_def get_put_same length_pieces cell_value_pieces split: if_splits)
qed

lemma load_store_apart:
  assumes "store_at (a, z, n) v m = Inr m'" and "apart (a, z, n) (b, y, k)"
  shows "load_at m' (b, y, k) = load_at m (b, y, k)"
proof -
  have m': "inside m (a, z, n)" "m' = m\<lparr>blocks := (blocks m)(a := put_slot (z, n) (pieces n v) (blocks m a))\<rparr>"
    using assms(1) by (simp_all add: store_at_def split: if_splits)
  have g: "get_slot (y, k) (blocks m' b) = get_slot (y, k) (blocks m b)"
  proof (cases "a = b")
    case True
    with assms(2) have "z + n \<le> y \<or> y + k \<le> z" by (simp add: apart_def)
    from get_put_apart [OF length_pieces _ this] m' True show ?thesis by (simp add: inside_def)
  qed (use m'(2) in simp)
  show ?thesis
    using store_at_inside(1) [OF assms(1), of "(b, y, k)"] g by (simp add: load_at_def)
qed

text \<open>What is known of a memory: the values at some places. A store changes one of them.\<close>

definition holds :: "smem \<Rightarrow> (place \<times> cval) list \<Rightarrow> bool" where
  "holds m K \<longleftrightarrow> list_all (\<lambda>(p, v). load_at m p = Some v) K"

definition set_cell :: "place \<times> cval \<Rightarrow> (place \<times> cval) list \<Rightarrow> (place \<times> cval) list" where
  "set_cell x K = x # filter (\<lambda>y. apart (fst x) (fst y)) K"

lemma holds_append: "holds m (K @ L) \<longleftrightarrow> holds m K \<and> holds m L"
  by (simp add: holds_def)

lemma holds_filter: "holds m K \<Longrightarrow> holds m (filter P K)"
  by (auto simp: holds_def list_all_iff)

lemma holds_store:
  assumes "holds m K" and "inside m (a, z, n)" and "0 < n"
  shows "\<exists>m'. store_at (a, z, n) v m = Inr m' \<and> heap_of m' = heap_of m \<and> (\<forall>q. inside m' q = inside m q) \<and>
    holds m' (set_cell ((a, z, n), v) K)"
proof -
  obtain m' where m': "store_at (a, z, n) v m = Inr m'" using assms(2) by (auto simp: store_at_def)
  have "load_at m' (b, y, k) = Some w" if "((b, y, k), w) \<in> set K" "apart (a, z, n) (b, y, k)" for b y k w
    using load_store_apart [OF m' that(2)] that(1) assms(1) by (auto simp: holds_def list_all_iff)
  then show ?thesis
    using m' store_at_inside [OF m'] load_store_same [OF m' assms(3)]
    by (auto simp: holds_def set_cell_def list_all_iff)
qed

lemma holds_stores:
  assumes "holds m K" and "list_all (\<lambda>((a, z, n), v). inside m (a, z, n) \<and> 0 < n) ws"
  shows "\<exists>m'. stores (map (\<lambda>(p, v). store_at p v) ws) m = Inr m' \<and> heap_of m' = heap_of m \<and>
    (\<forall>q. inside m' q = inside m q) \<and> holds m' (fold set_cell ws K)"
  using assms
proof (induction ws arbitrary: m K)
  case (Cons w ws)
  obtain a z n v where w: "w = ((a, z, n), v)" by (metis prod_cases3 surj_pair)
  obtain m1 where m1: "store_at (a, z, n) v m = Inr m1" "heap_of m1 = heap_of m" "\<forall>q. inside m1 q = inside m q"
    "holds m1 (set_cell w K)" using holds_store [OF Cons.prems(1), of a z n v] Cons.prems(2) w by auto
  have "list_all (\<lambda>((a, z, n), v). inside m1 (a, z, n) \<and> 0 < n) ws"
    using Cons.prems(2) m1(3) by (simp add: case_prod_unfold)
  from Cons.IH [OF m1(4) this] m1 w show ?case by auto
qed simp

text \<open>A new block is apart from the live ones and is zero.\<close>

lemma calloc_mem_some:
  assumes "calloc_mem alloc n sz m = (Some a, m')" and "heap_wf (heap_of m)"
  shows "calloc alloc (heap_of m) = (Some a, heap_of m')" and "heap_wf (heap_of m')"
    and "a = next_addr (heap_of m)" and "next_addr (heap_of m') = Suc a"
    and "inside m' (a, z, k) \<longleftrightarrow> z + k \<le> n * sz" and "z + k \<le> n * sz \<Longrightarrow> load_at m' (a, z, k) = Some (Num 0)"
    and "b \<noteq> a \<Longrightarrow> inside m' (b, z, k) = inside m (b, z, k)" and "holds m K \<Longrightarrow> holds m' K"
proof -
  let ?h = "heap_of m"
  have m': "alloc (next_addr ?h)" "a = next_addr ?h" "m' = m\<lparr>heap_of := ?h\<lparr>next_addr := Suc a, live := insert a (live ?h)\<rparr>,
      blocks := (blocks m)(a := replicate (n * sz) Zero)\<rparr>"
    using assms(1) by (auto simp: calloc_mem_def calloc_def split: if_splits)
  show "calloc alloc ?h = (Some a, heap_of m')" using m' by (simp add: calloc_def)
  show "heap_wf (heap_of m')" using assms(2) m' by (auto simp: heap_wf_def less_Suc_eq)
  show "a = next_addr ?h" "next_addr (heap_of m') = Suc a" using m' by simp_all
  show i: "inside m' (a, z, k) \<longleftrightarrow> z + k \<le> n * sz" using m' by (simp add: inside_def)
  show "load_at m' (a, z, k) = Some (Num 0)" if "z + k \<le> n * sz"
    using that i m' by (simp add: load_at_def get_slot_def cell_value_zeros min_absorb1)
  show "inside m' (b, z, k) = inside m (b, z, k)" if "b \<noteq> a" using that m' by (simp add: inside_def)
  have "a \<notin> live ?h" using assms(2) m'(2) by (auto simp: heap_wf_def)
  then have "load_at m' p = Some v" if "load_at m p = Some v" for p v
    using that m' by (auto simp: load_at_def inside_def split: prod.splits if_splits)
  then show "holds m' K" if "holds m K" using that by (auto simp: holds_def list_all_iff)
qed

lemma calloc_mem_none:
  assumes "calloc_mem alloc n sz m = (None, m')"
  shows "calloc alloc (heap_of m) = (None, heap_of m')" and "inside m' q = inside m q"
    and "load_at m' q = load_at m q" and "holds m K \<Longrightarrow> holds m' K"
proof -
  have m': "calloc alloc (heap_of m) = (None, heap_of m')" "live (heap_of m') = live (heap_of m)" "blocks m' = blocks m"
    using assms by (auto simp: calloc_mem_def calloc_def split: if_splits)
  then show "calloc alloc (heap_of m) = (None, heap_of m')" by simp
  show i: "inside m' q = inside m q" for q using m'(2,3) by (simp add: inside_def)
  show l: "load_at m' q = load_at m q" for q using i m'(3) by (cases q) (simp add: load_at_def)
  show "holds m' K" if "holds m K" using that by (simp add: holds_def l)
qed


text \<open>Stores into one block leave what is known of the others.\<close>

definition off_block :: "addr \<Rightarrow> (place \<times> cval) list \<Rightarrow> bool" where
  "off_block b L \<longleftrightarrow> list_all (\<lambda>(p, v). fst p \<noteq> b) L"

lemma fold_set_cell_frame:
  assumes "list_all (\<lambda>(p, v). fst p = b) ws" and "off_block b L"
  shows "fold set_cell ws (K @ L) = fold set_cell ws K @ L"
  using assms(1)
proof (induction ws arbitrary: K)
  case (Cons w ws)
  have "filter (\<lambda>y. apart (fst w) (fst y)) L = L"
    using Cons.prems assms(2) by (auto simp: off_block_def list_all_iff apart_def filter_id_conv split: prod.splits)
  then have "set_cell w (K @ L) = set_cell w K @ L" by (simp add: set_cell_def)
  then show ?case using Cons by simp
qed simp

definition block_size :: "smem \<Rightarrow> addr \<Rightarrow> nat \<Rightarrow> bool" where
  "block_size m b k \<longleftrightarrow> (\<forall>z n. inside m (b, z, n) \<longleftrightarrow> z + n \<le> k)"

text \<open>The outcome of a list of stores into a block: what is known after it.\<close>

definition stored :: "(smem \<Rightarrow> smem cres) list \<Rightarrow> smem \<Rightarrow> (place \<times> cval) list \<Rightarrow> bool" where
  "stored fs m K \<longleftrightarrow> (\<exists>m'. stores fs m = Inr m' \<and> heap_of m' = heap_of m \<and> (\<forall>q. inside m' q = inside m q) \<and> holds m' K)"

lemma stores_block:
  assumes "holds m K" and "holds m L" and "block_size m b k"
    and "list_all (\<lambda>((a, z, n), v). a = b \<and> z + n \<le> k \<and> 0 < n) ws" and "off_block b L"
  shows "stored (map (\<lambda>(p, v). store_at p v) ws) m (fold set_cell ws K @ L)"
proof -
  have i: "list_all (\<lambda>((a, z, n), v). inside m (a, z, n) \<and> 0 < n) ws"
    using assms(3,4) by (auto simp: block_size_def list_all_iff)
  have b: "list_all (\<lambda>(p, v). fst p = b) ws" using assms(4) by (auto simp: list_all_iff)
  from holds_stores [of m "K @ L", OF _ i] assms(1,2) show ?thesis
    by (simp add: stored_def holds_append fold_set_cell_frame [OF b assms(5)])
qed

section \<open>The contents of the three blocks\<close>

definition skel_cells :: "addr \<Rightarrow> addr \<Rightarrow> cval \<Rightarrow> nat \<Rightarrow> cval \<Rightarrow> cval \<Rightarrow> cval \<Rightarrow> nat \<Rightarrow> (place \<times> cval) list" where
  "skel_cells ob s maps k ksz progs d dn = [((s, 0, 8), Num 72), ((s, 8, 8), Literal ''hello_verifier_bpf''), ((s, 16, 8), d),
     ((s, 24, 8), Num dn), ((s, 32, 8), At ob 8), ((s, 40, 4), Num 4), ((s, 44, 4), Num 24), ((s, 48, 8), maps),
     ((s, 56, 4), Num k), ((s, 60, 4), ksz), ((s, 64, 8), progs)]"

definition map_cells :: "addr \<Rightarrow> addr \<Rightarrow> (place \<times> cval) list" where
  "map_cells ob p = [((p, 0, 8), Literal ''my_config''), ((p, 8, 8), At ob 16), ((p, 16, 8), Num 0),
     ((p, 24, 8), Literal ''output''), ((p, 32, 8), At ob 24), ((p, 40, 8), Num 0),
     ((p, 48, 8), Literal ''hello_ve.data''), ((p, 56, 8), At ob 32), ((p, 64, 8), At ob 80),
     ((p, 72, 8), Literal ''hello_ve.rodata''), ((p, 80, 8), At ob 40), ((p, 88, 8), Num 0)]"

definition prog_cells :: "addr \<Rightarrow> addr \<Rightarrow> (place \<times> cval) list" where
  "prog_cells ob q = [((q, 0, 8), Literal ''kprobe_exec''), ((q, 8, 8), At ob 48), ((q, 16, 8), At ob 64),
     ((q, 24, 8), Literal ''xdp_hello''), ((q, 32, 8), At ob 56), ((q, 40, 8), At ob 72)]"

lemma off_cells:
  "off_block b (skel_cells ob s maps k ksz progs d dn) \<longleftrightarrow> b \<noteq> s"
  "off_block b (map_cells ob p) \<longleftrightarrow> b \<noteq> p" "off_block b (prog_cells ob q) \<longleftrightarrow> b \<noteq> q"
  "off_block b (K @ L) \<longleftrightarrow> off_block b K \<and> off_block b L" "off_block b []"
  by (auto simp: off_block_def skel_cells_def map_cells_def prog_cells_def)

lemmas loads = get_member_def skel_places table_places holds_def

lemma map_table:
  assumes "holds m (map_cells ob p)"
  shows "table_of (map_skeleton_of m ob) 4 (At p 0) = Some (Some (p, the_maps))"
proof -
  have "map_skeleton_of m ob p 0 = Some \<lparr>ms_name = ''my_config'', ms_map = ''maps.my_config'', ms_mmaped = None\<rparr>"
    "map_skeleton_of m ob p 1 = Some \<lparr>ms_name = ''output'', ms_map = ''maps.output'', ms_mmaped = None\<rparr>"
    "map_skeleton_of m ob p 2 = Some \<lparr>ms_name = ''hello_ve.data'', ms_map = ''maps.data'', ms_mmaped = Some ''data''\<rparr>"
    "map_skeleton_of m ob p 3 = Some \<lparr>ms_name = ''hello_ve.rodata'', ms_map = ''maps.rodata'', ms_mmaped = None\<rparr>"
    using assms by (simp_all add: map_skeleton_of_def loads map_cells_def literal_of_def name_of_def object_names_table)
  moreover have "[0..<4] = [0, 1, 2, 3 :: nat]" by (simp add: upt_rec)
  ultimately show ?thesis by (simp add: table_of_def the_maps_def)
qed

lemma prog_table:
  assumes "holds m (prog_cells ob q)"
  shows "table_of (prog_skeleton_of m ob) 2 (At q 0) = Some (Some (q, the_progs))"
proof -
  have "prog_skeleton_of m ob q 0 = Some \<lparr>ps_name = ''kprobe_exec'', ps_prog = ''progs.kprobe_exec'', ps_link = ''links.kprobe_exec''\<rparr>"
    "prog_skeleton_of m ob q 1 = Some \<lparr>ps_name = ''xdp_hello'', ps_prog = ''progs.xdp_hello'', ps_link = ''links.xdp_hello''\<rparr>"
    using assms by (simp_all add: prog_skeleton_of_def loads prog_cells_def literal_of_def name_of_def object_names_table)
  moreover have "[0..<2] = [0, 1 :: nat]" by (simp add: upt_rec)
  ultimately show ?thesis by (simp add: table_of_def the_progs_def)
qed

lemma skeleton_of_cells:
  assumes "holds m (skel_cells ob s maps k ksz progs d dn)" and "0 < k \<longrightarrow> ksz = Num 24"
    and "table_of (map_skeleton_of m ob) 4 maps = Some ms" and "table_of (prog_skeleton_of m ob) k progs = Some ps"
    and "elf_data_of d = Some ds"
  shows "skeleton_of m ob s = Some \<lparr>sk_addr = s, sk_name = ''hello_verifier_bpf'', sk_obj = ''obj'', map_cnt = 4,
    sk_maps = ms, prog_cnt = k, sk_progs = ps, sk_data = ds, sk_data_sz = dn\<rparr>"
  using assms
  by (simp add: skeleton_of_def loads skel_cells_def literal_of_def name_of_def object_names_table number_of_def
      skeleton_sizes del: size_of.simps)


section \<open>The stores of the function\<close>

lemmas cell_simps = set_cell_def apart_def skel_cells_def map_cells_def prog_cells_def null_or_def

abbreviation zero_cells :: "place list \<Rightarrow> (place \<times> cval) list" where
  "zero_cells \<equiv> map (\<lambda>p. (p, Num 0))"

definition skel_places_of :: "addr \<Rightarrow> place list" where
  "skel_places_of s = [(s, 0, 8), (s, 8, 8), (s, 16, 8), (s, 24, 8), (s, 32, 8), (s, 40, 4), (s, 44, 4), (s, 48, 8),
     (s, 56, 4), (s, 60, 4), (s, 64, 8)]"

definition table_places_of :: "addr \<Rightarrow> nat \<Rightarrow> place list" where
  "table_places_of p k = map (\<lambda>i. (p, i * 8, 8)) [0..<3 * k]"

lemma stored_perm: "stored fs m K \<Longrightarrow> set K' \<subseteq> set K \<Longrightarrow> stored fs m K'"
  unfolding stored_def holds_def list_all_iff by (meson subsetD)

lemma put_member_place: "elem_place t a i x = Some p \<Longrightarrow> put_member t a i x v = store_at p v"
  by (simp add: put_member_def fun_eq_iff)

lemma head_stores:
  assumes "block_size m s 72" and "holds m (zero_cells (skel_places_of s))" and "holds m L" and "off_block s L"
  shows "stored [put_member skel_ty s 0 ''sz'' (Num (size_of skel_ty)), put_member skel_ty s 0 ''name'' (Literal ''hello_verifier_bpf''),
      put_member skel_ty s 0 ''obj'' (addr_of ob [''obj'']),
      put_member skel_ty s 0 ''map_cnt'' (Num 4), put_member skel_ty s 0 ''map_skel_sz'' (Num (size_of map_ty))] m
    (skel_cells ob s (Num 0) 0 (Num 0) (Num 0) (Num 0) 0 @ L)"
proof (rule stored_perm)
  let ?ws = "[((s, 0, 8), Num 72), ((s, 8, 8), Literal ''hello_verifier_bpf''), ((s, 32, 8), At ob 8), ((s, 40, 4), Num 4),
    ((s, 44, 4), Num 24)]"
  show "stored [put_member skel_ty s 0 ''sz'' (Num (size_of skel_ty)), put_member skel_ty s 0 ''name'' (Literal ''hello_verifier_bpf''),
      put_member skel_ty s 0 ''obj'' (addr_of ob [''obj'']), put_member skel_ty s 0 ''map_cnt'' (Num 4),
      put_member skel_ty s 0 ''map_skel_sz'' (Num (size_of map_ty))] m (fold set_cell ?ws (zero_cells (skel_places_of s)) @ L)"
    using stores_block [OF assms(2,3,1), of ?ws] assms(4)
    by (simp add: stored_def put_member_place skel_places object_addrs skeleton_sizes del: size_of.simps)
qed (auto simp: cell_simps skel_places_of_def)

lemma maps_store:
  assumes "block_size m s 72" and "holds m (skel_cells ob s (Num 0) 0 (Num 0) (Num 0) (Num 0) 0)" and "holds m L" and "off_block s L"
  shows "stored [put_member skel_ty s 0 ''maps'' (null_or r)] m (skel_cells ob s (null_or r) 0 (Num 0) (Num 0) (Num 0) 0 @ L)"
proof (rule stored_perm)
  let ?ws = "[((s, 48, 8), null_or r)]"
  show "stored [put_member skel_ty s 0 ''maps'' (null_or r)] m
      (fold set_cell ?ws (skel_cells ob s (Num 0) 0 (Num 0) (Num 0) (Num 0) 0) @ L)"
    using stores_block [OF assms(2,3,1), of ?ws] assms(4) by (simp add: stored_def put_member_place skel_places)
qed (auto simp: cell_simps)

lemma counts_stores:
  assumes "block_size m s 72" and "holds m (skel_cells ob s v 0 (Num 0) (Num 0) (Num 0) 0)" and "holds m L" and "off_block s L"
  shows "stored [put_member skel_ty s 0 ''prog_cnt'' (Num 2), put_member skel_ty s 0 ''prog_skel_sz'' (Num (size_of prog_ty))] m
    (skel_cells ob s v 2 (Num 24) (Num 0) (Num 0) 0 @ L)"
proof (rule stored_perm)
  let ?ws = "[((s, 56, 4), Num 2), ((s, 60, 4), Num 24)]"
  show "stored [put_member skel_ty s 0 ''prog_cnt'' (Num 2), put_member skel_ty s 0 ''prog_skel_sz'' (Num (size_of prog_ty))] m
      (fold set_cell ?ws (skel_cells ob s v 0 (Num 0) (Num 0) (Num 0) 0) @ L)"
    using stores_block [OF assms(2,3,1), of ?ws] assms(4)
    by (simp add: stored_def put_member_place skel_places skeleton_sizes del: size_of.simps)
qed (auto simp: cell_simps)

lemma progs_store:
  assumes "block_size m s 72" and "holds m (skel_cells ob s v 2 (Num 24) (Num 0) (Num 0) 0)" and "holds m L" and "off_block s L"
  shows "stored [put_member skel_ty s 0 ''progs'' (null_or r)] m (skel_cells ob s v 2 (Num 24) (null_or r) (Num 0) 0 @ L)"
proof (rule stored_perm)
  let ?ws = "[((s, 64, 8), null_or r)]"
  show "stored [put_member skel_ty s 0 ''progs'' (null_or r)] m
      (fold set_cell ?ws (skel_cells ob s v 2 (Num 24) (Num 0) (Num 0) 0) @ L)"
    using stores_block [OF assms(2,3,1), of ?ws] assms(4) by (simp add: stored_def put_member_place skel_places)
qed (auto simp: cell_simps)

lemma map_stores_stored:
  assumes "block_size m p 96" and "holds m (zero_cells (table_places_of p 4))" and "holds m L" and "off_block p L"
  shows "stored (map_stores ob p) m (map_cells ob p @ L)"
proof (rule stored_perm)
  let ?ws = "[((p, 0, 8), Literal ''my_config''), ((p, 8, 8), At ob 16), ((p, 24, 8), Literal ''output''), ((p, 32, 8), At ob 24),
    ((p, 48, 8), Literal ''hello_ve.data''), ((p, 56, 8), At ob 32), ((p, 64, 8), At ob 80),
    ((p, 72, 8), Literal ''hello_ve.rodata''), ((p, 80, 8), At ob 40)]"
  show "stored (map_stores ob p) m (fold set_cell ?ws (zero_cells (table_places_of p 4)) @ L)"
    using stores_block [OF assms(2,3,1), of ?ws] assms(4)
    by (simp add: stored_def map_stores_def put_member_place table_places object_addrs)
qed (auto simp: cell_simps table_places_of_def upt_rec)

lemma prog_stores_stored:
  assumes "block_size m q 48" and "holds m (zero_cells (table_places_of q 2))" and "holds m L" and "off_block q L"
  shows "stored (prog_stores ob q) m (prog_cells ob q @ L)"
proof (rule stored_perm)
  let ?ws = "[((q, 0, 8), Literal ''kprobe_exec''), ((q, 8, 8), At ob 48), ((q, 16, 8), At ob 64),
    ((q, 24, 8), Literal ''xdp_hello''), ((q, 32, 8), At ob 56), ((q, 40, 8), At ob 72)]"
  show "stored (prog_stores ob q) m (fold set_cell ?ws (zero_cells (table_places_of q 2)) @ L)"
    using stores_block [OF assms(2,3,1), of ?ws] assms(4)
    by (simp add: stored_def prog_stores_def put_member_place table_places object_addrs)
qed (auto simp: cell_simps table_places_of_def upt_rec)


lemma data_stores:
  assumes "block_size m s 72" and "holds m (skel_cells ob s v 2 (Num 24) w (Num 0) 0)" and "holds m L" and "off_block s L"
  shows "stored [put_member skel_ty s 0 ''data_sz'' (Num dn), put_member skel_ty s 0 ''data'' Elf_bytes] m
    (skel_cells ob s v 2 (Num 24) w Elf_bytes dn @ L)"
proof (rule stored_perm)
  let ?ws = "[((s, 24, 8), Num dn), ((s, 16, 8), Elf_bytes)]"
  show "stored [put_member skel_ty s 0 ''data_sz'' (Num dn), put_member skel_ty s 0 ''data'' Elf_bytes] m
      (fold set_cell ?ws (skel_cells ob s v 2 (Num 24) w (Num 0) 0) @ L)"
    using stores_block [OF assms(2,3,1), of ?ws] assms(4) by (simp add: stored_def put_member_place skel_places)
qed (auto simp: cell_simps)

lemma object_store:
  assumes "block_size m ob 88" and "holds m L" and "off_block ob L"
  shows "stored [put_member object_ty ob 0 ''skeleton'' v] m (((ob, 0, 8), v) # L)"
proof -
  have "holds m []" by (simp add: holds_def)
  from stores_block [OF this assms(2,1), of "[((ob, 0, 8), v)]"] assms(3)
  show ?thesis by (simp add: stored_def put_member_place skel_places set_cell_def)
qed

section \<open>The stages of the function\<close>

text \<open>The heap and the blocks in use, and what is known of them.\<close>

definition stage :: "smem \<Rightarrow> (addr \<times> nat) list \<Rightarrow> (place \<times> cval) list \<Rightarrow> bool" where
  "stage m bs K \<longleftrightarrow> heap_wf (heap_of m) \<and> (\<forall>(b, k) \<in> set bs. block_size m b k) \<and> holds m K"

lemma stage_stores:
  assumes "stage m bs K" and "stored fs m K'"
  shows "\<exists>m'. stores fs m = Inr m' \<and> heap_of m' = heap_of m \<and> stage m' bs K'"
  using assms by (auto simp: stage_def stored_def block_size_def)

lemma stage_store:
  assumes "stage m bs K" and "stored [f] m K'"
  shows "\<exists>m'. f m = Inr m' \<and> heap_of m' = heap_of m \<and> stage m' bs K'"
  using stage_stores [OF assms] by (simp add: bindE_eq_Inr)

lemma stage_fresh:
  assumes "stage m bs K" and "calloc_mem alloc n sz m = (Some a, m')"
  shows "(b, k) \<in> set bs \<Longrightarrow> b \<noteq> a"
    and "stage m' ((a, n * sz) # bs) (map (\<lambda>p. (p, Num 0)) (filter (\<lambda>(b, z, k). b = a \<and> z + k \<le> n * sz) ps) @ K)"
    and "calloc alloc (heap_of m) = (Some a, heap_of m')"
proof -
  have wf: "heap_wf (heap_of m)" using assms(1) by (simp add: stage_def)
  note c = calloc_mem_some [OF assms(2) wf]
  show ne: "b \<noteq> a" if "(b, k) \<in> set bs" for b k
  proof -
    have "inside m (b, 0, 0)" using that assms(1) by (auto simp: stage_def block_size_def)
    then show ?thesis using wf c(3) by (auto simp: inside_def heap_wf_def)
  qed
  have "block_size m' b k" if "(b, k) \<in> set bs" for b k
    using that assms(1) ne [OF that] c(7) by (auto simp: stage_def block_size_def)
  moreover have "block_size m' a (n * sz)" using c(5) by (simp add: block_size_def)
  moreover have "holds m' (map (\<lambda>p. (p, Num 0)) (filter (\<lambda>(b, z, k). b = a \<and> z + k \<le> n * sz) ps))"
    using c(6) by (auto simp: holds_def list_all_iff)
  ultimately show "stage m' ((a, n * sz) # bs)
      (map (\<lambda>p. (p, Num 0)) (filter (\<lambda>(b, z, k). b = a \<and> z + k \<le> n * sz) ps) @ K)"
    using c(2,8) assms(1) by (auto simp: stage_def holds_append)
  show "calloc alloc (heap_of m) = (Some a, heap_of m')" by (rule c(1))
qed

lemma stage_calloc_none:
  assumes "stage m bs K" and "calloc_mem alloc n sz m = (None, m')"
  shows "stage m' bs K" and "calloc alloc (heap_of m) = (None, heap_of m')"
proof -
  note c = calloc_mem_none [OF assms(2)]
  have "heap_wf (heap_of m')"
    using assms by (auto simp: stage_def calloc_mem_def calloc_def heap_wf_def less_Suc_eq split: if_splits)
  then show "stage m' bs K" using assms(1) c(2,4) by (auto simp: stage_def block_size_def)
  show "calloc alloc (heap_of m) = (None, heap_of m')" by (rule c(1))
qed


lemma calloc_skeleton:
  assumes "stage m [(ob, 88)] K" and "calloc_mem alloc 1 (size_of skel_ty) m = (Some s, m')"
  shows "stage m' [(s, 72), (ob, 88)] (zero_cells (skel_places_of s) @ K)" and "ob \<noteq> s"
    and "calloc alloc (heap_of m) = (Some s, heap_of m')"
  using stage_fresh(2) [OF assms, of "skel_places_of s"] stage_fresh(1) [OF assms, of ob 88] stage_fresh(3) [OF assms]
  by (simp_all add: skeleton_sizes skel_places_of_def del: size_of.simps)

lemma calloc_maps:
  assumes "stage m [(s, 72), (ob, 88)] K" and "calloc_mem alloc 4 (size_of map_ty) m = (Some p, m')"
  shows "stage m' [(p, 96), (s, 72), (ob, 88)] (zero_cells (table_places_of p 4) @ K)" and "ob \<noteq> p" and "s \<noteq> p"
    and "calloc alloc (heap_of m) = (Some p, heap_of m')"
proof -
  have "filter (\<lambda>(b, z, k). b = p \<and> z + k \<le> 4 * 24) (table_places_of p 4) = table_places_of p 4"
    by (simp add: table_places_of_def filter_id_conv)
  then show "stage m' [(p, 96), (s, 72), (ob, 88)] (zero_cells (table_places_of p 4) @ K)"
    using stage_fresh(2) [OF assms, of "table_places_of p 4"] by (simp add: skeleton_sizes del: size_of.simps)
qed (use stage_fresh(1) [OF assms, of ob 88] stage_fresh(1) [OF assms, of s 72] stage_fresh(3) [OF assms] in simp_all)

lemma calloc_progs:
  assumes "stage m [(p, 96), (s, 72), (ob, 88)] K" and "calloc_mem alloc 2 (size_of prog_ty) m = (Some q, m')"
  shows "stage m' [(q, 48), (p, 96), (s, 72), (ob, 88)] (zero_cells (table_places_of q 2) @ K)" and "ob \<noteq> q" and "s \<noteq> q" and "p \<noteq> q"
    and "calloc alloc (heap_of m) = (Some q, heap_of m')"
proof -
  have "filter (\<lambda>(b, z, k). b = q \<and> z + k \<le> 2 * 24) (table_places_of q 2) = table_places_of q 2"
    by (simp add: table_places_of_def filter_id_conv)
  then show "stage m' [(q, 48), (p, 96), (s, 72), (ob, 88)] (zero_cells (table_places_of q 2) @ K)"
    using stage_fresh(2) [OF assms, of "table_places_of q 2"] by (simp add: skeleton_sizes del: size_of.simps)
qed (use stage_fresh(1) [OF assms, of ob 88] stage_fresh(1) [OF assms, of s 72] stage_fresh(1) [OF assms, of p 96]
    stage_fresh(3) [OF assms] in simp_all)

text \<open>Up to the table of maps.\<close>

definition object_cell :: "addr \<Rightarrow> (place \<times> cval) list" where
  "object_cell ob = [((ob, 0, 8), Num 0)]"

lemma off_object: "off_block b (object_cell ob) \<longleftrightarrow> b \<noteq> ob"
  by (auto simp: off_block_def object_cell_def)

lemma reach_maps:
  assumes "stage m [(ob, 88)] (object_cell ob)" and "calloc_mem alloc 1 (size_of skel_ty) m = (Some s, m1)"
  shows "\<exists>m2. stores [put_member skel_ty s 0 ''sz'' (Num (size_of skel_ty)), put_member skel_ty s 0 ''name'' (Literal ''hello_verifier_bpf''),
      put_member skel_ty s 0 ''obj'' (addr_of ob [''obj'']), put_member skel_ty s 0 ''map_cnt'' (Num 4),
      put_member skel_ty s 0 ''map_skel_sz'' (Num (size_of map_ty))] m1 = Inr m2 \<and> heap_of m2 = heap_of m1 \<and>
    stage m2 [(s, 72), (ob, 88)] (skel_cells ob s (Num 0) 0 (Num 0) (Num 0) (Num 0) 0 @ object_cell ob)"
proof -
  note c = calloc_skeleton [OF assms]
  have "stored [put_member skel_ty s 0 ''sz'' (Num (size_of skel_ty)), put_member skel_ty s 0 ''name'' (Literal ''hello_verifier_bpf''),
      put_member skel_ty s 0 ''obj'' (addr_of ob [''obj'']), put_member skel_ty s 0 ''map_cnt'' (Num 4),
      put_member skel_ty s 0 ''map_skel_sz'' (Num (size_of map_ty))] m1 (skel_cells ob s (Num 0) 0 (Num 0) (Num 0) (Num 0) 0 @ object_cell ob)"
    by (intro head_stores) (use c(1,2) in \<open>simp_all add: stage_def off_object holds_append\<close>)
  from stage_stores [OF c(1) this] show ?thesis by simp
qed

lemma stage_maps_store:
  assumes "stage m bs (L @ skel_cells ob s (Num 0) 0 (Num 0) (Num 0) (Num 0) 0)" and "(s, 72) \<in> set bs" and "off_block s L"
  shows "\<exists>m'. put_member skel_ty s 0 ''maps'' (null_or r) m = Inr m' \<and> heap_of m' = heap_of m \<and>
    stage m' bs (skel_cells ob s (null_or r) 0 (Num 0) (Num 0) (Num 0) 0 @ L)"
  by (rule stage_store [OF assms(1)], rule maps_store) (use assms in \<open>auto simp: stage_def holds_append\<close>)

lemma stage_map_stores:
  assumes "stage m bs (L @ zero_cells (table_places_of p 4))" and "(p, 96) \<in> set bs" and "off_block p L"
  shows "\<exists>m'. stores (map_stores ob p) m = Inr m' \<and> heap_of m' = heap_of m \<and> stage m' bs (map_cells ob p @ L)"
  by (rule stage_stores [OF assms(1)], rule map_stores_stored) (use assms in \<open>auto simp: stage_def holds_append\<close>)

lemma stage_counts_stores:
  assumes "stage m bs (L @ skel_cells ob s v 0 (Num 0) (Num 0) (Num 0) 0)" and "(s, 72) \<in> set bs" and "off_block s L"
  shows "\<exists>m'. stores [put_member skel_ty s 0 ''prog_cnt'' (Num 2), put_member skel_ty s 0 ''prog_skel_sz'' (Num (size_of prog_ty))] m =
      Inr m' \<and> heap_of m' = heap_of m \<and> stage m' bs (skel_cells ob s v 2 (Num 24) (Num 0) (Num 0) 0 @ L)"
  by (rule stage_stores [OF assms(1)], rule counts_stores) (use assms in \<open>auto simp: stage_def holds_append\<close>)

lemma stage_progs_store:
  assumes "stage m bs (L @ skel_cells ob s v 2 (Num 24) (Num 0) (Num 0) 0)" and "(s, 72) \<in> set bs" and "off_block s L"
  shows "\<exists>m'. put_member skel_ty s 0 ''progs'' (null_or r) m = Inr m' \<and> heap_of m' = heap_of m \<and>
    stage m' bs (skel_cells ob s v 2 (Num 24) (null_or r) (Num 0) 0 @ L)"
  by (rule stage_store [OF assms(1)], rule progs_store) (use assms in \<open>auto simp: stage_def holds_append\<close>)

lemma stage_prog_stores:
  assumes "stage m bs (L @ zero_cells (table_places_of q 2))" and "(q, 48) \<in> set bs" and "off_block q L"
  shows "\<exists>m'. stores (prog_stores ob q) m = Inr m' \<and> heap_of m' = heap_of m \<and> stage m' bs (prog_cells ob q @ L)"
  by (rule stage_stores [OF assms(1)], rule prog_stores_stored) (use assms in \<open>auto simp: stage_def holds_append\<close>)

lemma stage_data_stores:
  assumes "stage m bs (L @ skel_cells ob s v 2 (Num 24) w (Num 0) 0)" and "(s, 72) \<in> set bs" and "off_block s L"
  shows "\<exists>m'. stores [put_member skel_ty s 0 ''data_sz'' (Num dn), put_member skel_ty s 0 ''data'' Elf_bytes] m = Inr m' \<and>
    heap_of m' = heap_of m \<and> stage m' bs (skel_cells ob s v 2 (Num 24) w Elf_bytes dn @ L)"
  by (rule stage_stores [OF assms(1)], rule data_stores) (use assms in \<open>auto simp: stage_def holds_append\<close>)

lemma stage_object_store:
  assumes "stage m bs L" and "(ob, 88) \<in> set bs" and "off_block ob L"
  shows "\<exists>m'. put_member object_ty ob 0 ''skeleton'' v m = Inr m' \<and> heap_of m' = heap_of m \<and>
    stage m' bs (((ob, 0, 8), v) # L)"
  by (rule stage_store [OF assms(1)], rule object_store) (use assms in \<open>auto simp: stage_def holds_append\<close>)

lemma stage_perm: "stage m bs K \<Longrightarrow> set K' \<subseteq> set K \<Longrightarrow> stage m bs K'"
  by (auto simp: stage_def holds_def list_all_iff)

section \<open>The abstract skeletons at its ends\<close>

definition skeleton_at :: "addr \<Rightarrow> (addr \<times> map_skeleton list) option \<Rightarrow> nat \<Rightarrow> (addr \<times> prog_skeleton list) option \<Rightarrow>
    bytes \<Rightarrow> nat \<Rightarrow> object_skeleton" where
  "skeleton_at s ms k ps d dn = \<lparr>sk_addr = s, sk_name = ''hello_verifier_bpf'', sk_obj = ''obj'', map_cnt = 4,
    sk_maps = ms, prog_cnt = k, sk_progs = ps, sk_data = d, sk_data_sz = dn\<rparr>"

lemma stage_no_maps:
  assumes "stage m bs (skel_cells ob s (Num 0) 0 (Num 0) (Num 0) (Num 0) 0 @ L)"
  shows "skeleton_of m ob s = Some (skeleton_at s None 0 None [] 0)"
proof -
  have "holds m (skel_cells ob s (Num 0) 0 (Num 0) (Num 0) (Num 0) 0)" using assms by (simp add: stage_def holds_append)
  from skeleton_of_cells [OF this, of None None "[]"] show ?thesis
    by (simp add: skeleton_at_def table_of_def elf_data_of_def)
qed

lemma stage_no_progs:
  assumes "stage m bs (skel_cells ob s (At p 0) 2 (Num 24) (Num 0) (Num 0) 0 @ map_cells ob p @ L)"
  shows "skeleton_of m ob s = Some (skeleton_at s (Some (p, the_maps)) 2 None [] 0)"
proof -
  have h: "holds m (skel_cells ob s (At p 0) 2 (Num 24) (Num 0) (Num 0) 0)" "holds m (map_cells ob p)"
    using assms by (simp_all add: stage_def holds_append)
  from skeleton_of_cells [OF h(1) _ map_table [OF h(2)], of None "[]"] show ?thesis
    by (simp add: skeleton_at_def table_of_def elf_data_of_def)
qed

lemma stage_complete:
  assumes "stage m bs (skel_cells ob s (At p 0) 2 (Num 24) (At q 0) Elf_bytes dn @ map_cells ob p @ prog_cells ob q)"
  shows "skeleton_of m ob s = Some (skeleton_at s (Some (p, the_maps)) 2 (Some (q, the_progs)) (fst hello_verifier_bpf__elf_bytes) dn)"
proof -
  have h: "holds m (skel_cells ob s (At p 0) 2 (Num 24) (At q 0) Elf_bytes dn)" "holds m (map_cells ob p)" "holds m (prog_cells ob q)"
    using assms by (simp_all add: stage_def holds_append)
  from skeleton_of_cells [OF h(1) _ map_table [OF h(2)] prog_table [OF h(3)], of "fst hello_verifier_bpf__elf_bytes"] show ?thesis
    by (simp add: skeleton_at_def elf_data_of_def)
qed

section \<open>The parts of the function\<close>

lemma stage_live: "stage m bs K \<Longrightarrow> (b, k) \<in> set bs \<Longrightarrow> b \<in> live (heap_of m)"
proof -
  assume "stage m bs K" "(b, k) \<in> set bs"
  then have "inside m (b, 0, 0)" by (auto simp: stage_def block_size_def)
  then show ?thesis by (simp add: inside_def)
qed

lemma stage_object:
  "stage m bs (((ob, 0, 8), v) # K) \<Longrightarrow> get_member object_ty m ob 0 ''skeleton'' = Some v"
  by (simp add: stage_def holds_def get_member_def skel_places)

text \<open>What a part of the function gives: where it ended, and the skeleton there. The object points
  to the skeleton only at the return.\<close>

definition ends :: "addr \<Rightarrow> (bool \<times> addr option \<times> smem) cres \<Rightarrow> bool \<Rightarrow> addr \<Rightarrow> heap \<Rightarrow> object_skeleton \<Rightarrow> bool" where
  "ends ob r ok s h sk \<longleftrightarrow> (\<exists>m'. r = Inr (ok, Some s, m') \<and> heap_of m' = h \<and> skeleton_of m' ob s = Some sk \<and>
     get_member object_ty m' ob 0 ''skeleton'' = Some (if ok then At s 0 else Num 0) \<and>
     insert ob (skel_blocks sk) \<subseteq> live h \<and> ob \<notin> skel_blocks sk)"

lemma create_skeleton_progs_ends:
  assumes "stage m [(p, 96), (s, 72), (ob, 88)] ((map_cells ob p @ object_cell ob) @ skel_cells ob s (At p 0) 0 (Num 0) (Num 0) (Num 0) 0)"
    and "distinct [ob, s, p]"
  shows "case calloc alloc (heap_of m) of
      (None, h) \<Rightarrow> ends ob (create_skeleton_progs alloc ob s m) False s h (skeleton_at s (Some (p, the_maps)) 2 None [] 0)
    | (Some q, h) \<Rightarrow> ends ob (create_skeleton_progs alloc ob s m) True s h (skeleton_at s (Some (p, the_maps)) 2
        (Some (q, the_progs)) (fst hello_verifier_bpf__elf_bytes) (snd hello_verifier_bpf__elf_bytes))"
proof -
  let ?bs = "[(p, 96), (s, 72), (ob, 88)]" and ?M = "map_cells ob p" and ?O = "object_cell ob"
  obtain m1 where m1: "stores [put_member skel_ty s 0 ''prog_cnt'' (Num 2), put_member skel_ty s 0 ''prog_skel_sz'' (Num (size_of prog_ty))] m = Inr m1"
    "heap_of m1 = heap_of m" "stage m1 ?bs (skel_cells ob s (At p 0) 2 (Num 24) (Num 0) (Num 0) 0 @ ?M @ ?O)"
    using stage_counts_stores [OF assms(1)] assms(2) by (auto simp: off_cells off_object)
  obtain r m2 where r: "calloc_mem alloc 2 (size_of prog_ty) m1 = (r, m2)" by (cases "calloc_mem alloc 2 (size_of prog_ty) m1")
  show ?thesis
  proof (cases r)
    case None
    note c = stage_calloc_none [OF m1(3) r [unfolded None]]
    have "stage m2 ?bs ((?M @ ?O) @ skel_cells ob s (At p 0) 2 (Num 24) (Num 0) (Num 0) 0)"
      by (rule stage_perm [OF c(1)]) auto
    from stage_progs_store [OF this, of None] assms(2) obtain m3 where m3:
      "put_member skel_ty s 0 ''progs'' (null_or None) m2 = Inr m3" "heap_of m3 = heap_of m2"
      "stage m3 ?bs (skel_cells ob s (At p 0) 2 (Num 24) (Num 0) (Num 0) 0 @ ?M @ ?O)"
      by (auto simp: off_cells off_object null_or_def)
    have "stage m3 ?bs ?O" by (rule stage_perm [OF m3(3)]) auto
    then have "get_member object_ty m3 ob 0 ''skeleton'' = Some (Num 0)"
      unfolding object_cell_def by (rule stage_object)
    then have "ends ob (create_skeleton_progs alloc ob s m) False s (heap_of m2) (skeleton_at s (Some (p, the_maps)) 2 None [] 0)"
      using m1(1,2) r None m3(1,2) stage_no_progs [OF m3(3)] assms(2) stage_live [OF m3(3)]
      by (auto simp add: create_skeleton_progs_def ends_def skel_blocks_def skeleton_at_def simp del: size_of.simps)
    then show ?thesis using c(2) m1(2) by simp
  next
    case (Some q)
    let ?bs' = "(q, 48) # ?bs" and ?Z = "zero_cells (table_places_of q 2)" and ?dn = "snd hello_verifier_bpf__elf_bytes"
    note c = calloc_progs [OF m1(3) r [unfolded Some]]
    have "stage m2 ?bs' ((?M @ ?Z) @ skel_cells ob s (At p 0) 2 (Num 24) (Num 0) (Num 0) 0)"
      by (rule stage_perm [OF c(1)]) auto
    moreover have "off_block s ?Z" using c(3) by (simp add: off_block_def table_places_of_def list_all_iff)
    ultimately obtain m3 where m3: "put_member skel_ty s 0 ''progs'' (null_or (Some q)) m2 = Inr m3" "heap_of m3 = heap_of m2"
      "stage m3 ?bs' (skel_cells ob s (At p 0) 2 (Num 24) (At q 0) (Num 0) 0 @ ?M @ ?Z)"
      using stage_progs_store [of m2 ?bs' "?M @ ?Z" ob s "At p 0" "Some q"] assms(2)
      by (auto simp: off_cells null_or_def)
    obtain m4 where m4: "stores (prog_stores ob q) m3 = Inr m4" "heap_of m4 = heap_of m3"
      "stage m4 ?bs' (prog_cells ob q @ skel_cells ob s (At p 0) 2 (Num 24) (At q 0) (Num 0) 0 @ ?M)"
      using stage_prog_stores [of m3 ?bs' "skel_cells ob s (At p 0) 2 (Num 24) (At q 0) (Num 0) 0 @ ?M" q ob] m3(3) c(2-4)
      by (auto simp: off_cells)
    have "stage m4 ?bs' ((?M @ prog_cells ob q) @ skel_cells ob s (At p 0) 2 (Num 24) (At q 0) (Num 0) 0)"
      by (rule stage_perm [OF m4(3)]) auto
    from stage_data_stores [OF this, of ?dn] assms(2) c(3) obtain m5 where m5:
      "stores [put_member skel_ty s 0 ''data_sz'' (Num ?dn), put_member skel_ty s 0 ''data'' Elf_bytes] m4 = Inr m5" "heap_of m5 = heap_of m4"
      "stage m5 ?bs' (skel_cells ob s (At p 0) 2 (Num 24) (At q 0) Elf_bytes ?dn @ ?M @ prog_cells ob q)"
      by (auto simp: off_cells)
    from stage_object_store [OF m5(3), of ob "At s 0"] assms(2) c(2) obtain m6 where m6:
      "put_member object_ty ob 0 ''skeleton'' (At s 0) m5 = Inr m6" "heap_of m6 = heap_of m5"
      "stage m6 ?bs' (((ob, 0, 8), At s 0) # skel_cells ob s (At p 0) 2 (Num 24) (At q 0) Elf_bytes ?dn @ ?M @ prog_cells ob q)"
      by (auto simp: off_cells)
    have "skeleton_of m6 ob s = Some (skeleton_at s (Some (p, the_maps)) 2 (Some (q, the_progs)) (fst hello_verifier_bpf__elf_bytes) ?dn)"
      by (rule stage_complete [of m6 ?bs']) (rule stage_perm [OF m6(3)], auto)
    then have "ends ob (create_skeleton_progs alloc ob s m) True s (heap_of m2) (skeleton_at s (Some (p, the_maps)) 2
        (Some (q, the_progs)) (fst hello_verifier_bpf__elf_bytes) ?dn)"
      using m1(1,2) r Some m3(1,2) m4(1,2) m5(1,2) m6(1,2) assms(2) c(2) stage_live [OF m6(3)] stage_object [OF m6(3)]
      by (auto simp add: create_skeleton_progs_def ends_def skel_blocks_def skeleton_at_def simp del: size_of.simps)
    then show ?thesis using c(5) m1(2) by simp
  qed
qed

lemma create_skeleton_maps_ends:
  assumes "stage m [(s, 72), (ob, 88)] (skel_cells ob s (Num 0) 0 (Num 0) (Num 0) (Num 0) 0 @ object_cell ob)" and "ob \<noteq> s"
  shows "case calloc alloc (heap_of m) of
      (None, h) \<Rightarrow> ends ob (create_skeleton_maps alloc ob s m) False s h (skeleton_at s None 0 None [] 0)
    | (Some p, h) \<Rightarrow> (case calloc alloc h of
          (None, h) \<Rightarrow> ends ob (create_skeleton_maps alloc ob s m) False s h (skeleton_at s (Some (p, the_maps)) 2 None [] 0)
        | (Some q, h) \<Rightarrow> ends ob (create_skeleton_maps alloc ob s m) True s h (skeleton_at s (Some (p, the_maps)) 2
            (Some (q, the_progs)) (fst hello_verifier_bpf__elf_bytes) (snd hello_verifier_bpf__elf_bytes)))"
proof -
  let ?bs = "[(s, 72), (ob, 88)]" and ?S = "skel_cells ob s (Num 0) 0 (Num 0) (Num 0) (Num 0) 0" and ?O = "object_cell ob"
  obtain r m1 where r: "calloc_mem alloc 4 (size_of map_ty) m = (r, m1)" by (cases "calloc_mem alloc 4 (size_of map_ty) m")
  show ?thesis
  proof (cases r)
    case None
    note c = stage_calloc_none [OF assms(1) r [unfolded None]]
    have "stage m1 ?bs (?O @ ?S)" by (rule stage_perm [OF c(1)]) auto
    from stage_maps_store [OF this, of None] assms(2) obtain m2 where m2:
      "put_member skel_ty s 0 ''maps'' (null_or None) m1 = Inr m2" "heap_of m2 = heap_of m1" "stage m2 ?bs (?S @ ?O)"
      by (auto simp: off_object null_or_def)
    have "stage m2 ?bs ?O" by (rule stage_perm [OF m2(3)]) auto
    then have "get_member object_ty m2 ob 0 ''skeleton'' = Some (Num 0)"
      unfolding object_cell_def by (rule stage_object)
    then have "ends ob (create_skeleton_maps alloc ob s m) False s (heap_of m1) (skeleton_at s None 0 None [] 0)"
      using r None m2(1,2) stage_no_maps [OF m2(3)] assms(2) stage_live [OF m2(3)]
      by (auto simp add: create_skeleton_maps_def ends_def skel_blocks_def skeleton_at_def simp del: size_of.simps)
    then show ?thesis using c(2) by simp
  next
    case (Some p)
    let ?bs' = "(p, 96) # ?bs" and ?Z = "zero_cells (table_places_of p 4)"
    note c = calloc_maps [OF assms(1) r [unfolded Some]]
    have "stage m1 ?bs' ((?O @ ?Z) @ ?S)" by (rule stage_perm [OF c(1)]) auto
    moreover have "off_block s ?Z" using c(3) by (simp add: off_block_def table_places_of_def list_all_iff)
    ultimately obtain m2 where m2: "put_member skel_ty s 0 ''maps'' (null_or (Some p)) m1 = Inr m2" "heap_of m2 = heap_of m1"
      "stage m2 ?bs' (skel_cells ob s (At p 0) 0 (Num 0) (Num 0) (Num 0) 0 @ ?O @ ?Z)"
      using stage_maps_store [of m1 ?bs' "?O @ ?Z" ob s "Some p"] assms(2) by (auto simp: off_cells off_object null_or_def)
    have "stage m2 ?bs' ((skel_cells ob s (At p 0) 0 (Num 0) (Num 0) (Num 0) 0 @ ?O) @ ?Z)" by (rule stage_perm [OF m2(3)]) auto
    from stage_map_stores [OF this, of ob] c(2,3) obtain m3 where m3: "stores (map_stores ob p) m2 = Inr m3" "heap_of m3 = heap_of m2"
      "stage m3 ?bs' (map_cells ob p @ skel_cells ob s (At p 0) 0 (Num 0) (Num 0) (Num 0) 0 @ ?O)"
      by (auto simp: off_cells off_object)
    have "stage m3 ?bs' ((map_cells ob p @ ?O) @ skel_cells ob s (At p 0) 0 (Num 0) (Num 0) (Num 0) 0)"
      by (rule stage_perm [OF m3(3)]) auto
    moreover have "create_skeleton_maps alloc ob s m = create_skeleton_progs alloc ob s m3"
      using r Some m2(1) m3(1) by (simp add: create_skeleton_maps_def del: size_of.simps)
    moreover have "calloc alloc (heap_of m) = (Some p, heap_of m3)" using c(4) m2(2) m3(2) by simp
    ultimately show ?thesis
      using create_skeleton_progs_ends [of m3 p s ob alloc] assms(2) c(2,3) by (simp split: prod.splits option.splits)
  qed
qed


section \<open>The whole functions\<close>

text \<open>Freeing other blocks does not change what is read.\<close>

lemma get_member_heap:
  "get_member t m a i x = Some v \<Longrightarrow> a \<in> live h \<Longrightarrow> get_member t (m\<lparr>heap_of := h\<rparr>) a i x = Some v"
  by (auto simp: get_member_def elem_place_def load_at_def inside_def bind_eq_Some_conv split: if_splits)

text \<open>An object whose pointer to its skeleton can be followed.\<close>

definition object_ok :: "smem \<Rightarrow> addr \<Rightarrow> bool" where
  "object_ok m ob \<longleftrightarrow> get_member object_ty m ob 0 ''skeleton'' = Some (Num 0) \<or>
     (\<exists>s sk. get_member object_ty m ob 0 ''skeleton'' = Some (At s 0) \<and> skeleton_of m ob s = Some sk)"

lemma destroy_mem_result:
  assumes "object_ok m ob"
  shows "bindE (destroy_mem lib (Some ob) m) (\<lambda>m. Inr (heap_of m)) =
    hello_verifier_bpf__destroy lib (Some (object_of m ob)) (heap_of m)"
  using assms
  by (auto simp: object_ok_def destroy_mem_def hello_verifier_bpf__destroy_def object_of_def destroy_skeleton_mem_def
      free_mem_def bindE_assoc bindE_def split: sum.splits)

definition created :: "libbpf \<Rightarrow> (addr \<Rightarrow> bool) \<Rightarrow> addr \<Rightarrow> smem \<Rightarrow> c_int \<Rightarrow> smem \<Rightarrow> bool" where
  "created lib alloc ob m err m' \<longleftrightarrow> create_skeleton_call lib alloc ob m = Inr (err, m') \<and> object_ok m' ob \<and>
     hello_verifier_bpf__create_skeleton lib alloc \<lparr>ob_addr = ob, skeleton = None\<rparr> (heap_of m) =
       Inr (err, object_of m' ob, heap_of m')"

lemma ends_created:
  assumes lib: "libbpf_skeleton lib" and ends: "ends ob (create_skeleton_mem alloc ob m) ok s h sk"
    and R: "hello_verifier_bpf__create_skeleton lib alloc \<lparr>ob_addr = ob, skeleton = None\<rparr> (heap_of m) =
      (if ok then Inr (0, \<lparr>ob_addr = ob, skeleton = Some sk\<rparr>, h)
       else bindE (destroy_skeleton lib (Some sk) h) (\<lambda>h. Inr (- ENOMEM, \<lparr>ob_addr = ob, skeleton = None\<rparr>, h)))"
  shows "\<exists>err m'. created lib alloc ob m err m'"
proof -
  obtain m' where m': "create_skeleton_mem alloc ob m = Inr (ok, Some s, m')" "heap_of m' = h" "skeleton_of m' ob s = Some sk"
    "get_member object_ty m' ob 0 ''skeleton'' = Some (if ok then At s 0 else Num 0)" "insert ob (skel_blocks sk) \<subseteq> live h"
    "ob \<notin> skel_blocks sk" using ends by (auto simp: ends_def)
  show ?thesis
  proof (cases ok)
    case True
    with m' R have "created lib alloc ob m 0 m'"
      by (simp add: created_def create_skeleton_call_def object_ok_def object_of_def)
    then show ?thesis by blast
  next
    case False
    let ?h = "h\<lparr>live := live h - skel_blocks sk\<rparr>"
    have d: "destroy_skeleton lib (Some sk) h = Inr ?h"
      using libbpf_skeleton.destroy_frees [OF lib] m'(5) by simp
    have g: "get_member object_ty (m'\<lparr>heap_of := ?h\<rparr>) ob 0 ''skeleton'' = Some (Num 0)"
      using get_member_heap [of object_ty m' ob 0 "''skeleton''" "Num 0" ?h] m'(4-6) False by auto
    have "created lib alloc ob m (- ENOMEM) (m'\<lparr>heap_of := ?h\<rparr>)"
      using False m' R d g
      by (simp add: created_def create_skeleton_call_def destroy_skeleton_mem_def null_or_def object_ok_def object_of_def)
    then show ?thesis by blast
  qed
qed

lemma create_skeleton_created:
  assumes lib: "libbpf_skeleton lib" and start: "stage m [(ob, 88)] (object_cell ob)"
  shows "\<exists>err m'. created lib alloc ob m err m'"
proof -
  obtain r m1 where r: "calloc_mem alloc 1 (size_of skel_ty) m = (r, m1)" by (cases "calloc_mem alloc 1 (size_of skel_ty) m")
  show ?thesis
  proof (cases r)
    case None
    note c = stage_calloc_none [OF start r [unfolded None]]
    have "get_member object_ty m1 ob 0 ''skeleton'' = Some (Num 0)"
      using stage_object [OF c(1) [unfolded object_cell_def]] .
    then have "created lib alloc ob m (- ENOMEM) m1"
      using r None c(2) libbpf_skeleton.destroy_null [OF lib]
      by (simp add: created_def create_skeleton_call_def create_skeleton_mem_def destroy_skeleton_mem_def null_or_def
          object_ok_def object_of_def hello_verifier_bpf__create_skeleton_def del: size_of.simps)
    then show ?thesis by blast
  next
    case (Some s)
    note c = calloc_skeleton [OF start r [unfolded Some]]
    obtain m2 where m2: "heap_of m2 = heap_of m1"
      "stage m2 [(s, 72), (ob, 88)] (skel_cells ob s (Num 0) 0 (Num 0) (Num 0) (Num 0) 0 @ object_cell ob)"
      and e: "create_skeleton_mem alloc ob m = create_skeleton_maps alloc ob s m2"
      using reach_maps [OF start r [unfolded Some]] r Some by (auto simp: create_skeleton_mem_def simp del: size_of.simps stores.simps)
    note ends = create_skeleton_maps_ends [OF m2(2) c(2), of alloc, folded e, unfolded m2(1)]
    obtain r1 h1 where h1: "calloc alloc (heap_of m1) = (r1, h1)" by (cases "calloc alloc (heap_of m1)")
    obtain r2 h2 where h2: "calloc alloc h1 = (r2, h2)" by (cases "calloc alloc h1")
    note high = hello_verifier_bpf__create_skeleton_def skeleton_at_def Let_def
    consider (maps) "r1 = None" | (progs) p where "r1 = Some p" "r2 = None" | (complete) p q where "r1 = Some p" "r2 = Some q"
      by (cases r1; cases r2) auto
    then show ?thesis
    proof cases
      case maps
      with ends h1 have "ends ob (create_skeleton_mem alloc ob m) False s h1 (skeleton_at s None 0 None [] 0)" by simp
      then show ?thesis by (rule ends_created [OF lib]) (use h1 maps c(3) in \<open>simp add: high\<close>)
    next
      case progs
      with ends h1 h2 have "ends ob (create_skeleton_mem alloc ob m) False s h2
          (skeleton_at s (Some (p, the_maps)) 2 None [] 0)" by simp
      then show ?thesis by (rule ends_created [OF lib]) (use h1 h2 progs c(3) in \<open>simp add: high\<close>)
    next
      case complete
      with ends h1 h2 have "ends ob (create_skeleton_mem alloc ob m) True s h2 (skeleton_at s (Some (p, the_maps)) 2
          (Some (q, the_progs)) (fst hello_verifier_bpf__elf_bytes) (snd hello_verifier_bpf__elf_bytes))" by simp
      then show ?thesis by (rule ends_created [OF lib]) (use h1 h2 complete c(3) in \<open>simp add: high\<close>)
    qed
  qed
qed

lemma calloc_object:
  assumes "heap_wf (heap_of m)" and "calloc_mem alloc 1 (size_of object_ty) m = (Some ob, m')"
  shows "stage m' [(ob, 88)] (object_cell ob)" and "calloc alloc (heap_of m) = (Some ob, heap_of m')"
proof -
  have "stage m [] []" using assms(1) by (simp add: stage_def holds_def)
  from stage_fresh(2) [OF this assms(2), of "[(ob, 0, 8)]"] stage_fresh(3) [OF this assms(2)]
  show "stage m' [(ob, 88)] (object_cell ob)" "calloc alloc (heap_of m) = (Some ob, heap_of m')"
    by (simp_all add: skeleton_sizes object_cell_def del: size_of.simps)
qed

text \<open>The error exit, which \<open>open_opts\<close> and \<open>open_and_load\<close> share.\<close>

lemma error_exit:
  assumes "object_ok m ob"
  shows "result_of (bindE (destroy_mem lib (Some ob) m) (\<lambda>m. bindE (int_neg e) (\<lambda>e. Inr (None, set_errno e m)))) =
    bindE (hello_verifier_bpf__destroy lib (Some (object_of m ob)) (heap_of m)) (\<lambda>h. bindE (int_neg e) (\<lambda>e. Inr (None, h\<lparr>errno := e\<rparr>)))"
proof -
  have "result_of (bindE (destroy_mem lib (Some ob) m) (\<lambda>m. bindE (int_neg e) (\<lambda>e. Inr (None, set_errno e m)))) =
      bindE (bindE (destroy_mem lib (Some ob) m) (\<lambda>m. Inr (heap_of m))) (\<lambda>h. bindE (int_neg e) (\<lambda>e. Inr (None, h\<lparr>errno := e\<rparr>)))"
    by (cases "int_neg e"; cases "destroy_mem lib (Some ob) m") (simp_all add: result_of_def set_errno_def)
  then show ?thesis by (simp only: destroy_mem_result [OF assms])
qed

lemma open_opts_memory:
  assumes "libbpf_skeleton lib" and "heap_wf (heap_of m)"
  shows "result_of (open_opts_mem lib alloc m) = hello_verifier_bpf__open_opts lib alloc (heap_of m)"
    and "open_opts_mem lib alloc m = Inr (Some ob, m') \<Longrightarrow> object_ok m' ob"
proof -
  obtain r m1 where r: "calloc_mem alloc 1 (size_of object_ty) m = (r, m1)" by (cases "calloc_mem alloc 1 (size_of object_ty) m")
  have "result_of (open_opts_mem lib alloc m) = hello_verifier_bpf__open_opts lib alloc (heap_of m) \<and>
    (\<forall>ob m'. open_opts_mem lib alloc m = Inr (Some ob, m') \<longrightarrow> object_ok m' ob)"
  proof (cases r)
    case None
    then show ?thesis
      using r calloc_mem_none(1) [OF r [unfolded None]]
      by (simp add: open_opts_mem_def hello_verifier_bpf__open_opts_def result_of_def set_errno_def del: size_of.simps)
  next
    case (Some a)
    note c = calloc_object [OF assms(2) r [unfolded Some]]
    obtain err m2 where "created lib alloc a m1 err m2" using create_skeleton_created [OF assms(1) c(1)] by blast
    then have m2: "create_skeleton_call lib alloc a m1 = Inr (err, m2)" "object_ok m2 a"
      "hello_verifier_bpf__create_skeleton lib alloc \<lparr>ob_addr = a, skeleton = None\<rparr> (heap_of m1) = Inr (err, object_of m2 a, heap_of m2)"
      by (simp_all add: created_def)
    define e where "e = (if err \<noteq> 0 then err else open_skeleton lib (skeleton (object_of m2 a)))"
    have lo: "open_opts_mem lib alloc m = (if e \<noteq> 0 then bindE (destroy_mem lib (Some a) m2) (\<lambda>m. bindE (int_neg e) (\<lambda>e. Inr (None, set_errno e m)))
        else Inr (Some a, m2))"
      using r Some m2(1) by (simp add: open_opts_mem_def e_def del: size_of.simps)
    have hi: "hello_verifier_bpf__open_opts lib alloc (heap_of m) = (if e \<noteq> 0
        then bindE (hello_verifier_bpf__destroy lib (Some (object_of m2 a)) (heap_of m2)) (\<lambda>h. bindE (int_neg e) (\<lambda>e. Inr (None, h\<lparr>errno := e\<rparr>)))
        else Inr (Some (object_of m2 a), heap_of m2))"
      using c(2) m2(3) by (simp add: hello_verifier_bpf__open_opts_def e_def)
    show ?thesis
      unfolding lo hi using error_exit [OF m2(2), of lib e] m2(2)
      by (auto simp: result_of_def bindE_eq_Inr)
  qed
  then show "result_of (open_opts_mem lib alloc m) = hello_verifier_bpf__open_opts lib alloc (heap_of m)"
    "open_opts_mem lib alloc m = Inr (Some ob, m') \<Longrightarrow> object_ok m' ob" by blast+
qed

section \<open>Property\<close>

text \<open>C23: opening and loading the skeleton in memory refines the model of \<open>Skeleton\<close>, whatever allocations
  and \<open>libbpf\<close> functions fail: same outcome, same heap, and the structures that the blocks hold when
  they are read by the layout of \<open>libbpf.h\<close> (sizes, names, pointers into the object, tables, the
  object file) are the object and the skeleton of the model. So every store stays inside its block,
  \<open>libbpf\<close> gets a complete skeleton at every call, and on an error the object's pointer tells
  \<open>hello_verifier_bpf__destroy\<close> correctly whether there is a skeleton to destroy.\<close>

theorem open_and_load_memory:
  assumes "libbpf_skeleton lib" and "heap_wf (heap_of m)"
  shows "result_of (open_and_load_mem lib alloc m) = hello_verifier_bpf__open_and_load lib alloc (heap_of m)"
proof (cases "open_opts_mem lib alloc m")
  case (Inl e)
  then have "hello_verifier_bpf__open lib alloc (heap_of m) = Inl e"
    using open_opts_memory(1) [OF assms, of alloc, symmetric] by (simp add: hello_verifier_bpf__open_def result_of_def)
  with Inl show ?thesis
    by (simp add: open_and_load_mem_def hello_verifier_bpf__open_and_load_def result_of_def)
next
  case (Inr x)
  obtain r m1 where x: "x = (r, m1)" by (cases x)
  have hi: "hello_verifier_bpf__open lib alloc (heap_of m) = Inr (map_option (object_of m1) r, heap_of m1)"
    using open_opts_memory(1) [OF assms, of alloc] Inr x by (simp add: result_of_def hello_verifier_bpf__open_def)
  show ?thesis
  proof (cases r)
    case None
    then show ?thesis
      using Inr x hi by (simp add: open_and_load_mem_def hello_verifier_bpf__open_and_load_def result_of_def)
  next
    case (Some ob)
    have ok: "object_ok m1 ob" using open_opts_memory(2) [OF assms] Inr x Some by simp
    let ?e = "load_skeleton lib (skeleton (object_of m1 ob))"
    have lo: "open_and_load_mem lib alloc m = (if ?e \<noteq> 0
        then bindE (destroy_mem lib (Some ob) m1) (\<lambda>m. bindE (int_neg ?e) (\<lambda>e. Inr (None, set_errno e m))) else Inr (Some ob, m1))"
      using Inr x Some by (simp add: open_and_load_mem_def)
    show ?thesis
      unfolding lo using hi Some error_exit [OF ok, of lib ?e]
      by (auto simp: result_of_def hello_verifier_bpf__open_and_load_def hello_verifier_bpf__load_def)
  qed
qed

definition empty_memory :: smem where
  "empty_memory = \<lparr>heap_of = \<lparr>next_addr = 0, live = {}, errno = 0\<rparr>, blocks = (\<lambda>a. [])\<rparr>"

theorem open_and_load_memory_witness:
  "\<exists>m'. open_and_load_mem (libbpf_doc 0 0 0) (\<lambda>a. True) empty_memory = Inr (Some 0, m') \<and> skeleton_complete (object_of m' 0) \<and>
     result_of (open_and_load_mem (libbpf_doc 0 0 0) (\<lambda>a. a < 3) empty_memory) =
       Inr (None, \<lparr>next_addr = 4, live = {}, errno = ENOMEM\<rparr>)"
proof -
  have wf: "heap_wf (heap_of empty_memory)" by (simp add: heap_wf_def empty_memory_def)
  note r = open_and_load_memory [OF ld.libbpf_skeleton_axioms wf, of 0 0 0]
  note defs = hello_verifier_bpf__open_and_load_def hello_verifier_bpf__open_def hello_verifier_bpf__open_opts_def
    hello_verifier_bpf__create_skeleton_def hello_verifier_bpf__load_def hello_verifier_bpf__destroy_def calloc_def free_def
    libbpf_doc_def skel_blocks_def Let_def
  have "\<exists>h ob. hello_verifier_bpf__open_and_load (libbpf_doc 0 0 0) (\<lambda>a. True) (heap_of empty_memory) = Inr (Some ob, h) \<and>
      ob_addr ob = 0 \<and> skeleton_complete ob"
    by (simp add: defs empty_memory_def skeleton_complete_def elf_bytes_image the_maps_def the_progs_def)
  then obtain m' ob where "open_and_load_mem (libbpf_doc 0 0 0) (\<lambda>a. True) empty_memory = Inr (Some ob, m')"
    "ob_addr (object_of m' ob) = 0" "skeleton_complete (object_of m' ob)"
    using r [of "\<lambda>a. True"] by (auto simp: result_of_def bindE_eq_Inr)
  moreover have "hello_verifier_bpf__open_and_load (libbpf_doc 0 0 0) (\<lambda>a. a < 3) (heap_of empty_memory) =
      Inr (None, \<lparr>next_addr = 4, live = {}, errno = ENOMEM\<rparr>)"
    by (simp add: int_neg_def defs empty_memory_def ENOMEM_def)
  ultimately show ?thesis
    using r [of "\<lambda>a. a < 3"] by (auto simp: object_of_def)
qed

end
