(* ===== verification/Spec2Isabelle.thy ===== *)
theory Spec2Isabelle
  imports Packet_Count Uid_Race Map_Create Xdp_Drop Hello_User Loaded_Object Elf_Btf Bytecode_Safety Helper_Ids Jit_Programs
    Bytecode_Filter Bytecode_Smp Hello_Ir Kernel_Abi Skeleton_Memory Kernel_Layouts
begin

text \<open>
  A verification development for the eBPF programs of \<open>src/eBPF_Koka\<close>: small kernel
  programs in C, the user-space program that loads and drives one of them, the helper
  declarations they are compiled against, the object code of some of them, and the object
  file that the user-space program embeds.

  THE PROGRAMS AND THEIR MODELS

  \<^item> \<open>Packet_Count\<close>: \<open>packet_count/packet_count.bpf.c\<close>, \<open>packet_count_float\<close>,
    \<open>error_packet_count\<close> and \<open>simple\<close>. The state is the global \<open>counter\<close> and the trace
    pipe that \<open>bpf_printk\<close> writes. A run of the hook is a number of packets.
  \<^item> \<open>Uid_Count\<close>, \<open>Uid_Race\<close>: \<open>bpf_maps/hash_map_example.bpf.c\<close>, \<open>bpf_maps_dup\<close>
    (with a global \<open>uid\<close>) and the user-space \<open>bpf_maps/bpf_maps_helper.c\<close>. \<open>hello\<close>,
    \<open>hello_dup\<close> and \<open>helper_main\<close> are the programs, one event each; \<open>run_events\<close> runs them
    one after the other. \<open>cpu_step\<close> and \<open>dup_step\<close> are the same two programs with one step
    per statement that reads or writes shared state, on any number of processors. There a lookup
    gives a pointer, which is read later: \<open>Map_Elements\<close> has maps with their elements, one
    that updates them in place and one that uses those of replaced values again.
  \<^item> \<open>Map_Create\<close>: \<open>bpf_maps2\<close> and \<open>bpf_maps3\<close>, whose maps have entries of 4 bytes although
    the programs use 64-bit variables, and \<open>bpf_maps3/bpf_sys.c\<close>. \<open>Kernel_Abi\<close>: the system call
    of the latter on the bytes of \<open>union bpf_attr\<close>, and the enumerations of \<open>vmlinux.h\<close> that the
    programs use constants of.
  \<^item> \<open>Bpf_Loop\<close>: \<open>bpf_loop/bpf_loop_ex.bpf.c\<close>, with the helper \<open>bpf_loop\<close> and a packet in
    memory. \<open>Xdp_Drop\<close>: \<open>xdp_drop_prog/xdp_drop_prog.bpf.c\<close>.
  \<^item> \<open>Hello_Kernel\<close>: \<open>verifier_example/hello-verifier.bpf.c\<close> and \<open>hello-verifier.h\<close>. The
    state has the globals, the map, what was printed and the samples submitted as bytes.
    \<open>Bcc_Hello\<close>: \<open>bpf_map4/example.bpf.c\<close>, the BCC version of the same probe.
  \<^item> \<open>Skeleton\<close>: the functions of \<open>hello-verifier.skel.h\<close> over a heap of live blocks.
    \<open>Skeleton_Memory\<close>: opening, loading and destroying it once more, store by store, on blocks of
    bytes with the structures of \<open>bpf_map4/libbpf.h\<close> in them.
    \<open>Hello_User\<close>: \<open>hello-verifier.c\<close>, which uses the skeleton, receives the samples of
    \<open>Hello_Kernel\<close> in the callbacks of its polls and prints them.
  \<^item> \<open>Helper_Table\<close>: the 208 declarations of \<open>bpf_helper_defs.h\<close>; \<open>Helper_Ids\<close>: the numbers of the
    helpers in \<open>enum bpf_func_id\<close> of \<open>vmlinux.h\<close>, and their agreement.
  \<^item> \<open>C_Types\<close>: C types with bit-fields and their layout. \<open>Kernel_Contexts\<close>, \<open>Kernel_Sockets\<close>,
    \<open>Kernel_Objects\<close>: the declarations of \<open>vmlinux.h\<close> that the structures in the declarations of the
    helpers need, down to the integers, and those of instructions, of the elements of hash maps and of
    Ethernet headers. \<open>Kernel_Layouts\<close>: what the helpers and the machine rely on of them.
  \<^item> \<open>Bytecode\<close>: a machine for the object code, with decoder; \<open>Kernel_Calls\<close>: the helper calls
    on its registers and memory; \<open>Bytecode_Programs\<close> and \<open>Bytecode_Probe\<close>: the object code
    of \<open>packet_count\<close>, of its float version, of \<open>hello\<close>, \<open>xdp_hello\<close> and \<open>kprobe_exec\<close>, as
    dumped in the notes of the repository. \<open>Bytecode_Types\<close>: a verifier that explores every
    path of a program on ranges and typed pointers, and its soundness; \<open>Bytecode_Safety\<close>: it
    accepts the five object codes.
    \<open>Bytecode_Smp\<close>: the object codes on several processors, which share data and maps and
    interrupt each other after any instruction.
    \<open>Bytecode_Filter\<close>: the object code of \<open>xdp_drop_prog\<close>, as it was when its listing was made,
    with the packet in memory.
  \<^item> \<open>Hello_Ir\<close>: the LLVM IR of \<open>hello\<close> in \<open>bpf_maps/hash_map_example.bpf.ll\<close>, and a machine for
    its instructions, with basic blocks and a cell of memory for each \<open>alloca\<close>.
  \<^item> \<open>Translated\<close>: the programs of \<open>packet_count\<close>, \<open>hello\<close> and \<open>kprobe_exec\<close> after loading, as
    dumped by \<open>bpftool\<close>: lookups inlined, maps and kernel functions bound by number. \<open>X86\<close>: a
    machine for the x86 instructions of the listings; \<open>Jit\<close>: which instructions stand for which
    instruction of the bytecode, between a prologue and an epilogue; \<open>Jit_Programs\<close>: the
    listings of the three programs. Each level is checked against the one above by a function
    that is evaluated on the listings, and proved sound.
  \<^item> \<open>Elf_Image\<close>: the object file in \<open>hello-verifier.skel.h\<close>, byte for byte. \<open>Elf\<close>, \<open>Btf\<close>: reading
    sections, symbols, relocations and type information of such a file. \<open>Elf_Program\<close>,
    \<open>Elf_Btf\<close>: the programs, data and types of this one. \<open>Loaded_Object\<close>: running it.
  \<^item> \<open>Layout\<close>: sizes and offsets of C structures, for those of \<open>hello-verifier.h\<close>,
    \<open>bpf_map4/example.bpf.c\<close>, \<open>vmlinux.h\<close> and the skeleton, with its static assertions; members
    of structures and unions by name, also through unnamed ones.
  \<^item> \<open>Prelude\<close> has what they share (C integers, undefined behaviour as an error value,
    arrays, strings, little-endian layout), \<open>Hash_Map\<close> the contract of BPF hash maps.

  INTERFACES

  The kernel and \<open>libbpf\<close> are not in the repository. What they do is an argument of the
  definitions, and what the programs rely on is a locale: \<open>bpf_hash\<close> and
  \<open>bpf_hash_bounded\<close> (map operations), \<open>map_elements\<close>, \<open>uid_elements\<close> and
  \<open>uid_elements_bounded\<close> (a map and its elements: a pointer to one stays readable, and an update gives
  its value to the element that is found from then on), \<open>loop_helper\<close> (\<open>bpf_loop\<close>), \<open>probe_helpers\<close> (copies and
  the command name), \<open>map_creation\<close>, \<open>libbpf_skeleton\<close> (\<open>bpf_object__destroy_skeleton\<close>),
  \<open>typed_kernel\<close> (the helpers keep the lengths of keys, values and destinations), and
  \<open>called_functions\<close> and \<open>kernel_helpers\<close> (a helper looks only at the arguments it needs; a
  lookup gives null or an address). \<open>machine_code\<close> is the contract of a listing that has the
  shape of its translated program; it is interpreted by the three listings.
  They state documented behaviour only, and each is interpreted by a concrete function that
  behaves as documented. \<open>packet_program\<close> is the contract that the three packet counters
  share. Undefined behaviour of C is a value of the type \<open>ub\<close>: signed overflow, accesses out
  of bounds, reads of uninitialised variables, null dereferences and invalid frees.

  WHAT THE THEOREMS SHOW

  \<^item> Counting: what each counter holds after any sequence of events, up to the overflow of an
    \<open>int\<close> and the capacity of a map; on several processors, that no count is ever too high as
    long as the map does not give an element to another user while an instance points to it, and an
    interleaving with a count that is too high where it does; that a count is exact while the events
    of one user do not overlap; and the two interleavings
    that lose an update and that count for the wrong user. On the object code of
    \<open>kprobe_exec\<close>, instruction by instruction, one that sends two samples with one number.
  \<^item> Kernel types: the two headers agree on the numbers of the helpers and on the structures they
    take; the decoder reads an instruction as the layout of \<open>struct bpf_insn\<close> says.
  \<^item> Packets: the bounds checks keep every access inside the packet, and what each program
    returns for every packet.
  \<^item> Samples: \<open>kprobe_exec\<close> is defined on every event but counter overflow; samples are
    numbered and decode to the data of their events; what user space prints of them, and when
    printing one, in a callback of a poll, reads past an array and makes \<open>main\<close> undefined.
  \<^item> Resources: opening, loading and destroying the skeleton neither leak a block nor free one
    twice, whatever fails, and neither does any run of \<open>main\<close> that ends; the one undefined operation there
    is the negation of an error code that is the least \<open>int\<close>. The stores that build the
    skeleton stay inside their blocks, and build the skeleton of the model.
  \<^item> Termination: all programs but \<open>main\<close> are total functions. \<open>main\<close> polls in a loop that may
    run for ever (\<open>poll_loop\<close> is a partial function, with \<open>None\<close> for a run that does not
    end), and \<open>main_returns\<close> says exactly when.
  \<^item> Object code: the machine takes fuel, but \<open>runs_to\<close> asks for some fuel that is enough, and
    \<open>exec_more\<close> and \<open>exec_unique\<close> show that more fuel does not change the outcome. The
    refinement theorems compare the code with the C program where that is defined; on overflow
    the code wraps around. \<open>object_code_type_safe\<close> holds there too: the longest path has 75
    instructions for \<open>kprobe_exec\<close>, 22 for \<open>hello\<close>, 10 and 7 for the others, and this fuel is
    enough. It survives sharing: on any number of processors (\<open>smp_type_safe\<close>) no instance makes an
    invalid access, whatever the others write to the data and the map. None of the five jumps back, so \<open>object_code_terminates\<close> needs no assumption. The code
    of \<open>xdp_drop_prog\<close> does: it ends within 9 instructions for each of \<open>h_proto\<close> rounds and 19
    more (\<open>xdp_drop_bytecode\<close>). \<open>ir_run\<close> takes one unit of fuel per basic block, and 3 are enough
    for \<open>hello\<close>.
  \<^item> From C to x86: on every event on which the C program is defined, the machine code of
    \<open>kprobe_exec\<close>, \<open>hello\<close> and \<open>packet_count\<close> returns what it returns, with the same globals,
    map, text and samples, and leaves the stack and the preserved registers of its caller as
    they were. The verifier shows that the frame of 48, 16 or 0 bytes is enough, so that the
    registers saved below it survive (\<open>machine_code_type_safe\<close>).
  \<^item> The object file: the sections, relocations and symbols of the bytes in the skeleton give
    the listed code with the listed relocations, the initial globals and the formats; run on
    any sequence of events it submits the samples of the C program. Its type information gives
    the maps, the globals and the structures the sizes and places that the models use.

  NOT MODELLED

  The kernel, the verifier and \<open>libbpf\<close> themselves; \<open>vmlinux.h\<close> and \<open>libbpf.h\<close> beyond the
  types and numbers in use; the formatting of numbers inside \<open>bpf_printk\<close> (the trace has the format and
  the converted arguments); the sections of the object file that no reader here uses
  (\<open>.BTF.ext\<close>, \<open>.rel.BTF\<close>, \<open>.llvm_addrsig\<close>), which are kept as bytes; the encoding of x86
  instructions (the listings are modelled from their text, and the addresses in them are looked up, not
  computed); the debug metadata of the LLVM IR. The run of \<open>bpf_maps2\<close> is the one its source
  describes; as it stands, \<open>libbpf\<close> refuses the declaration of its map. In \<open>Uid_Race\<close> and \<open>Bytecode_Smp\<close> memory is sequentially
  consistent and a helper call is one step; in the latter, an instance has its own copy of a value it
  looked up.
\<close>

end
